(* ===== verification/Prelude.thy ===== *)
theory Prelude
  imports Main
begin

text \<open>
  The vocabulary the component theories share.

  \<^item> JavaScript values that may be missing: a property can hold \<open>undefined\<close>, \<open>null\<close> or
    a value, and the code distinguishes the three (\<open>filter.to === null\<close> against
    \<open>filter.to === undefined\<close>), so optional properties have the type \<open>'a js\<close>.
  \<^item> Errors as values: a \<open>throw\<close> or a rejected promise is \<open>Inl\<close> of a \<open>js_error\<close>, a
    returned value is \<open>Inr\<close>; \<open>bindE\<close>, \<open>mapE\<close> and \<open>foldE\<close> sequence them.
  \<^item> Strings are lists of characters whose codes are the UTF-16 code units 0 to 255 (every
    address, hash, signature and tag the code handles is ASCII). \<open>toLowerCase\<close>, \<open>trim\<close>,
    \<open>startsWith\<close>, \<open>includes_str\<close>, \<open>indexOf\<close>, \<open>join\<close> and the decimal rendering of numbers in
    template literals are those of the language on that range.
  \<^item> Objects used as maps from strings are association lists in the order of insertion, with
    \<open>obj_set\<close> for an assignment; no key the code uses is integer-like.
  \<^item> Generic lemmas on these operations and the theorem collection \<open>js_simps\<close>.
\<close>

named_theorems js_simps

section \<open>Values that may be missing\<close>

datatype 'a js = Undefined | Null | Val 'a

fun is_undefined :: "'a js \<Rightarrow> bool" where
  "is_undefined Undefined = True"
| "is_undefined _ = False"

fun is_null :: "'a js \<Rightarrow> bool" where
  "is_null Null = True"
| "is_null _ = False"

text \<open>\<open>x == null\<close> in the source: true for \<open>undefined\<close> and \<open>null\<close>.\<close>

fun nullish :: "'a js \<Rightarrow> bool" where
  "nullish (Val _) = False"
| "nullish _ = True"

text \<open>An optional string used as a condition: \<open>undefined\<close>, \<open>null\<close> and \<open>''\<close> are falsy.\<close>

fun truthy :: "string js \<Rightarrow> bool" where
  "truthy (Val s) = (s \<noteq> [])"
| "truthy _ = False"

fun js_of_option :: "'a option \<Rightarrow> 'a js" where
  "js_of_option None = Undefined"
| "js_of_option (Some x) = Val x"

lemma truthyE:
  assumes "truthy x"
  obtains s where "x = Val s" and "s \<noteq> []"
  using assms by (cases x) auto

lemma nullish_iff: "nullish x \<longleftrightarrow> x = Undefined \<or> x = Null"
  by (cases x) auto

lemma is_undefined_iff [js_simps]: "is_undefined x \<longleftrightarrow> x = Undefined"
  by (cases x) auto

lemma is_null_iff [js_simps]: "is_null x \<longleftrightarrow> x = Null"
  by (cases x) auto

section \<open>Errors\<close>

datatype js_code = CodeStr string | CodeNum int

text \<open>
  The parts of an \<open>Error\<close> object the code reads: \<open>name\<close>, \<open>message\<close>, and the optional
  properties \<open>code\<close> (ethers and JSON-RPC), \<open>reason\<close> (ethers) and \<open>status\<close> (HTTP).
\<close>

record js_error =
  err_name :: string
  message :: string
  code :: "js_code option"
  reason :: "string option"
  status :: "int option"

definition Error :: "string \<Rightarrow> js_error" where
  "Error m = \<lparr>err_name = ''Error'', message = m, code = None, reason = None, status = None\<rparr>"

lemma Error_sel [simp]:
  "err_name (Error m) = ''Error''" "message (Error m) = m" "code (Error m) = None"
  "reason (Error m) = None" "status (Error m) = None"
  by (simp_all add: Error_def)

lemma Error_eq [simp]: "Error m = Error n \<longleftrightarrow> m = n"
  by (auto simp: Error_def)

fun bindE :: "'e + 'a \<Rightarrow> ('a \<Rightarrow> 'e + 'b) \<Rightarrow> 'e + 'b" where
  "bindE (Inl e) f = Inl e"
| "bindE (Inr x) f = f x"

text \<open>\<open>for (const x of xs) s = f(s, x)\<close> where \<open>f\<close> may throw.\<close>

fun foldE :: "('s \<Rightarrow> 'a \<Rightarrow> 'e + 's) \<Rightarrow> 's \<Rightarrow> 'a list \<Rightarrow> 'e + 's" where
  "foldE f s [] = Inr s"
| "foldE f s (x # xs) = (case f s x of Inl e \<Rightarrow> Inl e | Inr s' \<Rightarrow> foldE f s' xs)"

text \<open>\<open>xs.map(f)\<close> where \<open>f\<close> may throw; the first throw ends the call.\<close>

fun mapE :: "('a \<Rightarrow> 'e + 'b) \<Rightarrow> 'a list \<Rightarrow> 'e + 'b list" where
  "mapE f [] = Inr []"
| "mapE f (x # xs) = (case f x of Inl e \<Rightarrow> Inl e
     | Inr y \<Rightarrow> (case mapE f xs of Inl e \<Rightarrow> Inl e | Inr ys \<Rightarrow> Inr (y # ys)))"

lemma bindE_eq_Inr_iff: "bindE m f = Inr y \<longleftrightarrow> (\<exists>x. m = Inr x \<and> f x = Inr y)"
  by (cases m) auto

lemma mapE_Inr_iff: "mapE f xs = Inr ys \<longleftrightarrow> map f xs = map Inr ys"
proof (induction xs arbitrary: ys)
  case Nil
  show ?case by auto
next
  case (Cons x xs)
  show ?case using Cons.IH [of "tl ys"] by (cases ys) (auto split: sum.splits)
qed

lemma mapE_InrD: "mapE f xs = Inr ys \<Longrightarrow> x \<in> set xs \<Longrightarrow> \<exists>y \<in> set ys. f x = Inr y"
  unfolding mapE_Inr_iff by (metis (mono_tags, lifting) image_iff image_set)

lemma mapE_length: "mapE f xs = Inr ys \<Longrightarrow> length ys = length xs"
  unfolding mapE_Inr_iff by (metis length_map)

lemma mapE_InlD: "mapE f xs = Inl e \<Longrightarrow> \<exists>x \<in> set xs. f x = Inl e"
  by (induction xs) (auto split: sum.splits)

lemma mapE_Inl: "x \<in> set xs \<Longrightarrow> f x = Inl e \<Longrightarrow> \<exists>e'. mapE f xs = Inl e'"
  by (induction xs) (auto split: sum.splits)

lemma mapE_total: "(\<And>x. x \<in> set xs \<Longrightarrow> f x = Inr (g x)) \<Longrightarrow> mapE f xs = Inr (map g xs)"
  by (induction xs) auto

lemma foldE_invariant:
  assumes "foldE f s xs = Inr t" and "I s"
    and "\<And>s x s'. x \<in> set xs \<Longrightarrow> I s \<Longrightarrow> f s x = Inr s' \<Longrightarrow> I s'"
  shows "I t"
  using assms
proof (induction xs arbitrary: s)
  case Nil
  then show ?case by simp
next
  case (Cons x xs)
  from Cons.prems(1) obtain s' where s': "f s x = Inr s'" "foldE f s' xs = Inr t"
    by (auto split: sum.splits)
  with Cons.prems(2,3) have "I s'" by auto
  with s' Cons.prems(3) show ?case by (intro Cons.IH [of s']) auto
qed

section \<open>JSON values\<close>

datatype json = JNull | JBool bool | JNum int | JStr string | JArr "json list"
  | JObj "(string \<times> json) list"

fun json_truthy :: "json \<Rightarrow> bool" where
  "json_truthy JNull = False"
| "json_truthy (JBool b) = b"
| "json_truthy (JNum n) = (n \<noteq> 0)"
| "json_truthy (JStr s) = (s \<noteq> [])"
| "json_truthy _ = True"

text \<open>Reading a property: of \<open>null\<close> it throws, of any other value that lacks it, it is
  \<open>undefined\<close>.\<close>

definition json_get :: "json \<Rightarrow> string \<Rightarrow> js_error + json option" where
  "json_get j k =
     (case j of
        JNull \<Rightarrow> Inl ((Error (''Cannot read properties of null (reading '' @ k @ '')''))\<lparr>err_name := ''TypeError''\<rparr>)
      | JObj fs \<Rightarrow> Inr (map_of fs k)
      | _ \<Rightarrow> Inr None)"

section \<open>Strings\<close>

definition lower_char :: "char \<Rightarrow> char" where
  "lower_char c = (let n = (of_char c :: nat)
     in if (65 \<le> n \<and> n \<le> 90) \<or> (192 \<le> n \<and> n \<le> 222 \<and> n \<noteq> 215) then char_of (n + 32) else c)"

definition toLowerCase :: "string \<Rightarrow> string" where
  "toLowerCase s = map lower_char s"

lemma lower_char_idem [simp]: "lower_char (lower_char c) = lower_char c"
  by (auto simp: lower_char_def Let_def)

lemma toLowerCase_idem [simp]: "toLowerCase (toLowerCase s) = toLowerCase s"
  by (simp add: toLowerCase_def)

lemma toLowerCase_Nil [simp]: "toLowerCase [] = []"
  by (simp add: toLowerCase_def)

lemma toLowerCase_eq_Nil [simp]: "toLowerCase s = [] \<longleftrightarrow> s = []"
  by (simp add: toLowerCase_def)

lemma toLowerCase_append: "toLowerCase (s @ t) = toLowerCase s @ toLowerCase t"
  by (simp add: toLowerCase_def)

text \<open>White space as \<open>trim\<close> and \<open>\s\<close> see it, on the modelled range.\<close>

definition is_space :: "char \<Rightarrow> bool" where
  "is_space c = ((of_char c :: nat) \<in> {9, 10, 11, 12, 13, 32, 160})"

definition trim :: "string \<Rightarrow> string" where
  "trim s = rev (dropWhile is_space (rev (dropWhile is_space s)))"

definition is_digit :: "char \<Rightarrow> bool" where
  "is_digit c = (let n = (of_char c :: nat) in 48 \<le> n \<and> n \<le> 57)"

text \<open>The characters of the class \<open>\w\<close>.\<close>

definition is_word :: "char \<Rightarrow> bool" where
  "is_word c = (let n = (of_char c :: nat)
     in (48 \<le> n \<and> n \<le> 57) \<or> (65 \<le> n \<and> n \<le> 90) \<or> (97 \<le> n \<and> n \<le> 122) \<or> n = 95)"

definition startsWith :: "string \<Rightarrow> string \<Rightarrow> bool" where
  "startsWith s p = (take (length p) s = p)"

text \<open>\<open>s.indexOf(p)\<close>: the least position where \<open>p\<close> occurs, \<open>None\<close> for \<open>-1\<close>.\<close>

fun indexOf :: "string \<Rightarrow> string \<Rightarrow> nat option" where
  "indexOf s p = (if startsWith s p then Some 0
     else case s of [] \<Rightarrow> None | _ # s' \<Rightarrow> map_option Suc (indexOf s' p))"

declare indexOf.simps [simp del]

definition includes_str :: "string \<Rightarrow> string \<Rightarrow> bool" where
  "includes_str s p = (indexOf s p \<noteq> None)"

fun join :: "string \<Rightarrow> string list \<Rightarrow> string" where
  "join sep [] = []"
| "join sep [s] = s"
| "join sep (s # t # ss) = s @ sep @ join sep (t # ss)"

lemma startsWith_iff: "startsWith s p \<longleftrightarrow> (\<exists>t. s = p @ t)"
  unfolding startsWith_def by (metis append_eq_conv_conj append_take_drop_id)

lemma startsWith_append [simp]: "startsWith (p @ t) p"
  by (simp add: startsWith_def)

lemma startsWith_Nil [simp]: "startsWith s []"
  by (simp add: startsWith_def)

lemma indexOf_0_iff: "indexOf s p = Some 0 \<longleftrightarrow> startsWith s p"
  by (subst indexOf.simps) (auto split: list.splits)

lemma includes_str_iff: "includes_str s p \<longleftrightarrow> (\<exists>u t. s = u @ p @ t)"
proof (induction s p rule: indexOf.induct)
  case (1 s p)
  show ?case
  proof (cases "startsWith s p")
    case True
    then have "includes_str s p"
      by (simp add: includes_str_def indexOf.simps [of s p])
    with True show ?thesis
      by (auto simp: startsWith_iff intro: exI [of _ "[]"])
  next
    case False
    show ?thesis
    proof (cases s)
      case Nil
      with False show ?thesis
        by (auto simp: includes_str_def indexOf.simps [of "[]" p] startsWith_def)
    next
      case (Cons c s')
      with False have "includes_str s p \<longleftrightarrow> includes_str s' p"
        by (simp add: includes_str_def indexOf.simps [of "c # s'" p])
      also have "\<dots> \<longleftrightarrow> (\<exists>u t. s' = u @ p @ t)"
        using "1.IH" [OF False Cons] .
      also have "\<dots> \<longleftrightarrow> (\<exists>u t. s = u @ p @ t)"
        using False Cons by (auto simp: startsWith_iff Cons_eq_append_conv append_eq_Cons_conv)
      finally show ?thesis .
    qed
  qed
qed

section \<open>Numbers in template literals\<close>

definition digit_char :: "nat \<Rightarrow> char" where
  "digit_char d = char_of (48 + d)"

fun show_nat :: "nat \<Rightarrow> string" where
  "show_nat n = (if n < 10 then [digit_char n] else show_nat (n div 10) @ [digit_char (n mod 10)])"

declare show_nat.simps [simp del]

definition show_int :: "int \<Rightarrow> string" where
  "show_int i = (if i < 0 then ''-'' @ show_nat (nat (- i)) else show_nat (nat i))"

lemma show_nat_nonempty [simp]: "show_nat n \<noteq> []"
  by (subst show_nat.simps) simp

lemma show_nat_small: "n < 10 \<Longrightarrow> show_nat n = [digit_char n]"
  by (simp add: show_nat.simps [of n])

lemma show_nat_big: "\<not> n < 10 \<Longrightarrow> show_nat n = show_nat (n div 10) @ [digit_char (n mod 10)]"
  by (simp add: show_nat.simps [of n])

text \<open>The rendering can be read back, so different numbers have different renderings.\<close>

definition read_nat :: "string \<Rightarrow> nat" where
  "read_nat s = foldl (\<lambda>n c. 10 * n + (of_char c - 48)) 0 s"

lemma read_show_nat [simp]: "read_nat (show_nat n) = n"
proof (induction n rule: show_nat.induct)
  case (1 n)
  have digit: "of_char (digit_char d) - 48 = d" if "d < 10" for d :: nat
    using that by (simp add: digit_char_def)
  show ?case
  proof (cases "n < 10")
    case True
    then show ?thesis by (simp add: show_nat_small read_nat_def digit)
  next
    case False
    then have "read_nat (show_nat n) = 10 * read_nat (show_nat (n div 10)) + n mod 10"
      by (simp add: show_nat_big read_nat_def digit)
    with "1" [OF False] show ?thesis by simp
  qed
qed

lemma show_nat_inject [simp]: "show_nat m = show_nat n \<longleftrightarrow> m = n"
  by (metis read_show_nat)

section \<open>Objects as association lists\<close>

text \<open>\<open>o[k] = v\<close>: a present key keeps its place.\<close>

fun obj_set :: "'k \<Rightarrow> 'v \<Rightarrow> ('k \<times> 'v) list \<Rightarrow> ('k \<times> 'v) list" where
  "obj_set k v [] = [(k, v)]"
| "obj_set k v ((k', v') # o') = (if k = k' then (k', v) # o' else (k', v') # obj_set k v o')"

lemma map_of_obj_set [simp]: "map_of (obj_set k v xs) = (map_of xs)(k \<mapsto> v)"
  by (induction xs) (auto simp: fun_eq_iff)

lemma keys_obj_set: "fst ` set (obj_set k v xs) = insert k (fst ` set xs)"
proof (induction xs)
  case (Cons x xs)
  then show ?case by (cases x; cases "k = fst x") (simp_all add: insert_commute)
qed simp

lemma distinct_obj_set [simp]: "distinct (map fst xs) \<Longrightarrow> distinct (map fst (obj_set k v xs))"
proof (induction xs)
  case (Cons x xs)
  have "fst ` set (obj_set k v xs) = insert k (fst ` set xs)" by (rule keys_obj_set)
  with Cons show ?case by (cases x; cases "k = fst x") simp_all
qed simp

lemma obj_set_fresh: "k \<notin> fst ` set xs \<Longrightarrow> obj_set k v xs = xs @ [(k, v)]"
proof (induction xs)
  case (Cons x xs)
  then show ?case by (cases x) auto
qed simp

end
