(* ===== verification/Eth_Types.thy ===== *)
theory Eth_Types
  imports Prelude
begin

text \<open>
  The data model of \<open>packages/types/src\<close>: filters, blocks, transactions, logs and receipts
  (\<open>ethereum/interfaces.ts\<close>), handlers and data sources (\<open>project.ts\<close>), and the record of
  the ethers functions the code calls. A \<open>number\<close> or \<open>bigint\<close> property is an \<open>int\<close>, an
  optional one an \<open>int js\<close>. The properties \<open>block\<close> and \<open>transaction\<close> of a log and
  \<open>receipt\<close> of a transaction are references or closures back into the block and the API:
  the record of a log or transaction leaves them out, and the functions that compute them are
  modelled where the code defines them.
\<close>

section \<open>Filters\<close>

record EthereumBlockFilter =
  modulo :: "int js"
  bf_timestamp :: "string js"

record EthereumTransactionFilter =
  tf_from :: "string js"
  tf_to :: "string js"
  tf_function :: "string js"
  tf_type :: "string js"

record EthereumLogFilter =
  topics :: "string js list js"

section \<open>Logs, transactions, receipts, blocks\<close>

text \<open>Decoded arguments: an opaque array, here the list of its rendered elements.\<close>

datatype EthereumResult = EthereumResult "string list"

record EthereumLog =
  log_address :: "string js"
  log_topics :: "string list"
  log_data :: string
  log_blockHash :: string
  log_blockNumber :: int
  log_transactionHash :: string
  log_transactionIndex :: int
  logIndex :: int
  removed :: bool
  log_args :: "EthereumResult option"

record EthereumTransaction =
  tx_blockHash :: string
  tx_blockNumber :: int
  tx_blockTimestamp :: int
  tx_from :: "string js"
  gas :: int
  gasPrice :: int
  tx_hash :: string
  tx_input :: string
  tx_nonce :: int
  tx_to :: "string js"
  tx_transactionIndex :: int
  tx_value :: int
  tx_type :: "string js"
  tx_v :: int
  tx_logs :: "EthereumLog list js"
  maxFeePerGas :: "int js"
  maxPriorityFeePerGas :: "int js"
  maxFeePerBlobGas :: "int js"
  tx_args :: "EthereumResult option"

text \<open>A log of a receipt comes with the value its \<open>block\<close> property holds (see
  \<open>formatReceipt\<close>).\<close>

record 'b EthereumReceipt =
  r_blockHash :: string
  r_blockNumber :: int
  r_contractAddress :: "string js"
  cumulativeGasUsed :: int
  effectiveGasPrice :: int
  r_from :: "string js"
  r_gasUsed :: int
  r_logs :: "(EthereumLog \<times> 'b) list"
  r_status :: bool
  r_to :: "string js"
  r_transactionHash :: string
  r_transactionIndex :: int

text \<open>
  The transactions of a block are raw JSON objects when it arrives, formatted objects in a full
  block and hashes in a light one, so their type is a parameter. A \<open>BlockContent\<close> is a full or a
  light block; the code tells them apart by the type of the first element.
\<close>

datatype BlockTransaction = FullTx EthereumTransaction | TxHash string

record 'tx EthereumBlock =
  difficulty :: int
  gasLimit :: int
  gasUsed :: int
  block_hash :: string
  block_logs :: "EthereumLog list"
  block_number :: int
  parentHash :: string
  block_size :: int
  stateRoot :: string
  block_timestamp :: int
  totalDifficulty :: int
  transactions :: "'tx list"
  baseFeePerGas :: "int js"
  blockGasCost :: "int js"
  blobGasUsed :: "int js"
  excessBlobGas :: "int js"

type_synonym BlockContent = "BlockTransaction EthereumBlock"

section \<open>Handlers and data sources\<close>

text \<open>
  The union \<open>SubqlRuntimeHandler | SubqlCustomHandler\<close>: the first component is the name of
  the handler function, the last its filter. A custom handler carries its own kind and a filter
  of unknown type, here its JSON text.
\<close>

datatype SubqlHandler =
    BlockHandler string "EthereumBlockFilter js"
  | CallHandler string "EthereumTransactionFilter js"
  | EventHandler string "EthereumLogFilter js"
  | CustomHandler string string "string js"

definition EthereumHandlerKind_Block :: string where
  "EthereumHandlerKind_Block = ''ethereum/BlockHandler''"

definition EthereumHandlerKind_Call :: string where
  "EthereumHandlerKind_Call = ''ethereum/TransactionHandler''"

definition EthereumHandlerKind_Event :: string where
  "EthereumHandlerKind_Event = ''ethereum/LogHandler''"

definition EthereumDatasourceKind_Runtime :: string where
  "EthereumDatasourceKind_Runtime = ''ethereum/Runtime''"

lemmas kind_defs =
  EthereumHandlerKind_Block_def EthereumHandlerKind_Call_def EthereumHandlerKind_Event_def
  EthereumDatasourceKind_Runtime_def

fun kind :: "SubqlHandler \<Rightarrow> string" where
  "kind (BlockHandler _ _) = EthereumHandlerKind_Block"
| "kind (CallHandler _ _) = EthereumHandlerKind_Call"
| "kind (EventHandler _ _) = EthereumHandlerKind_Event"
| "kind (CustomHandler k _ _) = k"

record SubqlEthereumProcessorOptions =
  opt_abi :: "string js"
  opt_address :: "string js"

record Processor =
  processor_file :: string
  processor_options :: "(string \<times> string) list"

text \<open>\<open>SubqlRuntimeDatasource | SubqlCustomDatasource\<close>; \<open>assets\<close> is the map from an
  asset's name to its file, in insertion order.\<close>

record SubqlDatasource =
  ds_kind :: string
  ds_options :: "SubqlEthereumProcessorOptions js"
  ds_handlers :: "SubqlHandler list"
  ds_assets :: "(string \<times> string) list js"
  ds_processor :: "Processor option"

text \<open>\<open>ds.options?.address\<close> and \<open>ds?.options?.abi\<close>.\<close>

definition ds_address :: "SubqlDatasource \<Rightarrow> string js" where
  "ds_address ds = (case ds_options ds of Val p \<Rightarrow> opt_address p | _ \<Rightarrow> Undefined)"

definition ds_abi :: "SubqlDatasource \<Rightarrow> string js" where
  "ds_abi ds = (case ds_options ds of Val p \<Rightarrow> opt_abi p | _ \<Rightarrow> Undefined)"

definition isRuntimeDs :: "SubqlDatasource \<Rightarrow> bool" where
  "isRuntimeDs ds = (ds_kind ds = EthereumDatasourceKind_Runtime)"

definition isCustomDs :: "SubqlDatasource \<Rightarrow> bool" where
  "isCustomDs ds = (ds_kind ds \<noteq> EthereumDatasourceKind_Runtime \<and> ds_processor ds \<noteq> None)"

lemma runtime_not_custom: "isRuntimeDs ds \<Longrightarrow> \<not> isCustomDs ds"
  by (simp add: isRuntimeDs_def isCustomDs_def)

section \<open>ABI inputs\<close>

text \<open>A parameter of an ABI entry; \<open>components\<close> are the members of a tuple.\<close>

datatype AbiInput = AbiInput
  (input_name: string) (input_type: string) (internalType: "string js")
  (components: "AbiInput list js")

section \<open>The ethers library\<close>

text \<open>
  A value of a JSON-RPC object that should be a number: a hex string or a number.
\<close>

datatype rawNumber = RawStr string | RawNum int

text \<open>
  The functions of \<open>@ethersproject\<close> the code calls, which are not part of the repository.
  Every definition that uses one takes this record as an argument; what a theorem relies on is
  a named hypothesis about it. \<open>eventFormat s\<close> is \<open>EventFragment.fromString(s).format()\<close>
  and \<open>functionFormat s\<close> likewise; \<open>bigNumberFrom\<close> is \<open>BigNumber.from\<close> (a
  \<open>BigNumber\<close> is an integer) and \<open>toNumber\<close> its conversion, which throws out of the safe
  range; \<open>hexValue\<close> is the quantity encoding of a number.
\<close>

record ethers =
  isHexString :: "string \<Rightarrow> bool"
  hexStripZeros :: "string \<Rightarrow> string"
  hexDataSlice :: "string \<Rightarrow> nat \<Rightarrow> nat \<Rightarrow> js_error + string"
  keccak_id :: "string \<Rightarrow> string"
  eventFormat :: "string \<Rightarrow> js_error + string"
  functionFormat :: "string \<Rightarrow> js_error + string"
  getAddress :: "string \<Rightarrow> js_error + string"
  bigNumberFrom :: "rawNumber \<Rightarrow> js_error + int"
  toNumber :: "int \<Rightarrow> js_error + int"
  hexValue :: "int \<Rightarrow> js_error + string"

text \<open>
  A concrete instance, for the witnesses: hexadecimal strings are recognised and stripped as
  ethers does, a signature is formatted by dropping its spaces when it has a parameter list, and
  the hash is the hexadecimal text of its input, which is injective but not Keccak.
\<close>

definition hex_digit :: "char \<Rightarrow> nat option" where
  "hex_digit c = (let n = (of_char c :: nat)
     in if 48 \<le> n \<and> n \<le> 57 then Some (n - 48)
        else if 97 \<le> n \<and> n \<le> 102 then Some (n - 87)
        else if 65 \<le> n \<and> n \<le> 70 then Some (n - 55) else None)"

definition hex_char :: "nat \<Rightarrow> char" where
  "hex_char d = (if d < 10 then char_of (48 + d) else char_of (87 + d))"

fun hex_digits :: "nat \<Rightarrow> string" where
  "hex_digits n = (if n < 16 then [hex_char n] else hex_digits (n div 16) @ [hex_char (n mod 16)])"

declare hex_digits.simps [simp del]

definition hex_string :: "string \<Rightarrow> bool" where
  "hex_string s = (startsWith s ''0x'' \<and> list_all (\<lambda>c. hex_digit c \<noteq> None) (drop 2 s))"

definition parse_hex :: "string \<Rightarrow> int" where
  "parse_hex s =
     foldl (\<lambda>n c. 16 * n + (case hex_digit c of Some d \<Rightarrow> int d | None \<Rightarrow> 0)) 0 (drop 2 s)"

definition sample_ethers :: ethers where
  "sample_ethers =
     \<lparr>isHexString = hex_string,
      hexStripZeros = (\<lambda>s. ''0x'' @ dropWhile (\<lambda>c. c = CHR ''0'') (drop 2 s)),
      hexDataSlice = (\<lambda>s a b. Inr (''0x'' @ take (2 * (b - a)) (drop (2 + 2 * a) s))),
      keccak_id = (\<lambda>s. ''0x'' @ concat (map (\<lambda>c. let n = of_char c
         in [hex_char (n div 16), hex_char (n mod 16)]) s)),
      eventFormat = (\<lambda>s. if includes_str s ''('' then Inr (filter (\<lambda>c. \<not> is_space c) s)
         else Inl (Error ''invalid event string'')),
      functionFormat = (\<lambda>s. if includes_str s ''('' then Inr (filter (\<lambda>c. \<not> is_space c) s)
         else Inl (Error ''invalid function signature'')),
      getAddress = (\<lambda>s. if hex_string s \<and> length s = 42 then Inr s
         else Inl (Error ''invalid address'')),
      bigNumberFrom = (\<lambda>r. case r of RawNum n \<Rightarrow> Inr n
         | RawStr s \<Rightarrow> if hex_string s then Inr (parse_hex s)
             else Inl (Error ''invalid BigNumber string'')),
      toNumber = (\<lambda>n. if - (2 ^ 53) < n \<and> n < 2 ^ 53 then Inr n else Inl (Error ''overflow'')),
      hexValue = (\<lambda>n. if 0 \<le> n then Inr (''0x'' @ hex_digits (nat n))
         else Inl (Error ''invalid hexlify value''))\<rparr>"

end
