(* ===== verification/Memo.thy ===== *)
theory Memo
  imports Prelude
begin

text \<open>
  The interface of a memoising operation. The code keeps several look-up tables next to the
  function that fills them (\<open>eventTopicsCache\<close>, \<open>functionSighashCache\<close>,
  \<open>contractInterfaces\<close>, the network of a \<open>SafeEthProvider\<close>); a caller relies only on
  this: from a table the operation itself produced, a call returns what computing from scratch
  returns, and leaves such a table behind. The clients' facts are proved here once, for any
  provider of that contract.
\<close>

text \<open>A sequence of calls that thread the table.\<close>

fun run_seq :: "('c \<Rightarrow> 'k \<Rightarrow> 'r \<times> 'c) \<Rightarrow> 'c \<Rightarrow> 'k list \<Rightarrow> 'r list \<times> 'c" where
  "run_seq run c [] = ([], c)"
| "run_seq run c (k # ks) =
     (let (r, c') = run c k; (rs, c'') = run_seq run c' ks in (r # rs, c''))"

locale memoised =
  fixes run :: "'c \<Rightarrow> 'k \<Rightarrow> ('e + 'v) \<times> 'c"
    and compute :: "'k \<Rightarrow> 'e + 'v"
    and valid :: "'c \<Rightarrow> bool"
    and fresh :: "'c"
  assumes valid_fresh: "valid fresh"
    and run_compute: "valid c \<Longrightarrow> fst (run c k) = compute k"
    and run_valid: "valid c \<Longrightarrow> valid (snd (run c k))"
begin

lemma run_seq_from_valid:
  "valid c \<Longrightarrow> fst (run_seq run c ks) = map compute ks \<and> valid (snd (run_seq run c ks))"
proof (induction ks arbitrary: c)
  case Nil
  then show ?case by simp
next
  case (Cons k ks)
  have "valid (snd (run c k))"
    using Cons.prems by (rule run_valid)
  from Cons.IH [OF this] show ?case
    using run_compute [OF Cons.prems, of k] by (simp add: case_prod_unfold Let_def)
qed

lemma transparent: "fst (run_seq run fresh ks) = map compute ks"
  using run_seq_from_valid [OF valid_fresh] by blast

lemma run_after: "fst (run (snd (run_seq run fresh ks)) k) = compute k"
  using run_seq_from_valid [OF valid_fresh] run_compute by blast

lemma valid_after: "valid (snd (run_seq run fresh ks))"
  using run_seq_from_valid [OF valid_fresh] by blast

end

end
