(* ===== verification/Utils_String.thy ===== *)
theory Utils_String
  imports Eth_Types Memo
begin

text \<open>
  \<open>packages/node/src/utils/string.ts\<close>: comparison of addresses and hashes, the extraction of
  custom Solidity types from an ABI and their replacement in a signature, and the two memoised
  hash functions \<open>eventToTopic\<close> and \<open>functionToSighash\<close>.
\<close>

section \<open>Comparing strings\<close>

fun stringNormalizedEq :: "string \<Rightarrow> string js \<Rightarrow> bool" where
  "stringNormalizedEq a (Val b) = (toLowerCase a = toLowerCase b)"
| "stringNormalizedEq a _ = False"

definition hexStringEq :: "ethers \<Rightarrow> string \<Rightarrow> string \<Rightarrow> js_error + bool" where
  "hexStringEq E a b =
     (if \<not> isHexString E a \<or> \<not> isHexString E b then Inl (Error ''Inputs are not hex strings'')
      else Inr (stringNormalizedEq (hexStripZeros E a) (Val (hexStripZeros E b))))"

lemma stringNormalizedEqE:
  assumes "stringNormalizedEq a b"
  obtains b' where "b = Val b'" and "toLowerCase a = toLowerCase b'"
  using assms by (cases b) auto

section \<open>Regular expression replacement of a literal word\<close>

text \<open>
  \<open>s.replace(new RegExp(`\b${escapeRegex(w)}\b`, 'g'), r)\<close>. The scan keeps the text
  already consumed, reversed, so that the boundary test and the special patterns \<open>$$\<close>,
  \<open>$&\<close>, \<open>$`\<close> and \<open>$'\<close> of the replacement see it. The expression has no capture group,
  so every other \<open>$\<close> stands for itself. After an empty match the scan moves on by one
  character, as the language does.
\<close>

definition word_at :: "string \<Rightarrow> bool" where
  "word_at s = (case s of [] \<Rightarrow> False | c # _ \<Rightarrow> is_word c)"

definition boundary :: "string \<Rightarrow> string \<Rightarrow> bool" where
  "boundary before after = (word_at before \<noteq> word_at after)"

fun expandReplacement :: "string \<Rightarrow> string \<Rightarrow> string \<Rightarrow> string \<Rightarrow> string" where
  "expandReplacement m pre post [] = []"
| "expandReplacement m pre post [c] = [c]"
| "expandReplacement m pre post (c # d # r) =
     (if c = CHR ''$'' then
        (if d = CHR ''$'' then CHR ''$'' # expandReplacement m pre post r
         else if d = CHR ''&'' then m @ expandReplacement m pre post r
         else if d = CHR ''`'' then pre @ expandReplacement m pre post r
         else if d = CHR 0x27 then post @ expandReplacement m pre post r
         else c # expandReplacement m pre post (d # r))
      else c # expandReplacement m pre post (d # r))"

definition matchWord :: "string \<Rightarrow> string \<Rightarrow> string \<Rightarrow> bool" where
  "matchWord w before s =
     (startsWith s w \<and> boundary before s \<and> boundary (rev w @ before) (drop (length w) s))"

function replaceWord :: "string \<Rightarrow> string \<Rightarrow> string \<Rightarrow> string \<Rightarrow> string" where
  "replaceWord w r before s =
     (let rest = drop (length w) s;
          out = expandReplacement w (rev before) rest r
      in if matchWord w before s \<and> w \<noteq> [] then out @ replaceWord w r (rev w @ before) rest
         else (if matchWord w before s then out else []) @
           (case s of [] \<Rightarrow> [] | c # s' \<Rightarrow> c # replaceWord w r (c # before) s'))"
  by pat_completeness auto
termination
proof (relation "measure (\<lambda>(w, r, before, s). length s)", goal_cases)
  case (2 w r before s rest out)
  then have "s \<noteq> []" by (auto simp: matchWord_def startsWith_def)
  with 2 show ?case by simp
qed auto

declare replaceWord.simps [simp del]

text \<open>\<open>/\bindexed\b/g\<close>, removed from an event signature.\<close>

definition removeIndexed :: "string \<Rightarrow> string" where
  "removeIndexed s = replaceWord ''indexed'' [] [] s"

subsection \<open>Replacement by tokens\<close>

text \<open>
  For a name made of word characters the scan does what a reader expects of it: the text is cut
  into maximal runs of word characters and single other characters, and every run equal to the
  name is replaced.
\<close>

function tokens :: "string \<Rightarrow> string list" where
  "tokens [] = []"
| "tokens (c # s) =
     (if is_word c then (c # takeWhile is_word s) # tokens (dropWhile is_word s)
      else [c] # tokens s)"
  by pat_completeness auto
termination
  by (relation "measure length") (auto simp: le_imp_less_Suc length_dropWhile_le)

definition replaceTokens :: "string \<Rightarrow> string \<Rightarrow> string \<Rightarrow> string" where
  "replaceTokens w r s = concat (map (\<lambda>t. if t = w then r else t) (tokens s))"

definition is_identifier :: "string \<Rightarrow> bool" where
  "is_identifier w = (w \<noteq> [] \<and> list_all is_word w)"

lemma concat_tokens [simp]: "concat (tokens s) = s"
  by (induction s rule: tokens.induct) auto

lemma expand_plain: "CHR ''$'' \<notin> set r \<Longrightarrow> expandReplacement m pre post r = r"
  by (induction m pre post r rule: expandReplacement.induct) auto

lemma replaceWord_Nil: "w \<noteq> [] \<Longrightarrow> replaceWord w r before [] = []"
  by (simp add: replaceWord.simps [of w r before "[]"] matchWord_def startsWith_def)

lemma replaceWord_step:
  "\<not> matchWord w before (c # s) \<Longrightarrow>
    replaceWord w r before (c # s) = c # replaceWord w r (c # before) s"
  by (simp add: replaceWord.simps [of w r before "c # s"] Let_def)

lemma matchWord_inside: "word_at before \<Longrightarrow> is_word c \<Longrightarrow> \<not> matchWord w before (c # s)"
  by (simp add: matchWord_def boundary_def word_at_def)

lemma replaceWord_inside:
  "word_at before \<Longrightarrow> list_all is_word x \<Longrightarrow>
    replaceWord w r before (x @ u) = x @ replaceWord w r (rev x @ before) u"
proof (induction x arbitrary: before)
  case Nil
  then show ?case by simp
next
  case (Cons c x)
  then have "replaceWord w r before (c # x @ u) = c # replaceWord w r (c # before) (x @ u)"
    by (intro replaceWord_step matchWord_inside) auto
  with Cons show ?case by (simp add: word_at_def)
qed

lemma word_at_identifier [simp]:
  assumes "is_identifier x"
  shows "word_at (x @ u)" and "word_at (rev x @ u)"
proof -
  from assms show "word_at (x @ u)"
    by (cases x) (auto simp: word_at_def is_identifier_def)
  from assms show "word_at (rev x @ u)"
    by (cases x rule: rev_cases) (auto simp: word_at_def is_identifier_def)
qed

lemma word_at_dropWhile [simp]: "\<not> word_at (dropWhile is_word s)"
  by (induction s) (auto simp: word_at_def)

lemma matchWord_other:
  "is_identifier w \<Longrightarrow> \<not> is_word c \<Longrightarrow> \<not> matchWord w before (c # s)"
  by (cases w) (auto simp: matchWord_def is_identifier_def startsWith_def)

lemma matchWord_run:
  assumes w: "is_identifier w" and x: "is_identifier x" and u: "\<not> word_at u" and b: "\<not> word_at before"
  shows "matchWord w before (x @ u) \<longleftrightarrow> x = w"
proof
  assume "x = w"
  with assms show "matchWord w before (x @ u)"
    by (simp add: matchWord_def boundary_def)
next
  assume m: "matchWord w before (x @ u)"
  then obtain t where t: "x @ u = w @ t"
    by (auto simp: matchWord_def startsWith_iff)
  have last: "word_at (rev w @ before)"
    using w by simp
  with m t have "\<not> word_at t"
    by (simp add: matchWord_def boundary_def)
  have "takeWhile is_word (x @ u) = x"
    using x u by (auto simp: is_identifier_def list_all_iff word_at_def takeWhile_append split: list.splits)
  moreover have "takeWhile is_word (w @ t) = w"
    using w \<open>\<not> word_at t\<close>
    by (auto simp: is_identifier_def list_all_iff word_at_def takeWhile_append split: list.splits)
  ultimately show "x = w" using t by simp
qed

lemma replaceWord_run:
  assumes w: "is_identifier w" and x: "is_identifier x" and u: "\<not> word_at u" and b: "\<not> word_at before"
    and r: "CHR ''$'' \<notin> set r"
  shows "replaceWord w r before (x @ u) =
    (if x = w then r else x) @ replaceWord w r (rev x @ before) u"
proof (cases "x = w")
  case True
  with assms have "matchWord w before (x @ u)" by (simp add: matchWord_run)
  with True w r show ?thesis
    by (simp add: replaceWord.simps [of w r before "w @ u"] is_identifier_def expand_plain Let_def)
next
  case False
  with assms have no: "\<not> matchWord w before (x @ u)" by (simp add: matchWord_run)
  from x obtain c y where y: "x = c # y" "is_word c" "list_all is_word y"
    by (cases x) (auto simp: is_identifier_def)
  have "replaceWord w r before (x @ u) = c # replaceWord w r (c # before) (y @ u)"
    using no y(1) by (simp add: replaceWord_step)
  also have "\<dots> = x @ replaceWord w r (rev x @ before) u"
    using y by (simp add: replaceWord_inside word_at_def)
  finally show ?thesis using False by simp
qed

lemma replaceWord_tokens_from:
  assumes w: "is_identifier w" and r: "CHR ''$'' \<notin> set r"
  shows "\<not> word_at before \<or> \<not> word_at s \<Longrightarrow> replaceWord w r before s = replaceTokens w r s"
proof (induction s arbitrary: before rule: tokens.induct)
  case 1
  with w show ?case by (simp add: replaceWord_Nil is_identifier_def replaceTokens_def)
next
  case (2 c s)
  show ?case
  proof (cases "is_word c")
    case True
    let ?x = "c # takeWhile is_word s" and ?u = "dropWhile is_word s"
    have u: "\<not> word_at ?u" by simp
    have x: "is_identifier ?x"
      using True by (auto simp: is_identifier_def list_all_iff dest: set_takeWhileD)
    have b: "\<not> word_at before"
      using "2.prems" True by (simp add: word_at_def)
    have "replaceWord w r before (?x @ ?u) =
        (if ?x = w then r else ?x) @ replaceWord w r (rev ?x @ before) ?u"
      by (rule replaceWord_run [OF w x u b r])
    moreover have "replaceWord w r (rev ?x @ before) ?u = replaceTokens w r ?u"
      using u by (intro "2.IH"(1) True) simp
    ultimately show ?thesis
      using True by (simp add: replaceTokens_def)
  next
    case False
    then have "replaceWord w r before (c # s) = c # replaceWord w r (c # before) s"
      by (intro replaceWord_step matchWord_other [OF w])
    moreover have "replaceWord w r (c # before) s = replaceTokens w r s"
      using False by (intro "2.IH"(2)) (auto simp: word_at_def)
    moreover have "[c] \<noteq> w"
      using w False by (auto simp: is_identifier_def)
    ultimately show ?thesis
      using False by (simp add: replaceTokens_def)
  qed
qed

lemma replaceTokens_absent: "w \<notin> set (tokens s) \<Longrightarrow> replaceTokens w r s = s"
proof -
  assume "w \<notin> set (tokens s)"
  then have "map (\<lambda>t. if t = w then r else t) (tokens s) = tokens s"
    by (auto intro: map_idI)
  then show ?thesis by (simp add: replaceTokens_def)
qed

section \<open>Custom types of an ABI\<close>

datatype customKind = Enum | Struct

record AbiCustomType =
  ct_name :: string
  ct_type :: customKind
  resolvedType :: string

text \<open>A \<open>Map\<close>: its entries in insertion order, at most one for each key.\<close>

type_synonym customTypes = "(string \<times> AbiCustomType) list"

definition ct_has :: "customTypes \<Rightarrow> string \<Rightarrow> bool" where
  "ct_has m k = (k \<in> fst ` set m)"

text \<open>\<open>m.set(k, v)\<close>: a present key keeps its place.\<close>

fun ct_set :: "string \<Rightarrow> AbiCustomType \<Rightarrow> customTypes \<Rightarrow> customTypes" where
  "ct_set k v [] = [(k, v)]"
| "ct_set k v ((k', v') # m) = (if k' = k then (k, v) # m else (k', v') # ct_set k v m)"

definition resolveBaseType :: "string \<Rightarrow> string" where
  "resolveBaseType t =
     (if t = ''uint'' then ''uint256'' else if t = ''int'' then ''int256'' else t)"

text \<open>\<open>.replace(/^KEYWORD\s+/, '')\<close>.\<close>

definition stripKeyword :: "string \<Rightarrow> string \<Rightarrow> string" where
  "stripKeyword kw s =
     (let rest = drop (length kw) s
      in if startsWith s kw \<and> (case rest of [] \<Rightarrow> False | c # _ \<Rightarrow> is_space c)
         then dropWhile is_space rest else s)"

text \<open>\<open>.replace(/^.*\./, '')\<close>: everything up to the last dot of the first line.\<close>

definition line_end :: "char \<Rightarrow> bool" where
  "line_end c = ((of_char c :: nat) \<in> {10, 13})"

definition stripContract :: "string \<Rightarrow> string" where
  "stripContract s =
     (let line = takeWhile (\<lambda>c. \<not> line_end c) s; rest = dropWhile (\<lambda>c. \<not> line_end c) s
      in rev (takeWhile (\<lambda>c. c \<noteq> CHR ''.'') (rev line)) @ rest)"

definition standardTypes :: "string list" where
  "standardTypes = [
    ''address'', ''bool'', ''string'', ''bytes'', ''uint'', ''uint8'', ''uint16'', ''uint24'',
    ''uint32'', ''uint40'', ''uint48'', ''uint56'', ''uint64'', ''uint72'', ''uint80'',
    ''uint88'', ''uint96'', ''uint104'', ''uint112'', ''uint120'', ''uint128'', ''uint136'',
    ''uint144'', ''uint152'', ''uint160'', ''uint168'', ''uint176'', ''uint184'', ''uint192'',
    ''uint200'', ''uint208'', ''uint216'', ''uint224'', ''uint232'', ''uint240'', ''uint248'',
    ''uint256'', ''int'', ''int8'', ''int16'', ''int24'', ''int32'', ''int40'', ''int48'',
    ''int56'', ''int64'', ''int72'', ''int80'', ''int88'', ''int96'', ''int104'', ''int112'',
    ''int120'', ''int128'', ''int136'', ''int144'', ''int152'', ''int160'', ''int168'',
    ''int176'', ''int184'', ''int192'', ''int200'', ''int208'', ''int216'', ''int224'',
    ''int232'', ''int240'', ''int248'', ''int256'', ''bytes1'', ''bytes2'', ''bytes3'',
    ''bytes4'', ''bytes5'', ''bytes6'', ''bytes7'', ''bytes8'', ''bytes9'', ''bytes10'',
    ''bytes11'', ''bytes12'', ''bytes13'', ''bytes14'', ''bytes15'', ''bytes16'', ''bytes17'',
    ''bytes18'', ''bytes19'', ''bytes20'', ''bytes21'', ''bytes22'', ''bytes23'', ''bytes24'',
    ''bytes25'', ''bytes26'', ''bytes27'', ''bytes28'', ''bytes29'', ''bytes30'', ''bytes31'',
    ''bytes32'']"

text \<open>\<open>type.replace(/\[\d*\]$/, '')\<close>: one array suffix.\<close>

definition stripArray :: "string \<Rightarrow> string" where
  "stripArray s =
     (case rev s of
        [] \<Rightarrow> s
      | c # r \<Rightarrow>
          (if c = CHR '']'' then
             (case dropWhile is_digit r of
                [] \<Rightarrow> s
              | d # r' \<Rightarrow> (if d = CHR ''['' then rev r' else s))
           else s))"

definition isStandardSolidityType :: "string \<Rightarrow> bool" where
  "isStandardSolidityType t = List.member standardTypes (stripArray t)"

text \<open>The tuple branch and the enum branch of the extraction, in the code's order.\<close>

definition addStruct :: "string \<Rightarrow> string js \<Rightarrow> AbiInput list js \<Rightarrow> customTypes \<Rightarrow> customTypes" where
  "addStruct t it comps m =
     (case it of
        Val i \<Rightarrow>
          (if t = ''tuple'' \<and> i \<noteq> [] then
             (let structName = stripContract (stripKeyword ''struct'' i)
              in case comps of
                   Val cs \<Rightarrow>
                     (if \<not> ct_has m structName then
                        ct_set structName
                          \<lparr>ct_name = structName, ct_type = Struct,
                           resolvedType = ''('' @
                             join '','' (map (\<lambda>c. resolveBaseType (input_type c)) cs) @ '')''\<rparr> m
                      else m)
                 | _ \<Rightarrow> m)
           else m)
      | _ \<Rightarrow> m)"

definition addEnum :: "string \<Rightarrow> string js \<Rightarrow> customTypes \<Rightarrow> customTypes" where
  "addEnum t it m =
     (case it of
        Val i \<Rightarrow>
          (if i \<noteq> [] \<and> i \<noteq> t then
             (let enumName = stripContract (stripKeyword ''enum'' i)
              in if (t = ''uint8'' \<or> t = ''uint256'') \<and> \<not> startsWith enumName ''struct ''
                    \<and> \<not> isStandardSolidityType enumName
                 then (if \<not> ct_has m enumName then
                         ct_set enumName
                           \<lparr>ct_name = enumName, ct_type = Enum, resolvedType = ''uint8''\<rparr> m
                       else m)
                 else m)
           else m)
      | _ \<Rightarrow> m)"

fun extractCustomTypeFromInput :: "AbiInput \<Rightarrow> customTypes \<Rightarrow> customTypes"
  and extractCustomTypeFromInputs :: "AbiInput list \<Rightarrow> customTypes \<Rightarrow> customTypes" where
  "extractCustomTypeFromInput (AbiInput n t it comps) m =
     (let m' = addEnum t it (addStruct t it comps m)
      in case comps of Val cs \<Rightarrow> extractCustomTypeFromInputs cs m' | _ \<Rightarrow> m')"
| "extractCustomTypeFromInputs [] m = m"
| "extractCustomTypeFromInputs (i # is) m =
     extractCustomTypeFromInputs is (extractCustomTypeFromInput i m)"

text \<open>The part of an ethers \<open>Interface\<close> the extraction reads: the inputs of its events and
  of its functions, in the order of \<open>Object.values\<close>.\<close>

record AbiInterfaceInputs =
  event_inputs :: "AbiInput list list"
  function_inputs :: "AbiInput list list"

definition extractCustomTypesFromAbi :: "AbiInterfaceInputs \<Rightarrow> customTypes" where
  "extractCustomTypesFromAbi abi =
     (let m = foldl (\<lambda>m is. extractCustomTypeFromInputs is m) [] (event_inputs abi)
      in foldl (\<lambda>m is. extractCustomTypeFromInputs is m) m (function_inputs abi))"

definition resolveCustomTypesInSignature :: "string \<Rightarrow> customTypes \<Rightarrow> string" where
  "resolveCustomTypesInSignature signature m =
     foldl (\<lambda>s (typeName, customType). replaceWord typeName (resolvedType customType) [] s)
       signature m"

section \<open>Memoised hashes\<close>

text \<open>
  \<open>if (!cache[input])\<close> takes an absent entry and an empty string alike. The tables are plain
  objects used as dictionaries; the members every object inherits are not modelled.
\<close>

type_synonym hashCache = "string \<rightharpoonup> string"

definition cached :: "hashCache \<Rightarrow> string \<Rightarrow> string option" where
  "cached c k = (case c k of Some v \<Rightarrow> if v \<noteq> [] then Some v else None | None \<Rightarrow> None)"

definition eventToTopic :: "ethers \<Rightarrow> hashCache \<Rightarrow> string \<Rightarrow> (js_error + string) \<times> hashCache" where
  "eventToTopic E eventTopicsCache input =
     (if isHexString E input then (Inr input, eventTopicsCache)
      else case cached eventTopicsCache input of
        Some v \<Rightarrow> (Inr v, eventTopicsCache)
      | None \<Rightarrow>
          (let cleanedInput = removeIndexed input
           in case eventFormat E cleanedInput of
                Inl e \<Rightarrow> (Inl e, eventTopicsCache)
              | Inr f \<Rightarrow> (Inr (keccak_id E f), eventTopicsCache(input \<mapsto> keccak_id E f))))"

definition functionToSighash :: "ethers \<Rightarrow> hashCache \<Rightarrow> string \<Rightarrow> (js_error + string) \<times> hashCache" where
  "functionToSighash E functionSighashCache input =
     (if isHexString E input then (Inr input, functionSighashCache)
      else case cached functionSighashCache input of
        Some v \<Rightarrow> (Inr v, functionSighashCache)
      | None \<Rightarrow>
          (case bindE (functionFormat E input) (\<lambda>f. hexDataSlice E (keccak_id E f) 0 4) of
             Inl e \<Rightarrow> (Inl e, functionSighashCache)
           | Inr h \<Rightarrow> (Inr h, functionSighashCache(input \<mapsto> h))))"

text \<open>What the two functions compute when their tables are empty.\<close>

definition topicOf :: "ethers \<Rightarrow> string \<Rightarrow> js_error + string" where
  "topicOf E input = (if isHexString E input then Inr input
     else bindE (eventFormat E (removeIndexed input)) (\<lambda>f. Inr (keccak_id E f)))"

definition sighashOf :: "ethers \<Rightarrow> string \<Rightarrow> js_error + string" where
  "sighashOf E input = (if isHexString E input then Inr input
     else bindE (functionFormat E input) (\<lambda>f. hexDataSlice E (keccak_id E f) 0 4))"

definition cache_valid :: "(string \<Rightarrow> js_error + string) \<Rightarrow> hashCache \<Rightarrow> bool" where
  "cache_valid f c \<longleftrightarrow> (\<forall>k v. c k = Some v \<longrightarrow> f k = Inr v)"

lemma cache_validD: "cache_valid f c \<Longrightarrow> cached c k = Some v \<Longrightarrow> f k = Inr v"
  by (auto simp: cache_valid_def cached_def split: option.splits if_splits)

lemma cache_valid_insert: "cache_valid f c \<Longrightarrow> f k = Inr v \<Longrightarrow> cache_valid f (c(k \<mapsto> v))"
  by (auto simp: cache_valid_def)

lemma cache_valid_empty [simp]: "cache_valid f Map.empty"
  by (simp add: cache_valid_def)

lemma eventToTopic_valid:
  assumes "cache_valid (topicOf E) c"
  shows "fst (eventToTopic E c k) = topicOf E k"
    and "cache_valid (topicOf E) (snd (eventToTopic E c k))"
  using assms
  by (auto simp: eventToTopic_def topicOf_def Let_def
      split: option.splits sum.splits if_splits dest: cache_validD intro!: cache_valid_insert)

lemma functionToSighash_valid:
  assumes "cache_valid (sighashOf E) c"
  shows "fst (functionToSighash E c k) = sighashOf E k"
    and "cache_valid (sighashOf E) (snd (functionToSighash E c k))"
  using assms
  by (auto simp: functionToSighash_def sighashOf_def Let_def
      split: option.splits sum.splits if_splits dest: cache_validD intro!: cache_valid_insert)

lemma eventToTopic_pure:
  assumes "cache_valid (topicOf E) c"
  obtains c' where "eventToTopic E c k = (topicOf E k, c')" and "cache_valid (topicOf E) c'"
  using eventToTopic_valid [OF assms, of k] by (cases "eventToTopic E c k") auto

lemma functionToSighash_pure:
  assumes "cache_valid (sighashOf E) c"
  obtains c' where "functionToSighash E c k = (sighashOf E k, c')" and "cache_valid (sighashOf E) c'"
  using functionToSighash_valid [OF assms, of k] by (cases "functionToSighash E c k") auto

interpretation topics: memoised "eventToTopic E" "topicOf E" "cache_valid (topicOf E)" Map.empty
  for E
  by unfold_locales (simp_all add: eventToTopic_valid)

interpretation sighashes: memoised "functionToSighash E" "sighashOf E" "cache_valid (sighashOf E)"
    Map.empty
  for E
  by unfold_locales (simp_all add: functionToSighash_valid)

section \<open>Properties\<close>

subsection \<open>The table of custom types\<close>

definition customTypes_wf :: "customTypes \<Rightarrow> bool" where
  "customTypes_wf m \<longleftrightarrow> distinct (map fst m) \<and>
     (\<forall>(k, v) \<in> set m. ct_name v = k \<and>
        (case ct_type v of
           Enum \<Rightarrow> resolvedType v = ''uint8'' \<and> \<not> isStandardSolidityType k
         | Struct \<Rightarrow> (\<exists>body. resolvedType v = ''('' @ body @ '')'')))"

lemma ct_set_fresh: "\<not> ct_has m k \<Longrightarrow> ct_set k v m = m @ [(k, v)]"
  by (induction m) (auto simp: ct_has_def)

lemma map_of_append_fresh: "map_of m k = Some v \<Longrightarrow> map_of (m @ n) k = Some v"
  by (simp add: map_add_Some_iff)

lemma customTypes_wf_snoc:
  "customTypes_wf m \<Longrightarrow> \<not> ct_has m k \<Longrightarrow> customTypes_wf [(k, v)] \<Longrightarrow> customTypes_wf (m @ [(k, v)])"
  by (auto simp: customTypes_wf_def ct_has_def)

lemma addStruct_cases:
  "addStruct t it cs m = m \<or>
   (\<exists>k body. \<not> ct_has m k \<and>
      addStruct t it cs m =
        m @ [(k, \<lparr>ct_name = k, ct_type = Struct, resolvedType = ''('' @ body @ '')''\<rparr>)])"
  by (auto simp: addStruct_def ct_set_fresh Let_def split: js.splits)

lemma addEnum_cases:
  "addEnum t it m = m \<or>
   (\<exists>k. \<not> ct_has m k \<and> \<not> isStandardSolidityType k \<and>
      addEnum t it m = m @ [(k, \<lparr>ct_name = k, ct_type = Enum, resolvedType = ''uint8''\<rparr>)])"
  by (auto simp: addEnum_def ct_set_fresh Let_def split: js.splits)

lemma addStruct_wf: "customTypes_wf m \<Longrightarrow> customTypes_wf (addStruct t it cs m)"
  using addStruct_cases [of t it cs m]
  by (elim disjE exE conjE)
    (simp_all add: customTypes_wf_snoc customTypes_wf_def [of "[(k, v)]" for k v])

lemma addEnum_wf: "customTypes_wf m \<Longrightarrow> customTypes_wf (addEnum t it m)"
  using addEnum_cases [of t it m]
  by (elim disjE exE conjE)
    (simp_all add: customTypes_wf_snoc customTypes_wf_def [of "[(k, v)]" for k v])

lemma addStruct_keeps: "map_of m k = Some v \<Longrightarrow> map_of (addStruct t it cs m) k = Some v"
  using addStruct_cases [of t it cs m] by (auto intro: map_of_append_fresh)

lemma addEnum_keeps: "map_of m k = Some v \<Longrightarrow> map_of (addEnum t it m) k = Some v"
  using addEnum_cases [of t it m] by (auto intro: map_of_append_fresh)

lemma extract_wf:
  shows "customTypes_wf m \<Longrightarrow> customTypes_wf (extractCustomTypeFromInput i m)"
    and "customTypes_wf m \<Longrightarrow> customTypes_wf (extractCustomTypeFromInputs is m)"
  by (induction i m and "is" m
      rule: extractCustomTypeFromInput_extractCustomTypeFromInputs.induct)
    (auto simp: Let_def addStruct_wf addEnum_wf split: js.splits)

lemma extract_keeps:
  shows "map_of m k = Some v \<Longrightarrow> map_of (extractCustomTypeFromInput i m) k = Some v"
    and "map_of m k = Some v \<Longrightarrow> map_of (extractCustomTypeFromInputs is m) k = Some v"
  by (induction i m and "is" m
      rule: extractCustomTypeFromInput_extractCustomTypeFromInputs.induct)
    (auto simp: Let_def addStruct_keeps addEnum_keeps split: js.splits)

lemma extract_fold_wf:
  "customTypes_wf m \<Longrightarrow> customTypes_wf (foldl (\<lambda>m is. extractCustomTypeFromInputs is m) m iss)"
  by (induction iss arbitrary: m) (auto simp: extract_wf)

text \<open>The table extracted from any ABI is well formed: no key occurs twice, every entry is
  stored under its own name, an enum resolves to \<open>uint8\<close> and is never a built-in type, and a
  struct resolves to a parenthesised tuple.\<close>

theorem extractCustomTypes_wf: "customTypes_wf (extractCustomTypesFromAbi abi)"
  by (auto simp: extractCustomTypesFromAbi_def Let_def customTypes_wf_def [of "[]"]
      intro!: extract_fold_wf)

subsection \<open>Replacement\<close>

text \<open>C31. Resolving a signature replaces tokens: where every custom type is named by an
  identifier and no resolved type contains the special character \<open>$\<close>, the chain of regular
  expression replacements is the chain of token replacements, so no type whose name is merely a
  part of a longer word is touched.\<close>

theorem resolve_by_tokens:
  assumes "\<forall>(k, v) \<in> set m. is_identifier k \<and> CHR ''$'' \<notin> set (resolvedType v)"
  shows "resolveCustomTypesInSignature s m =
    foldl (\<lambda>s (k, v). replaceTokens k (resolvedType v) s) s m"
  using assms unfolding resolveCustomTypesInSignature_def
proof (induction m arbitrary: s)
  case Nil
  then show ?case by simp
next
  case (Cons kv m)
  obtain k v where kv: "kv = (k, v)" by fastforce
  with Cons.prems have "replaceWord k (resolvedType v) [] s = replaceTokens k (resolvedType v) s"
    by (intro replaceWord_tokens_from) (auto simp: word_at_def)
  with Cons kv show ?case by simp
qed

theorem resolve_by_tokens_witness:
  "resolveCustomTypesInSignature ''Open(Kind,KindB)''
     [(''Kind'', \<lparr>ct_name = ''Kind'', ct_type = Enum, resolvedType = ''uint8''\<rparr>)]
   = ''Open(uint8,KindB)''"
proof -
  let ?m = "[(''Kind'', \<lparr>ct_name = ''Kind'', ct_type = Enum, resolvedType = ''uint8''\<rparr>)]"
  have "\<forall>(k, v) \<in> set ?m. is_identifier k \<and> CHR ''$'' \<notin> set (resolvedType v)"
    by (simp add: is_identifier_def is_word_def)
  from resolve_by_tokens [OF this, of "''Open(Kind,KindB)''"] show ?thesis
    by (simp add: replaceTokens_def is_word_def)
qed



subsection \<open>Built-in types\<close>

definition solidityTypes :: "string list" where
  "solidityTypes = [''address'', ''bool'', ''string'', ''bytes'']
     @ ''uint'' # map (\<lambda>k. ''uint'' @ show_nat (8 * k)) [1..<33]
     @ ''int'' # map (\<lambda>k. ''int'' @ show_nat (8 * k)) [1..<33]
     @ map (\<lambda>k. ''bytes'' @ show_nat k) [1..<33]"

lemma standardTypes_complete: "standardTypes = solidityTypes"
  by code_simp

text \<open>The literal table of built-in types is complete: a name is standard exactly when,
  without one array suffix, it is \<open>address\<close>, \<open>bool\<close>, \<open>string\<close>, \<open>bytes\<close>, \<open>uint\<close> or
  \<open>int\<close>, an integer type of 8 to 256 bits in steps of 8, or \<open>bytes1\<close> to \<open>bytes32\<close>.\<close>

theorem isStandardSolidityType_iff:
  "isStandardSolidityType t \<longleftrightarrow>
     stripArray t \<in> {''address'', ''bool'', ''string'', ''bytes'', ''uint'', ''int''} \<or>
     (\<exists>k \<in> {1..32}. stripArray t = ''uint'' @ show_nat (8 * k) \<or>
        stripArray t = ''int'' @ show_nat (8 * k) \<or> stripArray t = ''bytes'' @ show_nat k)"
proof -
  have "{1..<33} = {1..32 :: nat}" by auto
  then have "isStandardSolidityType t \<longleftrightarrow> stripArray t \<in> {''address'', ''bool'', ''string'', ''bytes'', ''uint'', ''int''}
      \<union> (\<lambda>k. ''uint'' @ show_nat (8 * k)) ` {1..32} \<union> (\<lambda>k. ''int'' @ show_nat (8 * k)) ` {1..32}
      \<union> (\<lambda>k. ''bytes'' @ show_nat k) ` {1..32}"
    unfolding isStandardSolidityType_def standardTypes_complete
    by (auto simp: solidityTypes_def)
  then show ?thesis by blast
qed

subsection \<open>Memoised hashes\<close>

text \<open>The topic and sighash tables are invisible: in any sequence of calls, from the empty
  tables, each call returns what it would return computed from scratch, the calls that throw
  included.\<close>

theorem hash_caches_transparent:
  "fst (run_seq (eventToTopic E) Map.empty ks) = map (topicOf E) ks \<and>
   fst (run_seq (functionToSighash E) Map.empty ks) = map (sighashOf E) ks"
  by (simp add: topics.transparent sighashes.transparent)

end
