(* ===== verification/Block_Filters.thy ===== *)
theory Block_Filters
  imports Utils_String
begin

text \<open>
  \<open>packages/node/src/ethereum/block.ethereum.ts\<close>: the filters that decide which handlers of a
  data source see a block, a transaction or a log. \<open>filterBlockTimestamp\<close> of
  \<open>@subql/node-core\<close> is a parameter. The transaction and log filters consult the hash tables
  of \<open>Utils_String\<close> and thread them; an exception of a hash function ends the call.
\<close>

definition NOT_NULL_FILTER :: string where
  "NOT_NULL_FILTER = ''!null''"

section \<open>Blocks\<close>

definition filterBlocksProcessor ::
    "(int \<Rightarrow> EthereumBlockFilter js \<Rightarrow> bool) \<Rightarrow> 'tx EthereumBlock \<Rightarrow> EthereumBlockFilter js \<Rightarrow> string js \<Rightarrow> bool" where
  "filterBlocksProcessor filterBlockTimestamp block flt address =
     (if (case flt of
            Val f \<Rightarrow> (case modulo f of Val m \<Rightarrow> m \<noteq> 0 \<and> block_number block mod m \<noteq> 0 | _ \<Rightarrow> False)
          | _ \<Rightarrow> False)
      then False
      else if \<not> filterBlockTimestamp (block_timestamp block * 1000) flt then False
      else True)"

section \<open>Transactions\<close>

text \<open>A property that holds a string is compared with one that may be missing.\<close>

fun jsNormalizedEq :: "string js \<Rightarrow> string js \<Rightarrow> bool" where
  "jsNormalizedEq (Val a) b = stringNormalizedEq a b"
| "jsNormalizedEq _ b = False"

definition filterInput ::
    "ethers \<Rightarrow> hashCache \<Rightarrow> EthereumTransaction \<Rightarrow> string js \<Rightarrow> (js_error + bool) \<times> hashCache" where
  "filterInput E c transaction func =
     (case func of
        Null \<Rightarrow> (Inr (tx_input transaction = ''0x''), c)
      | Undefined \<Rightarrow> (Inr True, c)
      | Val s \<Rightarrow>
          (if s = ''0x'' then (Inr (tx_input transaction = ''0x''), c)
           else case functionToSighash E c s of
                  (Inl e, c') \<Rightarrow> (Inl e, c')
                | (Inr h, c') \<Rightarrow> (Inr (indexOf (tx_input transaction) h = Some 0), c')))"

definition filterTransactionsProcessor ::
    "ethers \<Rightarrow> hashCache \<Rightarrow> EthereumTransaction \<Rightarrow> EthereumTransactionFilter js \<Rightarrow> string js
      \<Rightarrow> (js_error + bool) \<times> hashCache" where
  "filterTransactionsProcessor E c transaction flt address =
     (case flt of
        Val f \<Rightarrow>
          (if tf_to f = Null \<and> \<not> nullish (tx_to transaction) then (Inr False, c)
           else if truthy (tf_to f) \<and> \<not> jsNormalizedEq (tf_to f) (tx_to transaction)
             then (Inr False, c)
           else if truthy (tf_from f) \<and> \<not> jsNormalizedEq (tf_from f) (tx_from transaction)
             then (Inr False, c)
           else if truthy address \<and> tf_to f = Undefined
                   \<and> \<not> jsNormalizedEq address (tx_to transaction)
             then (Inr False, c)
           else case filterInput E c transaction (tf_function f) of
                  (Inl e, c') \<Rightarrow> (Inl e, c')
                | (Inr False, c') \<Rightarrow> (Inr False, c')
                | (Inr True, c') \<Rightarrow>
                    (if truthy (tf_type f) \<and> tx_type transaction \<noteq> tf_type f then (Inr False, c')
                     else (Inr True, c')))
      | _ \<Rightarrow> (Inr True, c))"

section \<open>Logs\<close>

text \<open>\<open>log.topics[i]\<close>\<close>

definition topic_at :: "string list \<Rightarrow> nat \<Rightarrow> string js" where
  "topic_at ts i = (if i < length ts then Val (ts ! i) else Undefined)"

text \<open>The loop over the first four topics of the filter, from position \<open>i\<close> on.\<close>

fun filterTopics ::
    "ethers \<Rightarrow> hashCache \<Rightarrow> nat \<Rightarrow> string js list \<Rightarrow> string list \<Rightarrow> (js_error + bool) \<times> hashCache" where
  "filterTopics E c i [] logTopics = (Inr True, c)"
| "filterTopics E c i (t # ts) logTopics =
     (case t of
        Val topic \<Rightarrow>
          (if topic = [] then filterTopics E c (Suc i) ts logTopics
           else if \<not> truthy (topic_at logTopics i) then (Inr False, c)
           else if topic = NOT_NULL_FILTER then (Inr True, c)
           else case eventToTopic E c topic of
                  (Inl e, c') \<Rightarrow> (Inl e, c')
                | (Inr h, c') \<Rightarrow>
                    (case hexStringEq E h (logTopics ! i) of
                       Inl e \<Rightarrow> (Inl e, c')
                     | Inr False \<Rightarrow> (Inr False, c')
                     | Inr True \<Rightarrow> filterTopics E c' (Suc i) ts logTopics))
      | _ \<Rightarrow> filterTopics E c (Suc i) ts logTopics)"

definition filterLogsProcessor ::
    "ethers \<Rightarrow> hashCache \<Rightarrow> EthereumLog \<Rightarrow> EthereumLogFilter js \<Rightarrow> string js
      \<Rightarrow> (js_error + bool) \<times> hashCache" where
  "filterLogsProcessor E c log flt address =
     (if truthy address \<and> \<not> jsNormalizedEq address (log_address log) then (Inr False, c)
      else case flt of
        Val f \<Rightarrow>
          (case topics f of
             Val ts \<Rightarrow> filterTopics E c 0 (take 4 ts) (log_topics log)
           | _ \<Rightarrow> (Inr True, c))
      | _ \<Rightarrow> (Inr True, c))"

definition isFullBlock :: "BlockContent \<Rightarrow> bool" where
  "isFullBlock block =
     (case transactions block of
        [] \<Rightarrow> False
      | t # _ \<Rightarrow> (case t of FullTx _ \<Rightarrow> True | TxHash _ \<Rightarrow> False))"

section \<open>The filters with the hashes computed from scratch\<close>

text \<open>
  The value each filter returns when its table is valid: the same case distinctions with
  \<open>topicOf\<close> and \<open>sighashOf\<close> in place of the tables.
\<close>

definition inputResult :: "ethers \<Rightarrow> EthereumTransaction \<Rightarrow> string js \<Rightarrow> js_error + bool" where
  "inputResult E tx func =
     (case func of
        Null \<Rightarrow> Inr (tx_input tx = ''0x'')
      | Undefined \<Rightarrow> Inr True
      | Val s \<Rightarrow> (if s = ''0x'' then Inr (tx_input tx = ''0x'')
          else bindE (sighashOf E s) (\<lambda>h. Inr (startsWith (tx_input tx) h))))"

definition to_criterion :: "EthereumTransactionFilter \<Rightarrow> string js \<Rightarrow> EthereumTransaction \<Rightarrow> bool" where
  "to_criterion f address tx =
     (case tf_to f of
        Null \<Rightarrow> nullish (tx_to tx)
      | Val t \<Rightarrow> t = [] \<or> stringNormalizedEq t (tx_to tx)
      | Undefined \<Rightarrow> \<not> truthy address \<or> jsNormalizedEq address (tx_to tx))"

definition from_criterion :: "EthereumTransactionFilter \<Rightarrow> EthereumTransaction \<Rightarrow> bool" where
  "from_criterion f tx = (\<not> truthy (tf_from f) \<or> jsNormalizedEq (tf_from f) (tx_from tx))"

definition type_criterion :: "EthereumTransactionFilter \<Rightarrow> EthereumTransaction \<Rightarrow> bool" where
  "type_criterion f tx = (\<not> truthy (tf_type f) \<or> tx_type tx = tf_type f)"

definition transactionResult ::
    "ethers \<Rightarrow> EthereumTransaction \<Rightarrow> EthereumTransactionFilter js \<Rightarrow> string js \<Rightarrow> js_error + bool" where
  "transactionResult E tx flt address =
     (case flt of
        Val f \<Rightarrow>
          (if \<not> to_criterion f address tx \<or> \<not> from_criterion f tx then Inr False
           else bindE (inputResult E tx (tf_function f)) (\<lambda>b. Inr (b \<and> type_criterion f tx)))
      | _ \<Rightarrow> Inr True)"

text \<open>One position of a log filter: a missing or empty topic asks for nothing, \<open>!null\<close> for a
  topic to be there, any other for an equal hash.\<close>

definition topicResult :: "ethers \<Rightarrow> string js \<Rightarrow> string js \<Rightarrow> js_error + bool" where
  "topicResult E t l =
     (if \<not> truthy t then Inr True
      else case l of
        Val s \<Rightarrow>
          (if s = [] then Inr False
           else if t = Val NOT_NULL_FILTER then Inr True
           else case t of Val topic \<Rightarrow> bindE (topicOf E topic) (\<lambda>h. hexStringEq E h s)
             | _ \<Rightarrow> Inr True)
      | _ \<Rightarrow> Inr False)"

fun topicsResult :: "ethers \<Rightarrow> nat \<Rightarrow> string js list \<Rightarrow> string list \<Rightarrow> js_error + bool" where
  "topicsResult E i [] lt = Inr True"
| "topicsResult E i (t # ts) lt =
     (case topicResult E t (topic_at lt i) of
        Inl e \<Rightarrow> Inl e
      | Inr False \<Rightarrow> Inr False
      | Inr True \<Rightarrow> (if t = Val NOT_NULL_FILTER then Inr True else topicsResult E (Suc i) ts lt))"

definition logResult ::
    "ethers \<Rightarrow> EthereumLog \<Rightarrow> EthereumLogFilter js \<Rightarrow> string js \<Rightarrow> js_error + bool" where
  "logResult E log flt address =
     (if truthy address \<and> \<not> jsNormalizedEq address (log_address log) then Inr False
      else case flt of
        Val f \<Rightarrow> (case topics f of Val ts \<Rightarrow> topicsResult E 0 (take 4 ts) (log_topics log) | _ \<Rightarrow> Inr True)
      | _ \<Rightarrow> Inr True)"

lemma NOT_NULL_nonempty [simp]: "NOT_NULL_FILTER \<noteq> []" "[] \<noteq> NOT_NULL_FILTER"
  by (simp_all add: NOT_NULL_FILTER_def)

lemma filterInput_pure:
  assumes "cache_valid (sighashOf E) c"
  obtains c' where "filterInput E c tx func = (inputResult E tx func, c')"
    and "cache_valid (sighashOf E) c'"
proof (cases "\<exists>s. func = Val s \<and> s \<noteq> ''0x''")
  case True
  then obtain s where s: "func = Val s" "s \<noteq> ''0x''" by blast
  obtain c' where "functionToSighash E c s = (sighashOf E s, c')" "cache_valid (sighashOf E) c'"
    using assms by (rule functionToSighash_pure)
  with s show thesis
    by (intro that [of c'])
      (auto simp: filterInput_def inputResult_def indexOf_0_iff split: sum.splits)
next
  case False
  then have "filterInput E c tx func = (inputResult E tx func, c)"
    by (auto simp: filterInput_def inputResult_def split: js.splits)
  with assms show thesis by (rule that [rotated])
qed

lemma to_criterion_iff:
  "to_criterion f address tx \<longleftrightarrow>
     \<not> (tf_to f = Null \<and> \<not> nullish (tx_to tx)) \<and>
     \<not> (truthy (tf_to f) \<and> \<not> jsNormalizedEq (tf_to f) (tx_to tx)) \<and>
     \<not> (truthy address \<and> tf_to f = Undefined \<and> \<not> jsNormalizedEq address (tx_to tx))"
  by (cases "tf_to f") (auto simp: to_criterion_def)

lemma filterTransactions_guards:
  "filterTransactionsProcessor E c tx (Val f) address =
     (if \<not> to_criterion f address tx \<or> \<not> from_criterion f tx then (Inr False, c)
      else case filterInput E c tx (tf_function f) of
             (Inl e, c') \<Rightarrow> (Inl e, c')
           | (Inr False, c') \<Rightarrow> (Inr False, c')
           | (Inr True, c') \<Rightarrow> (Inr (type_criterion f tx), c'))"
proof (cases "filterInput E c tx (tf_function f)")
  case (Pair r c')
  show ?thesis
    by (cases r) (auto simp: filterTransactionsProcessor_def to_criterion_iff from_criterion_def
        type_criterion_def Pair split: bool.splits)
qed

lemma filterTransactions_pure:
  assumes "cache_valid (sighashOf E) c"
  obtains c' where "filterTransactionsProcessor E c tx flt address = (transactionResult E tx flt address, c')"
    and "cache_valid (sighashOf E) c'"
proof (cases flt)
  case (Val f)
  obtain c' where "filterInput E c tx (tf_function f) = (inputResult E tx (tf_function f), c')"
      and c': "cache_valid (sighashOf E) c'"
    using assms by (rule filterInput_pure)
  then have "filterTransactionsProcessor E c tx flt address = (transactionResult E tx flt address,
      if \<not> to_criterion f address tx \<or> \<not> from_criterion f tx then c else c')"
    by (auto simp: Val filterTransactions_guards transactionResult_def split: sum.splits bool.splits)
  then show thesis by (rule that) (use assms c' in auto)
qed (use assms in \<open>auto simp: filterTransactionsProcessor_def transactionResult_def intro: that\<close>)

lemma filterTopics_pure:
  assumes "cache_valid (topicOf E) c"
  obtains c' where "filterTopics E c i ts lt = (topicsResult E i ts lt, c')"
    and "cache_valid (topicOf E) c'"
  using assms
proof (induction ts arbitrary: c i thesis)
  case Nil
  then show ?case by simp
next
  case (Cons t ts)
  show ?case
  proof (cases "truthy t \<and> truthy (topic_at lt i) \<and> t \<noteq> Val NOT_NULL_FILTER")
    case True
    then obtain topic where topic: "t = Val topic" "topic \<noteq> []" "topic \<noteq> NOT_NULL_FILTER"
      by (auto elim: truthyE)
    obtain c1 where c1: "eventToTopic E c topic = (topicOf E topic, c1)" "cache_valid (topicOf E) c1"
      using Cons.prems(2) by (rule eventToTopic_pure)
    obtain c2 where c2: "filterTopics E c1 (Suc i) ts lt = (topicsResult E (Suc i) ts lt, c2)"
        "cache_valid (topicOf E) c2"
      using Cons.IH [OF _ c1(2)] by blast
    have "topic_at lt i = Val (lt ! i)" "lt ! i \<noteq> []"
      using True by (auto simp: topic_at_def split: if_splits)
    then have "\<exists>c'. filterTopics E c i (t # ts) lt = (topicsResult E i (t # ts) lt, c') \<and>
        (c' = c1 \<or> c' = c2)"
      using topic c1(1) c2(1)
      by (auto simp: topicResult_def split: sum.splits bool.splits)
    with c1(2) c2(2) Cons.prems(1) show ?thesis by blast
  next
    case False
    obtain c2 where c2: "filterTopics E c (Suc i) ts lt = (topicsResult E (Suc i) ts lt, c2)"
        "cache_valid (topicOf E) c2"
      using Cons.IH [OF _ Cons.prems(2)] by blast
    have "\<exists>c'. filterTopics E c i (t # ts) lt = (topicsResult E i (t # ts) lt, c') \<and>
        (c' = c \<or> c' = c2)"
      using False c2(1)
      by (cases t; cases "topic_at lt i") (auto simp: topicResult_def)
    with c2(2) Cons.prems show ?thesis by blast
  qed
qed

lemma filterLogs_pure:
  assumes "cache_valid (topicOf E) c"
  obtains c' where "filterLogsProcessor E c log flt address = (logResult E log flt address, c')"
    and "cache_valid (topicOf E) c'"
proof (cases "\<exists>f ts. flt = Val f \<and> topics f = Val ts")
  case True
  then obtain f ts where f: "flt = Val f" "topics f = Val ts" by blast
  obtain c' where "filterTopics E c 0 (take 4 ts) (log_topics log)
      = (topicsResult E 0 (take 4 ts) (log_topics log), c')" and "cache_valid (topicOf E) c'"
    using assms by (rule filterTopics_pure)
  then show thesis
    using assms f by (cases "truthy address \<and> \<not> jsNormalizedEq address (log_address log)")
      (auto simp: filterLogsProcessor_def logResult_def intro: that)
next
  case False
  then have "filterLogsProcessor E c log flt address = (logResult E log flt address, c)"
    by (auto simp: filterLogsProcessor_def logResult_def split: js.splits)
  with assms show thesis by (rule that [rotated])
qed

lemma filterTransactions_valid:
  assumes "cache_valid (sighashOf E) c"
  shows "fst (filterTransactionsProcessor E c tx flt address) = transactionResult E tx flt address"
    and "cache_valid (sighashOf E) (snd (filterTransactionsProcessor E c tx flt address))"
  by (rule filterTransactions_pure [OF assms, of tx flt address], simp)+

lemma filterLogs_valid:
  assumes "cache_valid (topicOf E) c"
  shows "fst (filterLogsProcessor E c log flt address) = logResult E log flt address"
    and "cache_valid (topicOf E) (snd (filterLogsProcessor E c log flt address))"
  by (rule filterLogs_pure [OF assms, of log flt address], simp)+

text \<open>Both filters keep the contract of a memoised operation.\<close>

interpretation txFilter: memoised
    "\<lambda>c (tx, flt, address). filterTransactionsProcessor E c tx flt address"
    "\<lambda>(tx, flt, address). transactionResult E tx flt address" "cache_valid (sighashOf E)" Map.empty
  for E
  by unfold_locales (auto simp: filterTransactions_valid)

interpretation logFilter: memoised
    "\<lambda>c (log, flt, address). filterLogsProcessor E c log flt address"
    "\<lambda>(log, flt, address). logResult E log flt address" "cache_valid (topicOf E)" Map.empty
  for E
  by unfold_locales (auto simp: filterLogs_valid)

section \<open>Properties\<close>

text \<open>C3. The early returns of the transaction filter amount to four independent criteria: after
  any calls that filled the sighash table, a transaction is accepted exactly when its recipient
  (the \<open>to\<close> of the filter, or the address of the data source where the filter has none), its
  sender, its input and its type each meet the filter.\<close>

theorem filterTransactions_accepts:
  "fst (filterTransactionsProcessor E (snd (run_seq (functionToSighash E) Map.empty ks)) tx (Val f) a)
     = Inr True \<longleftrightarrow>
   to_criterion f a tx \<and> from_criterion f tx \<and>
   inputResult E tx (tf_function f) = Inr True \<and> type_criterion f tx"
  by (auto simp: filterTransactions_valid sighashes.valid_after transactionResult_def bindE_eq_Inr_iff)

subsection \<open>Logs\<close>

text \<open>The topics up to the first \<open>!null\<close> that the filter reaches, and what each asks for.\<close>

definition topicsAccept :: "ethers \<Rightarrow> string js list \<Rightarrow> string list \<Rightarrow> bool" where
  "topicsAccept E ts lt \<longleftrightarrow>
     (\<exists>n \<le> length ts.
        (\<forall>i < n. ts ! i \<noteq> Val NOT_NULL_FILTER \<and> topicResult E (ts ! i) (topic_at lt i) = Inr True) \<and>
        (n = length ts \<or> ts ! n = Val NOT_NULL_FILTER \<and> truthy (topic_at lt n)))"

definition address_criterion :: "string js \<Rightarrow> EthereumLog \<Rightarrow> bool" where
  "address_criterion address log \<longleftrightarrow> (truthy address \<longrightarrow> jsNormalizedEq address (log_address log))"

definition topicsAcceptFrom :: "ethers \<Rightarrow> nat \<Rightarrow> string js list \<Rightarrow> string list \<Rightarrow> bool" where
  "topicsAcceptFrom E k ts lt \<longleftrightarrow>
     (\<exists>n \<le> length ts.
        (\<forall>i < n. ts ! i \<noteq> Val NOT_NULL_FILTER \<and> topicResult E (ts ! i) (topic_at lt (k + i)) = Inr True) \<and>
        (n = length ts \<or> ts ! n = Val NOT_NULL_FILTER \<and> truthy (topic_at lt (k + n))))"

lemma topicResult_not_null:
  "topicResult E (Val NOT_NULL_FILTER) l = Inr (truthy l)"
  by (cases l) (auto simp: topicResult_def)

lemma topicsAcceptFrom_Cons:
  "topicsAcceptFrom E k (t # ts) lt \<longleftrightarrow>
     (if t = Val NOT_NULL_FILTER then truthy (topic_at lt k)
      else topicResult E t (topic_at lt k) = Inr True \<and> topicsAcceptFrom E (Suc k) ts lt)"
  (is "?L \<longleftrightarrow> ?R")
proof (cases "t = Val NOT_NULL_FILTER")
  case True
  have "?L \<longleftrightarrow> truthy (topic_at lt k)"
  proof
    assume ?L
    then obtain n where n: "n \<le> length (t # ts)"
        "\<forall>i < n. (t # ts) ! i \<noteq> Val NOT_NULL_FILTER"
        "n = length (t # ts) \<or> (t # ts) ! n = Val NOT_NULL_FILTER \<and> truthy (topic_at lt (k + n))"
      unfolding topicsAcceptFrom_def by blast
    with True have "n = 0" by (metis bot_nat_0.not_eq_extremum nth_Cons_0)
    with n(3) show "truthy (topic_at lt k)" by simp
  next
    assume "truthy (topic_at lt k)"
    with True show ?L unfolding topicsAcceptFrom_def by (intro exI [of _ 0]) simp
  qed
  with True show ?thesis by simp
next
  case False
  have "?L \<longleftrightarrow> topicResult E t (topic_at lt k) = Inr True \<and> topicsAcceptFrom E (Suc k) ts lt"
  proof
    assume ?L
    then obtain n where n: "n \<le> length (t # ts)"
        "\<forall>i < n. (t # ts) ! i \<noteq> Val NOT_NULL_FILTER \<and>
           topicResult E ((t # ts) ! i) (topic_at lt (k + i)) = Inr True"
        "n = length (t # ts) \<or> (t # ts) ! n = Val NOT_NULL_FILTER \<and> truthy (topic_at lt (k + n))"
      unfolding topicsAcceptFrom_def by blast
    with False obtain m where m: "n = Suc m" by (cases n) auto
    have "topicsAcceptFrom E (Suc k) ts lt"
      unfolding topicsAcceptFrom_def using n m by (intro exI [of _ m]) fastforce
    moreover have "topicResult E t (topic_at lt k) = Inr True"
      using n(2) m by fastforce
    ultimately show "topicResult E t (topic_at lt k) = Inr True \<and> topicsAcceptFrom E (Suc k) ts lt"
      by blast
  next
    assume r: "topicResult E t (topic_at lt k) = Inr True \<and> topicsAcceptFrom E (Suc k) ts lt"
    then obtain m where m: "m \<le> length ts"
        "\<forall>i < m. ts ! i \<noteq> Val NOT_NULL_FILTER \<and> topicResult E (ts ! i) (topic_at lt (Suc k + i)) = Inr True"
        "m = length ts \<or> ts ! m = Val NOT_NULL_FILTER \<and> truthy (topic_at lt (Suc k + m))"
      unfolding topicsAcceptFrom_def by blast
    with r False show ?L unfolding topicsAcceptFrom_def
      by (intro exI [of _ "Suc m"]) (auto simp: nth_Cons split: nat.splits)
  qed
  with False show ?thesis by simp
qed

lemma topicsResult_accepts: "topicsResult E k ts lt = Inr True \<longleftrightarrow> topicsAcceptFrom E k ts lt"
proof (induction ts arbitrary: k)
  case Nil
  then show ?case by (simp add: topicsAcceptFrom_def)
next
  case (Cons t ts)
  show ?case
  proof (cases "t = Val NOT_NULL_FILTER")
    case True
    then show ?thesis
      by (cases "truthy (topic_at lt k)") (simp_all add: topicsAcceptFrom_Cons topicResult_not_null)
  next
    case False
    then show ?thesis
      by (auto simp: topicsAcceptFrom_Cons Cons.IH split: sum.splits bool.splits)
  qed
qed

text \<open>C2. A log is accepted exactly when its address is the one the data source asks for, if it
  asks for one, and its topics meet the first four topics of the filter up to the first
  \<open>!null\<close>: each position before it holds an equal hash, and the position of the \<open>!null\<close> holds
  some topic.\<close>

theorem filterLogs_accepts:
  "fst (filterLogsProcessor E (snd (run_seq (eventToTopic E) Map.empty ks)) log
      (Val \<lparr>topics = Val ts\<rparr>) a) = Inr True \<longleftrightarrow>
   address_criterion a log \<and> topicsAccept E (take 4 ts) (log_topics log)"
proof -
  have "topicsResult E 0 (take 4 ts) (log_topics log) = Inr True \<longleftrightarrow>
      topicsAccept E (take 4 ts) (log_topics log)"
    by (simp add: topicsResult_accepts topicsAcceptFrom_def topicsAccept_def)
  then show ?thesis
    by (auto simp: filterLogs_valid topics.valid_after logResult_def address_criterion_def)
qed

lemma filterTopics_cut:
  "filterTopics E c i (us @ Val NOT_NULL_FILTER # vs) lt =
   filterTopics E c i (us @ [Val NOT_NULL_FILTER]) lt"
  by (induction us arbitrary: c i) (auto split: js.splits prod.splits sum.splits bool.splits)

text \<open>The return inside the loop at \<open>!null\<close> ends the whole filter: whatever topics follow a
  \<open>!null\<close> are never compared, so a filter with more topics behind it accepts the same logs as
  the filter cut off there.\<close>

theorem filterLogs_ignores_topics_after_not_null:
  "filterLogsProcessor E c log (Val \<lparr>topics = Val (us @ Val NOT_NULL_FILTER # vs)\<rparr>) a =
   filterLogsProcessor E c log (Val \<lparr>topics = Val (us @ [Val NOT_NULL_FILTER])\<rparr>) a"
proof (cases "4 - length us")
  case 0
  then show ?thesis by (simp add: filterLogsProcessor_def)
next
  case (Suc n)
  then have "filterTopics E c 0 (take 4 (us @ Val NOT_NULL_FILTER # vs)) (log_topics log)
      = filterTopics E c 0 (take 4 (us @ [Val NOT_NULL_FILTER])) (log_topics log)"
    using filterTopics_cut [of E c 0 us "take n vs"] filterTopics_cut [of E c 0 us "[]"] by simp
  then show ?thesis by (simp add: filterLogsProcessor_def)
qed

end
