(* ===== verification/Block_Format.thy ===== *)
theory Block_Format
  imports Eth_Types
begin

text \<open>
  \<open>packages/node/src/ethereum/utils.ethereum.ts\<close>: the conversion of raw JSON-RPC objects to
  blocks, logs, transactions and receipts. A field the code reads with \<open>handleNumber\<close> has the
  type \<open>rawNumber js\<close>; a conversion that throws is the \<open>Inl\<close> of the whole call, and the
  fields are converted in the order of the source. The \<open>toJSON\<close> methods are not modelled.
\<close>

definition calcInterval :: int where
  "calcInterval = 6000"

section \<open>Addresses and numbers\<close>

definition handleAddress :: "ethers \<Rightarrow> string js \<Rightarrow> js_error + string js" where
  "handleAddress E value =
     (case value of
        Val s \<Rightarrow> (if s = [] \<or> s = ''0x'' then Inr Null else bindE (getAddress E s) (\<lambda>a. Inr (Val a)))
      | _ \<Rightarrow> Inr Null)"

definition handleNumber :: "ethers \<Rightarrow> rawNumber js \<Rightarrow> js_error + int" where
  "handleNumber E value =
     (case value of
        Undefined \<Rightarrow> Inr 0
      | Null \<Rightarrow> Inr 0
      | Val v \<Rightarrow> (if v = RawStr ''0x'' then Inr 0 else bigNumberFrom E v))"

text \<open>\<open>handleNumber(value).toNumber()\<close>; a \<open>bigint\<close> conversion never fails.\<close>

definition handleSafeNumber :: "ethers \<Rightarrow> rawNumber js \<Rightarrow> js_error + int" where
  "handleSafeNumber E value = bindE (handleNumber E value) (toNumber E)"

text \<open>\<open>value ? handleNumber(value).toBigInt() : undefined\<close>\<close>

fun raw_truthy :: "rawNumber js \<Rightarrow> bool" where
  "raw_truthy (Val (RawStr s)) = (s \<noteq> [])"
| "raw_truthy (Val (RawNum n)) = (n \<noteq> 0)"
| "raw_truthy _ = False"

definition handleOptional :: "ethers \<Rightarrow> rawNumber js \<Rightarrow> js_error + int js" where
  "handleOptional E value =
     (if raw_truthy value then bindE (handleNumber E value) (\<lambda>n. Inr (Val n)) else Inr Undefined)"

section \<open>Blocks\<close>

record 'tx RawBlock =
  raw_difficulty :: "rawNumber js"
  raw_gasLimit :: "rawNumber js"
  raw_gasUsed :: "rawNumber js"
  raw_hash :: string
  raw_number :: "rawNumber js"
  raw_parentHash :: string
  raw_size :: "rawNumber js"
  raw_stateRoot :: string
  raw_timestamp :: "rawNumber js"
  raw_totalDifficulty :: "rawNumber js"
  raw_transactions :: "'tx list"
  raw_baseFeePerGas :: "rawNumber js"
  raw_blockGasCost :: "rawNumber js"
  raw_blobGasUsed :: "rawNumber js"
  raw_excessBlobGas :: "rawNumber js"

definition formatBlock :: "ethers \<Rightarrow> 'tx RawBlock \<Rightarrow> js_error + 'tx EthereumBlock" where
  "formatBlock E block =
     bindE (handleNumber E (raw_difficulty block)) (\<lambda>d.
     bindE (handleNumber E (raw_gasLimit block)) (\<lambda>gl.
     bindE (handleNumber E (raw_gasUsed block)) (\<lambda>gu.
     bindE (handleSafeNumber E (raw_number block)) (\<lambda>n.
     bindE (handleNumber E (raw_size block)) (\<lambda>sz.
     bindE (handleNumber E (raw_timestamp block)) (\<lambda>t.
     bindE (handleNumber E (raw_totalDifficulty block)) (\<lambda>td.
     bindE (handleOptional E (raw_baseFeePerGas block)) (\<lambda>bf.
     bindE (handleOptional E (raw_blockGasCost block)) (\<lambda>gc.
     bindE (handleOptional E (raw_blobGasUsed block)) (\<lambda>bg.
     bindE (handleOptional E (raw_excessBlobGas block)) (\<lambda>eb.
     Inr \<lparr>difficulty = d, gasLimit = gl, gasUsed = gu, block_hash = raw_hash block,
          block_logs = [], block_number = n, parentHash = raw_parentHash block, block_size = sz,
          stateRoot = raw_stateRoot block, block_timestamp = t, totalDifficulty = td,
          transactions = raw_transactions block, baseFeePerGas = bf, blockGasCost = gc,
          blobGasUsed = bg, excessBlobGas = eb\<rparr>)))))))))))"

text \<open>The header of node-core; a header read back from a store may lack its parent hash.\<close>

record Header =
  blockHeight :: int
  blockHash :: string
  h_parentHash :: "string js"
  h_timestamp :: int

definition ethereumBlockToHeader :: "'tx EthereumBlock \<Rightarrow> Header" where
  "ethereumBlockToHeader block =
     \<lparr>blockHeight = block_number block, blockHash = block_hash block,
      h_parentHash = Val (parentHash block), h_timestamp = block_timestamp block * 1000\<rparr>"

text \<open>\<open>IBlock\<close>: the block with its \<open>getHeader\<close>.\<close>

record 'tx IBlock =
  iblock :: "'tx EthereumBlock"
  getHeader :: Header

definition formatBlockUtil :: "'tx EthereumBlock \<Rightarrow> 'tx IBlock" where
  "formatBlockUtil block = \<lparr>iblock = block, getHeader = ethereumBlockToHeader block\<rparr>"

section \<open>Logs\<close>

record RawLog =
  rl_address :: "string js"
  rl_topics :: "string list"
  rl_data :: string
  rl_blockHash :: string
  rl_blockNumber :: "rawNumber js"
  rl_transactionHash :: string
  rl_transactionIndex :: "rawNumber js"
  rl_logIndex :: "rawNumber js"
  rl_removed :: bool

text \<open>The second component is the value of the \<open>block\<close> property, the second argument of the
  source's function.\<close>

definition formatLog :: "ethers \<Rightarrow> RawLog \<Rightarrow> 'b \<Rightarrow> js_error + EthereumLog \<times> 'b" where
  "formatLog E log block =
     bindE (handleAddress E (rl_address log)) (\<lambda>a.
     bindE (handleSafeNumber E (rl_blockNumber log)) (\<lambda>n.
     bindE (handleSafeNumber E (rl_transactionIndex log)) (\<lambda>ti.
     bindE (handleSafeNumber E (rl_logIndex log)) (\<lambda>li.
     Inr (\<lparr>log_address = a, log_topics = rl_topics log, log_data = rl_data log,
           log_blockHash = rl_blockHash log, log_blockNumber = n,
           log_transactionHash = rl_transactionHash log, log_transactionIndex = ti,
           logIndex = li, removed = rl_removed log, log_args = None\<rparr>, block)))))"

text \<open>The getter \<open>transaction\<close> of a formatted log.\<close>

definition log_transaction :: "EthereumTransaction EthereumBlock \<Rightarrow> EthereumLog \<Rightarrow> EthereumTransaction option" where
  "log_transaction block log =
     find (\<lambda>tx. tx_hash tx = log_transactionHash log) (transactions block)"

section \<open>Transactions\<close>

record RawTransaction =
  rt_blockHash :: string
  rt_blockNumber :: "rawNumber js"
  rt_from :: "string js"
  rt_gas :: "rawNumber js"
  rt_gasPrice :: "rawNumber js"
  rt_hash :: string
  rt_input :: string
  rt_nonce :: "rawNumber js"
  rt_to :: "string js"
  rt_transactionIndex :: "rawNumber js"
  rt_value :: "rawNumber js"
  rt_type :: "string js"
  rt_v :: "rawNumber js"
  rt_maxFeePerGas :: "rawNumber js"
  rt_maxPriorityFeePerGas :: "rawNumber js"
  rt_maxFeePerBlobGas :: "rawNumber js"

definition formatTransaction ::
    "ethers \<Rightarrow> RawTransaction \<Rightarrow> 'tx EthereumBlock \<Rightarrow> js_error + EthereumTransaction" where
  "formatTransaction E tx block =
     bindE (handleAddress E (rt_from tx)) (\<lambda>fr.
     bindE (handleAddress E (rt_to tx)) (\<lambda>t.
     bindE (handleSafeNumber E (rt_blockNumber tx)) (\<lambda>n.
     bindE (handleNumber E (rt_gas tx)) (\<lambda>g.
     bindE (handleNumber E (rt_gasPrice tx)) (\<lambda>gp.
     bindE (handleNumber E (rt_nonce tx)) (\<lambda>nc.
     bindE (handleNumber E (rt_transactionIndex tx)) (\<lambda>ti.
     bindE (handleNumber E (rt_value tx)) (\<lambda>vl.
     bindE (handleNumber E (rt_v tx)) (\<lambda>v.
     bindE (handleOptional E (rt_maxFeePerGas tx)) (\<lambda>mf.
     bindE (handleOptional E (rt_maxPriorityFeePerGas tx)) (\<lambda>mp.
     bindE (handleOptional E (rt_maxFeePerBlobGas tx)) (\<lambda>mb.
     Inr \<lparr>tx_blockHash = rt_blockHash tx, tx_blockNumber = n,
          tx_blockTimestamp = block_timestamp block, tx_from = fr, gas = g, gasPrice = gp,
          tx_hash = rt_hash tx, tx_input = rt_input tx, tx_nonce = nc, tx_to = t,
          tx_transactionIndex = ti, tx_value = vl, tx_type = rt_type tx, tx_v = v,
          tx_logs = Undefined, maxFeePerGas = mf, maxPriorityFeePerGas = mp,
          maxFeePerBlobGas = mb, tx_args = None\<rparr>))))))))))))"

section \<open>Receipts\<close>

record RawReceipt =
  rr_blockHash :: string
  rr_blockNumber :: "rawNumber js"
  rr_contractAddress :: "string js"
  rr_cumulativeGasUsed :: "rawNumber js"
  rr_effectiveGasPrice :: "rawNumber js"
  rr_from :: "string js"
  rr_gasUsed :: "rawNumber js"
  rr_logs :: "RawLog list"
  rr_status :: "rawNumber js"
  rr_to :: "string js"
  rr_transactionHash :: string
  rr_transactionIndex :: "rawNumber js"

text \<open>
  \<open>receipt.logs.map(formatLog)\<close>: \<open>map\<close> passes the element and its index, so the index
  lands in the parameter \<open>block\<close> of \<open>formatLog\<close>.
\<close>

definition formatReceipt :: "ethers \<Rightarrow> RawReceipt \<Rightarrow> js_error + nat EthereumReceipt" where
  "formatReceipt E receipt =
     bindE (handleAddress E (rr_from receipt)) (\<lambda>fr.
     bindE (handleAddress E (rr_to receipt)) (\<lambda>t.
     bindE (handleSafeNumber E (rr_blockNumber receipt)) (\<lambda>n.
     bindE (handleNumber E (rr_cumulativeGasUsed receipt)) (\<lambda>cg.
     bindE (handleNumber E (rr_effectiveGasPrice receipt)) (\<lambda>eg.
     bindE (handleNumber E (rr_gasUsed receipt)) (\<lambda>gu.
     bindE (mapE (\<lambda>(i, l). formatLog E l i) (enumerate 0 (rr_logs receipt))) (\<lambda>ls.
     bindE (handleSafeNumber E (rr_status receipt)) (\<lambda>st.
     bindE (handleSafeNumber E (rr_transactionIndex receipt)) (\<lambda>ti.
     Inr \<lparr>r_blockHash = rr_blockHash receipt, r_blockNumber = n,
          r_contractAddress = rr_contractAddress receipt, cumulativeGasUsed = cg,
          effectiveGasPrice = eg, r_from = fr, r_gasUsed = gu, r_logs = ls, r_status = (st \<noteq> 0),
          r_to = t, r_transactionHash = rr_transactionHash receipt,
          r_transactionIndex = ti\<rparr>)))))))))"

section \<open>Lemmas\<close>

lemma handleNumber_missing [simp]:
  "handleNumber E Undefined = Inr 0" "handleNumber E Null = Inr 0"
  "handleNumber E (Val (RawStr ''0x'')) = Inr 0"
  by (simp_all add: handleNumber_def)

lemma handleSafeNumber_Inr:
  "handleSafeNumber E v = Inr n \<longleftrightarrow> (\<exists>b. handleNumber E v = Inr b \<and> toNumber E b = Inr n)"
  by (simp add: handleSafeNumber_def bindE_eq_Inr_iff)

lemma handleOptional_Inr:
  "handleOptional E v = Inr r \<longleftrightarrow>
     (if raw_truthy v then \<exists>n. handleNumber E v = Inr n \<and> r = Val n else r = Undefined)"
  by (auto simp: handleOptional_def bindE_eq_Inr_iff)

lemma formatBlock_Inr:
  assumes "formatBlock E raw = Inr b"
  shows "block_hash b = raw_hash raw" "parentHash b = raw_parentHash raw"
    "stateRoot b = raw_stateRoot raw" "transactions b = raw_transactions raw" "block_logs b = []"
    "handleSafeNumber E (raw_number raw) = Inr (block_number b)"
    "handleNumber E (raw_timestamp raw) = Inr (block_timestamp b)"
  using assms by (auto simp: formatBlock_def bindE_eq_Inr_iff)

lemma formatLog_Inr:
  assumes "formatLog E raw x = Inr (l, y)"
  shows "y = x" "log_topics l = rl_topics raw" "log_blockHash l = rl_blockHash raw"
    "log_transactionHash l = rl_transactionHash raw" "log_data l = rl_data raw"
    "handleAddress E (rl_address raw) = Inr (log_address l)"
    "handleSafeNumber E (rl_logIndex raw) = Inr (logIndex l)"
  using assms by (auto simp: formatLog_def bindE_eq_Inr_iff)

lemma formatTransaction_Inr:
  assumes "formatTransaction E raw b = Inr t"
  shows "tx_hash t = rt_hash raw" "tx_input t = rt_input raw"
    "tx_blockTimestamp t = block_timestamp b" "tx_logs t = Undefined"
    "handleAddress E (rt_from raw) = Inr (tx_from t)" "handleAddress E (rt_to raw) = Inr (tx_to t)"
  using assms by (auto simp: formatTransaction_def bindE_eq_Inr_iff)

text \<open>The logs of a receipt come in its order with their topics, but \<open>block\<close> is their position and not the
  block: \<open>log.block\<close> is a number, and the getter \<open>transaction\<close>, which reads the transactions of
  \<open>block\<close>, finds nothing.\<close>

theorem receipt_logs_hold_their_position:
  assumes "formatReceipt E raw = Inr r"
  shows "map snd (r_logs r) = [0..<length (rr_logs raw)]"
    and "map (log_topics \<circ> fst) (r_logs r) = map rl_topics (rr_logs raw)"
proof -
  have "mapE (\<lambda>(i, l). formatLog E l i) (enumerate 0 (rr_logs raw)) = Inr (r_logs r)"
    using assms unfolding formatReceipt_def bindE_eq_Inr_iff by auto
  then have eq: "map (\<lambda>(i, l). formatLog E l i) (enumerate 0 (rr_logs raw)) = map Inr (r_logs r)"
    by (simp add: mapE_Inr_iff)
  then have len: "length (r_logs r) = length (rr_logs raw)"
    by (metis length_enumerate length_map)
  have nth: "formatLog E (rr_logs raw ! i) i = Inr (fst (r_logs r ! i), snd (r_logs r ! i))"
    if "i < length (rr_logs raw)" for i
    using arg_cong [OF eq, of "\<lambda>xs. xs ! i"] that len by (simp add: nth_enumerate_eq)
  show "map snd (r_logs r) = [0..<length (rr_logs raw)]"
    by (rule nth_equalityI) (use len formatLog_Inr(1) [OF nth] in auto)
  show "map (log_topics \<circ> fst) (r_logs r) = map rl_topics (rr_logs raw)"
    by (rule nth_equalityI) (use len formatLog_Inr(2) [OF nth] in auto)
qed

end
