(* ===== verification/Eth_Api.thy ===== *)
theory Eth_Api
  imports Block_Format Memo
begin

text \<open>
  \<open>packages/node/src/ethereum/api.ethereum.ts\<close>: the wrapper around one RPC endpoint. It owns up
  to two clients, a batching one and a plain one, which may be the same object; the clients live
  in a store and the API holds positions in it, so that marking one object through one reference
  is seen through the other. What the endpoint answers is a \<open>netEnv\<close>, a function of the client
  that asks. An answer that depends on the round of \<open>init\<close> is a function of the round.
\<close>

section \<open>State\<close>

datatype clientKind = BatchHttp | PlainHttp | WebSocket

text \<open>\<open>injected\<close>: \<open>send\<close> was replaced by \<open>Object.defineProperty\<close>, which makes it
  non-configurable, so that a second replacement throws.\<close>

record Client =
  ckind :: clientKind
  celo :: bool
  batchSize :: int
  injected :: bool

record EthereumApi =
  store :: "Client list"
  client :: nat
  nonBatchClient :: "nat option"
  genesisHash :: string
  chainId :: "int option"
  network_name :: "string option"
  u_supportsFinalization :: bool
  u_supportsSafe :: bool
  hostname :: string
  blockConfirmations :: int
  unfinalizedBlocks :: bool
  config_batchSize :: "int js"

text \<open>A block as the ethers provider returns it.\<close>

record ApiBlock =
  ab_number :: int
  ab_hash :: string
  ab_parentHash :: string
  ab_timestamp :: int

datatype BlockTag = TagName string | TagNumber int

record netEnv =
  getNetwork :: "Client \<Rightarrow> js_error + int \<times> string"
  getBlock :: "Client \<Rightarrow> BlockTag \<Rightarrow> js_error + ApiBlock option"
  sendGetBlock :: "Client \<Rightarrow> string \<Rightarrow> js_error + RawTransaction RawBlock option"
  sendGetLightBlock :: "Client \<Rightarrow> string \<Rightarrow> js_error + string RawBlock option"
  getLogs :: "Client \<Rightarrow> string \<Rightarrow> js_error + RawLog list"
  getTransactionReceipt :: "Client \<Rightarrow> string \<Rightarrow> js_error + RawReceipt"
  formatter_hash :: "Client \<Rightarrow> string \<Rightarrow> js_error + string"

definition cur :: "EthereumApi \<Rightarrow> Client" where
  "cur a = store a ! client a"

definition supportsFinalization :: "EthereumApi \<Rightarrow> bool" where
  "supportsFinalization a = u_supportsFinalization a"

definition supportsSafe :: "EthereumApi \<Rightarrow> bool" where
  "supportsSafe a = (u_supportsSafe a \<and> chainId a \<noteq> Some 25)"

section \<open>Construction\<close>

text \<open>\<open>new\<close> of a client adds it to the store; its position is the old length.\<close>

definition newClient :: "clientKind \<Rightarrow> bool \<Rightarrow> Client" where
  "newClient k c = \<lparr>ckind = k, celo = c, batchSize = 1, injected = False\<rparr>"

definition applyBatchSize :: "int js \<Rightarrow> EthereumApi \<Rightarrow> EthereumApi" where
  "applyBatchSize bsize a =
     (case bsize of
        Val n \<Rightarrow>
          (case nonBatchClient a of
             Some nb \<Rightarrow>
               (if n \<le> 0 then a\<lparr>client := nb\<rparr>
                else a\<lparr>store := (store a)[client a := (cur a)\<lparr>batchSize := n\<rparr>]\<rparr>)
           | None \<Rightarrow> a\<lparr>store := (store a)[client a := (cur a)\<lparr>batchSize := n\<rparr>]\<rparr>)
      | _ \<Rightarrow> a)"

text \<open>\<open>protocol.replace(':', '')\<close> drops the first colon.\<close>

definition dropColon :: "string \<Rightarrow> string" where
  "dropColon s = takeWhile (\<lambda>c. c \<noteq> CHR '':'') s @ drop 1 (dropWhile (\<lambda>c. c \<noteq> CHR '':'') s)"

text \<open>The constructor, given the host name and the protocol that \<open>new URL(endpoint)\<close> found.\<close>

definition newEthereumApi ::
    "string \<Rightarrow> string \<Rightarrow> int \<Rightarrow> bool \<Rightarrow> int js \<Rightarrow> js_error + EthereumApi" where
  "newEthereumApi host protocol confirmations unfinalized bsize =
     (let protocolStr = dropColon protocol;
          base = \<lparr>store = [], client = 0, nonBatchClient = None, genesisHash = [], chainId = None,
            network_name = None, u_supportsFinalization = True, u_supportsSafe = True,
            hostname = host, blockConfirmations = confirmations,
            unfinalizedBlocks = unfinalized, config_batchSize = bsize\<rparr>
      in if protocolStr = ''https'' \<or> protocolStr = ''http'' then
           Inr (applyBatchSize bsize
             (base\<lparr>store := [newClient BatchHttp False, newClient PlainHttp False],
                client := 0, nonBatchClient := Some 1\<rparr>))
         else if protocolStr = ''ws'' \<or> protocolStr = ''wss'' then
           Inr (base\<lparr>store := [newClient WebSocket False]\<rparr>)
         else Inl (Error (''Unsupported protocol: '' @ protocol)))"

section \<open>Initialisation\<close>

definition TypeError :: "string \<Rightarrow> js_error" where
  "TypeError m = (Error m)\<lparr>err_name := ''TypeError''\<rparr>"

definition injectClient :: "EthereumApi \<Rightarrow> js_error + EthereumApi" where
  "injectClient a =
     (if injected (cur a) then Inl (TypeError ''Cannot redefine property: send'')
      else Inr (a\<lparr>store := (store a)[client a := (cur a)\<lparr>injected := True\<rparr>]\<rparr>))"

text \<open>Chain 42220: the clients are replaced by Celo ones.\<close>

definition celoClients :: "int \<Rightarrow> EthereumApi \<Rightarrow> EthereumApi" where
  "celoClients cid a =
     (if cid = 42220 then
        (if ckind (cur a) = WebSocket then
           a\<lparr>store := store a @ [newClient WebSocket True], client := length (store a)\<rparr>
         else
           applyBatchSize (config_batchSize a)
             (a\<lparr>store := store a @ [newClient BatchHttp True, newClient PlainHttp True],
                client := length (store a), nonBatchClient := Some (Suc (length (store a)))\<rparr>))
      else a)"

definition genesisTag :: "int \<Rightarrow> BlockTag" where
  "genesisTag cid =
     (if cid = 1501 then TagNumber 4157986
      else if cid = 420420419 then TagNumber 11405259
      else if cid = 420420417 then TagNumber 4367914
      else TagName ''earliest'')"

definition fetchGenesisHash :: "netEnv \<Rightarrow> Client \<Rightarrow> int \<Rightarrow> js_error + string" where
  "fetchGenesisHash env c cid =
     bindE (getBlock env c (genesisTag cid)) (\<lambda>b.
       case b of None \<Rightarrow> Inr [] | Some block \<Rightarrow> Inr (ab_hash block))"

text \<open>The request is abandoned after a timeout, which is an error like any other.\<close>

definition getSupportsTag :: "netEnv \<Rightarrow> Client \<Rightarrow> string \<Rightarrow> bool" where
  "getSupportsTag env c tag = (case getBlock env c (TagName tag) of Inl _ \<Rightarrow> False | Inr _ \<Rightarrow> True)"

text \<open>
  One call of \<open>init\<close> up to its own recursive call: \<open>Inl\<close> of what the call returns or throws, or
  \<open>Inr\<close> of the state in which it calls itself, after falling back to the plain client.
\<close>

definition initRound :: "netEnv \<Rightarrow> EthereumApi \<Rightarrow> (js_error + EthereumApi) + EthereumApi" where
  "initRound env a =
     (case injectClient a of
        Inl e \<Rightarrow> Inl (Inl e)
      | Inr a1 \<Rightarrow>
          (case getNetwork env (cur a1) of
             Inl e \<Rightarrow> Inl (Inl e)
           | Inr (cid, nm) \<Rightarrow>
               (let a2 = celoClients cid a1
                in case fetchGenesisHash env (cur a2) cid of
                     Inr h \<Rightarrow>
                       Inl (Inr (a2\<lparr>genesisHash := h,
                         u_supportsFinalization := getSupportsTag env (cur a2) ''finalized'',
                         u_supportsSafe := getSupportsTag env (cur a2) ''safe'',
                         chainId := Some cid, network_name := Some nm\<rparr>))
                   | Inl e \<Rightarrow>
                       (if startsWith (message e) ''Invalid response'' then
                          (case nonBatchClient a2 of
                             None \<Rightarrow> Inl (Inl (Error ''No suitable client found''))
                           | Some nb \<Rightarrow> Inr (a2\<lparr>client := nb\<rparr>))
                        else Inl (Inl e)))))"

text \<open>
  The whole of \<open>init\<close>. It is a \<^theory_text>\<open>partial_function\<close>: \<open>None\<close> means that the call
  never returns. \<open>env t\<close> is what the endpoint answers in round \<open>t\<close>.
\<close>

partial_function (option) init ::
    "(nat \<Rightarrow> netEnv) \<Rightarrow> nat \<Rightarrow> EthereumApi \<Rightarrow> (js_error + EthereumApi) option" where
  "init env t a =
     (case initRound (env t) a of
        Inl r \<Rightarrow> Some r
      | Inr a' \<Rightarrow> init env (Suc t) a')"

section \<open>Queries\<close>

definition getBestBlockHeight :: "netEnv \<Rightarrow> EthereumApi \<Rightarrow> js_error + int" where
  "getBestBlockHeight env a =
     (let tag = (if \<not> unfinalizedBlocks a \<and> supportsSafe a then ''safe'' else ''latest'')
      in bindE (getBlock env (cur a) (TagName tag)) (\<lambda>b.
           case b of
             None \<Rightarrow> Inl (TypeError ''Cannot read properties of null (reading 'number')'')
           | Some block \<Rightarrow> Inr (ab_number block)))"

fun show_tag :: "BlockTag \<Rightarrow> string" where
  "show_tag (TagName s) = s"
| "show_tag (TagNumber n) = show_int n"

definition getFinalizedBlock :: "netEnv \<Rightarrow> EthereumApi \<Rightarrow> js_error + ApiBlock" where
  "getFinalizedBlock env a =
     bindE (if supportsFinalization a then Inr (TagName ''finalized'')
            else bindE (getBestBlockHeight env a) (\<lambda>n. Inr (TagNumber (n - blockConfirmations a))))
       (\<lambda>height. bindE (getBlock env (cur a) height) (\<lambda>b.
          case b of
            None \<Rightarrow> Inl (Error (''get finalized block \"'' @ show_tag height @ ''\" failed ''))
          | Some block \<Rightarrow> Inr block))"

definition getFinalizedBlockHeight :: "netEnv \<Rightarrow> EthereumApi \<Rightarrow> js_error + int" where
  "getFinalizedBlockHeight env a = bindE (getFinalizedBlock env a) (\<lambda>b. Inr (ab_number b))"

definition AssertionError :: "string \<Rightarrow> js_error" where
  "AssertionError m = (Error m)\<lparr>err_name := ''AssertionError''\<rparr>"

text \<open>\<open>assert(this.name)\<close> and \<open>assert(this.chainId)\<close> are truth tests.\<close>

definition getRuntimeChain :: "EthereumApi \<Rightarrow> js_error + string" where
  "getRuntimeChain a =
     (case network_name a of
        Some n \<Rightarrow> if n \<noteq> [] then Inr n else Inl (AssertionError ''Api has not been initialised'')
      | None \<Rightarrow> Inl (AssertionError ''Api has not been initialised''))"

definition getChainId :: "EthereumApi \<Rightarrow> js_error + int" where
  "getChainId a =
     (case chainId a of
        Some n \<Rightarrow> if n \<noteq> 0 then Inr n else Inl (AssertionError ''Api has not been initialised'')
      | None \<Rightarrow> Inl (AssertionError ''Api has not been initialised''))"

definition getGenesisHash :: "EthereumApi \<Rightarrow> string" where
  "getGenesisHash a = genesisHash a"

definition getSpecName :: string where
  "getSpecName = ''ethereum''"

datatype heightOrHash = Height int | Hash string

definition getBlockByHeightOrHash ::
    "ethers \<Rightarrow> netEnv \<Rightarrow> EthereumApi \<Rightarrow> heightOrHash \<Rightarrow> js_error + ApiBlock option" where
  "getBlockByHeightOrHash E env a x =
     (case x of
        Height n \<Rightarrow> bindE (hexValue E n) (\<lambda>h. getBlock env (cur a) (TagName h))
      | Hash h \<Rightarrow> getBlock env (cur a) (TagName h))"

section \<open>Initialisation terminates, except on Celo\<close>

definition api_wf :: "EthereumApi \<Rightarrow> bool" where
  "api_wf a \<longleftrightarrow> client a < length (store a) \<and> (\<forall>nb. nonBatchClient a = Some nb \<longrightarrow> nb < length (store a))"

lemma applyBatchSize_wf: "api_wf a \<Longrightarrow> api_wf (applyBatchSize n a)"
  by (auto simp: api_wf_def applyBatchSize_def split: js.splits option.splits)

lemma applyBatchSize_fields [simp]:
  "nonBatchClient (applyBatchSize n a) = nonBatchClient a"
  "config_batchSize (applyBatchSize n a) = config_batchSize a"
  "length (store (applyBatchSize n a)) = length (store a)"
  by (auto simp: applyBatchSize_def split: js.splits option.splits)

lemma newEthereumApi_wf: "newEthereumApi h p c u n = Inr a \<Longrightarrow> api_wf a"
  by (auto simp: newEthereumApi_def Let_def api_wf_def split: if_splits
      intro!: applyBatchSize_wf [unfolded api_wf_def])

abbreviation markInjected :: "EthereumApi \<Rightarrow> EthereumApi" where
  "markInjected a \<equiv> a\<lparr>store := (store a)[client a := (cur a)\<lparr>injected := True\<rparr>]\<rparr>"

lemma injectClient_Inr:
  "injectClient a = Inr a1 \<longleftrightarrow> \<not> injected (cur a) \<and> a1 = markInjected a"
  by (auto simp: injectClient_def)

lemma celoClients_other: "cid \<noteq> 42220 \<Longrightarrow> celoClients cid a = a"
  by (simp add: celoClients_def)

lemma initRound_injected: "injected (cur a) \<Longrightarrow> \<exists>r. initRound env a = Inl r"
  by (simp add: initRound_def injectClient_def)

lemma initRound_nextE:
  assumes "initRound env a = Inr a'"
  obtains cid nb where "nonBatchClient (celoClients cid (markInjected a)) = Some nb"
    and "a' = (celoClients cid (markInjected a))\<lparr>client := nb\<rparr>"
  using assms unfolding initRound_def
  by (auto simp: injectClient_def Let_def split: sum.splits if_splits option.splits)

lemma initRound_doneE:
  assumes "initRound env a = Inl (Inr a')"
  obtains cid h f s n where "a' = (celoClients cid (markInjected a))\<lparr>genesisHash := h,
      u_supportsFinalization := f, u_supportsSafe := s, chainId := Some cid, network_name := Some n\<rparr>"
  using assms unfolding initRound_def
  by (auto simp: injectClient_def Let_def split: sum.splits if_splits option.splits)

definition no_celo :: "netEnv \<Rightarrow> bool" where
  "no_celo env \<longleftrightarrow> (\<forall>c nm. getNetwork env c \<noteq> Inr (42220, nm))"

text \<open>Outside Celo a round that goes on has marked the current client and goes on with the plain
  one.\<close>

lemma initRound_next:
  assumes "no_celo env" and "initRound env a = Inr a'"
  obtains nb where "nonBatchClient a = Some nb" and "a' = (markInjected a)\<lparr>client := nb\<rparr>"
proof -
  from assms(2) obtain cid nm where inj: "\<not> injected (cur a)"
      and nw: "getNetwork env (cur (markInjected a)) = Inr (cid, nm)"
    unfolding initRound_def by (auto simp: injectClient_def split: sum.splits if_splits)
  from assms(1) nw have "cid \<noteq> 42220" by (auto simp: no_celo_def)
  with assms(2) inj nw that show thesis
    unfolding initRound_def
    by (auto simp: injectClient_def celoClients_other Let_def split: sum.splits if_splits option.splits)
qed

text \<open>C37. Outside Celo the fallback from batch to plain requests cannot loop: whatever the
  endpoint answers, and even if its answers change from round to round, \<open>init\<close> of a new API
  returns or throws (a third round would find the plain client's \<open>send\<close> already replaced).\<close>

theorem init_terminates:
  assumes new: "newEthereumApi host protocol confirmations unfinalized bsize = Inr a"
    and net: "\<forall>t. no_celo (env t)"
  shows "\<exists>r. init env 0 a = Some r"
proof -
  have stop: "\<exists>r. init env t b = Some r" if "initRound (env t) b = Inl r" for t b r
    using that by (subst init.simps) simp
  have go: "init env t b = init env (Suc t) b'" if "initRound (env t) b = Inr b'" for t b b'
    using that by (subst init.simps) simp
  have next_wf: "api_wf b' \<and> nonBatchClient b' = nonBatchClient b \<and>
      client b' = the (nonBatchClient b)" and next_inj: "injected (store b' ! client b)"
    if r: "initRound (env t) b = Inr b'" and w: "api_wf b" for t b b'
  proof -
    have nc: "no_celo (env t)" using net by blast
    obtain nb where "nonBatchClient b = Some nb" "b' = (markInjected b)\<lparr>client := nb\<rparr>"
      using initRound_next [OF nc r] by blast
    with w show "api_wf b' \<and> nonBatchClient b' = nonBatchClient b \<and>
        client b' = the (nonBatchClient b)" and "injected (store b' ! client b)"
      by (auto simp: api_wf_def)
  qed
  have wf: "api_wf a" using new by (rule newEthereumApi_wf)
  show ?thesis
  proof (cases "initRound (env 0) a")
    case a1: (Inr a1)
    note n1 = next_wf [OF a1 wf]
    show ?thesis
    proof (cases "initRound (env 1) a1")
      case a2: (Inr a2)
      note n2 = next_wf [OF a2] next_inj [OF a2]
      have "injected (cur a2)"
        using n1 n2 by (simp add: cur_def)
      then obtain r where "initRound (env 2) a2 = Inl r"
        using initRound_injected by blast
      then show ?thesis
        using go [OF a1] go [OF a2 [folded One_nat_def]] stop [of 2 a2]
        by (simp add: numeral_2_eq_2)
    qed (use go [OF a1] stop [of 1 a1] in \<open>simp\<close>)
  qed (use stop [of 0 a] in simp)
qed

subsection \<open>Celo\<close>

definition celo_net :: "netEnv \<Rightarrow> bool" where
  "celo_net env \<longleftrightarrow> (\<forall>c. \<exists>nm. getNetwork env c = Inr (42220, nm))"

definition rejects_batches :: "netEnv \<Rightarrow> bool" where
  "rejects_batches env \<longleftrightarrow> (\<forall>c tag. ckind c = BatchHttp \<longrightarrow>
      (\<exists>e. getBlock env c tag = Inl e \<and> startsWith (message e) ''Invalid response''))"

text \<open>The states between two rounds that lead to the next.\<close>

definition stuck :: "EthereumApi \<Rightarrow> bool" where
  "stuck b \<longleftrightarrow> client b < length (store b) \<and> \<not> injected (cur b) \<and> ckind (cur b) \<noteq> WebSocket \<and>
     (case config_batchSize b of Val n \<Rightarrow> 0 < n | _ \<Rightarrow> True)"

lemma apply_positive:
  "case s of Val n \<Rightarrow> 0 < n | _ \<Rightarrow> True \<Longrightarrow>
    applyBatchSize s b =
      (case s of Val n \<Rightarrow> b\<lparr>store := (store b)[client b := (cur b)\<lparr>batchSize := n\<rparr>]\<rparr> | _ \<Rightarrow> b)"
  by (auto simp: applyBatchSize_def split: js.splits option.splits)

lemma celoClients_batch:
  fixes a1 :: EthereumApi
  assumes "ckind (cur a1) \<noteq> WebSocket" and "case config_batchSize a1 of Val n \<Rightarrow> 0 < n | _ \<Rightarrow> True"
  defines "a2 \<equiv> celoClients 42220 a1" and "n \<equiv> length (store a1)"
  shows "ckind (cur a2) = BatchHttp" and "nonBatchClient a2 = Some (Suc n)"
    and "length (store a2) = Suc (Suc n)" and "store a2 ! Suc n = newClient PlainHttp True"
    and "config_batchSize a2 = config_batchSize a1"
  using assms(1,2)
  by (cases "config_batchSize a1";
      simp add: a2_def n_def celoClients_def apply_positive cur_def newClient_def nth_append)+

lemma stuck_round:
  assumes "stuck b" and "celo_net env" and "rejects_batches env"
  obtains b' where "initRound env b = Inr b'" and "stuck b'"
proof -
  let ?a1 = "markInjected b"
  obtain nm where nm: "getNetwork env (cur ?a1) = Inr (42220, nm)"
    using assms(2) unfolding celo_net_def by blast
  have k: "ckind (cur ?a1) \<noteq> WebSocket" and bs: "case config_batchSize ?a1 of Val n \<Rightarrow> 0 < n | _ \<Rightarrow> True"
    using assms(1) by (simp_all add: stuck_def cur_def)
  note a2 = celoClients_batch [OF k bs]
  obtain e where "getBlock env (cur (celoClients 42220 ?a1)) (genesisTag 42220) = Inl e"
      and msg: "startsWith (message e) ''Invalid response''"
    using assms(3) a2(1) unfolding rejects_batches_def by blast
  then have "fetchGenesisHash env (cur (celoClients 42220 ?a1)) 42220 = Inl e"
    by (simp add: fetchGenesisHash_def)
  with nm msg a2(2) have "initRound env b =
      Inr ((celoClients 42220 ?a1)\<lparr>client := Suc (length (store ?a1))\<rparr>)"
    using assms(1) by (simp add: initRound_def injectClient_def stuck_def Let_def)
  moreover have "stuck ((celoClients 42220 ?a1)\<lparr>client := Suc (length (store ?a1))\<rparr>)"
    using a2(3,4,5) bs by (simp add: stuck_def cur_def newClient_def)
  ultimately show thesis by (rule that)
qed

lemma stuck_never:
  assumes "\<forall>t. celo_net (env t) \<and> rejects_batches (env t)" and "init env t b = Some r"
  shows "\<not> stuck b"
proof -
  have "(\<forall>t. celo_net (env t) \<and> rejects_batches (env t)) \<longrightarrow> \<not> stuck b"
  proof (rule init.raw_induct [where P = "\<lambda>env t b r.
      (\<forall>t. celo_net (env t) \<and> rejects_batches (env t)) \<longrightarrow> \<not> stuck b", OF _ assms(2)])
    fix f env t b r
    assume IH: "\<And>env t b r. f env t b = Some r \<Longrightarrow>
        (\<forall>t. celo_net (env t) \<and> rejects_batches (env t)) \<longrightarrow> \<not> stuck b"
      and eq: "(case initRound (env t) b of Inl r \<Rightarrow> Some r | Inr a' \<Rightarrow> f env (Suc t) a') = Some r"
    show "(\<forall>t. celo_net (env t) \<and> rejects_batches (env t)) \<longrightarrow> \<not> stuck b"
    proof (intro impI notI)
      assume env: "\<forall>t. celo_net (env t) \<and> rejects_batches (env t)" and "stuck b"
      then obtain b' where "initRound (env t) b = Inr b'" and b': "stuck b'"
        using stuck_round by metis
      with eq have "f env (Suc t) b' = Some r" by simp
      with IH env b' show False by blast
    qed
  qed
  with assms(1) show ?thesis by blast
qed

text \<open>C38. On Celo (chain 42220) the fallback undoes itself: each round creates a batching client
  again, so if the endpoint keeps rejecting batches with \<open>Invalid response\<close>, \<open>init\<close> of an API
  over HTTP with no batch size, or a positive one, never returns.\<close>

theorem init_loops_on_celo:
  assumes "newEthereumApi host protocol confirmations unfinalized bsize = Inr a"
    and "dropColon protocol = ''http'' \<or> dropColon protocol = ''https''"
    and "case bsize of Val n \<Rightarrow> 0 < n | _ \<Rightarrow> True"
    and "\<forall>t. celo_net (env t) \<and> rejects_batches (env t)"
  shows "init env 0 a = None"
proof -
  have "stuck a"
    using assms(1,2,3)
    by (auto simp: newEthereumApi_def Let_def stuck_def apply_positive cur_def newClient_def
        split: js.splits if_splits)
  with stuck_never [OF assms(4)] show ?thesis by (metis not_None_eq)
qed

subsection \<open>Which client counts its calls\<close>

lemma celoClients_wf: "api_wf a \<Longrightarrow> api_wf (celoClients cid a)"
  unfolding celoClients_def by (auto intro!: applyBatchSize_wf) (auto simp: api_wf_def)

lemma celoClients_fresh: "api_wf a \<Longrightarrow> \<not> injected (cur (celoClients 42220 a))"
  by (auto simp: celoClients_def applyBatchSize_def cur_def newClient_def nth_append
      split: js.splits)

lemma markInjected_cur: "api_wf a \<Longrightarrow> injected (cur (markInjected a))"
  by (simp add: cur_def api_wf_def)

lemma markInjected_wf: "api_wf a \<Longrightarrow> api_wf (markInjected a)"
  by (auto simp: api_wf_def)

lemma api_wf_client: "api_wf a \<Longrightarrow> nonBatchClient a = Some nb \<Longrightarrow> api_wf (a\<lparr>client := nb\<rparr>)"
  by (auto simp: api_wf_def)

lemma initRound_wf: "api_wf a \<Longrightarrow> initRound env a = Inr a' \<Longrightarrow> api_wf a'"
  by (elim initRound_nextE) (simp add: api_wf_client celoClients_wf markInjected_wf)

lemma initRound_done:
  assumes "api_wf a" and "initRound env a = Inl (Inr a')"
  shows "injected (cur a') \<longleftrightarrow> chainId a' \<noteq> Some 42220"
proof -
  from assms(2) obtain cid where c: "chainId a' = Some cid"
      and s: "cur a' = cur (celoClients cid (markInjected a))"
    by (elim initRound_doneE) (simp add: cur_def)
  show ?thesis
  proof (cases "cid = 42220")
    case True
    with c s celoClients_fresh [OF markInjected_wf [OF assms(1)]] show ?thesis by simp
  next
    case False
    with c s markInjected_cur [OF assms(1)] show ?thesis by (simp add: celoClients_other)
  qed
qed

text \<open>What holds of the result of \<open>init\<close> follows from one round at a time.\<close>

lemma init_rule:
  assumes ret: "init env t a = Some (Inr b)" and start: "I a"
    and keep: "\<And>t a a'. I a \<Longrightarrow> initRound (env t) a = Inr a' \<Longrightarrow> I a'"
    and finish: "\<And>t a b. I a \<Longrightarrow> initRound (env t) a = Inl (Inr b) \<Longrightarrow> Q b"
  shows "Q b"
proof -
  have "env' = env \<longrightarrow> r = Inr b \<longrightarrow> I a \<longrightarrow> Q b" if "init env' t a = Some r" for env' t a r
  proof (rule init.raw_induct [where P = "\<lambda>env' t a r. env' = env \<longrightarrow> r = Inr b \<longrightarrow> I a \<longrightarrow> Q b", OF _ that])
    fix f env' t a r
    assume IH: "\<And>env' t a r. f env' t a = Some r \<Longrightarrow> env' = env \<longrightarrow> r = Inr b \<longrightarrow> I a \<longrightarrow> Q b"
      and eq: "(case initRound (env' t) a of Inl r \<Rightarrow> Some r | Inr a' \<Rightarrow> f env' (Suc t) a') = Some r"
    show "env' = env \<longrightarrow> r = Inr b \<longrightarrow> I a \<longrightarrow> Q b"
    proof (intro impI)
      assume e: "env' = env" "r = Inr b" and "I a"
      then show "Q b"
        using eq IH keep [of a t] finish [of a t b] by (cases "initRound (env t) a") auto
    qed
  qed
  with ret start show ?thesis by blast
qed

text \<open>After a successful \<open>init\<close> the client in use emits \<open>rpcCall\<close> for its requests exactly
  when the chain is not Celo: on Celo the replacement of \<open>send\<close> was made on a client that was
  then thrown away.\<close>

theorem init_counts_calls_unless_celo:
  assumes "newEthereumApi host protocol confirmations unfinalized bsize = Inr a"
    and "init env 0 a = Some (Inr a')"
  shows "injected (cur a') \<longleftrightarrow> chainId a' \<noteq> Some 42220"
  using assms(2) newEthereumApi_wf [OF assms(1)]
  by (rule init_rule [where I = api_wf]) (auto intro: initRound_wf initRound_done [THEN iffD1] dest: initRound_done)

subsection \<open>Witnesses\<close>

definition sample_env :: "int \<Rightarrow> (Client \<Rightarrow> BlockTag \<Rightarrow> js_error + ApiBlock option) \<Rightarrow> netEnv" where
  "sample_env cid blocks =
     \<lparr>getNetwork = (\<lambda>_. Inr (cid, ''net'')), getBlock = blocks, sendGetBlock = (\<lambda>_ _. Inr None),
      sendGetLightBlock = (\<lambda>_ _. Inr None), getLogs = (\<lambda>_ _. Inr []),
      getTransactionReceipt = (\<lambda>_ _. Inl (Error ''no receipt'')), formatter_hash = (\<lambda>_ h. Inr h)\<rparr>"

definition sample_block :: ApiBlock where
  "sample_block = \<lparr>ab_number = 7, ab_hash = ''0xab'', ab_parentHash = ''0xaa'', ab_timestamp = 1\<rparr>"

text \<open>An endpoint that answers plain requests and rejects every batch.\<close>

definition plain_only :: "Client \<Rightarrow> BlockTag \<Rightarrow> js_error + ApiBlock option" where
  "plain_only c tag =
     (if ckind c = BatchHttp then Inl (Error ''Invalid response'') else Inr (Some sample_block))"

definition sample_api :: EthereumApi where
  "sample_api = projr (newEthereumApi ''host'' ''https:'' 200 False Undefined)"

lemma sample_api_new: "newEthereumApi ''host'' ''https:'' 200 False Undefined = Inr sample_api"
  by (simp add: sample_api_def newEthereumApi_def dropColon_def Let_def)

theorem init_terminates_witness:
  "\<exists>r. init (\<lambda>_. sample_env 1 plain_only) 0 sample_api = Some r"
  by (rule init_terminates [OF sample_api_new]) (simp add: no_celo_def sample_env_def)

theorem init_loops_on_celo_witness:
  "init (\<lambda>_. sample_env 42220 plain_only) 0 sample_api = None"
  by (rule init_loops_on_celo [OF sample_api_new])
    (auto simp: dropColon_def celo_net_def rejects_batches_def sample_env_def plain_only_def startsWith_def)

lemma sample_init_celo:
  "\<exists>a'. init (\<lambda>_. sample_env 42220 (\<lambda>_ _. Inr (Some sample_block))) 0 sample_api = Some (Inr a') \<and>
     chainId a' = Some 42220"
  by (simp add: init.simps initRound_def sample_api_def newEthereumApi_def dropColon_def Let_def
      injectClient_def cur_def newClient_def applyBatchSize_def sample_env_def fetchGenesisHash_def)

theorem init_counts_calls_unless_celo_witness:
  "\<exists>a'. init (\<lambda>_. sample_env 42220 (\<lambda>_ _. Inr (Some sample_block))) 0 sample_api = Some (Inr a') \<and>
     \<not> injected (cur a')"
proof -
  obtain a' where a': "init (\<lambda>_. sample_env 42220 (\<lambda>_ _. Inr (Some sample_block))) 0 sample_api
      = Some (Inr a')" and "chainId a' = Some 42220"
    using sample_init_celo by blast
  with init_counts_calls_unless_celo [OF sample_api_new a'] show ?thesis by auto
qed

end
