(* ===== verification/Eth_Fetch.thy ===== *)
theory Eth_Fetch
  imports Eth_Api
begin

text \<open>
  The fetching half of \<open>packages/node/src/ethereum/api.ethereum.ts\<close>: blocks with their logs and
  transactions, light blocks, receipts, and the translation of rate-limit errors. The formatted
  object is built in two steps as in the source: \<open>formatBlock\<close> with the raw transactions, then
  the logs, then the transactions with their share of the logs.
\<close>

definition TRON_CHAIN_IDS :: "int list" where
  "TRON_CHAIN_IDS = [728126428, 2494104990, 3448148188]"

definition zeroHash :: string where
  "zeroHash = ''0x'' @ replicate 64 (CHR ''0'')"

text \<open>\<open>send\<close> is the request \<open>eth_getBlockByNumber\<close> with the wanted value of \<open>includeTx\<close>.\<close>

definition getBlockPromise ::
    "ethers \<Rightarrow> netEnv \<Rightarrow> EthereumApi \<Rightarrow> (string \<Rightarrow> js_error + 'tx RawBlock option) \<Rightarrow> int
      \<Rightarrow> js_error + 'tx EthereumBlock" where
  "getBlockPromise E env a send num =
     bindE (hexValue E num) (\<lambda>h.
     bindE (send h) (\<lambda>raw.
       case raw of
         None \<Rightarrow> Inl (Error (''Failed to fetch block '' @ show_int num))
       | Some rawBlock \<Rightarrow>
           bindE (formatBlock E rawBlock) (\<lambda>block.
             if (case chainId a of Some c \<Rightarrow> c \<noteq> 0 \<and> List.member TRON_CHAIN_IDS c | None \<Rightarrow> False)
                \<and> stateRoot block = ''0x''
             then Inr (block\<lparr>stateRoot := zeroHash\<rparr>)
             else bindE (formatter_hash env (cur a) (stateRoot block)) (\<lambda>s.
               Inr (block\<lparr>stateRoot := s\<rparr>)))))"

definition handleError :: "EthereumApi \<Rightarrow> js_error \<Rightarrow> js_error" where
  "handleError a e =
     (if status e = Some 429 then Error (''Rate Limited at endpoint: '' @ hostname a) else e)"

text \<open>The check of one log against the block that was asked for.\<close>

definition checkLog :: "ethers \<Rightarrow> int \<Rightarrow> 'tx EthereumBlock \<Rightarrow> RawLog \<Rightarrow> js_error + unit" where
  "checkLog E blockNumber block l =
     (if toLowerCase (rl_blockHash l) \<noteq> toLowerCase (block_hash block) then
        bindE (handleSafeNumber E (rl_logIndex l)) (\<lambda>li.
        bindE (handleSafeNumber E (rl_blockNumber l)) (\<lambda>bn.
          Inl (Error (''Log BlockHash does not match block: '' @ show_int blockNumber
            @ '', blockHash '' @ block_hash block @ ''. Log '' @ show_int li @ '' got block ''
            @ show_int bn @ '' blockHash '' @ rl_blockHash l
            @ ''. Please check with rpc provider''))))
      else Inr ())"

definition logsOf :: "EthereumLog list \<Rightarrow> string \<Rightarrow> EthereumLog list" where
  "logsOf logs txHash = filter (\<lambda>l. log_transactionHash l = txHash) logs"

text \<open>The part of \<open>fetchBlock\<close> after the two requests.\<close>

definition assembleBlock ::
    "ethers \<Rightarrow> RawTransaction EthereumBlock \<Rightarrow> RawLog list \<Rightarrow> js_error + EthereumTransaction EthereumBlock" where
  "assembleBlock E block logsRaw =
     bindE (mapE (\<lambda>l. formatLog E l ()) logsRaw) (\<lambda>ls.
       let logs = map fst ls
       in bindE (mapE (\<lambda>tx. bindE (formatTransaction E tx block) (\<lambda>t.
            Inr (t\<lparr>tx_logs := Val (logsOf logs (rt_hash tx))\<rparr>))) (transactions block)) (\<lambda>txs.
          Inr \<lparr>difficulty = difficulty block, gasLimit = gasLimit block, gasUsed = gasUsed block,
            block_hash = block_hash block, block_logs = logs, block_number = block_number block,
            parentHash = parentHash block, block_size = block_size block,
            stateRoot = stateRoot block, block_timestamp = block_timestamp block,
            totalDifficulty = totalDifficulty block, transactions = txs,
            baseFeePerGas = baseFeePerGas block, blockGasCost = blockGasCost block,
            blobGasUsed = blobGasUsed block, excessBlobGas = excessBlobGas block\<rparr>))"

definition fetchBlock ::
    "ethers \<Rightarrow> netEnv \<Rightarrow> EthereumApi \<Rightarrow> int \<Rightarrow> js_error + EthereumTransaction IBlock" where
  "fetchBlock E env a blockNumber =
     (case bindE (getBlockPromise E env a (sendGetBlock env (cur a)) blockNumber) (\<lambda>block.
           bindE (getLogs env (cur a) (block_hash block)) (\<lambda>logsRaw.
           bindE (mapE (checkLog E blockNumber block) logsRaw) (\<lambda>_.
           bindE (assembleBlock E block logsRaw) (\<lambda>b. Inr (formatBlockUtil b))))) of
        Inl e \<Rightarrow> Inl (handleError a e)
      | Inr b \<Rightarrow> Inr b)"

definition fetchLightBlock :: "ethers \<Rightarrow> netEnv \<Rightarrow> EthereumApi \<Rightarrow> int \<Rightarrow> js_error + string IBlock" where
  "fetchLightBlock E env a blockNumber =
     bindE (getBlockPromise E env a (sendGetLightBlock env (cur a)) blockNumber) (\<lambda>block.
     bindE (getLogs env (cur a) (block_hash block)) (\<lambda>logs.
     bindE (mapE (\<lambda>l. formatLog E l ()) logs) (\<lambda>ls.
       Inr (formatBlockUtil (block\<lparr>block_logs := map fst ls\<rparr>)))))"

text \<open>\<open>Promise.all\<close> over the heights: all blocks in the order asked for, or an error (the model
  reports the error of the first height that fails).\<close>

definition fetchBlocks ::
    "ethers \<Rightarrow> netEnv \<Rightarrow> EthereumApi \<Rightarrow> int list \<Rightarrow> js_error + EthereumTransaction IBlock list" where
  "fetchBlocks E env a bufferBlocks = mapE (fetchBlock E env a) bufferBlocks"

definition fetchBlocksLight ::
    "ethers \<Rightarrow> netEnv \<Rightarrow> EthereumApi \<Rightarrow> int list \<Rightarrow> js_error + string IBlock list" where
  "fetchBlocksLight E env a bufferBlocks = mapE (fetchLightBlock E env a) bufferBlocks"

text \<open>
  \<open>retryOnFailEth\<close> (\<open>packages/node/src/utils/project.ts\<close>) retries a request whose error has the
  reason \<open>timeout\<close>. \<open>retryOnFail\<close> of node-core is a parameter: it gets the request and the test
  that says which errors to retry.
\<close>

definition handledErrors :: "string list" where
  "handledErrors = [''timeout'']"

definition retryable :: "string list \<Rightarrow> js_error \<Rightarrow> bool" where
  "retryable errors e = (\<exists>t \<in> set errors. reason e = Some t \<and> t \<noteq> [])"

definition retryOnFailEth ::
    "((nat \<Rightarrow> js_error + 'r) \<Rightarrow> (js_error \<Rightarrow> bool) \<Rightarrow> js_error + 'r) \<Rightarrow> (nat \<Rightarrow> js_error + 'r)
      \<Rightarrow> string list \<Rightarrow> js_error + 'r" where
  "retryOnFailEth retryOnFail request errors = retryOnFail request (retryable errors)"

text \<open>The closure \<open>receipt\<close> of a fetched transaction; attempt \<open>n\<close> sees the endpoint \<open>env n\<close>.\<close>

definition txReceipt ::
    "((nat \<Rightarrow> js_error + RawReceipt) \<Rightarrow> (js_error \<Rightarrow> bool) \<Rightarrow> js_error + RawReceipt) \<Rightarrow> ethers \<Rightarrow>
      (nat \<Rightarrow> netEnv) \<Rightarrow> EthereumApi \<Rightarrow> EthereumTransaction \<Rightarrow> js_error + nat EthereumReceipt" where
  "txReceipt retryOnFail E env a tx =
     bindE (retryOnFailEth retryOnFail
         (\<lambda>n. getTransactionReceipt (env n) (cur a) (tx_hash tx)) handledErrors)
       (formatReceipt E)"

section \<open>The safe API's client, and disconnecting\<close>

text \<open>The position of the client a \<open>SafeEthProvider\<close> is made of, and its height.\<close>

definition getSafeApi :: "EthereumApi \<Rightarrow> int \<Rightarrow> js_error + nat \<times> int" where
  "getSafeApi a height =
     (if ckind (cur a) = WebSocket then Inr (client a, height)
      else case nonBatchClient a of
        Some nb \<Rightarrow> Inr (nb, height)
      | None \<Rightarrow> Inl (AssertionError ''Unable to find client to make SafeApi''))"

definition connect :: "js_error + unit" where
  "connect = Inl (Error ''Not implemented'')"

datatype disconnectAction = Destroyed nat | WarnHttp

definition disconnect :: "EthereumApi \<Rightarrow> disconnectAction" where
  "disconnect a = (if ckind (cur a) = WebSocket then Destroyed (client a) else WarnHttp)"

section \<open>Properties\<close>

lemma mapE_units:
  "mapE f xs = Inr us \<Longrightarrow> x \<in> set xs \<Longrightarrow> f x = Inr (() :: unit)"
  by (drule mapE_InrD) auto

lemma checkLog_Inr:
  "checkLog E n block l = Inr u \<Longrightarrow> toLowerCase (rl_blockHash l) = toLowerCase (block_hash block)"
  by (auto simp: checkLog_def bindE_eq_Inr_iff split: if_splits)

lemma mapE_formatLog:
  assumes "mapE (\<lambda>l. formatLog E l ()) raws = Inr ls" and "l \<in> set (map fst ls)"
  shows "\<exists>raw \<in> set raws. log_blockHash l = rl_blockHash raw"
proof -
  from assms(2) obtain x where x: "(l, x) \<in> set ls" by auto
  from assms(1) have eq: "map (\<lambda>l. formatLog E l ()) raws = map Inr ls" by (simp only: mapE_Inr_iff)
  from x have "Inr (l, x) \<in> set (map (\<lambda>l. formatLog E l ()) raws)" unfolding eq by auto
  then obtain raw where "raw \<in> set raws" "formatLog E raw () = Inr (l, x)" by auto
  then show ?thesis by (intro bexI [of _ raw] formatLog_Inr(3))
qed

definition logs_belong :: "'tx EthereumBlock \<Rightarrow> bool" where
  "logs_belong b \<longleftrightarrow>
     (\<forall>l \<in> set (block_logs b). toLowerCase (log_blockHash l) = toLowerCase (block_hash b))"

definition log_share_ok :: "EthereumTransaction EthereumBlock \<Rightarrow> bool" where
  "log_share_ok b \<longleftrightarrow>
     (\<forall>tx \<in> set (transactions b). tx_logs tx = Val (logsOf (block_logs b) (tx_hash tx)))"

lemma assembleBlock_Inr:
  assumes "assembleBlock E block raws = Inr b"
  shows "block_hash b = block_hash block" and "block_number b = block_number block"
    and "\<exists>ls. mapE (\<lambda>l. formatLog E l ()) raws = Inr ls \<and> block_logs b = map fst ls"
    and "map tx_hash (transactions b) = map rt_hash (transactions block)"
    and "log_share_ok b"
proof -
  let ?g = "\<lambda>logs tx. bindE (formatTransaction E tx block) (\<lambda>t.
    Inr (t\<lparr>tx_logs := Val (logsOf logs (rt_hash tx))\<rparr>))"
  from assms obtain ls txs where ls: "mapE (\<lambda>l. formatLog E l ()) raws = Inr ls"
      and txs: "mapE (?g (map fst ls)) (transactions block) = Inr txs"
      and b: "block_hash b = block_hash block" "block_number b = block_number block"
        "block_logs b = map fst ls" "transactions b = txs"
    by (auto simp: assembleBlock_def bindE_eq_Inr_iff Let_def)
  have eq: "map (?g (map fst ls)) (transactions block) = map Inr txs"
    using txs by (simp only: mapE_Inr_iff)
  have each: "tx_hash t = rt_hash r \<and> tx_logs t = Val (logsOf (map fst ls) (tx_hash t))"
    if "?g (map fst ls) r = Inr t" for r t
    using that formatTransaction_Inr(1) by (fastforce simp: bindE_eq_Inr_iff)
  show "block_hash b = block_hash block" "block_number b = block_number block"
    "\<exists>ls. mapE (\<lambda>l. formatLog E l ()) raws = Inr ls \<and> block_logs b = map fst ls"
    using b ls by auto
  have "map tx_hash txs = map rt_hash rs" if "map (?g (map fst ls)) rs = map Inr txs" for rs
    using that
  proof (induction rs arbitrary: txs)
    case (Cons r rs)
    then show ?case using each by (cases txs) auto
  qed simp
  with eq b show "map tx_hash (transactions b) = map rt_hash (transactions block)" by simp
  show "log_share_ok b"
    unfolding log_share_ok_def
  proof
    fix tx assume "tx \<in> set (transactions b)"
    then have "Inr tx \<in> set (map Inr txs)" using b by simp
    then have "Inr tx \<in> set (map (?g (map fst ls)) (transactions block))" by (simp only: eq)
    then obtain r where "?g (map fst ls) r = Inr tx" by auto
    with each b show "tx_logs tx = Val (logsOf (block_logs b) (tx_hash tx))" by simp
  qed
qed

lemma getBlockPromise_Inr:
  assumes "getBlockPromise E env a send n = Inr b"
  obtains h raw where "hexValue E n = Inr h" and "send h = Inr (Some raw)"
    and "block_hash b = raw_hash raw" and "transactions b = raw_transactions raw"
    and "block_timestamp b = projr (handleNumber E (raw_timestamp raw))"
  using assms
  by (fastforce simp: getBlockPromise_def bindE_eq_Inr_iff formatBlock_Inr
      split: option.splits if_splits)

lemma fetchBlock_shares:
  assumes "fetchBlock E env a n = Inr ib"
  shows "log_share_ok (iblock ib)"
proof -
  from assms obtain block raws b where "assembleBlock E block raws = Inr b" and "ib = formatBlockUtil b"
    by (auto simp: fetchBlock_def bindE_eq_Inr_iff split: sum.splits)
  then show ?thesis using assembleBlock_Inr(5) by (simp add: formatBlockUtil_def)
qed

text \<open>C27. A block that \<open>fetchBlock\<close> returns is consistent: all its logs carry the hash of the
  block (up to case), its transactions are the ones the endpoint listed, in the same order, and
  each transaction holds exactly the logs of the block with its hash.\<close>

theorem fetchBlock_consistent:
  assumes "fetchBlock E env a n = Inr ib"
  shows "(\<exists>h raw. hexValue E n = Inr h \<and> sendGetBlock env (cur a) h = Inr (Some raw) \<and>
      block_hash (iblock ib) = raw_hash raw \<and>
      map tx_hash (transactions (iblock ib)) = map rt_hash (raw_transactions raw)) \<and>
    logs_belong (iblock ib) \<and> log_share_ok (iblock ib) \<and>
    getHeader ib = ethereumBlockToHeader (iblock ib)"
proof -
  from assms obtain block raws us b where
      block: "getBlockPromise E env a (sendGetBlock env (cur a)) n = Inr block"
      and checked: "mapE (checkLog E n block) raws = Inr us"
      and asm: "assembleBlock E block raws = Inr b" and ib: "ib = formatBlockUtil b"
    by (auto simp: fetchBlock_def bindE_eq_Inr_iff split: sum.splits)
  note b = assembleBlock_Inr [OF asm]
  have "\<exists>h raw. hexValue E n = Inr h \<and> sendGetBlock env (cur a) h = Inr (Some raw) \<and>
      block_hash (iblock ib) = raw_hash raw \<and>
      map tx_hash (transactions (iblock ib)) = map rt_hash (raw_transactions raw)"
    by (rule getBlockPromise_Inr [OF block]) (auto simp: ib formatBlockUtil_def b)
  moreover have "logs_belong (iblock ib)"
    unfolding logs_belong_def
  proof
    fix l assume "l \<in> set (block_logs (iblock ib))"
    then obtain raw where "raw \<in> set raws" "log_blockHash l = rl_blockHash raw"
      using b(3) mapE_formatLog by (fastforce simp: ib formatBlockUtil_def)
    with mapE_units [OF checked] checkLog_Inr b(1)
    show "toLowerCase (log_blockHash l) = toLowerCase (block_hash (iblock ib))"
      by (fastforce simp: ib formatBlockUtil_def)
  qed
  moreover have "log_share_ok (iblock ib)" "getHeader ib = ethereumBlockToHeader (iblock ib)"
    using b(5) by (simp_all add: ib formatBlockUtil_def)
  ultimately show ?thesis by blast
qed

subsection \<open>Samples\<close>

definition sample_rawLog :: "string \<Rightarrow> string \<Rightarrow> RawLog" where
  "sample_rawLog bh txh =
     \<lparr>rl_address = Undefined, rl_topics = [], rl_data = ''0x'', rl_blockHash = bh,
      rl_blockNumber = Val (RawNum 7), rl_transactionHash = txh,
      rl_transactionIndex = Undefined, rl_logIndex = Undefined, rl_removed = False\<rparr>"

definition sample_rawTx :: "string \<Rightarrow> RawTransaction" where
  "sample_rawTx h =
     \<lparr>rt_blockHash = ''0xAB'', rt_blockNumber = Val (RawNum 7), rt_from = Undefined,
      rt_gas = Undefined, rt_gasPrice = Undefined, rt_hash = h, rt_input = ''0x'',
      rt_nonce = Undefined, rt_to = Undefined, rt_transactionIndex = Undefined,
      rt_value = Undefined, rt_type = Undefined, rt_v = Undefined, rt_maxFeePerGas = Undefined,
      rt_maxPriorityFeePerGas = Undefined, rt_maxFeePerBlobGas = Undefined\<rparr>"

definition sample_rawBlock :: "'tx list \<Rightarrow> 'tx RawBlock" where
  "sample_rawBlock txs =
     \<lparr>raw_difficulty = Undefined, raw_gasLimit = Undefined, raw_gasUsed = Undefined,
      raw_hash = ''0xAB'', raw_number = Val (RawNum 7), raw_parentHash = ''0xAA'',
      raw_size = Undefined, raw_stateRoot = ''0x01'', raw_timestamp = Val (RawNum 1),
      raw_totalDifficulty = Undefined, raw_transactions = txs, raw_baseFeePerGas = Undefined,
      raw_blockGasCost = Undefined, raw_blobGasUsed = Undefined, raw_excessBlobGas = Undefined\<rparr>"

text \<open>An endpoint with one block, whose logs are given.\<close>

definition sample_fetch_env :: "(js_error + RawLog list) \<Rightarrow> netEnv" where
  "sample_fetch_env ls = (sample_env 1 (\<lambda>_ _. Inr (Some sample_block)))
     \<lparr>sendGetBlock := (\<lambda>_ _. Inr (Some (sample_rawBlock [sample_rawTx ''0x1'']))),
      sendGetLightBlock := (\<lambda>_ _. Inr (Some (sample_rawBlock [''0x1'']))),
      getLogs := (\<lambda>_ _. ls)\<rparr>"

lemmas sample_defs =
  sample_fetch_env_def sample_env_def sample_rawLog_def sample_rawTx_def sample_rawBlock_def
  sample_ethers_def sample_api_def newEthereumApi_def

lemmas fetch_defs =
  getBlockPromise_def formatBlock_def formatTransaction_def formatLog_def handleSafeNumber_def
  handleNumber_def handleOptional_def handleAddress_def formatBlockUtil_def assembleBlock_def

lemma sample_case:
  "toLowerCase ''0xAB'' = ''0xab''" "toLowerCase ''0xCD'' = ''0xcd''" "toLowerCase ''0xab'' = ''0xab''"
  by code_simp+

lemma sample_fetchBlock:
  "\<exists>ib. fetchBlock sample_ethers (sample_fetch_env (Inr [sample_rawLog ''0xab'' ''0x1''])) sample_api 7
    = Inr ib \<and> block_logs (iblock ib) \<noteq> []"
  by (simp add: fetchBlock_def sample_defs fetch_defs checkLog_def Let_def applyBatchSize_def
      dropColon_def sample_case)

lemma sample_fetchBlock_hashes:
  "\<exists>ib. fetchBlock sample_ethers (sample_fetch_env (Inr [sample_rawLog ''0xab'' ''0x1''])) sample_api 7
    = Inr ib \<and> map log_transactionHash (block_logs (iblock ib)) = [''0x1''] \<and>
      map tx_hash (transactions (iblock ib)) = [''0x1'']"
  by (simp add: fetchBlock_def sample_defs fetch_defs checkLog_def Let_def applyBatchSize_def
      dropColon_def sample_case)

theorem fetchBlock_consistent_witness:
  "\<exists>ib. fetchBlock sample_ethers (sample_fetch_env (Inr [sample_rawLog ''0xab'' ''0x1''])) sample_api 7
    = Inr ib \<and> block_logs (iblock ib) \<noteq> [] \<and> logs_belong (iblock ib) \<and> log_share_ok (iblock ib)"
  using sample_fetchBlock fetchBlock_consistent by blast

text \<open>Light blocks are not checked: with the same endpoint, which answers the request for the
  logs of block \<open>0xAB\<close> with a log of block \<open>0xCD\<close>, \<open>fetchBlock\<close> fails and
  \<open>fetchLightBlock\<close> returns the block with the foreign log.\<close>

theorem fetchLightBlock_keeps_foreign_logs:
  "isl (fetchBlock sample_ethers (sample_fetch_env (Inr [sample_rawLog ''0xCD'' ''0x1''])) sample_api 7) \<and>
   (\<exists>ib. fetchLightBlock sample_ethers (sample_fetch_env (Inr [sample_rawLog ''0xCD'' ''0x1''])) sample_api 7
      = Inr ib \<and> \<not> logs_belong (iblock ib))"
  by (simp add: fetchBlock_def fetchLightBlock_def logs_belong_def sample_defs fetch_defs
      checkLog_def Let_def applyBatchSize_def dropColon_def sample_case)

subsection \<open>The client of the safe API\<close>

definition plain_ok :: "EthereumApi \<Rightarrow> bool" where
  "plain_ok a \<longleftrightarrow> api_wf a \<and>
     (case nonBatchClient a of
        Some nb \<Rightarrow> ckind (store a ! nb) = PlainHttp
      | None \<Rightarrow> ckind (cur a) = WebSocket)"

lemma newEthereumApi_plain: "newEthereumApi h p c u n = Inr a \<Longrightarrow> plain_ok a"
  using newEthereumApi_wf [of h p c u n a]
  by (auto simp: newEthereumApi_def Let_def plain_ok_def applyBatchSize_def newClient_def cur_def
      split: if_splits js.splits)

lemma markInjected_plain: "plain_ok a \<Longrightarrow> plain_ok (markInjected a)"
  by (auto simp: plain_ok_def api_wf_def cur_def nth_list_update split: option.splits)

lemma celoClients_plain: "plain_ok a \<Longrightarrow> plain_ok (celoClients cid a)"
  using celoClients_wf [of a cid]
  by (auto simp: plain_ok_def celoClients_def applyBatchSize_def cur_def newClient_def
      nth_append api_wf_def nth_list_update split: option.splits js.splits)

lemma plain_ok_client: "plain_ok a \<Longrightarrow> nonBatchClient a = Some nb \<Longrightarrow> plain_ok (a\<lparr>client := nb\<rparr>)"
  by (auto simp: plain_ok_def api_wf_def)

lemma plain_ok_result [simp]:
  "plain_ok (a\<lparr>genesisHash := h, u_supportsFinalization := f, u_supportsSafe := s,
     chainId := c, network_name := n\<rparr>) = plain_ok a"
  by (simp add: plain_ok_def api_wf_def cur_def split: option.split)

lemma initRound_plain: "plain_ok a \<Longrightarrow> initRound env a = Inr a' \<Longrightarrow> plain_ok a'"
  by (elim initRound_nextE) (simp add: plain_ok_client celoClients_plain markInjected_plain)

lemma initRound_done_plain: "plain_ok a \<Longrightarrow> initRound env a = Inl (Inr a') \<Longrightarrow> plain_ok a'"
  by (elim initRound_doneE) (simp add: celoClients_plain markInjected_plain)

lemma safe_client_plain:
  assumes "newEthereumApi host protocol confirmations unfinalized bsize = Inr a"
    and "init env 0 a = Some (Inr a')"
  shows "\<exists>c. getSafeApi a' height = Inr (c, height) \<and> ckind (store a' ! c) \<noteq> BatchHttp"
proof -
  have "plain_ok a'"
    using assms(2) newEthereumApi_plain [OF assms(1)]
    by (rule init_rule [where I = plain_ok]) (fact initRound_plain initRound_done_plain)+
  then show ?thesis
    by (auto simp: plain_ok_def getSafeApi_def cur_def split: option.splits)
qed

text \<open>Historical state is never read through batches: after a successful \<open>init\<close>,
  \<open>getSafeApi\<close> succeeds, pins the height it is given, and uses a client that does not batch.\<close>

theorem getSafeApi_unbatched:
  assumes "newEthereumApi host protocol confirmations unfinalized bsize = Inr a"
    and "init env 0 a = Some (Inr a')"
  shows "\<exists>c. getSafeApi a' height = Inr (c, height) \<and> ckind (store a' ! c) \<noteq> BatchHttp"
  using assms by (rule safe_client_plain)

theorem getSafeApi_unbatched_witness:
  "\<exists>a' c. init (\<lambda>_. sample_env 42220 (\<lambda>_ _. Inr (Some sample_block))) 0 sample_api = Some (Inr a') \<and>
     getSafeApi a' 5 = Inr (c, 5) \<and> ckind (store a' ! c) \<noteq> BatchHttp"
proof -
  obtain a' where a': "init (\<lambda>_. sample_env 42220 (\<lambda>_ _. Inr (Some sample_block))) 0 sample_api
      = Some (Inr a')"
    using sample_init_celo by blast
  with getSafeApi_unbatched [OF sample_api_new a'] show ?thesis by blast
qed

end
