(* ===== verification/Eth_Decode.thy ===== *)
theory Eth_Decode
  imports Eth_Types Memo
begin

text \<open>
  The decoding half of \<open>packages/node/src/ethereum/api.ethereum.ts\<close>: loading the ABI assets of
  a data source, the table \<open>contractInterfaces\<close> of parsed ABIs, and the decoding of logs and
  transactions. The ABI library (\<open>Interface\<close> and its methods), \<open>JSON.parse\<close> and the file
  system are the parameter \<open>abiLib\<close>; an interface is a value of its type parameter.
\<close>

record 'i abiLib =
  JSON_parse :: "string \<Rightarrow> js_error + json"
  newInterface :: "json \<Rightarrow> js_error + 'i"
  iface_parseLog :: "'i \<Rightarrow> EthereumLog \<Rightarrow> js_error + EthereumResult"
  iface_getFunction :: "'i \<Rightarrow> string \<Rightarrow> js_error + string"
  decodeFunctionData :: "'i \<Rightarrow> string \<Rightarrow> string \<Rightarrow> js_error + EthereumResult"
  readFile :: "string \<Rightarrow> js_error + string"

type_synonym assetTexts = "string \<rightharpoonup> string"

definition loadAssets :: "'i abiLib \<Rightarrow> SubqlDatasource \<Rightarrow> js_error + assetTexts" where
  "loadAssets L ds =
     (case ds_assets ds of
        Val entries \<Rightarrow>
          foldE (\<lambda>res (name, file).
            case readFile L file of
              Inl _ \<Rightarrow> Inl (Error (''Failed to load datasource asset '' @ file))
            | Inr txt \<Rightarrow> Inr (res(name \<mapsto> txt))) Map.empty entries
      | _ \<Rightarrow> Inr Map.empty)"

text \<open>A JSON artifact holds its ABI in the property \<open>abi\<close>.\<close>

definition unwrapArtifact :: "json \<Rightarrow> js_error + json" where
  "unwrapArtifact abiObj =
     (case abiObj of
        JArr _ \<Rightarrow> Inr abiObj
      | _ \<Rightarrow> bindE (json_get abiObj ''abi'') (\<lambda>r.
          case r of Some abi \<Rightarrow> if json_truthy abi then Inr abi else Inr abiObj
          | None \<Rightarrow> Inr abiObj))"

definition parseAbi :: "'i abiLib \<Rightarrow> string \<Rightarrow> js_error + 'i" where
  "parseAbi L txt =
     (case bindE (JSON_parse L txt) (\<lambda>j. bindE (unwrapArtifact j) (newInterface L)) of
        Inl _ \<Rightarrow> Inl (Error ''ABI is invalid'')
      | Inr i \<Rightarrow> Inr i)"

definition missingAbi :: "string \<Rightarrow> js_error" where
  "missingAbi abiName = Error (''ABI named \"'' @ abiName @ ''\" not referenced in assets'')"

definition buildInterface ::
    "'i abiLib \<Rightarrow> assetTexts \<Rightarrow> (string \<rightharpoonup> 'i) \<Rightarrow> string \<Rightarrow> (js_error + 'i) \<times> (string \<rightharpoonup> 'i)" where
  "buildInterface L assets contractInterfaces abiName =
     (case assets abiName of
        None \<Rightarrow> (Inl (missingAbi abiName), contractInterfaces)
      | Some txt \<Rightarrow>
          (if txt = [] then (Inl (missingAbi abiName), contractInterfaces)
           else case contractInterfaces abiName of
             Some i \<Rightarrow> (Inr i, contractInterfaces)
           | None \<Rightarrow>
               (case parseAbi L txt of
                  Inl e \<Rightarrow> (Inl e, contractInterfaces)
                | Inr i \<Rightarrow> (Inr i, contractInterfaces(abiName \<mapsto> i)))))"

definition parseLog ::
    "'i abiLib \<Rightarrow> (string \<rightharpoonup> 'i) \<Rightarrow> EthereumLog \<Rightarrow> SubqlDatasource \<Rightarrow> EthereumLog \<times> (string \<rightharpoonup> 'i)" where
  "parseLog L c log ds =
     (case ds_abi ds of
        Val abi \<Rightarrow>
          (if abi = [] then (log, c)
           else case loadAssets L ds of
             Inl _ \<Rightarrow> (log, c)
           | Inr assets \<Rightarrow>
               (case buildInterface L assets c abi of
                  (Inl _, c') \<Rightarrow> (log, c')
                | (Inr iface, c') \<Rightarrow>
                    (case iface_parseLog L iface log of
                       Inl _ \<Rightarrow> (log, c')
                     | Inr r \<Rightarrow> (log\<lparr>log_args := Some r\<rparr>, c'))))
      | _ \<Rightarrow> (log, c))"

fun parseLogs ::
    "'i abiLib \<Rightarrow> (string \<rightharpoonup> 'i) \<Rightarrow> EthereumLog list \<Rightarrow> SubqlDatasource \<Rightarrow> EthereumLog list \<times> (string \<rightharpoonup> 'i)" where
  "parseLogs L c [] ds = ([], c)"
| "parseLogs L c (l # ls) ds =
     (let (l', c') = parseLog L c l ds; (ls', c'') = parseLogs L c' ls ds in (l' # ls', c''))"

definition parseTransaction ::
    "ethers \<Rightarrow> 'i abiLib \<Rightarrow> (string \<rightharpoonup> 'i) \<Rightarrow> EthereumTransaction \<Rightarrow> SubqlDatasource
      \<Rightarrow> EthereumTransaction \<times> (string \<rightharpoonup> 'i)" where
  "parseTransaction E L c transaction ds =
     (case ds_abi ds of
        Val abi \<Rightarrow>
          (if abi = [] then (transaction, c)
           else case loadAssets L ds of
             Inl _ \<Rightarrow> (transaction, c)
           | Inr assets \<Rightarrow>
               (case buildInterface L assets c abi of
                  (Inl _, c') \<Rightarrow> (transaction, c')
                | (Inr iface, c') \<Rightarrow>
                    (case bindE (hexDataSlice E (tx_input transaction) 0 4) (\<lambda>sel.
                        bindE (iface_getFunction L iface sel) (\<lambda>func.
                          decodeFunctionData L iface func (tx_input transaction))) of
                       Inl _ \<Rightarrow> (transaction, c')
                     | Inr args \<Rightarrow>
                         (case tx_logs transaction of
                            Val ls \<Rightarrow>
                              (let (ls', c'') = parseLogs L c' ls ds
                               in (transaction\<lparr>tx_logs := Val ls', tx_args := Some args\<rparr>, c''))
                          | _ \<Rightarrow> (transaction\<lparr>tx_args := Some args\<rparr>, c')))))
      | _ \<Rightarrow> (transaction, c))"

section \<open>The table of interfaces\<close>

definition interfaceOf :: "'i abiLib \<Rightarrow> assetTexts \<Rightarrow> string \<Rightarrow> js_error + 'i" where
  "interfaceOf L assets abiName =
     (case assets abiName of
        None \<Rightarrow> Inl (missingAbi abiName)
      | Some txt \<Rightarrow> if txt = [] then Inl (missingAbi abiName) else parseAbi L txt)"

text \<open>Every entry is the interface of the asset of that name. The code relies on this when two
  data sources name the same ABI.\<close>

definition interfaces_valid :: "'i abiLib \<Rightarrow> assetTexts \<Rightarrow> (string \<rightharpoonup> 'i) \<Rightarrow> bool" where
  "interfaces_valid L assets c \<longleftrightarrow> (\<forall>k i. c k = Some i \<longrightarrow> interfaceOf L assets k = Inr i)"

lemma buildInterface_valid:
  assumes "interfaces_valid L assets c"
  shows "fst (buildInterface L assets c k) = interfaceOf L assets k"
    and "interfaces_valid L assets (snd (buildInterface L assets c k))"
proof -
  have hit: "c k = Some i \<Longrightarrow> interfaceOf L assets k = Inr i" for i
    using assms by (simp add: interfaces_valid_def)
  then show "fst (buildInterface L assets c k) = interfaceOf L assets k"
    by (auto simp: buildInterface_def interfaceOf_def split: option.splits sum.splits)
  have "interfaces_valid L assets (c(k \<mapsto> i))" if "interfaceOf L assets k = Inr i" for i
    using assms that by (simp add: interfaces_valid_def)
  with assms show "interfaces_valid L assets (snd (buildInterface L assets c k))"
    by (auto simp: buildInterface_def interfaceOf_def split: option.splits sum.splits)
qed

interpretation interfaces: memoised "buildInterface L assets" "interfaceOf L assets"
    "interfaces_valid L assets" Map.empty
  for L assets
  by unfold_locales (simp_all add: buildInterface_valid, simp add: interfaces_valid_def)

text \<open>The table of contract interfaces is invisible to a data source whose assets do not
  change: in any sequence of calls each one gives the interface parsed from the asset of that
  name, or the error that parsing gives.\<close>

theorem interface_cache_transparent:
  "fst (run_seq (buildInterface L assets) Map.empty ks) = map (interfaceOf L assets) ks"
  by (rule interfaces.transparent)

section \<open>Decoding loses nothing\<close>

definition strip_log :: "EthereumLog \<Rightarrow> EthereumLog" where
  "strip_log l = l\<lparr>log_args := None\<rparr>"

definition strip_tx :: "EthereumTransaction \<Rightarrow> EthereumTransaction" where
  "strip_tx t = t\<lparr>tx_logs := map_js (map strip_log) (tx_logs t), tx_args := None\<rparr>"

lemma parseLog_strip: "strip_log (fst (parseLog L c log ds)) = strip_log log"
  by (auto simp: parseLog_def strip_log_def split: js.splits sum.splits prod.splits)

lemma parseLogs_strip: "map strip_log (fst (parseLogs L c ls ds)) = map strip_log ls"
proof (induction ls arbitrary: c)
  case (Cons l ls)
  then show ?case
    using parseLog_strip [of L c l ds] by (simp add: case_prod_unfold Let_def)
qed simp

text \<open>Decoding cannot fail and changes nothing but the decoded arguments: whatever the ABI,
  the files and the library do, \<open>parseLog\<close> and \<open>parseTransaction\<close> return the log or
  transaction they were given, with at most the arguments of it and of its logs filled in.\<close>

theorem decoding_only_adds_args:
  "strip_log (fst (parseLog L c log ds)) = strip_log log \<and>
   strip_tx (fst (parseTransaction E L c tx ds)) = strip_tx tx"
proof -
  have "strip_tx (fst (parseTransaction E L c tx ds)) = strip_tx tx"
    using parseLogs_strip [of L]
    by (auto simp: parseTransaction_def strip_tx_def case_prod_unfold Let_def
        split: js.splits sum.splits prod.splits)
  then show ?thesis by (simp add: parseLog_strip)
qed

end
