(* ===== verification/Transition.thy ===== *)
theory Transition
  imports Main
begin

text \<open>
  The interface between a step relation and its invariants. A component with state gives its
  steps as a relation; an invariant is a predicate every step keeps, and holds in every state
  reached from one where it holds. A frame is a quantity no step lowers.
\<close>

locale step_invariant =
  fixes step :: "'s \<Rightarrow> 's \<Rightarrow> bool"
    and I :: "'s \<Rightarrow> bool"
  assumes keep: "I s \<Longrightarrow> step s t \<Longrightarrow> I t"
begin

lemma reach: "step\<^sup>*\<^sup>* s t \<Longrightarrow> I s \<Longrightarrow> I t"
  by (induction rule: rtranclp_induct) (auto intro: keep)

end

text \<open>A relation between a state and its successors that is reflexive, transitive and kept by
  steps under the invariant, such as "what was settled stays settled".\<close>

locale step_monotone = step_invariant +
  fixes le :: "'s \<Rightarrow> 's \<Rightarrow> bool"
  assumes le_refl: "le s s"
    and le_trans: "le s t \<Longrightarrow> le t u \<Longrightarrow> le s u"
    and step_le: "I s \<Longrightarrow> step s t \<Longrightarrow> le s t"
begin

lemma reach_le: "step\<^sup>*\<^sup>* s t \<Longrightarrow> I s \<Longrightarrow> le s t"
proof (induction rule: rtranclp_induct)
  case base
  show ?case by (rule le_refl)
next
  case (step t u)
  have "I t" using reach [OF step.hyps(1) step.prems] .
  then show ?case using step.IH [OF step.prems] step_le [OF _ step.hyps(2)] le_trans by blast
qed

end

end
