(* ===== verification/Batch_Provider.thy ===== *)
theory Batch_Provider
  imports Complex_Main "HOL-Library.Multiset" Eth_Types Transition
begin

text \<open>
  \<open>packages/node/src/ethereum/ethers/json-rpc-batch-provider.ts\<close>: requests are collected into a
  batch that is sent when it grows past the batch size or when a one-millisecond timer fires;
  the answer settles the promise of every request of the batch; and the batch size follows the
  share of batches that succeed. The promises are a map from request ids to outcomes, in which a
  second settlement has no effect, as for a promise of the language; the batches that were sent
  and not answered yet are kept in a list. The HTTP exchange (\<open>fetchJson\<close>) is the environment:
  a step of the relation \<open>bstep\<close> answers any batch in flight with any response.
\<close>

section \<open>State\<close>

record Request =
  rq_method :: string
  params :: "string list"
  rid :: nat

datatype outcome = Resolved "string option" | Rejected js_error

record RpcError =
  rpc_code :: int
  rpc_message :: string

text \<open>One element of a response; an \<open>id\<close> of \<open>None\<close> is \<open>null\<close>.\<close>

record RpcResult =
  res_id :: "nat option"
  res_result :: "string option"
  res_error :: "RpcError option"

text \<open>What \<open>fetchJson\<close> yields: a value that is not an array (its text and the message of its
  \<open>error\<close>), an array, or a rejection.\<close>

datatype Response = NotArray string "string option" | Results "RpcResult list" | FetchFailed js_error

record BatchProvider =
  bp_batchSize :: int
  successfulBatchCount :: nat
  failedBatchCount :: nat
  aggregator :: bool
  pendingBatch :: "Request list option"
  nextId :: nat
  chainIdCache :: "string option"
  inflight :: "Request list list"
  promises :: "nat \<rightharpoonup> outcome"

definition batchSizeAdjustmentInterval :: nat where
  "batchSizeAdjustmentInterval = 10"

text \<open>A new provider; the first id is the base class's.\<close>

definition newBatchProvider :: "nat \<Rightarrow> BatchProvider" where
  "newBatchProvider firstId =
     \<lparr>bp_batchSize = 1, successfulBatchCount = 0, failedBatchCount = 0, aggregator = False,
      pendingBatch = None, nextId = firstId, chainIdCache = None, inflight = [],
      promises = Map.empty\<rparr>"

definition setBatchSize :: "int \<Rightarrow> BatchProvider \<Rightarrow> BatchProvider" where
  "setBatchSize n p = p\<lparr>bp_batchSize := n\<rparr>"

section \<open>Sending\<close>

definition runRequests :: "BatchProvider \<Rightarrow> BatchProvider" where
  "runRequests p =
     (let batch = (case pendingBatch p of Some b \<Rightarrow> b | None \<Rightarrow> [])
      in p\<lparr>pendingBatch := None, aggregator := False, inflight := inflight p @ [batch]\<rparr>)"

definition flush :: "BatchProvider \<Rightarrow> BatchProvider" where
  "flush p = (if aggregator p then runRequests p else p)"

datatype sendResult = Immediate string | Queued nat

definition send :: "string \<Rightarrow> string list \<Rightarrow> BatchProvider \<Rightarrow> sendResult \<times> BatchProvider" where
  "send meth ps p =
     (case (meth = ''eth_chainId'', chainIdCache p) of
        (True, Some c) \<Rightarrow> (Immediate c, p)
      | _ \<Rightarrow>
          (let request = \<lparr>rq_method = meth, params = ps, rid = nextId p\<rparr>;
               batch = (case pendingBatch p of Some b \<Rightarrow> b | None \<Rightarrow> []) @ [request];
               p1 = p\<lparr>nextId := Suc (nextId p), pendingBatch := Some batch, aggregator := True\<rparr>
           in (Queued (nextId p),
               if bp_batchSize p1 < int (length batch) then flush p1 else p1)))"

section \<open>Adjusting the batch size\<close>

text \<open>
  The success rate is a quotient of two small integers; with at most ten of each, comparing the
  rounded quotient with the rounded constant gives what comparing the exact ones does.
\<close>

definition adjustBatchSize :: "bool \<Rightarrow> BatchProvider \<Rightarrow> BatchProvider" where
  "adjustBatchSize success p =
     (let p1 = (if success then p\<lparr>successfulBatchCount := Suc (successfulBatchCount p)\<rparr>
                else p\<lparr>failedBatchCount := Suc (failedBatchCount p)\<rparr>);
          totalBatches = successfulBatchCount p1 + failedBatchCount p1
      in if totalBatches mod batchSizeAdjustmentInterval = 0 then
           (let successRate = of_nat (successfulBatchCount p1) / (of_nat totalBatches :: rat);
                p2 = (if successRate < 9 / 10 \<and> bp_batchSize p1 > 1
                        then p1\<lparr>bp_batchSize := bp_batchSize p1 - 1\<rparr>
                      else if successRate > 95 / 100 \<and> bp_batchSize p1 < 10
                        then p1\<lparr>bp_batchSize := bp_batchSize p1 + 1\<rparr>
                      else p1)
            in p2\<lparr>successfulBatchCount := 0, failedBatchCount := 0\<rparr>)
         else p1)"

section \<open>Answering\<close>

text \<open>\<open>resolve\<close> and \<open>reject\<close>: only the first call for a promise counts.\<close>

definition settle :: "nat \<Rightarrow> outcome \<Rightarrow> BatchProvider \<Rightarrow> BatchProvider" where
  "settle i r p = (case promises p i of None \<Rightarrow> p\<lparr>promises := (promises p)(i \<mapsto> r)\<rparr> | Some _ \<Rightarrow> p)"

definition rejectAll :: "Request list \<Rightarrow> js_error \<Rightarrow> BatchProvider \<Rightarrow> BatchProvider" where
  "rejectAll batch e p = foldl (\<lambda>p r. settle (rid r) (Rejected e) p) p batch"

text \<open>\<open>resultMap[payload.id] = payload\<close> for each payload: the last one of an id wins.\<close>

definition resultMap :: "RpcResult list \<Rightarrow> nat \<rightharpoonup> RpcResult" where
  "resultMap rs = foldl (\<lambda>m r. case res_id r of Some i \<Rightarrow> m(i \<mapsto> r) | None \<Rightarrow> m) Map.empty rs"

definition sizeError :: "string \<Rightarrow> bool" where
  "sizeError msg \<longleftrightarrow> msg = ''Batch size limit exceeded'' \<or> msg = ''exceeded project rate limit'' \<or>
     includes_str msg ''Failed to buffer the request body'' \<or>
     includes_str msg ''Too Many Requests'' \<or> includes_str msg ''Request Entity Too Large''"

definition handlePayload :: "(nat \<rightharpoonup> RpcResult) \<Rightarrow> BatchProvider \<Rightarrow> Request \<Rightarrow> BatchProvider" where
  "handlePayload m p request =
     (case m (rid request) of
        None \<Rightarrow> settle (rid request) (Rejected (Error (''Missing payload in response for request ''
            @ show_nat (rid request)))) p
      | Some payload \<Rightarrow>
          (case res_error payload of
             Some err \<Rightarrow>
               (let e = (Error (rpc_message err))\<lparr>code := Some (CodeNum (rpc_code err))\<rparr>;
                    p1 = (if sizeError (rpc_message err) then adjustBatchSize False p else p)
                in settle (rid request) (Rejected e) p1)
           | None \<Rightarrow>
               (let p1 = (if rq_method request = ''eth_chainId''
                          then p\<lparr>chainIdCache := res_result payload\<rparr> else p)
                in settle (rid request) (Resolved (res_result payload)) p1)))"

text \<open>The code that runs when the answer to a batch arrives.\<close>

definition respond :: "Request list \<Rightarrow> Response \<Rightarrow> BatchProvider \<Rightarrow> BatchProvider" where
  "respond batch response p =
     (case response of
        NotArray txt err \<Rightarrow>
          (let p1 = rejectAll batch (Error (''Invalid response \<newline>'' @ txt)) p
           in if err = Some ''Batch size is too large'' then adjustBatchSize False p1 else p1)
      | Results rs \<Rightarrow>
          (case rs of
             [r] \<Rightarrow>
               (if res_id r = None then
                  adjustBatchSize False (rejectAll batch
                    (Error (case res_error r of Some e \<Rightarrow> rpc_message e | None \<Rightarrow> [])) p)
                else adjustBatchSize True (foldl (handlePayload (resultMap rs)) p batch))
           | _ \<Rightarrow> adjustBatchSize True (foldl (handlePayload (resultMap rs)) p batch))
      | FetchFailed e \<Rightarrow> rejectAll batch e p)"

text \<open>The answer to the batch at position \<open>i\<close> of those in flight.\<close>

definition answer :: "nat \<Rightarrow> Response \<Rightarrow> BatchProvider \<Rightarrow> BatchProvider" where
  "answer i response p =
     respond (inflight p ! i) response
       (p\<lparr>inflight := take i (inflight p) @ drop (Suc i) (inflight p)\<rparr>)"

section \<open>Steps\<close>

inductive bstep :: "BatchProvider \<Rightarrow> BatchProvider \<Rightarrow> bool" where
  call: "bstep p (snd (send meth ps p))"
| timer: "aggregator p \<Longrightarrow> bstep p (runRequests p)"
| reply: "i < length (inflight p) \<Longrightarrow> bstep p (answer i response p)"

inductive_cases bstepE: "bstep p q"

section \<open>What settling and adjusting touch\<close>

lemma settle_fields [simp]:
  "bp_batchSize (settle i r p) = bp_batchSize p" "nextId (settle i r p) = nextId p"
  "successfulBatchCount (settle i r p) = successfulBatchCount p"
  "failedBatchCount (settle i r p) = failedBatchCount p"
  "aggregator (settle i r p) = aggregator p" "pendingBatch (settle i r p) = pendingBatch p"
  "inflight (settle i r p) = inflight p" "chainIdCache (settle i r p) = chainIdCache p"
  by (simp_all add: settle_def split: option.split)

lemma settle_promises:
  "promises (settle i r p) = (case promises p i of None \<Rightarrow> (promises p)(i \<mapsto> r) | Some _ \<Rightarrow> promises p)"
  by (simp add: settle_def split: option.split)

lemma adjust_fields [simp]:
  "nextId (adjustBatchSize b p) = nextId p" "aggregator (adjustBatchSize b p) = aggregator p"
  "pendingBatch (adjustBatchSize b p) = pendingBatch p" "inflight (adjustBatchSize b p) = inflight p"
  "promises (adjustBatchSize b p) = promises p"
  by (auto simp: adjustBatchSize_def Let_def)

text \<open>What every answer leaves alone, and the new outcomes it adds: \<open>answered\<close> relates the state
  before the answer to a batch and a state after some of it.\<close>

definition counters_ok :: "int \<Rightarrow> BatchProvider \<Rightarrow> bool" where
  "counters_ok B p \<longleftrightarrow> successfulBatchCount p + failedBatchCount p < batchSizeAdjustmentInterval \<and>
     1 \<le> bp_batchSize p \<and> bp_batchSize p \<le> max 10 B"

definition answered :: "nat set \<Rightarrow> BatchProvider \<Rightarrow> BatchProvider \<Rightarrow> bool" where
  "answered A p q \<longleftrightarrow>
     nextId q = nextId p \<and> aggregator q = aggregator p \<and> pendingBatch q = pendingBatch p \<and>
     inflight q = inflight p \<and> promises p \<subseteq>\<^sub>m promises q \<and> dom (promises q) = dom (promises p) \<union> A \<and>
     (\<forall>B. counters_ok B p \<longrightarrow> counters_ok B q)"

lemma answered_refl: "answered {} p p"
  by (simp add: answered_def)

lemma answered_trans: "answered A p q \<Longrightarrow> answered B q r \<Longrightarrow> answered (A \<union> B) p r"
  by (auto simp: answered_def intro: map_le_trans)

lemma answered_settle: "answered {i} p (settle i r p)"
  by (auto simp: answered_def settle_promises counters_ok_def map_le_def split: option.split)

lemma adjust_counters: "counters_ok B p \<Longrightarrow> counters_ok B (adjustBatchSize b p)"
proof (cases "Suc (successfulBatchCount p + failedBatchCount p) = 10")
  case True
  assume "counters_ok B p"
  with True show ?thesis
    by (cases b) (auto simp: adjustBatchSize_def counters_ok_def batchSizeAdjustmentInterval_def Let_def)
next
  case False
  assume ok: "counters_ok B p"
  with False have "Suc (successfulBatchCount p + failedBatchCount p) mod 10 \<noteq> 0"
    by (simp add: counters_ok_def batchSizeAdjustmentInterval_def)
  with ok False show ?thesis
    by (cases b) (simp_all add: adjustBatchSize_def counters_ok_def batchSizeAdjustmentInterval_def Let_def)
qed

lemma answered_adjust: "answered {} p (adjustBatchSize b p)"
  by (simp add: answered_def adjust_counters)

lemma answered_chainId: "answered {} p (p\<lparr>chainIdCache := c\<rparr>)"
  by (simp add: answered_def counters_ok_def)

lemma answered_foldl:
  assumes "\<And>p r. answered {rid r} p (f p r)"
  shows "answered (rid ` set batch) p (foldl f p batch)"
proof (induction batch arbitrary: p)
  case Nil
  show ?case by (simp add: answered_refl)
next
  case (Cons r batch)
  show ?case using answered_trans [OF assms [of r p] Cons.IH] by simp
qed

lemma answered_handlePayload: "answered {rid r} p (handlePayload m p r)"
  using answered_trans [OF answered_adjust answered_settle]
    answered_trans [OF answered_chainId answered_settle]
  by (auto simp: handlePayload_def Let_def intro: answered_settle split: option.splits)

lemma answered_rejectAll: "answered (rid ` set batch) p (rejectAll batch e p)"
  unfolding rejectAll_def by (rule answered_foldl) (rule answered_settle)

text \<open>Whatever the answer is, it settles the requests of its batch and no others.\<close>

lemma answered_respond: "answered (rid ` set batch) p (respond batch response p)"
proof (cases response)
  case (NotArray s err)
  then show ?thesis
    using answered_trans [OF answered_rejectAll answered_adjust, of batch p]
    by (simp add: respond_def answered_rejectAll Let_def)
next
  case (Results rs)
  have "answered (rid ` set batch) p (foldl (handlePayload (resultMap rs)) p batch)"
    by (rule answered_foldl) (rule answered_handlePayload)
  then show ?thesis
    using answered_trans [OF answered_rejectAll answered_adjust, of batch p] answered_trans [OF _ answered_adjust]
    by (fastforce simp: Results respond_def split: list.splits)
next
  case (FetchFailed e)
  then show ?thesis by (simp add: respond_def answered_rejectAll)
qed

section \<open>The invariant\<close>

definition pendingIds :: "BatchProvider \<Rightarrow> nat list" where
  "pendingIds p = map rid (case pendingBatch p of Some b \<Rightarrow> b | None \<Rightarrow> [])"

definition inflightIds :: "BatchProvider \<Rightarrow> nat list" where
  "inflightIds p = map rid (concat (inflight p))"

text \<open>Every request made so far is in exactly one place: in the batch that is being collected, in
  one batch in flight, or settled. A timer is set exactly when a batch is being collected; no
  batch is empty, and none outgrows the largest batch size by more than one.\<close>

definition bp_inv :: "nat \<Rightarrow> int \<Rightarrow> BatchProvider \<Rightarrow> bool" where
  "bp_inv f B p \<longleftrightarrow>
     f \<le> nextId p \<and>
     distinct (pendingIds p @ inflightIds p) \<and>
     set (pendingIds p) \<union> set (inflightIds p) \<union> dom (promises p) = {f ..< nextId p} \<and>
     (set (pendingIds p) \<union> set (inflightIds p)) \<inter> dom (promises p) = {} \<and>
     (aggregator p \<longleftrightarrow> pendingBatch p \<noteq> None) \<and>
     pendingBatch p \<noteq> Some [] \<and> [] \<notin> set (inflight p) \<and>
     int (length (pendingIds p)) \<le> max 10 B \<and>
     (\<forall>b \<in> set (inflight p). int (length b) \<le> max 10 B + 1) \<and>
     counters_ok B p"

definition bp_start :: "nat \<Rightarrow> int \<Rightarrow> BatchProvider \<Rightarrow> bool" where
  "bp_start f B p \<longleftrightarrow> 1 \<le> B \<and> p = setBatchSize B (newBatchProvider f)"

lemma bp_inv_start: "1 \<le> B \<Longrightarrow> bp_inv f B (setBatchSize B (newBatchProvider f))"
  by (simp add: bp_inv_def setBatchSize_def newBatchProvider_def pendingIds_def inflightIds_def
      counters_ok_def batchSizeAdjustmentInterval_def)

lemma counters_ok_irrelevant [simp]:
  "counters_ok B (p\<lparr>nextId := n\<rparr>) = counters_ok B p" "counters_ok B (p\<lparr>pendingBatch := b\<rparr>) = counters_ok B p"
  "counters_ok B (p\<lparr>aggregator := a\<rparr>) = counters_ok B p" "counters_ok B (p\<lparr>inflight := i\<rparr>) = counters_ok B p"
  by (simp_all add: counters_ok_def)

lemma bp_inv_runRequests:
  assumes "pendingBatch p = Some b" and "int (length b) \<le> max 10 B + 1"
    and "f \<le> nextId p" "distinct (pendingIds p @ inflightIds p)"
      "set (pendingIds p) \<union> set (inflightIds p) \<union> dom (promises p) = {f ..< nextId p}"
      "(set (pendingIds p) \<union> set (inflightIds p)) \<inter> dom (promises p) = {}"
      "b \<noteq> []" "[] \<notin> set (inflight p)"
      "\<forall>b \<in> set (inflight p). int (length b) \<le> max 10 B + 1" "counters_ok B p"
  shows "bp_inv f B (runRequests p)"
proof -
  have ids: "pendingIds (runRequests p) = []" "inflightIds (runRequests p) = inflightIds p @ pendingIds p"
    by (simp_all add: runRequests_def pendingIds_def inflightIds_def assms(1))
  have rest: "nextId (runRequests p) = nextId p" "promises (runRequests p) = promises p"
      "inflight (runRequests p) = inflight p @ [b]" "pendingBatch (runRequests p) = None"
      "aggregator (runRequests p) = False" "counters_ok B (runRequests p)"
    using assms by (simp_all add: runRequests_def)
  show ?thesis
    using assms rest(6) unfolding bp_inv_def ids rest(1-5) by auto
qed

lemma bp_inv_timer:
  assumes "bp_inv f B p" and "aggregator p"
  shows "bp_inv f B (runRequests p)"
proof -
  obtain b where b: "pendingBatch p = Some b" using assms by (auto simp: bp_inv_def)
  then have "length b = length (pendingIds p)" by (simp add: pendingIds_def)
  with assms b show ?thesis
    unfolding bp_inv_def [of f B p] by (intro bp_inv_runRequests [of p b]) auto
qed

lemma bp_inv_send: 
  assumes "bp_inv f B p" 
  shows "bp_inv f B (snd (send meth ps p))"
proof (cases "meth = ''eth_chainId'' \<and> chainIdCache p \<noteq> None")
  case True
  with assms show ?thesis by (auto simp: send_def)
next
  case False
  define b where "b = (case pendingBatch p of Some b \<Rightarrow> b | None \<Rightarrow> []) @ [\<lparr>rq_method = meth, params = ps, rid = nextId p\<rparr>]"
  define p1 where "p1 = p\<lparr>nextId := Suc (nextId p), pendingBatch := Some b, aggregator := True\<rparr>"
  have send: "snd (send meth ps p) = (if bp_batchSize p1 < int (length b) then runRequests p1 else p1)"
    using False by (auto simp: send_def Let_def b_def p1_def flush_def split: option.splits bool.splits)
  have ids: "pendingIds p1 = pendingIds p @ [nextId p]" "inflightIds p1 = inflightIds p"
      "length b = Suc (length (pendingIds p))"
    by (auto simp: p1_def pendingIds_def inflightIds_def b_def split: option.split)
  have flds: "promises p1 = promises p" "nextId p1 = Suc (nextId p)"
    by (simp_all add: p1_def)
  have old: "int (length (pendingIds p)) \<le> max 10 B" "bp_batchSize p \<le> max 10 B"
    using assms by (auto simp: bp_inv_def counters_ok_def)
  have fresh: "nextId p \<notin> set (pendingIds p) \<union> set (inflightIds p) \<union> dom (promises p)"
    using assms by (auto simp: bp_inv_def)
  have set1: "set (pendingIds p1) \<union> set (inflightIds p1) \<union> dom (promises p1) = {f ..< nextId p1}"
    using assms by (auto simp: bp_inv_def ids flds)
  have new: "distinct (pendingIds p1 @ inflightIds p1)"
      "(set (pendingIds p1) \<union> set (inflightIds p1)) \<inter> dom (promises p1) = {}"
    using assms fresh by (auto simp: bp_inv_def ids flds)
  have rest: "aggregator p1" "pendingBatch p1 = Some b" "b \<noteq> []" "[] \<notin> set (inflight p1)" "f \<le> nextId p1"
      "\<forall>b \<in> set (inflight p1). int (length b) \<le> max 10 B + 1" "counters_ok B p1"
    using assms by (auto simp: p1_def b_def bp_inv_def)
  show ?thesis
  proof (cases "bp_batchSize p1 < int (length b)")
    case True
    have "bp_inv f B (runRequests p1)"
      using rest set1 new old ids(3) by (intro bp_inv_runRequests [of p1 b]) auto
    with True send show ?thesis by simp
  next
    case False
    have "length b = length (pendingIds p1)" "bp_batchSize p1 = bp_batchSize p"
      using ids by (simp_all add: p1_def)
    with False old(2) have "int (length (pendingIds p1)) \<le> max 10 B" by linarith
    then have "bp_inv f B p1"
      using rest set1 new by (simp add: bp_inv_def)
    with False send show ?thesis by simp
  qed
qed

lemma bp_inv_answer:
  assumes "bp_inv f B p" and "i < length (inflight p)"
  shows "bp_inv f B (answer i response p)"
proof -
  define batch where "batch = inflight p ! i"
  define rest where "rest = take i (inflight p) @ drop (Suc i) (inflight p)"
  define q where "q = answer i response p"
  have ans: "answered (rid ` set batch) (p\<lparr>inflight := rest\<rparr>) q"
    using answered_respond by (simp add: q_def answer_def batch_def rest_def)
  have split: "inflight p = take i (inflight p) @ batch # drop (Suc i) (inflight p)"
    using assms(2) by (simp add: batch_def id_take_nth_drop)
  have ids: "mset (inflightIds p) = mset (map rid batch) + mset (inflightIds q)"
    using ans by (subst (2) inflightIds_def, subst (1) inflightIds_def, subst split) (simp add: answered_def rest_def)
  have perm: "distinct (inflightIds p) \<longleftrightarrow> distinct (map rid batch @ inflightIds q)"
      "set (inflightIds p) = set (map rid batch) \<union> set (inflightIds q)"
    using ids mset_eq_imp_distinct_iff [of "inflightIds p" "map rid batch @ inflightIds q"]
      mset_eq_setD [of "inflightIds p" "map rid batch @ inflightIds q"] by auto
  have same: "pendingIds q = pendingIds p" "nextId q = nextId p" "aggregator q = aggregator p"
      "pendingBatch q = pendingBatch p" "dom (promises q) = dom (promises p) \<union> rid ` set batch"
      "counters_ok B p \<Longrightarrow> counters_ok B q" "set (inflight q) \<subseteq> set (inflight p)"
    using ans by (auto simp: answered_def pendingIds_def rest_def dest: in_set_takeD in_set_dropD)
  show ?thesis
    using assms(1) perm same unfolding q_def [symmetric] bp_inv_def by (auto)
qed

interpretation bp: step_monotone bstep "bp_inv f B" "\<lambda>p q. promises p \<subseteq>\<^sub>m promises q"
  for f B
proof unfold_locales
  fix p q assume "bp_inv f B p" "bstep p q"
  then show "bp_inv f B q"
    by (auto elim!: bstepE intro: bp_inv_send bp_inv_timer bp_inv_answer)
next
  fix p q :: BatchProvider assume "bp_inv f B p" "bstep p q"
  from this(2) show "promises p \<subseteq>\<^sub>m promises q"
  proof (cases rule: bstep.cases)
    case (call meth ps)
    then show ?thesis
      by (auto simp: send_def flush_def runRequests_def Let_def split: option.splits bool.splits)
  next
    case timer
    then show ?thesis by (simp add: runRequests_def)
  next
    case (reply i response)
    then show ?thesis
      using answered_respond [of "inflight p ! i" "p\<lparr>inflight := take i (inflight p) @ drop (Suc i) (inflight p)\<rparr>" response]
      by (simp add: answer_def answered_def)
  qed
qed (auto intro: map_le_trans)

section \<open>Properties\<close>

text \<open>C4. In every state a provider can reach, by any interleaving of calls, timers and answers,
  each request it gave an id to is in exactly one of three places (the batch being collected, one
  batch in flight, settled), no batch is empty or larger than the largest batch size plus one, and
  the batch size stays between 1 and the larger of 10 and its first value.\<close>

theorem requests_in_one_place:
  assumes "bp_start f B s" and "bstep\<^sup>*\<^sup>* s p"
  shows "bp_inv f B p"
  using assms bp_inv_start by (auto simp: bp_start_def intro: bp.reach)


subsection \<open>Answers\<close>

text \<open>What a request gets from the array of an answer.\<close>

definition outcomeOf :: "(nat \<rightharpoonup> RpcResult) \<Rightarrow> nat \<Rightarrow> outcome" where
  "outcomeOf m i =
     (case m i of
        None \<Rightarrow> Rejected (Error (''Missing payload in response for request '' @ show_nat i))
      | Some payload \<Rightarrow>
          (case res_error payload of
             Some err \<Rightarrow> Rejected ((Error (rpc_message err))\<lparr>code := Some (CodeNum (rpc_code err))\<rparr>)
           | None \<Rightarrow> Resolved (res_result payload)))"

lemma handlePayload_promises:
  "promises (handlePayload m p r) = promises (settle (rid r) (outcomeOf m (rid r)) p)"
  by (cases "promises p (rid r)"; cases "m (rid r)")
    (auto simp: handlePayload_def outcomeOf_def settle_promises Let_def split: option.splits)

definition overrideWith :: "('a \<rightharpoonup> 'b) \<Rightarrow> 'a set \<Rightarrow> ('a \<Rightarrow> 'b) \<Rightarrow> 'a \<rightharpoonup> 'b" where
  "overrideWith m A g = (\<lambda>i. if m i = None \<and> i \<in> A then Some (g i) else m i)"

lemma handlePayload_foldl:
  "promises (foldl (handlePayload m) p batch) = overrideWith (promises p) (rid ` set batch) (outcomeOf m)"
proof (induction batch arbitrary: p)
  case Nil
  then show ?case by (simp add: overrideWith_def)
next
  case (Cons r batch)
  show ?case
    by (auto simp: Cons.IH handlePayload_promises settle_promises overrideWith_def fun_eq_iff
        split: option.split)
qed

text \<open>The payload the map finds for an id is one of the array, with that id.\<close>

lemma resultMap_Some: "resultMap rs i = Some r \<Longrightarrow> r \<in> set rs \<and> res_id r = Some i"
proof (induction rs rule: rev_induct)
  case Nil
  then show ?case by (simp add: resultMap_def)
next
  case (snoc x rs)
  then show ?case by (auto simp: resultMap_def split: option.splits if_splits)
qed

lemma resultMap_None: "resultMap rs i = None \<longleftrightarrow> Some i \<notin> res_id ` set rs"
proof (induction rs rule: rev_induct)
  case Nil
  then show ?case by (simp add: resultMap_def)
next
  case (snoc x rs)
  have "resultMap (rs @ [x]) i = None \<longleftrightarrow> resultMap rs i = None \<and> res_id x \<noteq> Some i"
    by (auto simp: resultMap_def split: option.split)
  with snoc show ?case by auto
qed

text \<open>\<open>own_outcome rs i r\<close>: the outcome of the request with id \<open>i\<close> comes from a payload of the
  array with that id, and says it is missing only when there is none.\<close>

definition own_outcome :: "RpcResult list \<Rightarrow> nat \<Rightarrow> outcome \<Rightarrow> bool" where
  "own_outcome rs i r \<longleftrightarrow>
     (if \<exists>x \<in> set rs. res_id x = Some i
      then \<exists>x \<in> set rs. res_id x = Some i \<and>
        r = (case res_error x of
               Some err \<Rightarrow> Rejected ((Error (rpc_message err))\<lparr>code := Some (CodeNum (rpc_code err))\<rparr>)
             | None \<Rightarrow> Resolved (res_result x))
      else r = Rejected (Error (''Missing payload in response for request '' @ show_nat i)))"

lemma own_outcomeOf: "own_outcome rs i (outcomeOf (resultMap rs) i)"
proof (cases "resultMap rs i")
  case None
  then show ?thesis using resultMap_None [of rs i]
    by (auto simp: own_outcome_def outcomeOf_def image_iff)
next
  case (Some x)
  with resultMap_Some [OF Some] show ?thesis
    by (auto simp: own_outcome_def outcomeOf_def split: option.splits)
qed

text \<open>C7. Answers are not mixed up: when the answer to a batch is an array (other than the single
  element with a null id that signals rate limiting), every request of the batch that was not
  settled gets the outcome of the payload that carries its own id, in whatever order the payloads
  come, or an error that says it is missing.\<close>

theorem respond_matches_ids:
  assumes "r \<in> set batch" and "promises p (rid r) = None" and "\<And>x. rs = [x] \<Longrightarrow> res_id x \<noteq> None"
  shows "\<exists>out. promises (respond batch (Results rs) p) (rid r) = Some out \<and> own_outcome rs (rid r) out"
proof -
  have "promises (respond batch (Results rs) p) = promises (foldl (handlePayload (resultMap rs)) p batch)"
    using assms(3) by (auto simp: respond_def split: list.splits)
  then have "promises (respond batch (Results rs) p) (rid r) = Some (outcomeOf (resultMap rs) (rid r))"
    using assms(1,2) by (auto simp: handlePayload_foldl overrideWith_def)
  then show ?thesis using own_outcomeOf by blast
qed

subsection \<open>Every request is answered\<close>

text \<open>Answers for all the batches in flight, the oldest first.\<close>

definition drain :: "Response list \<Rightarrow> BatchProvider \<Rightarrow> BatchProvider" where
  "drain responses p = foldl (\<lambda>p r. answer 0 r p) p responses"

lemma drain_settles:
  assumes "bp_inv f B p" and "length responses = length (inflight p)" and "pendingBatch p = None"
  shows "inflight (drain responses p) = [] \<and> dom (promises (drain responses p)) = {f ..< nextId p}"
  using assms
proof (induction responses arbitrary: p)
  case Nil
  then show ?case by (auto simp: drain_def bp_inv_def pendingIds_def inflightIds_def)
next
  case (Cons r responses)
  then obtain b bs where inflight: "inflight p = b # bs" by (cases "inflight p") auto
  have ans: "answered (rid ` set b) (p\<lparr>inflight := bs\<rparr>) (answer 0 r p)"
    using answered_respond by (simp add: answer_def inflight)
  have "bp_inv f B (answer 0 r p)"
    using Cons.prems inflight by (intro bp_inv_answer) simp_all
  then show ?case
    using Cons.IH [of "answer 0 r p"] Cons.prems ans inflight by (simp add: drain_def answered_def)
qed

text \<open>C6. No request is lost: from every reachable state, once the timer has fired and every batch
  in flight has been answered, with any responses at all (not an array, too few payloads, payloads
  of other requests, a failed fetch), every request that was ever made is settled.\<close>

theorem all_requests_settle:
  assumes "bp_start f B s" and "bstep\<^sup>*\<^sup>* s p"
    and "length responses = length (inflight (flush p))"
  shows "dom (promises (drain responses (flush p))) = {f ..< nextId p}"
proof -
  have inv: "bp_inv f B p"
    using assms(1,2) bp_inv_start by (auto simp: bp_start_def intro: bp.reach)
  then have "bp_inv f B (flush p)" "pendingBatch (flush p) = None" "nextId (flush p) = nextId p"
    using bp_inv_timer [OF inv] by (auto simp: flush_def runRequests_def bp_inv_def)
  with drain_settles [OF _ assms(3)] show ?thesis by auto
qed

subsection \<open>Adjusting\<close>

lemma adjust_count:
  assumes "successfulBatchCount p + failedBatchCount p + 1 < batchSizeAdjustmentInterval"
  shows "adjustBatchSize b p =
    (if b then p\<lparr>successfulBatchCount := Suc (successfulBatchCount p)\<rparr>
     else p\<lparr>failedBatchCount := Suc (failedBatchCount p)\<rparr>)"
  using assms by (simp add: adjustBatchSize_def batchSizeAdjustmentInterval_def Let_def)

lemma adjust_nine:
  assumes "successfulBatchCount p + failedBatchCount p + length outs < batchSizeAdjustmentInterval"
  shows "foldl (\<lambda>p b. adjustBatchSize b p) p outs =
    p\<lparr>successfulBatchCount := successfulBatchCount p + count_list outs True,
      failedBatchCount := failedBatchCount p + count_list outs False\<rparr>"
  using assms
proof (induction outs arbitrary: p)
  case Nil
  then show ?case by simp
next
  case (Cons b outs)
  from Cons.prems have "adjustBatchSize b p =
    (if b then p\<lparr>successfulBatchCount := Suc (successfulBatchCount p)\<rparr>
     else p\<lparr>failedBatchCount := Suc (failedBatchCount p)\<rparr>)"
    by (intro adjust_count) simp
  with Cons show ?case by (cases b) simp_all
qed

lemma count_bools: "count_list outs True + count_list outs False = length outs"
  by (induction outs) auto

text \<open>The rule of adjustment: after ten outcomes counted from zero the batch size has grown by
  one if all ten were successes and it was below ten, has shrunk by one if fewer than nine were
  successes and it was above one, is unchanged otherwise, and the counters are zero again.\<close>

theorem ten_outcomes:
  assumes "successfulBatchCount p = 0" and "failedBatchCount p = 0" and "length outs = 10"
  shows "foldl (\<lambda>p b. adjustBatchSize b p) p outs =
    p\<lparr>bp_batchSize :=
        (if count_list outs True < 9 \<and> bp_batchSize p > 1 then bp_batchSize p - 1
         else if count_list outs True = 10 \<and> bp_batchSize p < 10 then bp_batchSize p + 1
         else bp_batchSize p)\<rparr>"
proof -
  obtain os b where outs: "outs = os @ [b]" using assms(3) by (cases outs rule: rev_cases) auto
  define q where "q = p\<lparr>successfulBatchCount := count_list os True, failedBatchCount := count_list os False\<rparr>"
  have nine: "foldl (\<lambda>p b. adjustBatchSize b p) p os = q"
    using adjust_nine [of p os] assms outs by (simp add: q_def batchSizeAdjustmentInterval_def)
  have sum: "count_list os True + count_list os False = 9"
    using count_bools [of os] assms(3) outs by simp
  define n where "n = count_list outs True"
  have n: "n = count_list os True + (if b then 1 else 0)" by (simp add: n_def outs)
  have rate: "(of_nat n :: rat) / 10 < 9 / 10 \<longleftrightarrow> n < 9" "(of_nat n :: rat) / 10 > 95 / 100 \<longleftrightarrow> n = 10"
    using n sum by (auto simp: field_simps)
  have "adjustBatchSize b q = p\<lparr>bp_batchSize :=
        (if n < 9 \<and> bp_batchSize p > 1 then bp_batchSize p - 1
         else if n = 10 \<and> bp_batchSize p < 10 then bp_batchSize p + 1 else bp_batchSize p)\<rparr>"
    using n sum rate assms(1,2)
    by (cases b) (auto simp: adjustBatchSize_def q_def batchSizeAdjustmentInterval_def Let_def)
  with nine show ?thesis by (simp add: outs n_def)
qed

subsection \<open>The size of a batch\<close>

definition sends :: "(string \<times> string list) list \<Rightarrow> BatchProvider \<Rightarrow> BatchProvider" where
  "sends calls p = foldl (\<lambda>p (meth, ps). snd (send meth ps p)) p calls"

lemma sends_collect:
  assumes "chainIdCache p = None" and "int (length (pendingIds p) + length calls) \<le> bp_batchSize p"
  shows "inflight (sends calls p) = inflight p \<and> chainIdCache (sends calls p) = None \<and>
    bp_batchSize (sends calls p) = bp_batchSize p \<and>
    length (pendingIds (sends calls p)) = length (pendingIds p) + length calls"
  using assms
proof (induction calls arbitrary: p)
  case Nil
  then show ?case by (simp add: sends_def)
next
  case (Cons c calls)
  obtain meth ps where c: "c = (meth, ps)" by (cases c)
  define q where "q = snd (send meth ps p)"
  have "inflight q = inflight p \<and> chainIdCache q = None \<and> bp_batchSize q = bp_batchSize p \<and>
      length (pendingIds q) = Suc (length (pendingIds p))"
    using Cons.prems by (auto simp: q_def send_def Let_def pendingIds_def split: option.splits bool.splits)
  with Cons.IH [of q] Cons.prems show ?case by (simp add: sends_def c q_def)
qed

text \<open>The comparison that sends a batch is off by one: with batch size \<open>n\<close>, \<open>n\<close> calls made
  together leave nothing in flight, and \<open>n + 1\<close> calls put one batch of \<open>n + 1\<close> requests in flight,
  so with the default batch size of 1 two requests share a batch.\<close>

theorem batch_holds_one_more:
  "inflight (sends (replicate n c) (setBatchSize (int n) (newBatchProvider f))) = [] \<and>
   map length (inflight (sends (replicate (Suc n) c) (setBatchSize (int n) (newBatchProvider f)))) = [Suc n]"
proof -
  define p where "p = setBatchSize (int n) (newBatchProvider f)"
  have p: "inflight p = []" "chainIdCache p = None" "pendingIds p = []" "bp_batchSize p = int n"
    by (simp_all add: p_def setBatchSize_def newBatchProvider_def pendingIds_def)
  define q where "q = sends (replicate n c) p"
  have q: "inflight q = []" "chainIdCache q = None" "bp_batchSize q = int n" "length (pendingIds q) = n"
    using sends_collect [of p "replicate n c"] p by (simp_all add: q_def)
  have "replicate (Suc n) c = replicate n c @ [c]"
    by (simp add: replicate_append_same)
  then have "sends (replicate (Suc n) c) p = snd (send (fst c) (snd c) q)"
    by (simp add: sends_def q_def split_beta del: replicate_Suc)
  moreover have "map length (inflight (snd (send (fst c) (snd c) q))) = [Suc n]"
    using q by (auto simp: send_def Let_def flush_def runRequests_def pendingIds_def
        split: option.splits bool.splits)
  ultimately show ?thesis using q(1) by (simp add: p_def q_def)
qed

subsection \<open>Samples\<close>

definition sample_request :: "nat \<Rightarrow> Request" where
  "sample_request i = \<lparr>rq_method = ''eth_getBlockByNumber'', params = [], rid = i\<rparr>"

text \<open>Two calls, which the second sends, and the answer to both in the other order.\<close>

definition sample_sent :: BatchProvider where
  "sample_sent = (setBatchSize 1 (newBatchProvider 42))
     \<lparr>nextId := 44, inflight := [[sample_request 42, sample_request 43]]\<rparr>"

definition sample_payload :: "nat \<Rightarrow> RpcResult" where
  "sample_payload i = \<lparr>res_id = Some i, res_result = Some (show_nat i), res_error = None\<rparr>"

definition sample_response :: Response where
  "sample_response = Results [sample_payload 43, sample_payload 42]"

lemma sample_start: "bp_start 42 1 (setBatchSize 1 (newBatchProvider 42))"
  by (simp add: bp_start_def)

lemma sample_steps: "bstep\<^sup>*\<^sup>* (setBatchSize 1 (newBatchProvider 42)) sample_sent"
proof -
  let ?s = "setBatchSize 1 (newBatchProvider 42)"
  have "bstep ?s (snd (send ''eth_getBlockByNumber'' [] ?s))" by (rule bstep.call)
  moreover have "bstep (snd (send ''eth_getBlockByNumber'' [] ?s))
      (snd (send ''eth_getBlockByNumber'' [] (snd (send ''eth_getBlockByNumber'' [] ?s))))"
    by (rule bstep.call)
  moreover have "snd (send ''eth_getBlockByNumber'' [] (snd (send ''eth_getBlockByNumber'' [] ?s))) = sample_sent"
    by (simp add: send_def sample_sent_def sample_request_def setBatchSize_def newBatchProvider_def
        flush_def runRequests_def)
  ultimately show ?thesis by (simp add: converse_rtranclp_into_rtranclp r_into_rtranclp)
qed

lemma sample_answer_step: "bstep sample_sent (answer 0 sample_response sample_sent)"
  by (rule bstep.reply) (simp add: sample_sent_def)

lemma sample_answer_promises:
  "promises (answer 0 sample_response sample_sent) =
     [42 \<mapsto> Resolved (Some (show_nat 42)), 43 \<mapsto> Resolved (Some (show_nat 43))]"
  by (auto simp: answer_def sample_sent_def sample_response_def respond_def handlePayload_promises settle_promises
      outcomeOf_def resultMap_def sample_payload_def sample_request_def
      setBatchSize_def newBatchProvider_def fun_eq_iff)

theorem requests_in_one_place_witness:
  "bp_inv 42 1 sample_sent \<and> inflightIds sample_sent = [42, 43]"
  using requests_in_one_place [OF sample_start sample_steps]
  by (simp add: inflightIds_def sample_sent_def sample_request_def)


theorem respond_matches_ids_witness:
  "\<exists>out. promises (respond [sample_request 42, sample_request 43]
      (Results [sample_payload 43, sample_payload 42]) sample_sent) 43 = Some out \<and>
    own_outcome [sample_payload 43, sample_payload 42] 43 out"
  using respond_matches_ids [of "sample_request 43" "[sample_request 42, sample_request 43]" sample_sent
      "[sample_payload 43, sample_payload 42]"]
  by (simp add: sample_request_def sample_sent_def setBatchSize_def newBatchProvider_def)

theorem all_requests_settle_witness:
  "dom (promises (drain [FetchFailed (Error ''reset'')] (flush sample_sent))) = {42 ..< 44}"
  using all_requests_settle [OF sample_start sample_steps, of "[FetchFailed (Error ''reset'')]"]
  by (simp add: sample_sent_def flush_def setBatchSize_def newBatchProvider_def)

theorem ten_outcomes_witness:
  "bp_batchSize (foldl (\<lambda>p b. adjustBatchSize b p) (newBatchProvider 42) (replicate 10 True)) = 2"
  using ten_outcomes [of "newBatchProvider 42" "replicate 10 True"]
  by (simp add: newBatchProvider_def numeral_eq_Suc)

end
