(* ===== verification/Project_Utils.thy ===== *)
theory Project_Utils
  imports Utils_String
begin

text \<open>
  \<open>packages/node/src/utils/project.ts\<close> and the two calls of it in
  \<open>packages/node/src/configure/SubqueryProject.ts\<close>: the classification of handlers, the test for
  projects that only handle events, and the rewriting of filters that mention enums and structs
  when a project is loaded. The in-place changes of the source are returned. The file system, the
  parsing of a file and of an ABI are the parameter \<open>abiFiles\<close>.
\<close>

record SubqueryProject =
  dataSources :: "SubqlDatasource list"
  templates :: "SubqlDatasource list"
  root :: string

section \<open>Handlers\<close>

definition isBaseHandler :: "SubqlHandler \<Rightarrow> bool" where
  "isBaseHandler handler =
     (kind handler \<in> {EthereumHandlerKind_Block, EthereumHandlerKind_Call, EthereumHandlerKind_Event})"

definition isCustomHandler :: "SubqlHandler \<Rightarrow> bool" where
  "isCustomHandler handler = (\<not> isBaseHandler handler)"

definition onlyHasLogDataSources :: "SubqlDatasource list \<Rightarrow> bool" where
  "onlyHasLogDataSources dss =
     list_all (\<lambda>ds. list_all (\<lambda>h. kind h = EthereumHandlerKind_Event) (ds_handlers ds)) dss"

definition dsContainsNonEventHandlers :: "SubqlDatasource \<Rightarrow> bool" where
  "dsContainsNonEventHandlers ds =
     (if isRuntimeDs ds then find (\<lambda>h. kind h \<noteq> EthereumHandlerKind_Event) (ds_handlers ds) \<noteq> None
      else if isCustomDs ds then True
      else True)"

definition isOnlyEventHandlers :: "SubqueryProject \<Rightarrow> bool" where
  "isOnlyEventHandlers project =
     (let hasNonEventHandler = (find dsContainsNonEventHandlers (dataSources project) \<noteq> None);
          hasNonEventTemplate = (find dsContainsNonEventHandlers (templates project) \<noteq> None)
      in \<not> hasNonEventHandler \<and> \<not> hasNonEventTemplate)"

lemma find_None: "find P xs = None \<longleftrightarrow> (\<forall>x \<in> set xs. \<not> P x)"
  by (auto simp: find_None_iff)

text \<open>A handler of kind \<open>EthereumHandlerKind.Event\<close> is an event handler; the other constructors
  have other kinds, custom handlers aside.\<close>

lemma kind_cases:
  "kind (BlockHandler n bf) \<noteq> EthereumHandlerKind_Event" "kind (CallHandler n tf) \<noteq> EthereumHandlerKind_Event"
  "kind (EventHandler n lf) = EthereumHandlerKind_Event"
  by (simp_all add: kind_defs)

lemma isOnlyEventHandlers_iff:
  "isOnlyEventHandlers project \<longleftrightarrow>
     (\<forall>ds \<in> set (dataSources project) \<union> set (templates project).
        isRuntimeDs ds \<and> (\<forall>h \<in> set (ds_handlers ds). kind h = EthereumHandlerKind_Event))"
  by (auto simp: isOnlyEventHandlers_def Let_def find_None dsContainsNonEventHandlers_def split: if_splits)

section \<open>Filters that mention custom types\<close>

text \<open>\<open>loadFromJsonOrYaml\<close> of \<open>@subql/common\<close>, \<open>path.join\<close> of three parts, and \<open>new Interface\<close> of
  the ABI library reduced to the inputs the extraction reads.\<close>

record abiFiles =
  loadFromJsonOrYaml :: "string \<Rightarrow> js_error + json"
  path_join :: "string list \<Rightarrow> string"
  makeInterface :: "json \<Rightarrow> js_error + AbiInterfaceInputs"

definition DEFAULT_ABI_DIR :: string where
  "DEFAULT_ABI_DIR = ''/abis''"

definition getAbiInterface :: "abiFiles \<Rightarrow> string \<Rightarrow> string \<Rightarrow> js_error + AbiInterfaceInputs" where
  "getAbiInterface F projectPath abiFileName =
     bindE (loadFromJsonOrYaml F (path_join F [projectPath, DEFAULT_ABI_DIR, abiFileName])) (\<lambda>abi.
       case abi of
         JArr _ \<Rightarrow> makeInterface F abi
       | _ \<Rightarrow> bindE (json_get abi ''abi'') (\<lambda>r.
           case r of
             Some inner \<Rightarrow> (if json_truthy inner then makeInterface F inner
               else Inl (Error ''Provided ABI is not a valid ABI or Artifact''))
           | None \<Rightarrow> Inl (Error ''Provided ABI is not a valid ABI or Artifact'')))"

definition getAbiInterfaceFromDs :: "abiFiles \<Rightarrow> SubqlDatasource \<Rightarrow> string \<Rightarrow> AbiInterfaceInputs option" where
  "getAbiInterfaceFromDs F ds projectPath =
     (case ds_abi ds of
        Val abi \<Rightarrow>
          (if abi = [] \<or> projectPath = [] then None
           else case getAbiInterface F projectPath abi of Inl _ \<Rightarrow> None | Inr i \<Rightarrow> Some i)
      | _ \<Rightarrow> None)"

definition processEventHandlerFilters :: "SubqlHandler \<Rightarrow> customTypes \<Rightarrow> SubqlHandler" where
  "processEventHandlerFilters handler customTypes =
     (case handler of
        EventHandler name (Val logFilter) \<Rightarrow>
          (case topics logFilter of
             Val (Val topic # rest) \<Rightarrow>
               (if trim topic \<noteq> [] \<and> \<not> startsWith topic ''0x'' then
                  (let resolved = resolveCustomTypesInSignature topic customTypes
                   in if resolved \<noteq> topic
                      then EventHandler name (Val (logFilter\<lparr>topics := Val (Val resolved # rest)\<rparr>))
                      else handler)
                else handler)
           | _ \<Rightarrow> handler)
      | _ \<Rightarrow> handler)"

definition processTransactionHandlerFilters :: "SubqlHandler \<Rightarrow> customTypes \<Rightarrow> SubqlHandler" where
  "processTransactionHandlerFilters handler customTypes =
     (case handler of
        CallHandler name (Val txFilter) \<Rightarrow>
          (case tf_function txFilter of
             Val funcSig \<Rightarrow>
               (if funcSig \<noteq> [] \<and> \<not> startsWith funcSig ''0x'' then
                  (let resolved = resolveCustomTypesInSignature funcSig customTypes
                   in if resolved \<noteq> funcSig
                      then CallHandler name (Val (txFilter\<lparr>tf_function := Val resolved\<rparr>))
                      else handler)
                else handler)
           | _ \<Rightarrow> handler)
      | _ \<Rightarrow> handler)"

definition resolveTopicFiltersInDs :: "abiFiles \<Rightarrow> string \<Rightarrow> SubqlDatasource \<Rightarrow> SubqlDatasource" where
  "resolveTopicFiltersInDs F projectPath ds =
     (case getAbiInterfaceFromDs F ds projectPath of
        None \<Rightarrow> ds
      | Some abiInterface \<Rightarrow>
          (let customTypes = extractCustomTypesFromAbi abiInterface
           in if customTypes = [] then ds
              else ds\<lparr>ds_handlers := map (\<lambda>h. processTransactionHandlerFilters
                  (processEventHandlerFilters h customTypes) customTypes) (ds_handlers ds)\<rparr>))"

definition resolveTopicFiltersInProject :: "abiFiles \<Rightarrow> SubqlDatasource list \<Rightarrow> string \<Rightarrow> SubqlDatasource list" where
  "resolveTopicFiltersInProject F dss projectPath = map (resolveTopicFiltersInDs F projectPath) dss"

text \<open>The end of \<open>createSubQueryProject\<close>: the data sources, then the templates.\<close>

definition resolveProject :: "abiFiles \<Rightarrow> string \<Rightarrow> SubqueryProject \<Rightarrow> SubqueryProject" where
  "resolveProject F rootDir project =
     project\<lparr>dataSources := resolveTopicFiltersInProject F (dataSources project) rootDir,
       templates := (if templates project \<noteq> []
         then resolveTopicFiltersInProject F (templates project) rootDir else templates project)\<rparr>"

section \<open>Properties\<close>

text \<open>What the rewriting may touch is blanked out: the first topic of an event filter and the
  function of a transaction filter.\<close>

definition blank_handler :: "SubqlHandler \<Rightarrow> SubqlHandler" where
  "blank_handler h =
     (case h of
        EventHandler n (Val f) \<Rightarrow>
          (case topics f of
             Val (t # ts) \<Rightarrow> EventHandler n (Val (f\<lparr>topics := Val (Undefined # ts)\<rparr>))
           | _ \<Rightarrow> h)
      | CallHandler n (Val f) \<Rightarrow> CallHandler n (Val (f\<lparr>tf_function := Undefined\<rparr>))
      | _ \<Rightarrow> h)"

definition blank_ds :: "SubqlDatasource \<Rightarrow> SubqlDatasource" where
  "blank_ds ds = ds\<lparr>ds_handlers := map blank_handler (ds_handlers ds)\<rparr>"

lemma processEvent_blank: "blank_handler (processEventHandlerFilters h m) = blank_handler h"
  by (auto simp: processEventHandlerFilters_def blank_handler_def Let_def
      split: SubqlHandler.split js.splits list.splits)

lemma processTransaction_blank: "blank_handler (processTransactionHandlerFilters h m) = blank_handler h"
  by (auto simp: processTransactionHandlerFilters_def blank_handler_def Let_def
      split: SubqlHandler.split js.splits list.splits)

text \<open>Loading a project changes no more than it should: outside the first topic of event
  filters and the function of transaction filters, the data sources and templates are the ones of
  the manifest, whatever the ABI files hold and however reading them fails.\<close>

theorem resolveProject_frame:
  "map blank_ds (dataSources (resolveProject F rootDir p)) = map blank_ds (dataSources p) \<and>
   map blank_ds (templates (resolveProject F rootDir p)) = map blank_ds (templates p)"
proof -
  have "blank_ds (resolveTopicFiltersInDs F rootDir ds) = blank_ds ds" for ds
    by (auto simp: resolveTopicFiltersInDs_def blank_ds_def Let_def processEvent_blank
        processTransaction_blank split: option.split)
  then show ?thesis
    by (simp add: resolveProject_def resolveTopicFiltersInProject_def)
qed

definition with_assets :: "(string \<times> string) list js \<Rightarrow> SubqlDatasource \<Rightarrow> SubqlDatasource" where
  "with_assets as ds = ds\<lparr>ds_assets := as\<rparr>"

text \<open>The rewriting never looks at the assets.\<close>

lemma resolve_with_assets:
  "resolveTopicFiltersInProject F (map (with_assets as) dss) rootDir =
   map (with_assets as) (resolveTopicFiltersInProject F dss rootDir)"
proof -
  have "getAbiInterfaceFromDs F (with_assets as ds) rootDir = getAbiInterfaceFromDs F ds rootDir" for ds
    by (simp add: getAbiInterfaceFromDs_def ds_abi_def with_assets_def)
  then have "resolveTopicFiltersInDs F rootDir (with_assets as ds)
      = with_assets as (resolveTopicFiltersInDs F rootDir ds)" for ds
    by (simp add: resolveTopicFiltersInDs_def Let_def with_assets_def split: option.split)
  then show ?thesis by (simp add: resolveTopicFiltersInProject_def)
qed

text \<open>A project with one ABI file, \<open>/p/abis/nft.json\<close>, in which \<open>Kind\<close> is an enum.\<close>

definition sample_files :: abiFiles where
  "sample_files =
     \<lparr>loadFromJsonOrYaml = (\<lambda>f. if f = ''/p/abis/nft.json'' then Inr (JArr [])
        else Inl (Error (''ENOENT '' @ f))),
      path_join = (\<lambda>ps. case ps of [r, d, f] \<Rightarrow> r @ d @ ''/'' @ f | _ \<Rightarrow> []),
      makeInterface = (\<lambda>_. Inr \<lparr>event_inputs =
        [[AbiInput ''kind'' ''uint8'' (Val ''enum Kind'') Undefined]], function_inputs = []\<rparr>)\<rparr>"

definition sample_event_ds :: "string \<Rightarrow> (string \<times> string) list js \<Rightarrow> string \<Rightarrow> SubqlDatasource" where
  "sample_event_ds abi as topic =
     \<lparr>ds_kind = EthereumDatasourceKind_Runtime,
      ds_options = Val \<lparr>opt_abi = Val abi, opt_address = Undefined\<rparr>,
      ds_handlers = [EventHandler ''handleOpen'' (Val \<lparr>topics = Val [Val topic]\<rparr>)],
      ds_assets = as, ds_processor = None\<rparr>"

lemma sample_resolution:
  "resolveTopicFiltersInProject sample_files [sample_event_ds ''nft.json'' Undefined ''Open(Kind)''] ''/p'' =
     [sample_event_ds ''nft.json'' Undefined ''Open(uint8)'']"
  "resolveTopicFiltersInProject sample_files [sample_event_ds ''nft'' Undefined ''Open(Kind)''] ''/p'' =
     [sample_event_ds ''nft'' Undefined ''Open(Kind)'']"
  by code_simp+

text \<open>The rewriting reads the name of the ABI (\<open>options.abi\<close>, a key of the assets) as a file
  name in the directory \<open>abis\<close>: with the asset \<open>nft: ./abis/nft.json\<close> and that file on disk, the
  enum of the signature is not resolved, whatever the assets say; it is only resolved where the
  name of the ABI is itself the name of the file.\<close>

theorem resolution_takes_name_for_file:
  "resolveTopicFiltersInProject sample_files
     [sample_event_ds ''nft'' (Val [(''nft'', ''./abis/nft.json'')]) ''Open(Kind)''] ''/p'' =
     [sample_event_ds ''nft'' (Val [(''nft'', ''./abis/nft.json'')]) ''Open(Kind)''] \<and>
   resolveTopicFiltersInProject sample_files
     [sample_event_ds ''nft.json'' as ''Open(Kind)''] ''/p'' =
     [sample_event_ds ''nft.json'' as ''Open(uint8)'']"
proof -
  have assets: "sample_event_ds abi as topic = with_assets as (sample_event_ds abi Undefined topic)"
    for abi as topic by (simp add: sample_event_ds_def with_assets_def)
  show ?thesis
    using resolve_with_assets [of sample_files _ "[sample_event_ds ''nft'' Undefined ''Open(Kind)'']" "''/p''"]
      resolve_with_assets [of sample_files _ "[sample_event_ds ''nft.json'' Undefined ''Open(Kind)'']" "''/p''"]
    by (simp add: assets [of _ "Val _"] assets [of _ as] sample_resolution)
qed

end
