(* ===== verification/Bounded_Retry.thy ===== *)
theory Bounded_Retry
  imports Main
begin

text \<open>
  The interface of a loop that tries a bounded number of times. \<open>step n s\<close> is attempt \<open>n\<close> in state
  \<open>s\<close>: it settles the loop, \<open>Inl\<close>, or leaves a state for the next attempt, \<open>Inr\<close>; \<open>exhausted s\<close> is
  the result after the last attempt. A provider shows that its loop unfolds this way; the results
  of the loop in terms of its attempts follow.
\<close>

locale bounded_retry =
  fixes run :: "nat \<Rightarrow> 's \<Rightarrow> 'r"
    and step :: "nat \<Rightarrow> 's \<Rightarrow> 'r + 's"
    and exhausted :: "nat \<Rightarrow> 's \<Rightarrow> 'r"
    and limit :: nat
  assumes run_eq: "run n s =
    (if n < limit then (case step n s of Inl r \<Rightarrow> r | Inr s' \<Rightarrow> run (Suc n) s') else exhausted n s)"
begin

text \<open>The attempts before \<open>k\<close> go on through the states \<open>ss\<close>.\<close>

lemma run_through:
  assumes "\<And>i. n \<le> i \<Longrightarrow> i < k \<Longrightarrow> step i (ss i) = Inr (ss (Suc i))" and "n \<le> k" and "k \<le> limit"
  shows "run n (ss n) = run k (ss k)"
  using assms
proof (induction "k - n" arbitrary: n)
  case (Suc d)
  then have "step n (ss n) = Inr (ss (Suc n))" "n < limit" by simp_all
  moreover have "run (Suc n) (ss (Suc n)) = run k (ss k)"
    using Suc.hyps(2) Suc.prems by (intro Suc.hyps(1)) auto
  ultimately show ?case by (simp add: run_eq [of n])
qed simp

lemma run_settles:
  assumes "\<And>i. n \<le> i \<Longrightarrow> i < k \<Longrightarrow> step i (ss i) = Inr (ss (Suc i))" and "n \<le> k" and "k < limit"
    and "step k (ss k) = Inl r"
  shows "run n (ss n) = r"
  using run_through [of n k ss] assms by (simp add: run_eq [of k])

lemma run_exhausted:
  assumes "\<And>i. n \<le> i \<Longrightarrow> i < limit \<Longrightarrow> step i (ss i) = Inr (ss (Suc i))" and "n \<le> limit"
  shows "run n (ss n) = exhausted limit (ss limit)"
  using run_through [of n limit ss] assms by (simp add: run_eq [of limit])

text \<open>Whatever holds of every state holds where the loop settles.\<close>

lemma run_cases:
  assumes "I s" and "n \<le> limit"
    and "\<And>i s s'. n \<le> i \<Longrightarrow> i < limit \<Longrightarrow> I s \<Longrightarrow> step i s = Inr s' \<Longrightarrow> I s'"
    and "\<And>i s r. n \<le> i \<Longrightarrow> i < limit \<Longrightarrow> I s \<Longrightarrow> step i s = Inl r \<Longrightarrow> P r"
    and "\<And>s. I s \<Longrightarrow> P (exhausted limit s)"
  shows "P (run n s)"
  using assms
proof (induction "limit - n" arbitrary: n s)
  case 0
  have "n = limit" using "0.hyps" "0.prems"(2) by simp
  then show ?case using "0.prems"(5) [OF "0.prems"(1)] by (simp only: run_eq [of limit] less_irrefl if_False)
next
  case (Suc d)
  have n: "n < limit" using Suc.hyps(2) by simp
  show ?case
  proof (cases "step n s")
    case (Inl r)
    with n have "run n s = r" by (simp add: run_eq [of n])
    with Suc.prems(4) [OF order_refl n Suc.prems(1) Inl] show ?thesis by simp
  next
    case (Inr s')
    have I':  "I s'" using Suc.prems(1,3) n Inr by blast
    have "P (run (Suc n) s')"
    proof (rule Suc.hyps(1))
      show "d = limit - Suc n" "Suc n \<le> limit" using Suc.hyps(2) n by simp_all
    qed (use I' Suc.prems(3-5) Suc_leD in blast)+
    moreover have "run n s = run (Suc n) s'" using n Inr by (simp add: run_eq [of n])
    ultimately show ?thesis by simp
  qed
qed

end

end
