(* ===== verification/Safe_Api.thy ===== *)
theory Safe_Api
  imports Eth_Fetch Bounded_Retry
begin

text \<open>
  \<open>packages/node/src/ethereum/safe-api.ts\<close>, the provider handed to mapping functions, which
  reads the chain only at the height of the block being indexed, and the retrying proxy that
  \<open>safeApi\<close> of \<open>packages/node/src/ethereum/api.service.ethereum.ts\<close> puts around it. The provider
  behind it is the record \<open>Provider\<close> of the functions of the ethers class the code calls; what
  client \<open>c\<close> answers in attempt \<open>n\<close> is \<open>env n c\<close>.
\<close>

section \<open>The provider\<close>

record Provider =
  p_getBalance :: "string \<Rightarrow> BlockTag \<Rightarrow> js_error + int"
  p_getTransactionCount :: "string \<Rightarrow> BlockTag \<Rightarrow> js_error + int"
  p_getCode :: "string \<Rightarrow> BlockTag \<Rightarrow> js_error + string"
  p_getStorageAt :: "string \<Rightarrow> int \<Rightarrow> BlockTag \<Rightarrow> js_error + string"
  p_call :: "string \<Rightarrow> BlockTag \<Rightarrow> js_error + string"
  p_getNetwork :: "js_error + int \<times> string"

text \<open>A call of a method: the argument \<open>blockTag\<close> is optional. The methods that are not
  supported have their own type.\<close>

datatype unsupported = GetBlockWithTransactions | GetBlock | GetTransaction | GetTransactionReceipt
  | GetLogs | GetBlockNumber | GetGasPrice | EstimateGas | SendTransaction | ResolveName
  | LookupAddress | On | Once | Emit | ListenerCount | Listeners | Off | RemoveAllListeners
  | WaitForTransaction

fun methodName :: "unsupported \<Rightarrow> string" where
  "methodName GetBlockWithTransactions = ''getBlockWithTransactions''"
| "methodName GetBlock = ''getBlock''"
| "methodName GetTransaction = ''getTransaction''"
| "methodName GetTransactionReceipt = ''getTransactionReceipt''"
| "methodName GetLogs = ''getLogs''"
| "methodName GetBlockNumber = ''getBlockNumber''"
| "methodName GetGasPrice = ''getGasPrice''"
| "methodName EstimateGas = ''estimateGas''"
| "methodName SendTransaction = ''sendTransaction''"
| "methodName ResolveName = ''resolveName''"
| "methodName LookupAddress = ''lookupAddress''"
| "methodName On = ''on''"
| "methodName Once = ''once''"
| "methodName Emit = ''emit''"
| "methodName ListenerCount = ''listenerCount''"
| "methodName Listeners = ''listeners''"
| "methodName Off = ''off''"
| "methodName RemoveAllListeners = ''removeAllListeners''"
| "methodName WaitForTransaction = ''waitForTransaction''"

datatype SafeCall =
    GetBalance string "BlockTag option"
  | GetTransactionCount string "BlockTag option"
  | GetCode string "BlockTag option"
  | GetStorageAt string int "BlockTag option"
  | Call string "BlockTag option"
  | GetNetwork
  | Unsupported unsupported

datatype Answer = Num int | Text string | Network int string

text \<open>\<open>baseApi\<close> is the position of the client in the store of the API.\<close>

record SafeEthProvider =
  baseApi :: nat
  sp_blockHeight :: int
  sp_network :: "(int \<times> string) option"

definition newSafeEthProvider :: "nat \<Rightarrow> int \<Rightarrow> SafeEthProvider" where
  "newSafeEthProvider c height = \<lparr>baseApi = c, sp_blockHeight = height, sp_network = None\<rparr>"

definition safe_getNetwork :: "Provider \<Rightarrow> SafeEthProvider \<Rightarrow> (js_error + int \<times> string) \<times> SafeEthProvider" where
  "safe_getNetwork P s =
     (case sp_network s of
        Some n \<Rightarrow> (Inr n, s)
      | None \<Rightarrow> (case p_getNetwork P of
          Inl e \<Rightarrow> (Inl e, s)
        | Inr n \<Rightarrow> (Inr n, s\<lparr>sp_network := Some n\<rparr>)))"

definition safeCall :: "Provider \<Rightarrow> SafeEthProvider \<Rightarrow> SafeCall \<Rightarrow> (js_error + Answer) \<times> SafeEthProvider" where
  "safeCall P s call =
     (let tag = TagNumber (sp_blockHeight s)
      in case call of
           GetBalance a _ \<Rightarrow> (bindE (p_getBalance P a tag) (Inr \<circ> Num), s)
         | GetTransactionCount a _ \<Rightarrow> (bindE (p_getTransactionCount P a tag) (Inr \<circ> Num), s)
         | GetCode a _ \<Rightarrow> (bindE (p_getCode P a tag) (Inr \<circ> Text), s)
         | GetStorageAt a position _ \<Rightarrow> (bindE (p_getStorageAt P a position tag) (Inr \<circ> Text), s)
         | Call transaction _ \<Rightarrow> (bindE (p_call P transaction tag) (Inr \<circ> Text), s)
         | GetNetwork \<Rightarrow>
             (let (r, s') = safe_getNetwork P s in (bindE r (\<lambda>(c, n). Inr (Network c n)), s'))
         | Unsupported m \<Rightarrow> (Inl (Error (''Method `'' @ methodName m @ ''` not supported.'')), s))"

section \<open>The retrying proxy\<close>

definition maxRetries :: nat where
  "maxRetries = 5"

definition retryErrorCodes :: "string list" where
  "retryErrorCodes = [''UNKNOWN_ERROR'', ''NOT_IMPLEMENTED'', ''NETWORK_ERROR'', ''SERVER_ERROR'',
     ''TIMEOUT'', ''BAD_DATA'', ''CANCELLED'']"

definition retryCode :: "js_error \<Rightarrow> bool" where
  "retryCode e = (case code e of Some (CodeStr c) \<Rightarrow> List.member retryErrorCodes c | _ \<Rightarrow> False)"

text \<open>
  The loop of the proxied method. \<open>unsafeApi n\<close> is the API the connection pool gives after the
  failure of attempt \<open>n\<close>; making a safe API of it can itself throw. The result is the answer and
  the state of the proxied object, which only the first attempt uses.
\<close>

function retryLoop ::
    "(nat \<Rightarrow> EthereumApi) \<Rightarrow> (nat \<Rightarrow> nat \<Rightarrow> Provider) \<Rightarrow> int \<Rightarrow> SafeCall \<Rightarrow> nat \<Rightarrow> SafeEthProvider
      \<Rightarrow> js_error option \<Rightarrow> js_error + Answer" where
  "retryLoop unsafeApi env height call retries currentApi throwingError =
     (if retries < maxRetries then
        (case fst (safeCall (env retries (baseApi currentApi)) currentApi call) of
           Inr r \<Rightarrow> Inr r
         | Inl e \<Rightarrow>
             (if \<not> retryCode e then Inl e
              else case getSafeApi (unsafeApi retries) height of
                     Inl e' \<Rightarrow> Inl e'
                   | Inr (c, h) \<Rightarrow> retryLoop unsafeApi env height call (Suc retries)
                       (newSafeEthProvider c h) (Some e)))
      else case throwingError of
             None \<Rightarrow> Inl (Error ''Failed to make request, maximum retries failed'')
           | Some e \<Rightarrow> Inl e)"
  by pat_completeness auto

termination
  by (relation "measure (\<lambda>(_, _, _, _, retries, _, _). maxRetries - retries)") auto

declare retryLoop.simps [simp del]

text \<open>A method call on the object \<open>safeApi(height)\<close> returns, and what it leaves in the proxied
  object.\<close>

definition proxyCall ::
    "(nat \<Rightarrow> EthereumApi) \<Rightarrow> (nat \<Rightarrow> nat \<Rightarrow> Provider) \<Rightarrow> int \<Rightarrow> SafeEthProvider \<Rightarrow> SafeCall
      \<Rightarrow> (js_error + Answer) \<times> SafeEthProvider" where
  "proxyCall unsafeApi env height target call =
     (retryLoop unsafeApi env height call 0 target None,
      snd (safeCall (env 0 (baseApi target)) target call))"

section \<open>Properties\<close>

text \<open>Two providers that answer alike at one height and know the same network.\<close>

definition agree_at :: "int \<Rightarrow> Provider \<Rightarrow> Provider \<Rightarrow> bool" where
  "agree_at h P Q \<longleftrightarrow>
     (\<forall>a. p_getBalance P a (TagNumber h) = p_getBalance Q a (TagNumber h) \<and>
          p_getTransactionCount P a (TagNumber h) = p_getTransactionCount Q a (TagNumber h) \<and>
          p_getCode P a (TagNumber h) = p_getCode Q a (TagNumber h) \<and>
          (\<forall>i. p_getStorageAt P a i (TagNumber h) = p_getStorageAt Q a i (TagNumber h)) \<and>
          p_call P a (TagNumber h) = p_call Q a (TagNumber h)) \<and>
     p_getNetwork P = p_getNetwork Q"

lemma safeCall_agree:
  assumes "agree_at (sp_blockHeight s) P Q"
  shows "safeCall P s call = safeCall Q s call"
  using assms by (cases call) (simp_all add: safeCall_def agree_at_def safe_getNetwork_def split: option.split)

lemma getSafeApi_height: "getSafeApi a height = Inr (c, h) \<Longrightarrow> h = height"
  by (auto simp: getSafeApi_def split: if_splits option.splits)

fun withTag :: "BlockTag option \<Rightarrow> SafeCall \<Rightarrow> SafeCall" where
  "withTag t (GetBalance a _) = GetBalance a t"
| "withTag t (GetTransactionCount a _) = GetTransactionCount a t"
| "withTag t (GetCode a _) = GetCode a t"
| "withTag t (GetStorageAt a i _) = GetStorageAt a i t"
| "withTag t (Call tx _) = Call tx t"
| "withTag t c = c"

lemma safeCall_withTag: "safeCall P s (withTag t call) = safeCall P s call"
  by (cases call) (simp_all add: safeCall_def)

lemma retryLoop_pinned:
  assumes "\<And>n c. agree_at height (env n c) (env' n c)" and "sp_blockHeight s = height"
  shows "retryLoop api env height (withTag t call) n s te = retryLoop api env' height call n s te"
  using assms
proof (induction api env height "withTag t call" n s te rule: retryLoop.induct)
  case (1 api env height n s te)
  have same: "safeCall (env n (baseApi s)) s (withTag t call) = safeCall (env' n (baseApi s)) s call"
    using "1.prems" by (simp add: safeCall_withTag safeCall_agree)
  have rec: "retryLoop api env height (withTag t call) (Suc n) (newSafeEthProvider c h) (Some e) =
      retryLoop api env' height call (Suc n) (newSafeEthProvider c h) (Some e)"
    if "n < maxRetries" "fst (safeCall (env n (baseApi s)) s (withTag t call)) = Inl e" "retryCode e"
      "getSafeApi (api n) height = Inr (c, h)" for e c h
  proof (rule "1.hyps" [OF that(1,2) _ that(4)])
    show "sp_blockHeight (newSafeEthProvider c h) = height"
      using getSafeApi_height [OF that(4)] by (simp add: newSafeEthProvider_def)
  qed (use that "1.prems" in auto)
  show ?case
    unfolding retryLoop.simps [of api env height "withTag t call" n s te]
      retryLoop.simps [of api env' height call n s te]
    using rec by (auto simp: same split: sum.splits prod.splits)
qed

text \<open>The safe API reads nothing but the pinned height: the result of any method, through all
  retries and on whatever clients they use, depends on the endpoints only through their answers at
  the height it was made for, and not on the block tag the caller passes.\<close>

theorem safe_api_pinned:
  assumes "\<And>n c. agree_at height (env n c) (env' n c)" and "sp_blockHeight target = height"
  shows "proxyCall api env height target (withTag t call) = proxyCall api env' height target call"
  using retryLoop_pinned [of height env env' target api t call 0 None] assms
    safeCall_agree [of target "env 0 (baseApi target)" "env' 0 (baseApi target)" call]
  by (simp add: proxyCall_def safeCall_withTag)

subsection \<open>Retries\<close>

text \<open>The loop as one of a bounded number of attempts; the state is the API of the next attempt with the
  error of the last.\<close>

definition retryStep ::
    "(nat \<Rightarrow> EthereumApi) \<Rightarrow> (nat \<Rightarrow> nat \<Rightarrow> Provider) \<Rightarrow> int \<Rightarrow> SafeCall \<Rightarrow> nat \<Rightarrow> SafeEthProvider \<times> js_error option
      \<Rightarrow> (js_error + Answer) + SafeEthProvider \<times> js_error option" where
  "retryStep unsafeApi env height call n = (\<lambda>(api, _).
     (case fst (safeCall (env n (baseApi api)) api call) of
        Inr r \<Rightarrow> Inl (Inr r)
      | Inl e \<Rightarrow>
          (if \<not> retryCode e then Inl (Inl e)
           else case getSafeApi (unsafeApi n) height of
                  Inl e' \<Rightarrow> Inl (Inl e')
                | Inr (c, h) \<Rightarrow> Inr (newSafeEthProvider c h, Some e))))"

interpretation retries: bounded_retry
    "\<lambda>n (api, te). retryLoop unsafeApi env height call n api te" "retryStep unsafeApi env height call"
    "\<lambda>_ (api, te). Inl (case te of None \<Rightarrow> Error ''Failed to make request, maximum retries failed'' | Some e \<Rightarrow> e)"
    maxRetries
  for unsafeApi env height call
  by unfold_locales
    (subst retryLoop.simps, auto simp: retryStep_def case_prod_unfold split: sum.split option.split)

text \<open>An answer of the proxy is the answer of some attempt on an object pinned to the height.\<close>

lemma retryLoop_answer:
  assumes "sp_blockHeight target = height" and "retryLoop api env height call 0 target None = Inr r"
  shows "\<exists>n < maxRetries. \<exists>s. sp_blockHeight s = height \<and> fst (safeCall (env n (baseApi s)) s call) = Inr r"
proof -
  let ?from = "\<lambda>res. \<forall>r. res = Inr r \<longrightarrow>
    (\<exists>n < maxRetries. \<exists>s. sp_blockHeight s = height \<and> fst (safeCall (env n (baseApi s)) s call) = Inr r)"
  have "?from (case (target, None) of (a, te) \<Rightarrow> retryLoop api env height call 0 a te)"
  proof (rule retries.run_cases [where I = "\<lambda>(a, _). sp_blockHeight a = height"])
    show "case s' of (a, _) \<Rightarrow> sp_blockHeight a = height"
      if "retryStep api env height call i s = Inr s'" for i s s'
      using that getSafeApi_height
      by (auto simp: retryStep_def newSafeEthProvider_def split: prod.splits sum.splits if_splits)
    show "?from res" if "i < maxRetries" "case s of (a, _) \<Rightarrow> sp_blockHeight a = height"
        "retryStep api env height call i s = Inl res" for i s res
      using that by (auto simp: retryStep_def split: prod.splits sum.splits if_splits)
  qed (use assms(1) in auto)
  with assms(2) show ?thesis by simp
qed

text \<open>The object attempt \<open>n\<close> is made on, and its outcome, when every attempt before it failed and
  every safe API could be made.\<close>

definition attemptTarget :: "(nat \<Rightarrow> EthereumApi) \<Rightarrow> int \<Rightarrow> SafeEthProvider \<Rightarrow> nat \<Rightarrow> SafeEthProvider" where
  "attemptTarget api height target n =
     (case n of 0 \<Rightarrow> target | Suc m \<Rightarrow> (case getSafeApi (api m) height of
        Inr (c, h) \<Rightarrow> newSafeEthProvider c h | Inl _ \<Rightarrow> target))"

definition attempt ::
    "(nat \<Rightarrow> EthereumApi) \<Rightarrow> (nat \<Rightarrow> nat \<Rightarrow> Provider) \<Rightarrow> int \<Rightarrow> SafeEthProvider \<Rightarrow> SafeCall \<Rightarrow> nat \<Rightarrow> js_error + Answer" where
  "attempt api env height target call n =
     fst (safeCall (env n (baseApi (attemptTarget api height target n))) (attemptTarget api height target n) call)"

definition retried :: "js_error + Answer \<Rightarrow> bool" where
  "retried r = (case r of Inl e \<Rightarrow> retryCode e | Inr _ \<Rightarrow> False)"

text \<open>The first result in a list that is not retried, or the last one.\<close>

fun firstFinal :: "(js_error + Answer) list \<Rightarrow> js_error + Answer" where
  "firstFinal [r] = r"
| "firstFinal (r # rs) = (if retried r then firstFinal rs else r)"
| "firstFinal [] = Inl (Error ''Failed to make request, maximum retries failed'')"

lemma retryLoop_firstFinal:
  assumes "\<And>n. \<exists>c. getSafeApi (api n) height = Inr (c, height)" and "k \<le> maxRetries"
  shows "retryLoop api env height call k (attemptTarget api height target k) te =
    (if k = maxRetries then Inl (case te of Some e \<Rightarrow> e | None \<Rightarrow> Error ''Failed to make request, maximum retries failed'')
     else firstFinal (map (attempt api env height target call) [k..<maxRetries]))"
  using assms(2)
proof (induction "maxRetries - k" arbitrary: k te)
  case 0
  then show ?case by (simp add: retryLoop.simps split: option.split)
next
  case (Suc d)
  then have k: "k < maxRetries" "Suc k \<le> maxRetries" "d = maxRetries - Suc k" by simp_all
  obtain c where c: "getSafeApi (api k) height = Inr (c, height)" using assms(1) by blast
  then have tgt: "attemptTarget api height target (Suc k) = newSafeEthProvider c height"
    by (simp add: attemptTarget_def)
  note IH = Suc.hyps(1) [OF k(3,2), unfolded tgt]
  have upt: "[k..<maxRetries] = k # [Suc k..<maxRetries]" using k(1) by (rule upt_conv_Cons)
  define r where "r = attempt api env height target call k"
  have loop: "retryLoop api env height call k (attemptTarget api height target k) te =
      (case r of Inr x \<Rightarrow> Inr x | Inl e \<Rightarrow> if \<not> retryCode e then Inl e
       else retryLoop api env height call (Suc k) (newSafeEthProvider c height) (Some e))"
    using k(1) by (simp add: retryLoop.simps [of api env height call k] r_def attempt_def c split: sum.split)
  have ff: "firstFinal (map (attempt api env height target call) [k..<maxRetries]) =
      (if Suc k = maxRetries then r
       else if retried r then firstFinal (map (attempt api env height target call) [Suc k..<maxRetries]) else r)"
  proof (cases "Suc k = maxRetries")
    case False
    then have "[Suc k..<maxRetries] = Suc k # [Suc (Suc k)..<maxRetries]"
      using k by (intro upt_conv_Cons) simp
    with False show ?thesis by (simp add: upt r_def)
  qed (simp add: upt r_def)
  have last: "retryLoop api env height call maxRetries q (Some e) = Inl e" for q e
    by (simp add: retryLoop.simps)
  show ?case
  proof (cases "Suc k = maxRetries")
    case True
    then show ?thesis
      unfolding loop using k(1) by (cases r) (auto simp: ff last)
  next
    case False
    then show ?thesis
      unfolding loop using k(1) by (cases r) (auto simp: ff IH retried_def)
  qed
qed

text \<open>The proxy makes at most five attempts and stops at the first one that returns or fails for
  a reason a retry cannot change; when all five fail with a network error, the caller gets the
  error of the fifth.\<close>

theorem proxy_retries:
  assumes "\<And>n. \<exists>c. getSafeApi (api n) height = Inr (c, height)"
  shows "fst (proxyCall api env height target call) =
    firstFinal (map (attempt api env height target call) [0, 1, 2, 3, 4])"
proof -
  have "[0..<maxRetries] = [0, 1, 2, 3, 4]" by (simp add: maxRetries_def upt_rec)
  with retryLoop_firstFinal [of api height 0 env call target None, OF assms] show ?thesis
    by (simp add: proxyCall_def attemptTarget_def maxRetries_def)
qed

text \<open>A method that is not supported fails at once, without a request and without a retry, and
  leaves the object as it was.\<close>

theorem unsupported_methods:
  "proxyCall api env height target (Unsupported m) =
     (Inl (Error (''Method `'' @ methodName m @ ''` not supported.'')), target)"
  by (simp add: proxyCall_def retryLoop.simps safeCall_def retryCode_def maxRetries_def)

subsection \<open>Samples\<close>

text \<open>A provider with an archive node's answers before height \<open>n\<close>, failing with a timeout if
  \<open>down\<close>.\<close>

definition sample_provider :: "bool \<Rightarrow> int \<Rightarrow> Provider" where
  "sample_provider down n =
     \<lparr>p_getBalance = (\<lambda>a t. if down then Inl ((Error ''timeout'')\<lparr>code := Some (CodeStr ''TIMEOUT'')\<rparr>)
        else Inr (case t of TagNumber h \<Rightarrow> (if h < n then h else 0) | _ \<Rightarrow> 0)),
      p_getTransactionCount = (\<lambda>a t. Inr 0), p_getCode = (\<lambda>a t. Inr ''0x''),
      p_getStorageAt = (\<lambda>a i t. Inr ''0x''), p_call = (\<lambda>tx t. Inr ''0x''),
      p_getNetwork = Inr (1, ''homestead'')\<rparr>"

lemma getSafeApi_sample: "getSafeApi sample_api h = Inr (1, h)"
  by (simp add: getSafeApi_def sample_api_def newEthereumApi_def Let_def dropColon_def applyBatchSize_def
      cur_def newClient_def)

theorem safe_api_pinned_witness:
  "fst (proxyCall (\<lambda>_. sample_api) (\<lambda>_ _. sample_provider False 100) 7 (newSafeEthProvider 1 7)
     (GetBalance ''0x1'' (Some (TagName ''latest'')))) =
   fst (proxyCall (\<lambda>_. sample_api) (\<lambda>_ _. sample_provider False 8) 7 (newSafeEthProvider 1 7)
     (GetBalance ''0x1'' None)) \<and>
   sample_provider False 100 \<noteq> sample_provider False 8"
proof -
  have "agree_at 7 (sample_provider False 100) (sample_provider False 8)"
    by (simp add: agree_at_def sample_provider_def)
  then have "fst (proxyCall (\<lambda>_. sample_api) (\<lambda>_ _. sample_provider False 100) 7 (newSafeEthProvider 1 7)
     (GetBalance ''0x1'' (Some (TagName ''latest'')))) =
   fst (proxyCall (\<lambda>_. sample_api) (\<lambda>_ _. sample_provider False 8) 7 (newSafeEthProvider 1 7)
     (GetBalance ''0x1'' None))"
    using safe_api_pinned [of 7 "\<lambda>_ _. sample_provider False 100" "\<lambda>_ _. sample_provider False 8"
        "newSafeEthProvider 1 7" "\<lambda>_. sample_api" "Some (TagName ''latest'')" "GetBalance ''0x1'' None"]
    by (simp add: newSafeEthProvider_def)
  moreover have "p_getBalance (sample_provider False 100) [] (TagNumber 50)
      \<noteq> p_getBalance (sample_provider False 8) [] (TagNumber 50)"
    by (simp add: sample_provider_def)
  ultimately show ?thesis by metis
qed

theorem proxy_retries_witness:
  "fst (proxyCall (\<lambda>_. sample_api) (\<lambda>n _. sample_provider (n < 2) 100) 7 (newSafeEthProvider 1 7)
     (GetBalance ''0x1'' None)) = Inr (Num 7)"
  using proxy_retries [of "\<lambda>_. sample_api" 7 "\<lambda>n _. sample_provider (n < 2) 100" "newSafeEthProvider 1 7"
      "GetBalance ''0x1'' None"]
  by (simp add: getSafeApi_sample attempt_def attemptTarget_def sample_provider_def safeCall_def
      newSafeEthProvider_def retried_def retryCode_def retryErrorCodes_def split: nat.split)

end
