(* ===== verification/Api_Service.thy ===== *)
theory Api_Service
  imports Safe_Api Project_Utils
begin

text \<open>
  \<open>packages/node/src/ethereum/api.connection.ts\<close> and the parts of
  \<open>packages/node/src/ethereum/api.service.ethereum.ts\<close> beside the safe API: making a connection,
  sorting its errors into the classes node-core knows, and the choice between fetching full and
  light blocks. The connection pool of node-core is not part of the repository.
\<close>

section \<open>Connections\<close>

record NetworkMetadata =
  chain :: string
  specName :: string
  nm_genesisHash :: string

datatype FetchFunc = FetchFull | FetchLight

record EthereumApiConnection =
  unsafeApi :: EthereumApi
  networkMeta :: NetworkMetadata

definition newEthereumApiConnection :: "EthereumApi \<Rightarrow> js_error + EthereumApiConnection" where
  "newEthereumApiConnection api =
     bindE (getChainId api) (\<lambda>cid.
       Inr \<lparr>unsafeApi = api, networkMeta = \<lparr>chain = show_int cid, specName = getSpecName,
         nm_genesisHash = getGenesisHash api\<rparr>\<rparr>)"

text \<open>\<open>create\<close>, given what \<open>new URL(endpoint)\<close> found; \<open>None\<close> when \<open>init\<close> never returns.\<close>

definition create ::
    "(nat \<Rightarrow> netEnv) \<Rightarrow> string \<Rightarrow> string \<Rightarrow> int \<Rightarrow> bool \<Rightarrow> int js \<Rightarrow> (js_error + EthereumApiConnection) option" where
  "create env host protocol confirmations unfinalized bsize =
     (case newEthereumApi host protocol confirmations unfinalized bsize of
        Inl e \<Rightarrow> Some (Inl e)
      | Inr api \<Rightarrow>
          (case init env 0 api of
             None \<Rightarrow> None
           | Some (Inl e) \<Rightarrow> Some (Inl e)
           | Some (Inr api') \<Rightarrow> Some (newEthereumApiConnection api')))"

definition conn_safeApi :: "EthereumApiConnection \<Rightarrow> int \<Rightarrow> js_error + SafeEthProvider" where
  "conn_safeApi c height = Inl (Error ''Not Implemented'')"

definition apiConnect :: "EthereumApiConnection \<Rightarrow> js_error + unit" where
  "apiConnect c = connect"

definition apiDisconnect :: "EthereumApiConnection \<Rightarrow> disconnectAction" where
  "apiDisconnect c = disconnect (unsafeApi c)"

datatype fetched = FullBlocks "EthereumTransaction IBlock list" | LightBlocks "string IBlock list"

definition runFetch :: "FetchFunc \<Rightarrow> ethers \<Rightarrow> netEnv \<Rightarrow> EthereumApi \<Rightarrow> int list \<Rightarrow> js_error + fetched" where
  "runFetch f E env api batch =
     (case f of
        FetchFull \<Rightarrow> bindE (Eth_Fetch.fetchBlocks E env api batch) (Inr \<circ> FullBlocks)
      | FetchLight \<Rightarrow> bindE (fetchBlocksLight E env api batch) (Inr \<circ> LightBlocks))"

text \<open>\<open>fetchBlocksBatches\<close> reads the function of the service, which may not be set.\<close>

definition fetchBlocksBatches :: "FetchFunc option \<Rightarrow> js_error + FetchFunc" where
  "fetchBlocksBatches fetchBlocksFunction =
     (case fetchBlocksFunction of
        None \<Rightarrow> Inl (AssertionError ''Fetch blocks function is not defined'')
      | Some f \<Rightarrow> Inr f)"

definition conn_fetchBlocks ::
    "FetchFunc option \<Rightarrow> ethers \<Rightarrow> netEnv \<Rightarrow> EthereumApiConnection \<Rightarrow> int list \<Rightarrow> js_error + fetched" where
  "conn_fetchBlocks fetchBlocksFunction E env c heights =
     bindE (fetchBlocksBatches fetchBlocksFunction) (\<lambda>f. runFetch f E env (unsafeApi c) heights)"

section \<open>Errors\<close>

text \<open>The error classes of node-core; all but the last wrap the error.\<close>

datatype ApiConnectionError = TimeoutError js_error | DisconnectionError js_error
  | RateLimitError js_error | LargeResponseError js_error | DefaultError string string

definition connectionError :: "js_error \<Rightarrow> ApiConnectionError" where
  "connectionError e =
     (if startsWith (message e) ''No response received from RPC endpoint in'' then TimeoutError e
      else if startsWith (message e) ''disconnected from '' then DisconnectionError e
      else if startsWith (message e) ''Rate Limited at endpoint'' then RateLimitError e
      else if includes_str (message e) ''Exceeded max limit of'' then LargeResponseError e
      else DefaultError (err_name e) (message e))"

section \<open>The service\<close>

text \<open>The options of \<open>packages/node/src/configure/NodeConfig.ts\<close>; an absent flag is false.\<close>

record NodeConfig =
  cfg_skipTransactions :: "bool option"
  cfg_blockConfirmations :: int
  cfg_blockForkReindex :: int
  cfg_profiler :: bool

definition skipTransactions :: "NodeConfig \<Rightarrow> bool" where
  "skipTransactions c = (cfg_skipTransactions c = Some True)"

definition config_blockConfirmations :: "NodeConfig \<Rightarrow> int" where
  "config_blockConfirmations c = cfg_blockConfirmations c"

definition blockForkReindex :: "NodeConfig \<Rightarrow> int" where
  "blockForkReindex c = cfg_blockForkReindex c"

record EthereumApiService =
  project :: SubqueryProject
  nodeConfig :: NodeConfig
  fetchBlocksFunction :: "FetchFunc option"

text \<open>The profiler wraps the function and does not change it.\<close>

definition updateBlockFetching :: "EthereumApiService \<Rightarrow> EthereumApiService" where
  "updateBlockFetching s =
     (let onlyEventHandlers = isOnlyEventHandlers (project s);
          skip = skipTransactions (nodeConfig s) \<and> onlyEventHandlers
      in s\<lparr>fetchBlocksFunction := Some (if skip then FetchLight else FetchFull)\<rparr>)"

definition newEthereumApiService :: "SubqueryProject \<Rightarrow> NodeConfig \<Rightarrow> EthereumApiService" where
  "newEthereumApiService p c =
     updateBlockFetching \<lparr>project = p, nodeConfig = c, fetchBlocksFunction = None\<rparr>"

text \<open>\<open>init\<close> adds the primary endpoint to the endpoints of the network, each with its options.\<close>

definition withPrimaryEndpoint ::
    "(string \<times> int js) option \<Rightarrow> (string \<rightharpoonup> int js) \<Rightarrow> (string \<rightharpoonup> int js)" where
  "withPrimaryEndpoint primary endpoints =
     (case primary of Some (endpoint, config) \<Rightarrow> endpoints(endpoint \<mapsto> config) | None \<Rightarrow> endpoints)"

definition metadataMismatchError :: "string \<Rightarrow> string \<Rightarrow> string \<Rightarrow> js_error" where
  "metadataMismatchError metadata expected actual =
     Error (''Value of '' @ metadata @ '' does not match across all endpoints. Please check that your endpoints are for the same network.''
       @ [CHR 0x0A, CHR 0x0A] @ ''       Expected: '' @ expected @ [CHR 0x0A] @ ''       Actual: '' @ actual)"

section \<open>Properties\<close>

definition only_runtime_events :: "SubqueryProject \<Rightarrow> bool" where
  "only_runtime_events p \<longleftrightarrow>
     (\<forall>ds \<in> set (dataSources p) \<union> set (templates p).
        isRuntimeDs ds \<and> (\<forall>h \<in> set (ds_handlers ds). kind h = EthereumHandlerKind_Event))"

text \<open>Light blocks, which have no transactions, are fetched only where nothing needs more: after
  \<open>updateBlockFetching\<close> the service fetches light blocks exactly when \<open>skipTransactions\<close> is set
  and every handler of every data source and template is an event handler of a runtime data
  source; otherwise it fetches full blocks.\<close>

theorem light_blocks_only_for_events:
  "fetchBlocksFunction (updateBlockFetching s) =
     Some (if skipTransactions (nodeConfig s) \<and> only_runtime_events (project s) then FetchLight else FetchFull)"
  by (simp add: updateBlockFetching_def Let_def isOnlyEventHandlers_iff only_runtime_events_def)

text \<open>The two errors a rate-limited request can end as.\<close>

lemma rate_limited_class:
  "status e = Some 429 \<Longrightarrow>
    connectionError (handleError a e) = RateLimitError (Error (''Rate Limited at endpoint: '' @ hostname a))"
  by (simp add: handleError_def connectionError_def startsWith_def)

lemma fetchBlock_block_error:
  assumes "hexValue E n = Inr h" and "sendGetBlock env (cur a) h = Inl e"
  shows "fetchBlock E env a n = Inl (handleError a e)"
  using assms by (simp add: fetchBlock_def getBlockPromise_def)

lemma fetchLightBlock_block_error:
  assumes "hexValue E n = Inr h" and "sendGetLightBlock env (cur a) h = Inl e"
  shows "fetchLightBlock E env a n = Inl e"
  using assms by (simp add: fetchLightBlock_def getBlockPromise_def)

definition http429 :: js_error where
  "http429 = (Error ''bad response'')\<lparr>code := Some (CodeStr ''SERVER_ERROR''), status := Some 429\<rparr>"

text \<open>An error with status 429 to the request for a block is reported as a rate limit when full
  blocks are fetched, so the connection pool can back off; when light blocks are fetched the same
  response is passed on as it is and classified as an unknown error.\<close>

theorem rate_limit_only_seen_for_full_blocks:
  assumes "hexValue E n = Inr h"
    and "sendGetBlock env (cur a) h = Inl http429" and "sendGetLightBlock env (cur a) h = Inl http429"
  shows "map_sum connectionError id (runFetch FetchFull E env a [n]) =
      Inl (RateLimitError (Error (''Rate Limited at endpoint: '' @ hostname a))) \<and>
    map_sum connectionError id (runFetch FetchLight E env a [n]) =
      Inl (DefaultError ''Error'' ''bad response'')"
proof -
  have other: "connectionError http429 = DefaultError ''Error'' ''bad response''"
    by code_simp
  have "status http429 = Some 429" by (simp add: http429_def)
  then show ?thesis
    using assms rate_limited_class [of http429 a]
    by (simp add: runFetch_def Eth_Fetch.fetchBlocks_def fetchBlocksLight_def
        fetchBlock_block_error fetchLightBlock_block_error other)
qed

theorem rate_limit_only_seen_for_full_blocks_witness:
  "map_sum connectionError id (runFetch FetchLight sample_ethers
     ((sample_fetch_env (Inr []))\<lparr>sendGetBlock := \<lambda>_ _. Inl http429, sendGetLightBlock := \<lambda>_ _. Inl http429\<rparr>)
     sample_api [7]) = Inl (DefaultError ''Error'' ''bad response'')"
  using rate_limit_only_seen_for_full_blocks [of sample_ethers 7 "projr (hexValue sample_ethers 7)"
      "(sample_fetch_env (Inr []))\<lparr>sendGetBlock := \<lambda>_ _. Inl http429, sendGetLightBlock := \<lambda>_ _. Inl http429\<rparr>"
      sample_api]
  by (simp add: sample_ethers_def)

end
