(* ===== verification/Blockchain_Service.thy ===== *)
theory Blockchain_Service
  imports Complex_Main "HOL-Library.AList" Api_Service
begin

text \<open>
  \<open>packages/node/src/blockchain.service.ts\<close>: the chain as node-core sees it (headers, heights,
  intervals) and the update of a dynamic data source, with \<open>packages/node/src/indexer/types.ts\<close>.
  Fetching and indexing through it are in \<open>Worker_Service\<close>.
\<close>

section \<open>Headers\<close>

text \<open>\<open>ethereumBlockToHeader\<close> of a block of the ethers provider; of \<open>null\<close> it throws at the first
  property it reads.\<close>

definition apiBlockToHeader :: "ApiBlock option \<Rightarrow> js_error + Header" where
  "apiBlockToHeader b =
     (case b of
        None \<Rightarrow> Inl (TypeError ''Cannot read properties of null (reading 'number')'')
      | Some block \<Rightarrow> Inr \<lparr>blockHeight = ab_number block, blockHash = ab_hash block,
          h_parentHash = Val (ab_parentHash block), h_timestamp = ab_timestamp block * 1000\<rparr>)"

definition getFinalizedHeader :: "netEnv \<Rightarrow> EthereumApi \<Rightarrow> js_error + Header" where
  "getFinalizedHeader env api = bindE (getFinalizedBlock env api) (\<lambda>b. apiBlockToHeader (Some b))"

definition getBestHeight :: "netEnv \<Rightarrow> EthereumApi \<Rightarrow> js_error + int" where
  "getBestHeight env api = getBestBlockHeight env api"

definition getHeaderForHash :: "ethers \<Rightarrow> netEnv \<Rightarrow> EthereumApi \<Rightarrow> string \<Rightarrow> js_error + Header" where
  "getHeaderForHash E env api hash =
     bindE (getBlockByHeightOrHash E env api (Hash hash)) apiBlockToHeader"

definition getHeaderForHeight :: "ethers \<Rightarrow> netEnv \<Rightarrow> EthereumApi \<Rightarrow> int \<Rightarrow> js_error + Header" where
  "getHeaderForHeight E env api height =
     bindE (getBlockByHeightOrHash E env api (Height height)) apiBlockToHeader"

definition getBlockTimestamp :: "netEnv \<Rightarrow> EthereumApi \<Rightarrow> int \<Rightarrow> js_error + int" where
  "getBlockTimestamp env api height =
     bindE (getBlock env (cur api) (TagNumber height)) (\<lambda>b.
       case b of
         None \<Rightarrow> Inl (TypeError ''Cannot read properties of null (reading 'timestamp')'')
       | Some block \<Rightarrow> Inr (ab_timestamp block * 1000))"

definition getBlockSize :: "'tx EthereumBlock \<Rightarrow> int" where
  "getBlockSize block = block_size block"

definition BLOCK_TIME_VARIANCE :: rat where
  "BLOCK_TIME_VARIANCE = 5000"

definition INTERVAL_PERCENT :: rat where
  "INTERVAL_PERCENT = 9 / 10"

definition getChainInterval :: rat where
  "getChainInterval = min BLOCK_TIME_VARIANCE (of_int calcInterval * INTERVAL_PERCENT)"

text \<open>\<open>getSafeApi(block)\<close>: the proxied object for the block's height.\<close>

definition svc_getSafeApi :: "EthereumApi \<Rightarrow> 'tx EthereumBlock \<Rightarrow> js_error + SafeEthProvider" where
  "svc_getSafeApi api block =
     bindE (getSafeApi api (block_number block)) (\<lambda>(c, h). Inr (newSafeEthProvider c h))"

definition onProjectChange :: "EthereumApiService \<Rightarrow> EthereumApiService" where
  "onProjectChange s = updateBlockFetching s"

section \<open>Dynamic data sources\<close>

text \<open>\<open>{...a, ...b}\<close> of two objects with string values.\<close>

definition objSpread :: "(string \<times> string) list \<Rightarrow> (string \<times> string) list \<Rightarrow> (string \<times> string) list" where
  "objSpread a b = foldl (\<lambda>m (k, v). AList.update k v m) a b"

text \<open>\<open>{...options, ...args}\<close> where the options are those of a runtime data source; arguments with
  other names than \<open>abi\<close> and \<open>address\<close> are left out of the model.\<close>

definition spreadOptions ::
    "SubqlEthereumProcessorOptions js \<Rightarrow> (string \<times> string) list \<Rightarrow> SubqlEthereumProcessorOptions" where
  "spreadOptions options args =
     (let base = (case options of Val o' \<Rightarrow> o' | _ \<Rightarrow> \<lparr>opt_abi = Undefined, opt_address = Undefined\<rparr>);
          pick = (\<lambda>k old. case map_of args k of Some v \<Rightarrow> Val v | None \<Rightarrow> old)
      in \<lparr>opt_abi = pick ''abi'' (opt_abi base), opt_address = pick ''address'' (opt_address base)\<rparr>)"

text \<open>\<open>validateDs\<close> is \<open>validateSync(plainToClass(...))\<close>, the rendered errors. The object is changed
  before it is validated, so it is returned along with the error.\<close>

definition updateDynamicDs ::
    "(SubqlDatasource \<Rightarrow> string list) \<Rightarrow> (string \<times> string) list \<Rightarrow> SubqlDatasource
      \<Rightarrow> js_error option \<times> SubqlDatasource" where
  "updateDynamicDs validateDs args ds =
     (if isCustomDs ds then
        (case ds_processor ds of
           Some p \<Rightarrow> (None, ds\<lparr>ds_processor := Some (p\<lparr>processor_options := objSpread (processor_options p) args\<rparr>)\<rparr>)
         | None \<Rightarrow> (None, ds))
      else if isRuntimeDs ds then
        (let ds' = ds\<lparr>ds_options := Val (spreadOptions (ds_options ds) args)\<rparr>;
             errors = validateDs ds'
         in (if errors = [] then None
             else Some (Error (''Dynamic ds is invalid'' @ [CHR 0x0A] @ join [CHR 0x0A] errors)), ds'))
      else (None, ds))"

section \<open>Properties\<close>

lemma objSpread_map: "distinct (map fst b) \<Longrightarrow> map_of (objSpread a b) = map_of a ++ map_of b"
proof (induction b arbitrary: a)
  case Nil
  then show ?case by (simp add: objSpread_def)
next
  case (Cons kv b)
  obtain k v where kv: "kv = (k, v)" by fastforce
  with Cons.prems have "map_of b k = None" "distinct (map fst b)"
    by (auto simp: map_of_eq_None_iff)
  with Cons.IH [of "AList.update k v a"] show ?case
    by (auto simp: objSpread_def kv update_conv' fun_eq_iff map_add_def split: option.split)
qed

text \<open>The polling interval is 5000 milliseconds: nine tenths of the assumed block time of 6000
  is more than the variance that caps it.\<close>

theorem chain_interval: "getChainInterval = 5000"
  by (simp add: getChainInterval_def BLOCK_TIME_VARIANCE_def INTERVAL_PERCENT_def calcInterval_def)

definition only_options_changed :: "SubqlDatasource \<Rightarrow> SubqlDatasource \<Rightarrow> bool" where
  "only_options_changed ds ds' \<longleftrightarrow>
     ds_kind ds' = ds_kind ds \<and> ds_handlers ds' = ds_handlers ds \<and> ds_assets ds' = ds_assets ds \<and>
     map_option processor_file (ds_processor ds') = map_option processor_file (ds_processor ds)"

text \<open>A dynamic data source gets the address it is created with and nothing else changes: the
  handlers, the kind, the assets and the processor file of the result are those of the template,
  the options of a runtime data source take the arguments over the ones of the template, and so do
  the processor options of a custom one.\<close>

theorem dynamic_ds_takes_args:
  assumes "distinct (map fst args)" and "(err, ds') = updateDynamicDs validateDs args ds"
  shows "only_options_changed ds ds' \<and>
    (if isRuntimeDs ds then
       ds_address ds' = (case map_of args ''address'' of Some a \<Rightarrow> Val a | None \<Rightarrow> ds_address ds) \<and>
       (err = None \<longleftrightarrow> validateDs ds' = [])
     else err = None \<and> ds_options ds' = ds_options ds \<and>
       map_option (map_of \<circ> processor_options) (ds_processor ds') =
         (if isCustomDs ds then map_option (\<lambda>p. map_of (processor_options p) ++ map_of args) (ds_processor ds)
          else map_option (map_of \<circ> processor_options) (ds_processor ds)))"
proof (cases "isRuntimeDs ds")
  case True
  then have "\<not> isCustomDs ds" by (rule runtime_not_custom)
  with True assms(2) show ?thesis
    by (auto simp: updateDynamicDs_def Let_def only_options_changed_def ds_address_def spreadOptions_def
        split: js.splits option.splits if_splits)
next
  case False
  with assms show ?thesis
    by (auto simp: updateDynamicDs_def only_options_changed_def objSpread_map split: option.splits if_splits)
qed

definition sample_ds :: SubqlDatasource where
  "sample_ds = \<lparr>ds_kind = EthereumDatasourceKind_Runtime,
     ds_options = Val \<lparr>opt_abi = Val ''erc20'', opt_address = Undefined\<rparr>, ds_handlers = [],
     ds_assets = Undefined, ds_processor = None\<rparr>"

theorem dynamic_ds_takes_args_witness:
  "ds_address (snd (updateDynamicDs (\<lambda>_. []) [(''address'', ''0xABC'')] sample_ds)) = Val ''0xABC''"
  using dynamic_ds_takes_args [of "[(''address'', ''0xABC'')]"
      "fst (updateDynamicDs (\<lambda>_. []) [(''address'', ''0xABC'')] sample_ds)"
      "snd (updateDynamicDs (\<lambda>_. []) [(''address'', ''0xABC'')] sample_ds)" "\<lambda>_. []" sample_ds]
  by (simp add: isRuntimeDs_def sample_ds_def)

end
