(* ===== verification/Unfinalized.thy ===== *)
theory Unfinalized
  imports Blockchain_Service
begin

text \<open>
  \<open>packages/node/src/indexer/unfinalizedBlocks.service.ts\<close>: the detection of a fork when the node
  starts, and the search for the last block that was indexed before a fork. The headers of the
  blocks that were indexed and are not final are a list in ascending order (\<open>unfinalizedBlocks\<close>
  of the base class). The proof of index of node-core (\<open>findFinalizedUsingPOI\<close> and the message of
  the error it throws when it is not enabled) is a parameter; the chain is read with
  \<open>getHeaderForHash\<close> and \<open>getHeaderForHeight\<close> of \<open>Blockchain_Service\<close>, which the record
  \<open>chainView\<close> holds.
\<close>

record chainView =
  headerForHash :: "string \<Rightarrow> js_error + Header"
  headerForHeight :: "int \<Rightarrow> js_error + Header"

definition chainOf :: "ethers \<Rightarrow> netEnv \<Rightarrow> EthereumApi \<Rightarrow> chainView" where
  "chainOf E env api =
     \<lparr>headerForHash = getHeaderForHash E env api, headerForHeight = getHeaderForHeight E env api\<rparr>"

record UnfinalizedBlocksService =
  unfinalizedBlocks :: "Header list"
  startupCheck :: bool
  forkReindex :: int

definition newUnfinalizedBlocksService :: "Header list \<Rightarrow> int \<Rightarrow> UnfinalizedBlocksService" where
  "newUnfinalizedBlocksService blocks reindex =
     \<lparr>unfinalizedBlocks = blocks, startupCheck = True, forkReindex = reindex\<rparr>"

section \<open>Detecting a fork\<close>

text \<open>The comparison of the last two blocks.\<close>

definition lastTwoForked :: "Header list \<Rightarrow> Header option" where
  "lastTwoForked blocks =
     (if length blocks \<le> 2 then None
      else let i = length blocks - 1; current = blocks ! i; parent = blocks ! (i - 1)
        in if h_parentHash current \<noteq> Val (blockHash parent) then Some current else None)"

definition hasForked ::
    "chainView \<Rightarrow> UnfinalizedBlocksService \<Rightarrow> (js_error + Header option) \<times> UnfinalizedBlocksService" where
  "hasForked view s =
     (let s' = s\<lparr>startupCheck := False\<rparr>
      in if startupCheck s \<and> unfinalizedBlocks s \<noteq> [] then
           (let lastUnfinalized = last (unfinalizedBlocks s)
            in case headerForHeight view (blockHeight lastUnfinalized) of
                 Inl e \<Rightarrow> (Inl e, s')
               | Inr checkUnfinalized \<Rightarrow>
                   (if blockHash lastUnfinalized \<noteq> blockHash checkUnfinalized
                    then (Inr (Some checkUnfinalized), s')
                    else (Inr (lastTwoForked (unfinalizedBlocks s)), s')))
         else (Inr (lastTwoForked (unfinalizedBlocks s)), s'))"

section \<open>Finding the last block before it\<close>

text \<open>The loop: it returns a block, \<open>Inl\<close>, or goes on to the end with a header to check, \<open>Inr\<close>.\<close>

fun searchBack :: "chainView \<Rightarrow> Header list \<Rightarrow> Header \<Rightarrow> js_error + Header + Header" where
  "searchBack view [] checkingHeader = Inr (Inr checkingHeader)"
| "searchBack view (header # rest) checkingHeader =
     (if blockHash header = blockHash checkingHeader \<or> Val (blockHash header) = h_parentHash checkingHeader
      then Inr (Inl header)
      else case h_parentHash checkingHeader of
        Val parent \<Rightarrow>
          (if parent = [] then Inl (Error ''Unable to get parent hash for header'')
           else case headerForHash view parent of
             Inr c \<Rightarrow> searchBack view rest c
           | Inl _ \<Rightarrow>
               (case headerForHeight view (blockHeight checkingHeader - 1) of
                  Inl e \<Rightarrow> Inl e
                | Inr c \<Rightarrow> searchBack view rest c))
      | _ \<Rightarrow> Inl (Error ''Unable to get parent hash for header''))"

definition verifiable :: "UnfinalizedBlocksService \<Rightarrow> Header \<Rightarrow> Header list" where
  "verifiable s forkedHeader =
     filter (\<lambda>h. blockHeight h < blockHeight forkedHeader) (unfinalizedBlocks s)"

definition getLastCorrectFinalizedBlock ::
    "(Header \<Rightarrow> js_error + Header option) \<Rightarrow> string \<Rightarrow> chainView \<Rightarrow> UnfinalizedBlocksService \<Rightarrow> Header
      \<Rightarrow> js_error + Header option" where
  "getLastCorrectFinalizedBlock findFinalizedUsingPOI poiNotEnabled view s forkedHeader =
     (case searchBack view (rev (verifiable s forkedHeader)) forkedHeader of
        Inl e \<Rightarrow> Inl e
      | Inr (Inl header) \<Rightarrow> Inr (Some header)
      | Inr (Inr checkingHeader) \<Rightarrow>
          (case findFinalizedUsingPOI checkingHeader of
             Inr poiHeader \<Rightarrow> Inr poiHeader
           | Inl e \<Rightarrow>
               (if message e = poiNotEnabled then
                  bindE (headerForHeight view (max 0 (blockHeight forkedHeader - forkReindex s)))
                    (\<lambda>h. Inr (Some h))
                else Inl e)))"

section \<open>Properties\<close>

text \<open>The chain \<open>C\<close>, a header for each height, as the endpoint shows it up to height \<open>f\<close>: each
  header names its parent, has a hash, and is found by its height and by its hash.\<close>

definition shows_chain :: "chainView \<Rightarrow> (int \<Rightarrow> Header) \<Rightarrow> int \<Rightarrow> bool" where
  "shows_chain view C f \<longleftrightarrow>
     (\<forall>k. 0 \<le> k \<and> k \<le> f \<longrightarrow>
        blockHeight (C k) = k \<and> blockHash (C k) \<noteq> [] \<and>
        headerForHeight view k = Inr (C k) \<and> headerForHash view (blockHash (C k)) = Inr (C k) \<and>
        (0 < k \<longrightarrow> h_parentHash (C k) = Val (blockHash (C (k - 1)))))"

text \<open>A block of another height does not have the hash of a block of the chain.\<close>

definition hashes_identify :: "(int \<Rightarrow> Header) \<Rightarrow> Header list \<Rightarrow> bool" where
  "hashes_identify C blocks \<longleftrightarrow> (\<forall>h \<in> set blocks. \<forall>k. blockHash h = blockHash (C k) \<longrightarrow> blockHeight h = k)"

text \<open>An indexed block is on the chain.\<close>

definition on_chain :: "(int \<Rightarrow> Header) \<Rightarrow> Header \<Rightarrow> bool" where
  "on_chain C h \<longleftrightarrow> blockHash h = blockHash (C (blockHeight h))"

lemma searchBack_finds:
  assumes "shows_chain view C f" and "hashes_identify C hs"
    and "map blockHeight hs = rev [b..k - 1]" and "0 \<le> b" and "b \<le> k" and "k \<le> f"
  shows "searchBack view hs (C k) =
    (case find (on_chain C) hs of Some h \<Rightarrow> Inr (Inl h) | None \<Rightarrow> Inr (Inr (C b)))"
  using assms(2,3,5,6)
proof (induction hs arbitrary: k)
  case Nil
  then have "k = b" by simp
  then show ?case by simp
next
  case (Cons h hs)
  have "b \<le> k - 1"
    using Cons.prems(2) by (cases "b \<le> k - 1") auto
  then have "rev [b..k - 1] = (k - 1) # rev [b..k - 1 - 1]"
    by (subst upto_rec2) simp_all
  with Cons.prems(2) have h: "blockHeight h = k - 1" and hs: "map blockHeight hs = rev [b..(k - 1) - 1]"
    by simp_all
  have C: "blockHash (C (k - 1)) \<noteq> []" "headerForHash view (blockHash (C (k - 1))) = Inr (C (k - 1))"
      "h_parentHash (C k) = Val (blockHash (C (k - 1)))"
    using assms(1,4) \<open>b \<le> k - 1\<close> Cons.prems(4) by (auto simp: shows_chain_def)
  have "blockHash h \<noteq> blockHash (C k)"
    using Cons.prems(1) h by (auto simp: hashes_identify_def)
  moreover have "hashes_identify C hs" using Cons.prems(1) by (simp add: hashes_identify_def)
  ultimately show ?case
    using Cons.IH [OF _ hs] C h Cons.prems(4) \<open>b \<le> k - 1\<close> by (simp add: on_chain_def)
qed

definition expected_rewind ::
    "(Header \<Rightarrow> js_error + Header option) \<Rightarrow> string \<Rightarrow> (int \<Rightarrow> Header) \<Rightarrow> int \<Rightarrow> int \<Rightarrow> int \<Rightarrow> Header list
      \<Rightarrow> js_error + Header option" where
  "expected_rewind poi poiNotEnabled C reindex f b blocks =
     (case find (on_chain C) (rev blocks) of
        Some h \<Rightarrow> Inr (Some h)
      | None \<Rightarrow> (case poi (C b) of
          Inr r \<Rightarrow> Inr r
        | Inl e \<Rightarrow> if message e = poiNotEnabled then Inr (Some (C (max 0 (f - reindex)))) else Inl e))"

text \<open>C8. The search finds the right block: when the header that showed the fork is on the chain and
  the indexed blocks below it have consecutive heights, the result is the highest indexed block
  that is on the chain; when no indexed block is, it is what the proof of index gives for the
  header at the lowest of the heights, or, where that is not enabled, the chain's header the
  configured number of blocks below the fork.\<close>

theorem rewinds_to_last_common_block:
  assumes "shows_chain view C f" and "hashes_identify C (unfinalizedBlocks s)"
    and "map blockHeight (verifiable s (C f)) = [b..f - 1]" and "0 \<le> b" and "b \<le> f" and "0 \<le> forkReindex s"
  shows "getLastCorrectFinalizedBlock poi poiNotEnabled view s (C f) =
    expected_rewind poi poiNotEnabled C (forkReindex s) f b (verifiable s (C f))"
proof -
  have "hashes_identify C (rev (verifiable s (C f)))"
    using assms(2) by (auto simp: hashes_identify_def verifiable_def)
  moreover have "map blockHeight (rev (verifiable s (C f))) = rev [b..f - 1]"
    using assms(3) by (simp add: rev_map [symmetric])
  ultimately have "searchBack view (rev (verifiable s (C f))) (C f) =
      (case find (on_chain C) (rev (verifiable s (C f))) of Some h \<Rightarrow> Inr (Inl h) | None \<Rightarrow> Inr (Inr (C b)))"
    using assms(1,4,5) by (intro searchBack_finds [of view C f]) auto
  moreover have "blockHeight (C f) = f" "headerForHeight view (max 0 (f - forkReindex s)) = Inr (C (max 0 (f - forkReindex s)))"
    using assms(1,4,5,6) by (auto simp: shows_chain_def)
  ultimately show ?thesis
    by (simp add: getLastCorrectFinalizedBlock_def expected_rewind_def split: option.split sum.split)
qed

text \<open>When the header that showed the fork was orphaned in the meantime, its parent may be unknown.\<close>

definition knows_only_chain :: "chainView \<Rightarrow> (int \<Rightarrow> Header) \<Rightarrow> bool" where
  "knows_only_chain view C \<longleftrightarrow>
     (\<forall>x c. headerForHash view x = Inr c \<longrightarrow> c \<in> range C) \<and>
     (\<forall>k c. headerForHeight view k = Inr c \<longrightarrow> c \<in> range C) \<and>
     (\<forall>k p. h_parentHash (C k) = Val p \<and> p \<noteq> [] \<longrightarrow> p \<in> range (blockHash \<circ> C))"

lemma searchBack_sound:
  assumes "knows_only_chain view C" and "searchBack view hs c = Inr (Inl h)"
    and "c \<in> range C \<or> hs = [] \<or> (blockHash (hd hs) \<noteq> blockHash c \<and> Val (blockHash (hd hs)) \<noteq> h_parentHash c)"
    and "\<forall>h \<in> set hs. blockHash h \<noteq> []"
  shows "h \<in> set hs \<and> blockHash h \<in> range (blockHash \<circ> C)"
  using assms(2-4)
proof (induction hs arbitrary: c)
  case Nil
  then show ?case by simp
next
  case (Cons x hs)
  show ?case
  proof (cases "blockHash x = blockHash c \<or> Val (blockHash x) = h_parentHash c")
    case True
    with Cons.prems obtain k where k: "c = C k" and x: "h = x" "blockHash x \<noteq> []" by auto
    have "blockHash x \<in> range (blockHash \<circ> C)"
    proof (cases "blockHash x = blockHash c")
      case False
      with True have "h_parentHash (C k) = Val (blockHash x)" by (simp add: k)
      with assms(1) x(2) show ?thesis unfolding knows_only_chain_def by blast
    qed (use k in auto)
    with x show ?thesis by simp
  next
    case False
    with Cons.prems(1) obtain c' where c': "searchBack view hs c' = Inr (Inl h)"
        "(\<exists>p. headerForHash view p = Inr c') \<or> (\<exists>k. headerForHeight view k = Inr c')"
      by (auto split: js.splits if_splits sum.splits)
    with assms(1) have "c' \<in> range C" unfolding knows_only_chain_def by blast
    with Cons.IH [OF c'(1)] Cons.prems(3) show ?thesis by simp
  qed
qed

text \<open>Even then the search is safe: when the fork was detected because the last indexed block is
  neither the header that showed it nor its parent, a block that the search over the indexed
  blocks returns has the hash of a block of the chain, also when the parent of the orphaned header
  had to be looked up by its height.\<close>

theorem search_returns_chain_block:
  assumes "knows_only_chain view C"
    and "searchBack view (rev (verifiable s c)) c = Inr (Inl h)"
    and "blockHash (last (verifiable s c)) \<noteq> blockHash c"
    and "Val (blockHash (last (verifiable s c))) \<noteq> h_parentHash c"
    and "\<forall>h \<in> set (unfinalizedBlocks s). blockHash h \<noteq> []"
  shows "h \<in> set (unfinalizedBlocks s) \<and> blockHeight h < blockHeight c \<and> blockHash h \<in> range (blockHash \<circ> C)"
proof -
  have "h \<in> set (rev (verifiable s c)) \<and> blockHash h \<in> range (blockHash \<circ> C)"
    by (rule searchBack_sound [OF assms(1,2)])
      (use assms(3-5) in \<open>auto simp: verifiable_def hd_rev\<close>)
  then show ?thesis by (auto simp: verifiable_def)
qed

subsection \<open>The check at startup\<close>

text \<open>The check at startup runs once: the first call of \<open>hasForked\<close> reports a fork, with the
  header of the chain, exactly when the last indexed block is not the block of the chain at its
  height (or the last two blocks do not chain); every later call does not read the chain at all.\<close>

theorem startup_check_once:
  assumes "shows_chain view C f" and "startupCheck s" and "unfinalizedBlocks s \<noteq> []"
    and "0 \<le> blockHeight (last (unfinalizedBlocks s))" and "blockHeight (last (unfinalizedBlocks s)) \<le> f"
  shows "fst (hasForked view s) =
      Inr (if on_chain C (last (unfinalizedBlocks s)) then lastTwoForked (unfinalizedBlocks s)
           else Some (C (blockHeight (last (unfinalizedBlocks s))))) \<and>
    hasForked view' (snd (hasForked view s)) =
      (Inr (lastTwoForked (unfinalizedBlocks s)), snd (hasForked view s))"
proof -
  have "headerForHeight view (blockHeight (last (unfinalizedBlocks s))) =
      Inr (C (blockHeight (last (unfinalizedBlocks s))))"
    using assms(1,4,5) by (simp add: shows_chain_def)
  with assms(2,3) show ?thesis
    by (simp add: hasForked_def Let_def on_chain_def)
qed

subsection \<open>A sample chain\<close>

definition sample_header :: "string \<Rightarrow> int \<Rightarrow> Header" where
  "sample_header branch k =
     \<lparr>blockHeight = k, blockHash = branch @ show_nat (nat k),
      h_parentHash = Val (branch @ show_nat (nat (k - 1))), h_timestamp = k * 1000\<rparr>"

text \<open>A chain whose hashes start with \<open>a\<close>; of other hashes the endpoint knows no block.\<close>

definition sample_view :: chainView where
  "sample_view =
     \<lparr>headerForHash = (\<lambda>x. if x \<noteq> [] \<and> hd x = CHR ''a''
        then Inr (sample_header ''a'' (int (read_nat (tl x))))
        else Inl (TypeError ''Cannot read properties of null (reading 'number')'')),
      headerForHeight = (\<lambda>k. Inr (sample_header ''a'' k))\<rparr>"

text \<open>Two blocks of the chain and one of another branch were indexed.\<close>

definition sample_unfinalized :: UnfinalizedBlocksService where
  "sample_unfinalized = newUnfinalizedBlocksService
     [sample_header ''a'' 3, sample_header ''a'' 4, sample_header ''b'' 5] 1000"

lemma sample_shows_chain: "shows_chain sample_view (sample_header ''a'') f"
  by (simp add: shows_chain_def sample_header_def sample_view_def)

lemma sample_identify: "hashes_identify (sample_header ''a'') (unfinalizedBlocks sample_unfinalized)"
  by (auto simp: hashes_identify_def sample_header_def sample_unfinalized_def newUnfinalizedBlocksService_def)

lemma sample_knows: "knows_only_chain sample_view (sample_header ''a'')"
proof -
  have "a # show_nat (nat (k - 1)) \<in> (\<lambda>k. a # show_nat (nat k)) ` UNIV" for a and k :: int by blast
  then show ?thesis
    by (auto simp: knows_only_chain_def sample_header_def sample_view_def comp_def split: if_splits)
qed

lemma sample_verifiable:
  "verifiable sample_unfinalized (sample_header ''a'' 6) =
    [sample_header ''a'' 3, sample_header ''a'' 4, sample_header ''b'' 5]"
  "verifiable sample_unfinalized (sample_header ''c'' 6) =
    [sample_header ''a'' 3, sample_header ''a'' 4, sample_header ''b'' 5]"
  by (simp_all add: verifiable_def sample_unfinalized_def newUnfinalizedBlocksService_def sample_header_def)

theorem rewinds_to_last_common_block_witness:
  "getLastCorrectFinalizedBlock (\<lambda>_. Inl (Error ''off'')) ''off'' sample_view sample_unfinalized
     (sample_header ''a'' 6) = Inr (Some (sample_header ''a'' 4))"
proof -
  have "map blockHeight (verifiable sample_unfinalized (sample_header ''a'' 6)) = [3..6 - 1]"
    unfolding sample_verifiable by (simp add: sample_header_def upto.simps)
  moreover have "expected_rewind (\<lambda>_. Inl (Error ''off'')) ''off'' (sample_header ''a'') 1000 6 3
      (verifiable sample_unfinalized (sample_header ''a'' 6)) = Inr (Some (sample_header ''a'' 4))"
    unfolding sample_verifiable by (simp add: expected_rewind_def on_chain_def sample_header_def)
  moreover have "forkReindex sample_unfinalized = 1000"
    by (simp add: sample_unfinalized_def newUnfinalizedBlocksService_def)
  ultimately show ?thesis
    using rewinds_to_last_common_block [OF sample_shows_chain sample_identify, of 6 3
        "\<lambda>_. Inl (Error ''off'')" "''off''"] by simp
qed

theorem search_returns_chain_block_witness:
  "\<exists>h. searchBack sample_view (rev (verifiable sample_unfinalized (sample_header ''c'' 6)))
      (sample_header ''c'' 6) = Inr (Inl h) \<and>
    blockHash h \<in> range (blockHash \<circ> sample_header ''a'')"
proof -
  have "searchBack sample_view (rev (verifiable sample_unfinalized (sample_header ''c'' 6)))
      (sample_header ''c'' 6) = Inr (Inl (sample_header ''a'' 4))"
    unfolding sample_verifiable by (simp add: sample_header_def sample_view_def)
  moreover from search_returns_chain_block [OF sample_knows this]
  have "blockHash (sample_header ''a'' 4) \<in> range (blockHash \<circ> sample_header ''a'')"
    unfolding sample_verifiable
    by (simp add: sample_header_def sample_unfinalized_def newUnfinalizedBlocksService_def)
  ultimately show ?thesis by blast
qed

theorem startup_check_once_witness:
  "fst (hasForked sample_view sample_unfinalized) = Inr (Some (sample_header ''a'' 5))"
  using startup_check_once [OF sample_shows_chain, of sample_unfinalized 5]
  by (simp add: sample_unfinalized_def newUnfinalizedBlocksService_def on_chain_def sample_header_def)

end
