(* ===== verification/Indexer_Manager.thy ===== *)
theory Indexer_Manager
  imports Block_Filters Eth_Fetch Eth_Decode
begin

text \<open>
  \<open>packages/node/src/indexer/indexer.manager.ts\<close>: the order in which the parts of a block are
  handed to the data sources, the choice of the filter and of the decoder by the kind of handler.
  \<open>indexData\<close> of node-core, which runs the handlers of one data source on one item, is a
  parameter on a state of its own; \<open>live\<close> reads from that state the array of data sources, which
  a handler extends when it creates a dynamic data source, while the loops below run over it. Items
  are values here; \<open>Shared_Indexing\<close> has the loops over the objects of a block.
\<close>

datatype IndexItem = BlockItem BlockContent | TxItem EthereumTransaction | LogItem EthereumLog

type_synonym ('s, 'i) offering = "'s \<Rightarrow> string \<Rightarrow> 'i \<Rightarrow> SubqlDatasource \<Rightarrow> js_error + 's"

type_synonym 's indexData = "('s, IndexItem) offering"

section \<open>The loops\<close>

text \<open>\<open>for (const ds of dataSources) await this.indexData(kind, item, ds)\<close> from position \<open>i\<close> on: the
  iterator sees elements that are added behind it, so the loop is a
  \<^theory_text>\<open>partial_function\<close>, \<open>None\<close> when handlers keep adding data sources for ever.\<close>

partial_function (option) forDs ::
    "('s, 'i) offering \<Rightarrow> ('s \<Rightarrow> SubqlDatasource list) \<Rightarrow> string \<Rightarrow> 'i \<Rightarrow> nat \<Rightarrow> 's \<Rightarrow> (js_error + 's) option" where
  "forDs indexData live knd item i s =
     (if i < length (live s) then
        (case indexData s knd item (live s ! i) of
           Inl e \<Rightarrow> Some (Inl e)
         | Inr s' \<Rightarrow> forDs indexData live knd item (Suc i) s')
      else Some (Inr s))"

definition andThen :: "(js_error + 's) option \<Rightarrow> ('s \<Rightarrow> (js_error + 's) option) \<Rightarrow> (js_error + 's) option" where
  "andThen m f = (case m of None \<Rightarrow> None | Some (Inl e) \<Rightarrow> Some (Inl e) | Some (Inr s) \<Rightarrow> f s)"

definition indexBlockContent ::
    "'s indexData \<Rightarrow> ('s \<Rightarrow> SubqlDatasource list) \<Rightarrow> BlockContent \<Rightarrow> 's \<Rightarrow> (js_error + 's) option" where
  "indexBlockContent indexData live block s =
     forDs indexData live EthereumHandlerKind_Block (BlockItem block) 0 s"

definition indexTransaction ::
    "'s indexData \<Rightarrow> ('s \<Rightarrow> SubqlDatasource list) \<Rightarrow> EthereumTransaction \<Rightarrow> 's \<Rightarrow> (js_error + 's) option" where
  "indexTransaction indexData live tx s = forDs indexData live EthereumHandlerKind_Call (TxItem tx) 0 s"

definition indexEvent ::
    "'s indexData \<Rightarrow> ('s \<Rightarrow> SubqlDatasource list) \<Rightarrow> EthereumLog \<Rightarrow> 's \<Rightarrow> (js_error + 's) option" where
  "indexEvent indexData live log s = forDs indexData live EthereumHandlerKind_Event (LogItem log) 0 s"

fun forEach :: "('a \<Rightarrow> 's \<Rightarrow> (js_error + 's) option) \<Rightarrow> 'a list \<Rightarrow> 's \<Rightarrow> (js_error + 's) option" where
  "forEach f [] s = Some (Inr s)"
| "forEach f (x # xs) s = andThen (f x s) (forEach f xs)"

definition logsOrEmpty :: "EthereumLog list js \<Rightarrow> EthereumLog list" where
  "logsOrEmpty ls = (case ls of Val xs \<Rightarrow> xs | _ \<Rightarrow> [])"

definition fullTransactions :: "BlockContent \<Rightarrow> EthereumTransaction list" where
  "fullTransactions block =
     List.map_filter (\<lambda>t. case t of FullTx tx \<Rightarrow> Some tx | TxHash _ \<Rightarrow> None) (transactions block)"

definition indexBlockData ::
    "'s indexData \<Rightarrow> ('s \<Rightarrow> SubqlDatasource list) \<Rightarrow> BlockContent \<Rightarrow> 's \<Rightarrow> (js_error + 's) option" where
  "indexBlockData indexData live block s =
     (if isFullBlock block then
        andThen (indexBlockContent indexData live block s)
          (forEach (\<lambda>tx s. andThen (indexTransaction indexData live tx s)
             (forEach (indexEvent indexData live) (logsOrEmpty (tx_logs tx)))) (fullTransactions block))
      else forEach (indexEvent indexData live) (block_logs block) s)"

section \<open>Filters and decoders\<close>

record filterCaches =
  topicCache :: hashCache
  sighashCache :: hashCache

text \<open>\<open>FilterTypeMap[kind](data, filter, ds)\<close>; the filter comes with its handler. A handler of
  another kind than the item is not asked by node-core.\<close>

fun filterTypeMap ::
    "ethers \<Rightarrow> (int \<Rightarrow> EthereumBlockFilter js \<Rightarrow> bool) \<Rightarrow> filterCaches \<Rightarrow> IndexItem \<Rightarrow> SubqlHandler \<Rightarrow> SubqlDatasource
      \<Rightarrow> (js_error + bool) \<times> filterCaches" where
  "filterTypeMap E fbt c (BlockItem b) (BlockHandler _ flt) ds =
     (Inr (filterBlocksProcessor fbt b flt (ds_address ds)), c)"
| "filterTypeMap E fbt c (LogItem l) (EventHandler _ flt) ds =
     (let (r, t) = filterLogsProcessor E (topicCache c) l flt (ds_address ds) in (r, c\<lparr>topicCache := t\<rparr>))"
| "filterTypeMap E fbt c (TxItem tx) (CallHandler _ flt) ds =
     (let (r, t) = filterTransactionsProcessor E (sighashCache c) tx flt (ds_address ds)
      in (r, c\<lparr>sighashCache := t\<rparr>))"
| "filterTypeMap E fbt c _ _ ds = (Inr False, c)"

text \<open>\<open>ProcessorTypeMap\<close>: the base kind of a processor's handler is compared with the kind.\<close>

definition isBlockHandlerProcessor :: "string \<Rightarrow> bool" where
  "isBlockHandlerProcessor baseHandlerKind = (baseHandlerKind = EthereumHandlerKind_Block)"

definition isEventHandlerProcessor :: "string \<Rightarrow> bool" where
  "isEventHandlerProcessor baseHandlerKind = (baseHandlerKind = EthereumHandlerKind_Event)"

definition isCallHandlerProcessor :: "string \<Rightarrow> bool" where
  "isCallHandlerProcessor baseHandlerKind = (baseHandlerKind = EthereumHandlerKind_Call)"

text \<open>\<open>DataAbiParser[kind]\<close>, with the interface table of the API.\<close>

fun prepareFilteredData ::
    "ethers \<Rightarrow> 'i abiLib \<Rightarrow> (string \<rightharpoonup> 'i) \<Rightarrow> IndexItem \<Rightarrow> SubqlDatasource \<Rightarrow> IndexItem \<times> (string \<rightharpoonup> 'i)" where
  "prepareFilteredData E L c (BlockItem b) ds = (BlockItem b, c)"
| "prepareFilteredData E L c (LogItem l) ds = (let (l', c') = parseLog L c l ds in (LogItem l', c'))"
| "prepareFilteredData E L c (TxItem tx) ds =
     (let (tx', c') = parseTransaction E L c tx ds in (TxItem tx', c'))"

text \<open>The answer without tables, and the validity of both tables.\<close>

fun handlerAccepts ::
    "ethers \<Rightarrow> (int \<Rightarrow> EthereumBlockFilter js \<Rightarrow> bool) \<Rightarrow> IndexItem \<Rightarrow> SubqlHandler \<Rightarrow> SubqlDatasource \<Rightarrow> js_error + bool" where
  "handlerAccepts E fbt (BlockItem b) (BlockHandler _ flt) ds = Inr (filterBlocksProcessor fbt b flt (ds_address ds))"
| "handlerAccepts E fbt (LogItem l) (EventHandler _ flt) ds = logResult E l flt (ds_address ds)"
| "handlerAccepts E fbt (TxItem tx) (CallHandler _ flt) ds = transactionResult E tx flt (ds_address ds)"
| "handlerAccepts E fbt _ _ ds = Inr False"

definition caches_valid :: "ethers \<Rightarrow> filterCaches \<Rightarrow> bool" where
  "caches_valid E c \<longleftrightarrow> cache_valid (topicOf E) (topicCache c) \<and> cache_valid (sighashOf E) (sighashCache c)"

lemma filterTypeMap_valid:
  assumes "caches_valid E c"
  shows "fst (filterTypeMap E fbt c item h ds) = handlerAccepts E fbt item h ds \<and>
    caches_valid E (snd (filterTypeMap E fbt c item h ds))"
  using assms
proof (cases "(E, fbt, c, item, h, ds)" rule: filterTypeMap.cases)
  case (2 E' fbt' c' l n flt ds')
  then show ?thesis
    using assms filterLogs_valid [of E "topicCache c" l flt "ds_address ds"]
    by (simp add: caches_valid_def case_prod_unfold Let_def)
next
  case (3 E' fbt' c' tx n flt ds')
  then show ?thesis
    using assms filterTransactions_valid [of E "sighashCache c" tx flt "ds_address ds"]
    by (simp add: caches_valid_def case_prod_unfold Let_def)
qed simp_all

interpretation dispatch: memoised "\<lambda>c (item, h, ds). filterTypeMap E fbt c item h ds"
    "\<lambda>(item, h, ds). handlerAccepts E fbt item h ds" "caches_valid E"
    "\<lparr>topicCache = Map.empty, sighashCache = Map.empty\<rparr>"
  for E fbt
  by unfold_locales (auto simp: filterTypeMap_valid, auto simp: caches_valid_def cache_valid_def)

section \<open>The order of handlers\<close>

text \<open>The calls of \<open>indexData\<close> for a block, with a fixed list of data sources.\<close>

definition schedule :: "BlockContent \<Rightarrow> SubqlDatasource list \<Rightarrow> (string \<times> IndexItem \<times> SubqlDatasource) list" where
  "schedule block dss =
     (let offer = (\<lambda>knd item. map (\<lambda>ds. (knd, item, ds)) dss);
          events = (\<lambda>ls. concat (map (\<lambda>l. offer EthereumHandlerKind_Event (LogItem l)) ls))
      in if isFullBlock block
         then offer EthereumHandlerKind_Block (BlockItem block) @
           concat (map (\<lambda>tx. offer EthereumHandlerKind_Call (TxItem tx) @ events (logsOrEmpty (tx_logs tx)))
             (fullTransactions block))
         else events (block_logs block))"

text \<open>A step that records its call and may add data sources at the end.\<close>

definition recording ::
    "'s indexData \<Rightarrow> ('s \<Rightarrow> SubqlDatasource list) \<Rightarrow> ('s \<Rightarrow> (string \<times> IndexItem \<times> SubqlDatasource) list) \<Rightarrow> bool" where
  "recording indexData live trace \<longleftrightarrow>
     (\<forall>s k item ds s'. indexData s k item ds = Inr s' \<longrightarrow>
        trace s' = trace s @ [(k, item, ds)] \<and> (\<exists>new. live s' = live s @ new))"

definition adds_nothing :: "'s indexData \<Rightarrow> ('s \<Rightarrow> SubqlDatasource list) \<Rightarrow> bool" where
  "adds_nothing indexData live \<longleftrightarrow>
     (\<forall>s k item ds. \<exists>s'. indexData s k item ds = Inr s' \<and> live s' = live s)"

lemma forDs_live:
  assumes "recording indexData live trace" and "forDs indexData live k item i s = Some (Inr s')"
    and "i \<le> length (live s)"
  shows "trace s' = trace s @ map (\<lambda>ds. (k, item, ds)) (drop i (live s')) \<and> (\<exists>new. live s' = live s @ new)"
proof -
  define P where "P = (\<lambda>indexData live k item i s r. recording indexData live trace \<longrightarrow> i \<le> length (live s) \<longrightarrow>
      (\<forall>s'. r = (Inr s' :: js_error + 'a) \<longrightarrow> trace s' = trace s @ map (\<lambda>ds. (k, item, ds)) (drop i (live s')) \<and>
        (\<exists>new. live s' = live s @ new)))"
  have "P indexData live k item i s (Inr s')"
  proof (rule forDs.raw_induct [where P = P, OF _ assms(2)])
    fix f :: "_ \<Rightarrow> _ \<Rightarrow> _ \<Rightarrow> _ \<Rightarrow> _ \<Rightarrow> _ \<Rightarrow> (js_error + 'a) option" and indexData live k item i s r
    assume IH: "\<And>indexData live k item i s r. f indexData live k item i s = Some r \<Longrightarrow> P indexData live k item i s r"
      and eq: "(if i < length (live s) then (case indexData s k item (live s ! i) of Inl e \<Rightarrow> Some (Inl e)
        | Inr s' \<Rightarrow> f indexData live k item (Suc i) s') else Some (Inr s)) = Some r"
    show "P indexData live k item i s r"
      unfolding P_def
    proof (intro impI allI)
      fix s' assume rec: "recording indexData live trace" and i: "i \<le> length (live s)" and r: "r = Inr s'"
      show "trace s' = trace s @ map (\<lambda>ds. (k, item, ds)) (drop i (live s')) \<and> (\<exists>new. live s' = live s @ new)"
      proof (cases "i < length (live s)")
        case True
        with eq r obtain t where t: "indexData s k item (live s ! i) = Inr t"
            "f indexData live k item (Suc i) t = Some (Inr s')"
          by (auto split: sum.splits)
        from rec t(1) obtain new where tr: "trace t = trace s @ [(k, item, live s ! i)]" "live t = live s @ new"
          unfolding recording_def by blast
        have "Suc i \<le> length (live t)" using True tr(2) by simp
        with IH [OF t(2)] rec obtain new' where s': "trace s' = trace t @ map (\<lambda>ds. (k, item, ds)) (drop (Suc i) (live s'))"
            "live s' = live t @ new'" unfolding P_def by blast
        have "live s' ! i = live s ! i" "i < length (live s')"
          using True tr(2) s'(2) by (simp_all add: nth_append)
        then have "drop i (live s') = live s ! i # drop (Suc i) (live s')"
          by (metis Cons_nth_drop_Suc)
        with tr s' show ?thesis by simp
      next
        case False
        with eq r i show ?thesis by simp
      qed
    qed
  qed
  with assms(1,3) show ?thesis unfolding P_def by blast
qed

text \<open>Loops whose steps keep an invariant and each add something to what is observed.\<close>

lemma forDs_runs:
  assumes "\<And>s. I s \<Longrightarrow> live s = dss"
    and "\<And>s ds. I s \<Longrightarrow> ds \<in> set dss \<Longrightarrow> \<exists>s'. indexData s k item ds = Inr s' \<and> I s' \<and> tr s' = tr s @ g ds"
    and "I s" and "i \<le> length dss"
  shows "\<exists>s'. forDs indexData live k item i s = Some (Inr s') \<and> I s' \<and> tr s' = tr s @ concat (map g (drop i dss))"
  using assms(3,4)
proof (induction "length dss - i" arbitrary: i s)
  case 0
  then show ?case using assms(1) [of s] by (subst forDs.simps) simp
next
  case (Suc n)
  then have i: "i < length dss" and same: "live s = dss" using assms(1) by simp_all
  from assms(2) [OF Suc.prems(1), of "dss ! i"] i obtain t where
    t: "indexData s k item (dss ! i) = Inr t" "I t" "tr t = tr s @ g (dss ! i)" by auto
  have "n = length dss - Suc i" "Suc i \<le> length dss" using Suc.hyps(2) i by simp_all
  from Suc.hyps(1) [OF this(1) t(2) this(2)] obtain s' where "forDs indexData live k item (Suc i) t = Some (Inr s')"
      "I s'" "tr s' = tr t @ concat (map g (drop (Suc i) dss))" by auto
  then show ?case
    using i same t by (subst forDs.simps) (simp add: Cons_nth_drop_Suc [symmetric])
qed

lemma forEach_runs:
  assumes "\<And>x s. x \<in> set xs \<Longrightarrow> I s \<Longrightarrow> \<exists>s'. f x s = Some (Inr s') \<and> I s' \<and> tr s' = tr s @ g x"
    and "I s"
  shows "\<exists>s'. forEach f xs s = Some (Inr s') \<and> I s' \<and> tr s' = tr s @ concat (map g xs)"
  using assms
proof (induction xs arbitrary: s)
  case (Cons x xs)
  from Cons.prems(1) [of x s] Cons.prems(2) obtain t where t: "f x s = Some (Inr t)" "I t" "tr t = tr s @ g x" by auto
  from Cons.IH [OF Cons.prems(1) t(2)] t show ?case by (auto simp: andThen_def)
qed simp

lemma andThen_runs:
  assumes "\<exists>s'. m = Some (Inr s') \<and> I s' \<and> tr s' = xs"
    and "\<And>s'. I s' \<Longrightarrow> \<exists>s''. f s' = Some (Inr s'') \<and> I s'' \<and> tr s'' = tr s' @ ys"
  shows "\<exists>s''. andThen m f = Some (Inr s'') \<and> I s'' \<and> tr s'' = xs @ ys"
proof -
  from assms(1) obtain t where "m = Some (Inr t)" "I t" "tr t = xs" by blast
  with assms(2) [of t] show ?thesis by (auto simp: andThen_def)
qed

text \<open>The items of a block that are offered to the data sources.\<close>

definition blockItems :: "BlockContent \<Rightarrow> IndexItem list" where
  "blockItems block =
     (if isFullBlock block
      then BlockItem block #
        concat (map (\<lambda>tx. TxItem tx # map LogItem (logsOrEmpty (tx_logs tx))) (fullTransactions block))
      else map LogItem (block_logs block))"

lemma concat_map_concat: "concat (map g (concat xss)) = concat (map (\<lambda>xs. concat (map g xs)) xss)"
  by (induction xss) simp_all

lemma indexBlockData_runs:
  assumes live: "\<And>t. I t \<Longrightarrow> live t = dss"
    and step: "\<And>t k item ds. I t \<Longrightarrow> item \<in> set (blockItems block) \<Longrightarrow> ds \<in> set dss \<Longrightarrow>
      \<exists>s'. indexData t k item ds = Inr s' \<and> I s' \<and> tr s' = tr t @ g (k, item, ds)"
    and start: "I s"
  shows "\<exists>s'. indexBlockData indexData live block s = Some (Inr s') \<and> I s' \<and>
    tr s' = tr s @ concat (map g (schedule block dss))"
proof -
  have offer: "\<exists>s'. forDs indexData live k item 0 t = Some (Inr s') \<and> I s' \<and>
      tr s' = tr t @ concat (map (\<lambda>ds. g (k, item, ds)) dss)" if "item \<in> set (blockItems block)" "I t" for k item t
    using forDs_runs [of I live dss indexData k item tr "\<lambda>ds. g (k, item, ds)" t 0, OF live step [OF _ that(1)] that(2)]
    by simp
  let ?ev = "\<lambda>l. concat (map (\<lambda>ds. g (EthereumHandlerKind_Event, LogItem l, ds)) dss)"
  have events: "\<exists>s'. forEach (indexEvent indexData live) ls t = Some (Inr s') \<and> I s' \<and>
      tr s' = tr t @ concat (map ?ev ls)" if "LogItem ` set ls \<subseteq> set (blockItems block)" "I t" for ls t
  proof (rule forEach_runs [where I = I and tr = tr, OF _ that(2)])
    fix l t assume "l \<in> set ls" and t: "I t"
    with that(1) have "LogItem l \<in> set (blockItems block)" by blast
    from offer [OF this t] show "\<exists>s'. indexEvent indexData live l t = Some (Inr s') \<and> I s' \<and> tr s' = tr t @ ?ev l"
      unfolding indexEvent_def .
  qed
  show ?thesis
  proof (cases "isFullBlock block")
    case True
    let ?tx = "\<lambda>tx. concat (map (\<lambda>ds. g (EthereumHandlerKind_Call, TxItem tx, ds)) dss) @
      concat (map ?ev (logsOrEmpty (tx_logs tx)))"
    have txs: "\<exists>s'. forEach (\<lambda>tx t. andThen (indexTransaction indexData live tx t)
        (forEach (indexEvent indexData live) (logsOrEmpty (tx_logs tx)))) (fullTransactions block) t = Some (Inr s') \<and>
        I s' \<and> tr s' = tr t @ concat (map ?tx (fullTransactions block))" if "I t" for t
    proof (rule forEach_runs [where I = I and tr = tr, OF _ that])
      fix tx t assume tx: "tx \<in> set (fullTransactions block)" and t: "I t"
      have items: "TxItem tx \<in> set (blockItems block)" "LogItem ` set (logsOrEmpty (tx_logs tx)) \<subseteq> set (blockItems block)"
        using tx True by (auto simp: blockItems_def)
      show "\<exists>s'. andThen (indexTransaction indexData live tx t)
          (forEach (indexEvent indexData live) (logsOrEmpty (tx_logs tx))) = Some (Inr s') \<and> I s' \<and> tr s' = tr t @ ?tx tx"
        using andThen_runs [where I = I and tr = tr, OF offer [OF items(1) t] events [OF items(2)]]
        by (simp add: indexTransaction_def)
    qed
    have "BlockItem block \<in> set (blockItems block)" using True by (simp add: blockItems_def)
    with andThen_runs [where I = I and tr = tr, OF offer [OF _ start] txs] True show ?thesis
      by (simp add: indexBlockData_def indexBlockContent_def schedule_def Let_def concat_map_concat comp_def)
  next
    case False
    with events [OF _ start, of "block_logs block"] show ?thesis
      by (simp add: indexBlockData_def schedule_def blockItems_def Let_def concat_map_concat comp_def)
  qed
qed

lemma indexing_schedule:
  assumes "recording indexData live trace" and "adds_nothing indexData live"
  shows "\<exists>s'. indexBlockData indexData live block s = Some (Inr s') \<and>
    trace s' = trace s @ schedule block (live s)"
proof -
  have "\<exists>s'. indexData t k item ds = Inr s' \<and> live s' = live s \<and> trace s' = trace t @ [(k, item, ds)]"
    if "live t = live s" for t k item ds
    using assms that unfolding recording_def adds_nothing_def by metis
  from indexBlockData_runs [of "\<lambda>t. live t = live s" live "live s" block indexData trace "\<lambda>call. [call]" s, OF _ this]
  show ?thesis by auto
qed


text \<open>A data source that a handler creates while an item is being handled is not missed: the
  loop over the data sources offers the item to every data source present when the loop ends, the
  new ones included, once each and in order.\<close>

theorem new_data_sources_see_the_item:
  assumes "recording indexData live trace" and "forDs indexData live k item 0 s = Some (Inr s')"
  shows "trace s' = trace s @ map (\<lambda>ds. (k, item, ds)) (live s') \<and> (\<exists>new. live s' = live s @ new)"
  using forDs_live [OF assms] by simp

text \<open>A block without transactions is never taken for a full block, so none of the block
  handlers of the project sees it, and what is indexed of it is only its logs.\<close>

theorem empty_block_skips_block_handlers:
  "indexBlockData indexData live (block\<lparr>transactions := []\<rparr>) s =
     forEach (indexEvent indexData live) (block_logs block) s \<and>
   [call \<leftarrow> schedule (block\<lparr>transactions := []\<rparr>) dss. fst call = EthereumHandlerKind_Block] = []"
  by (auto simp: indexBlockData_def schedule_def isFullBlock_def Let_def filter_empty_conv kind_defs)

text \<open>The block \<open>fetchBlock\<close> returns, as the content of a full block.\<close>

definition fullContent :: "EthereumTransaction EthereumBlock \<Rightarrow> BlockContent" where
  "fullContent b =
     \<lparr>difficulty = difficulty b, gasLimit = gasLimit b, gasUsed = gasUsed b, block_hash = block_hash b,
      block_logs = block_logs b, block_number = block_number b, parentHash = parentHash b,
      block_size = block_size b, stateRoot = stateRoot b, block_timestamp = block_timestamp b,
      totalDifficulty = totalDifficulty b, transactions = map FullTx (transactions b),
      baseFeePerGas = baseFeePerGas b, blockGasCost = blockGasCost b, blobGasUsed = blobGasUsed b,
      excessBlobGas = excessBlobGas b\<rparr>"

lemma fullTransactions_fullContent [simp]: "fullTransactions (fullContent b) = transactions b"
  by (simp add: fullTransactions_def fullContent_def map_filter_def comp_def)

lemma schedule_events:
  "(EthereumHandlerKind_Event, LogItem l, ds) \<in> set (schedule block dss) \<longleftrightarrow> ds \<in> set dss \<and>
     (if isFullBlock block then \<exists>tx \<in> set (fullTransactions block). l \<in> set (logsOrEmpty (tx_logs tx))
      else l \<in> set (block_logs block))"
proof -
  have "EthereumHandlerKind_Event \<noteq> EthereumHandlerKind_Block" "EthereumHandlerKind_Event \<noteq> EthereumHandlerKind_Call"
    by (simp_all add: kind_defs)
  then show ?thesis by (simp add: schedule_def Let_def image_iff) blast
qed

text \<open>No log of a fetched block is lost between fetching and indexing: in the schedule of a
  block that \<open>fetchBlock\<close> returned, a data source is offered exactly the logs of the block whose
  transaction the block lists (all logs, when the block has no transactions).\<close>

theorem fetched_logs_are_offered:
  assumes "fetchBlock E env a n = Inr ib" and "ds \<in> set dss"
  shows "(EthereumHandlerKind_Event, LogItem l, ds) \<in> set (schedule (fullContent (iblock ib)) dss) \<longleftrightarrow>
    l \<in> set (block_logs (iblock ib)) \<and>
    (transactions (iblock ib) = [] \<or> log_transactionHash l \<in> tx_hash ` set (transactions (iblock ib)))"
proof -
  have "log_share_ok (iblock ib)" using fetchBlock_shares [OF assms(1)] .
  then have logs: "logsOrEmpty (tx_logs tx) = logsOf (block_logs (iblock ib)) (tx_hash tx)"
    if "tx \<in> set (transactions (iblock ib))" for tx
    using that by (simp add: log_share_ok_def logsOrEmpty_def)
  show ?thesis
  proof (cases "transactions (iblock ib)")
    case Nil
    then have "\<not> isFullBlock (fullContent (iblock ib))" by (simp add: isFullBlock_def fullContent_def)
    with assms(2) Nil show ?thesis by (simp add: schedule_events) (simp add: fullContent_def)
  next
    case (Cons t ts)
    then have "isFullBlock (fullContent (iblock ib))" by (simp add: isFullBlock_def fullContent_def)
    then have "(EthereumHandlerKind_Event, LogItem l, ds) \<in> set (schedule (fullContent (iblock ib)) dss) \<longleftrightarrow>
        (\<exists>tx \<in> set (transactions (iblock ib)). l \<in> set (logsOf (block_logs (iblock ib)) (tx_hash tx)))"
      using assms(2) logs by (simp add: schedule_events)
    with Cons show ?thesis by (auto simp: logsOf_def)
  qed
qed

subsection \<open>Samples\<close>

type_synonym recorder = "(string \<times> IndexItem \<times> SubqlDatasource) list \<times> SubqlDatasource list"

definition record_call :: "recorder indexData" where
  "record_call s k item ds = Inr (fst s @ [(k, item, ds)], snd s)"

text \<open>The first call of all creates one more data source.\<close>

definition create_once :: "SubqlDatasource \<Rightarrow> recorder indexData" where
  "create_once new s k item ds =
     Inr (fst s @ [(k, item, ds)], if fst s = [] then snd s @ [new] else snd s)"

definition runtime_ds :: "string \<Rightarrow> SubqlDatasource" where
  "runtime_ds a = \<lparr>ds_kind = EthereumDatasourceKind_Runtime,
     ds_options = Val \<lparr>opt_abi = Undefined, opt_address = Val a\<rparr>, ds_handlers = [],
     ds_assets = Undefined, ds_processor = None\<rparr>"

definition sample_log :: EthereumLog where
  "sample_log = \<lparr>log_address = Null, log_topics = [], log_data = ''0x'', log_blockHash = ''0xab'',
     log_blockNumber = 7, log_transactionHash = ''0x1'', log_transactionIndex = 0, logIndex = 0,
     removed = False, log_args = None\<rparr>"

definition sample_content :: BlockContent where
  "sample_content = \<lparr>difficulty = 0, gasLimit = 0, gasUsed = 0, block_hash = ''0xab'', block_logs = [sample_log],
     block_number = 7, parentHash = ''0xaa'', block_size = 1, stateRoot = ''0x0'', block_timestamp = 1,
     totalDifficulty = 0, transactions = [TxHash ''0x1''], baseFeePerGas = Undefined, blockGasCost = Undefined,
     blobGasUsed = Undefined, excessBlobGas = Undefined\<rparr>"


theorem new_data_sources_see_the_item_witness:
  "\<exists>s'. forDs (create_once (runtime_ds ''0xB'')) snd EthereumHandlerKind_Event (LogItem sample_log) 0
      ([], [runtime_ds ''0xA'']) = Some (Inr s') \<and>
    fst s' = [(EthereumHandlerKind_Event, LogItem sample_log, runtime_ds ''0xA''),
      (EthereumHandlerKind_Event, LogItem sample_log, runtime_ds ''0xB'')]"
proof -
  let ?new = "runtime_ds ''0xB''"
  have rec: "recording (create_once ?new) snd fst"
    by (simp add: recording_def create_once_def)
  have "\<exists>s'. forDs (create_once ?new) snd EthereumHandlerKind_Event (LogItem sample_log) 0
      ([], [runtime_ds ''0xA'']) = Some (Inr s') \<and> snd s' = [runtime_ds ''0xA'', ?new]"
    by (simp add: forDs.simps create_once_def)
  with new_data_sources_see_the_item [OF rec] show ?thesis by fastforce
qed

theorem fetched_logs_are_offered_witness:
  "\<exists>ib. fetchBlock sample_ethers (sample_fetch_env (Inr [sample_rawLog ''0xab'' ''0x1''])) sample_api 7 = Inr ib \<and>
     (\<exists>l. (EthereumHandlerKind_Event, LogItem l, runtime_ds ''0xA'')
       \<in> set (schedule (fullContent (iblock ib)) [runtime_ds ''0xA'']))"
proof -
  obtain ib where ib: "fetchBlock sample_ethers (sample_fetch_env (Inr [sample_rawLog ''0xab'' ''0x1''])) sample_api 7 = Inr ib"
      "map log_transactionHash (block_logs (iblock ib)) = [''0x1'']" "map tx_hash (transactions (iblock ib)) = [''0x1'']"
    using sample_fetchBlock_hashes by (elim exE conjE) (rule that)
  have "''0x1'' \<in> log_transactionHash ` set (block_logs (iblock ib))"
    by (simp add: image_set ib(2) del: set_map)
  then obtain l where l: "''0x1'' = log_transactionHash l" "l \<in> set (block_logs (iblock ib))"
    by (rule imageE)
  have "''0x1'' \<in> tx_hash ` set (transactions (iblock ib))"
    by (simp add: image_set ib(3) del: set_map)
  then have "log_transactionHash l \<in> tx_hash ` set (transactions (iblock ib))" by (simp only: l(1))
  with l(2) have "(EthereumHandlerKind_Event, LogItem l, runtime_ds ''0xA'')
      \<in> set (schedule (fullContent (iblock ib)) [runtime_ds ''0xA''])"
    using fetched_logs_are_offered [OF ib(1), of "runtime_ds ''0xA''" "[runtime_ds ''0xA'']" l]
    by (simp only: list.set_intros simp_thms)
  with ib(1) show ?thesis by (intro exI conjI)
qed

end
