(* ===== verification/Dictionary_Utils.thy ===== *)
theory Dictionary_Utils
  imports Indexer_Manager
begin

text \<open>
  \<open>packages/node/src/indexer/dictionary/utils.ts\<close>, the grouping of handlers that both dictionary
  query builders start from, and the interface the builders have to meet. A dictionary is a
  service that knows which blocks hold logs and transactions a query asks for; blocks it does not
  name are skipped. So a query must ask for every item that some handler of the project accepts.

  \<open>groupBy\<close> and \<open>uniqBy\<close> of lodash are parameters with their documented behaviour. The keys the
  code builds with \<open>JSON.stringify\<close> are represented by the value that is rendered: a property that
  is \<open>undefined\<close> is dropped, an array element that is \<open>undefined\<close> is rendered as \<open>null\<close>.
\<close>

section \<open>Library functions\<close>

type_synonym ('a, 'k) groupBy = "('a \<Rightarrow> 'k) \<Rightarrow> 'a list \<Rightarrow> ('k \<times> 'a list) list"
type_synonym ('a, 'k) uniqBy = "('a \<Rightarrow> 'k) \<Rightarrow> 'a list \<Rightarrow> 'a list"

definition groupBy_doc :: "('a, 'k) groupBy \<Rightarrow> bool" where
  "groupBy_doc G \<longleftrightarrow>
     (\<forall>f xs. fst ` set (G f xs) = f ` set xs \<and>
        (\<forall>(k, g) \<in> set (G f xs). g = filter (\<lambda>x. f x = k) xs))"

definition uniqBy_doc :: "('a, 'k) uniqBy \<Rightarrow> bool" where
  "uniqBy_doc U \<longleftrightarrow>
     (\<forall>f xs. set (U f xs) \<subseteq> set xs \<and> (\<forall>x \<in> set xs. \<exists>y \<in> set (U f xs). f y = f x))"

lemma uniqBy_docE: "uniqBy_doc U \<Longrightarrow> x \<in> set xs \<Longrightarrow> \<exists>y \<in> set (U f xs). f y = f x"
  unfolding uniqBy_doc_def by blast

text \<open>Instances, for the witnesses.\<close>

fun group_by :: "('a \<Rightarrow> 'k) \<Rightarrow> 'a list \<Rightarrow> ('k \<times> 'a list) list" where
  "group_by f [] = []"
| "group_by f (x # xs) =
     (f x, x # filter (\<lambda>y. f y = f x) xs) # group_by f (filter (\<lambda>y. f y \<noteq> f x) xs)"

fun uniq_by :: "('a \<Rightarrow> 'k) \<Rightarrow> 'a list \<Rightarrow> 'a list" where
  "uniq_by f [] = []"
| "uniq_by f (x # xs) = x # uniq_by f (filter (\<lambda>y. f y \<noteq> f x) xs)"

lemma group_by_keys: "fst ` set (group_by f xs) = f ` set xs"
proof (induction f xs rule: group_by.induct)
  case (2 f x xs)
  have "f ` set (x # xs) = insert (f x) (f ` set (filter (\<lambda>y. f y \<noteq> f x) xs))" by auto
  with 2 show ?case by simp
qed simp

lemma group_by_members: "(k, g) \<in> set (group_by f xs) \<Longrightarrow> g = filter (\<lambda>x. f x = k) xs"
proof (induction f xs rule: group_by.induct)
  case (2 f x xs)
  show ?case
  proof (cases "k = f x \<and> g = x # filter (\<lambda>y. f y = f x) xs")
    case False
    with "2.prems" have kg: "(k, g) \<in> set (group_by f (filter (\<lambda>y. f y \<noteq> f x) xs))" by auto
    then have "k \<in> fst ` set (group_by f (filter (\<lambda>y. f y \<noteq> f x) xs))" by force
    then have "k \<noteq> f x" unfolding group_by_keys by auto
    then have "filter (\<lambda>y. f y = k) (filter (\<lambda>y. f y \<noteq> f x) xs) = filter (\<lambda>y. f y = k) (x # xs)"
      by (induction xs) auto
    with "2.IH" [OF kg] show ?thesis by simp
  qed simp
qed simp

lemma group_by_doc: "groupBy_doc group_by"
  by (auto simp: groupBy_doc_def group_by_keys dest: group_by_members)

lemma uniq_by_subset: "set (uniq_by f xs) \<subseteq> set xs"
proof (induction f xs rule: uniq_by.induct)
  case (2 f x xs)
  moreover have "set (filter (\<lambda>y. f y \<noteq> f x) xs) \<subseteq> set xs" by simp
  ultimately show ?case by (metis insert_mono list.simps(15) order_trans uniq_by.simps(2))
qed simp

lemma uniq_by_keeps: "x \<in> set xs \<Longrightarrow> \<exists>y \<in> set (uniq_by f xs). f y = f x"
proof (induction f xs rule: uniq_by.induct)
  case (2 f z xs)
  show ?case
  proof (cases "f x = f z")
    case False
    with "2.prems" have "x \<in> set (filter (\<lambda>y. f y \<noteq> f z) xs)" by auto
    with "2.IH" show ?thesis by (metis list.set_intros(2) uniq_by.simps(2))
  qed simp
qed simp

lemma uniq_by_doc: "uniqBy_doc uniq_by"
  by (simp add: uniqBy_doc_def uniq_by_subset uniq_by_keeps)

section \<open>Grouping handlers\<close>

datatype filterJson = NoFilter | NullFilter | BlockJson EthereumBlockFilter
  | TxJson EthereumTransactionFilter | LogJson "string js list js" | CustomJson string

fun jsonElement :: "string js \<Rightarrow> string js" where
  "jsonElement Undefined = Null"
| "jsonElement t = t"

fun filterKey :: "SubqlHandler \<Rightarrow> filterJson" where
  "filterKey (BlockHandler _ flt) = (case flt of Undefined \<Rightarrow> NoFilter | Null \<Rightarrow> NullFilter | Val f \<Rightarrow> BlockJson f)"
| "filterKey (CallHandler _ flt) = (case flt of Undefined \<Rightarrow> NoFilter | Null \<Rightarrow> NullFilter | Val f \<Rightarrow> TxJson f)"
| "filterKey (EventHandler _ flt) = (case flt of Undefined \<Rightarrow> NoFilter | Null \<Rightarrow> NullFilter
     | Val f \<Rightarrow> LogJson (map_js (map jsonElement) (topics f)))"
| "filterKey (CustomHandler _ _ flt) = (case flt of Undefined \<Rightarrow> NoFilter | Null \<Rightarrow> NullFilter | Val f \<Rightarrow> CustomJson f)"

type_synonym addressHandler = "string js \<times> SubqlHandler"
type_synonym handlerKey = "string \<times> filterJson"

text \<open>\<open>[...new Set(xs)]\<close>: the first occurrence of each element.\<close>

definition setElements :: "'a list \<Rightarrow> 'a list" where
  "setElements xs = rev (remdups (rev xs))"

definition addressHandlers :: "SubqlDatasource list \<Rightarrow> addressHandler list" where
  "addressHandlers dss = concat (map (\<lambda>ds. map (\<lambda>h. (ds_address ds, h)) (ds_handlers ds)) dss)"

definition groupedDataSources ::
    "(addressHandler, handlerKey) groupBy \<Rightarrow> SubqlDatasource list \<Rightarrow> (SubqlHandler \<times> string js list) list" where
  "groupedDataSources G dss =
     map (\<lambda>(_, g). (snd (hd g), setElements (map fst g)))
       (G (\<lambda>(_, h). (kind h, filterKey h)) (addressHandlers dss))"

definition validAddresses :: "string js list \<Rightarrow> string list" where
  "validAddresses addresses = List.map_filter (\<lambda>a. case a of Val s \<Rightarrow> if s \<noteq> [] then Some s else None | _ \<Rightarrow> None) addresses"

lemma set_setElements [simp]: "set (setElements xs) = set xs"
  by (simp add: setElements_def)

lemma set_addressHandlers:
  "(a, h) \<in> set (addressHandlers dss) \<longleftrightarrow> (\<exists>ds \<in> set dss. a = ds_address ds \<and> h \<in> set (ds_handlers ds))"
  by (auto simp: addressHandlers_def)

lemma in_validAddresses: "s \<in> set (validAddresses as) \<longleftrightarrow> Val s \<in> set as \<and> s \<noteq> []"
  by (induction as) (auto simp: validAddresses_def map_filter_def split: js.splits if_splits)

text \<open>Every handler is in a group of handlers with its key, together with its address.\<close>

lemma grouped_has:
  assumes "groupBy_doc G" and "ds \<in> set dss" and "h \<in> set (ds_handlers ds)"
  obtains h' as where "(h', as) \<in> set (groupedDataSources G dss)" and "kind h' = kind h"
    and "filterKey h' = filterKey h" and "ds_address ds \<in> set as"
    and "\<exists>ds' \<in> set dss. h' \<in> set (ds_handlers ds')"
proof -
  let ?f = "\<lambda>(_ :: string js, h). (kind h, filterKey h)"
  let ?x = "(ds_address ds, h)"
  have x: "?x \<in> set (addressHandlers dss)" using assms(2,3) by (auto simp: set_addressHandlers)
  have docs: "fst ` set (G ?f (addressHandlers dss)) = ?f ` set (addressHandlers dss)"
      "\<forall>(k, g) \<in> set (G ?f (addressHandlers dss)). g = filter (\<lambda>x. ?f x = k) (addressHandlers dss)"
    using assms(1) unfolding groupBy_doc_def by blast+
  from x have "?f ?x \<in> fst ` set (G ?f (addressHandlers dss))" unfolding docs(1) by blast
  then obtain g where g: "(?f ?x, g) \<in> set (G ?f (addressHandlers dss))" by auto
  with docs(2) have eq: "g = filter (\<lambda>x. ?f x = ?f ?x) (addressHandlers dss)" by blast
  with x have "?x \<in> set g" by simp
  then have "hd g \<in> set g" by (cases g) auto
  with eq have hd: "?f (hd g) = ?f ?x" "hd g \<in> set (addressHandlers dss)" by auto
  show thesis
  proof (rule that)
    show "(snd (hd g), setElements (map fst g)) \<in> set (groupedDataSources G dss)"
      unfolding groupedDataSources_def using g by force
    show "kind (snd (hd g)) = kind h" "filterKey (snd (hd g)) = filterKey h"
      using hd(1) by (auto simp: case_prod_unfold)
    show "ds_address ds \<in> set (setElements (map fst g))"
      using \<open>?x \<in> set g\<close> by force
    show "\<exists>ds' \<in> set dss. snd (hd g) \<in> set (ds_handlers ds')"
      using hd(2) set_addressHandlers [of "fst (hd g)" "snd (hd g)" dss] by auto
  qed
qed

text \<open>The grouping loses no handler and no address: whatever the handlers are called, each one
  is in a group whose representative has the same kind and an equally rendered filter, and the
  address of its data source is among the addresses of the group.\<close>

definition in_some_group ::
    "(SubqlHandler \<times> string js list) list \<Rightarrow> SubqlHandler \<Rightarrow> string js \<Rightarrow> bool" where
  "in_some_group groups h a \<longleftrightarrow>
     (\<exists>(h', as) \<in> set groups. kind h' = kind h \<and> filterKey h' = filterKey h \<and> a \<in> set as)"

theorem grouping_loses_nothing:
  assumes "groupBy_doc G" and "ds \<in> set dss" and "h \<in> set (ds_handlers ds)"
  shows "in_some_group (groupedDataSources G dss) h (ds_address ds)"
  using assms unfolding in_some_group_def by (elim grouped_has) blast+

section \<open>What a query has to ask for\<close>

text \<open>
  The services compare exactly what the filters of \<open>Block_Filters\<close> compare more loosely, and they
  know a log by all its topics and a transaction by its recipient whatever the filter is.
  \<open>plain_request\<close> says that none of these differences matters for an item: no topic is asked for
  behind a \<open>!null\<close>, an equal topic is identical, the address of the data source decides only where
  the filter has no recipient of its own, and a selector has four bytes.
\<close>

definition topics_plain :: "ethers \<Rightarrow> string js list \<Rightarrow> string list \<Rightarrow> bool" where
  "topics_plain E ts lt \<longleftrightarrow>
     (\<forall>i j. i < j \<and> j < length ts \<and> ts ! i = Val NOT_NULL_FILTER \<longrightarrow> \<not> truthy (ts ! j)) \<and>
     (\<forall>i t h. i < length ts \<and> i < length lt \<and> ts ! i = Val t \<and> topicOf E t = Inr h \<and>
        hexStringEq E h (lt ! i) = Inr True \<longrightarrow> lt ! i = h)"

definition function_plain :: "ethers \<Rightarrow> string js \<Rightarrow> bool" where
  "function_plain E func \<longleftrightarrow>
     (\<forall>s h. func = Val s \<and> s \<noteq> [] \<and> sighashOf E s = Inr h \<longrightarrow>
        (if s = ''0x'' then h = ''0x'' else length h = 10))"

fun plain_request :: "ethers \<Rightarrow> SubqlDatasource \<Rightarrow> SubqlHandler \<Rightarrow> IndexItem \<Rightarrow> bool" where
  "plain_request E ds (EventHandler _ flt) (LogItem l) =
     (case flt of
        Val f \<Rightarrow> (case topics f of Val ts \<Rightarrow> topics_plain E (take 4 ts) (log_topics l) | _ \<Rightarrow> True)
      | _ \<Rightarrow> True)"
| "plain_request E ds (CallHandler _ flt) (TxItem tx) =
     (case flt of
        Val f \<Rightarrow> (truthy (ds_address ds) \<longrightarrow> tf_to f = Undefined) \<and> tf_to f \<noteq> Val [] \<and>
          function_plain E (tf_function f)
      | _ \<Rightarrow> \<not> truthy (ds_address ds))"
| "plain_request E ds _ _ = False"

text \<open>Custom handlers have kinds of their own.\<close>

definition proper_kinds :: "SubqlDatasource list \<Rightarrow> bool" where
  "proper_kinds dss \<longleftrightarrow>
     (\<forall>ds \<in> set dss. \<forall>k n f. CustomHandler k n f \<in> set (ds_handlers ds) \<longrightarrow>
        k \<notin> {EthereumHandlerKind_Block, EthereumHandlerKind_Call, EthereumHandlerKind_Event})"

definition wants :: "ethers \<Rightarrow> (int \<Rightarrow> EthereumBlockFilter js \<Rightarrow> bool) \<Rightarrow> SubqlDatasource list \<Rightarrow> IndexItem \<Rightarrow> bool" where
  "wants E fbt dss item \<longleftrightarrow> proper_kinds dss \<and>
     (\<exists>ds \<in> set dss. \<exists>h \<in> set (ds_handlers ds).
        handlerAccepts E fbt item h ds = Inr True \<and> plain_request E ds h item)"

text \<open>The interface: \<open>build\<close> makes a query, \<open>usable\<close> says that it restricts anything (an empty query
  makes node-core fetch every block), \<open>asks\<close> which items the service looks for, \<open>wanted\<close> which items
  the project needs; \<open>lib_ok\<close> is the documented behaviour of the library functions.\<close>

locale query_builder =
  fixes build :: "SubqlDatasource list \<Rightarrow> js_error + 'q"
    and usable :: "'q \<Rightarrow> bool"
    and asks :: "'q \<Rightarrow> IndexItem \<Rightarrow> bool"
    and wanted :: "SubqlDatasource list \<Rightarrow> IndexItem \<Rightarrow> bool"
    and lib_ok :: bool
  assumes covers: "lib_ok \<Longrightarrow> build dss = Inr q \<Longrightarrow> usable q \<Longrightarrow> wanted dss item \<Longrightarrow> asks q item"
begin

text \<open>A block none of whose items is asked for can be skipped.\<close>

lemma skipped_block:
  assumes "lib_ok" and "build dss = Inr q" and "usable q" and "\<forall>item \<in> set items. \<not> asks q item"
  shows "\<forall>item \<in> set items. \<not> wanted dss item"
  using covers [OF assms(1-3)] assms(4) by blast

lemma wanted_found:
  assumes "lib_ok" and "build dss = Inr q" and "usable q" and "item \<in> set items" and "wanted dss item"
  shows "\<exists>item \<in> set items. asks q item"
  using covers [OF assms(1-3,5)] assms(4) by blast

end

text \<open>The lower-case form in which the services store addresses.\<close>

definition storedAddress :: "string js \<Rightarrow> string option" where
  "storedAddress a = (case a of Val s \<Rightarrow> Some (toLowerCase s) | _ \<Rightarrow> None)"

lemma jsNormalizedEq_stored:
  "jsNormalizedEq a b \<Longrightarrow> storedAddress b = storedAddress a \<and> storedAddress a \<noteq> None"
  by (cases a; cases b) (auto simp: storedAddress_def)

definition selector :: "string \<Rightarrow> string" where
  "selector input = take 10 input"

lemma startsWith_selector: "startsWith input h \<Longrightarrow> length h = 10 \<Longrightarrow> selector input = h"
  by (simp add: startsWith_def selector_def)

end
