(* ===== verification/Dictionary_V1.thy ===== *)
theory Dictionary_V1
  imports Dictionary_Utils
begin

text \<open>
  \<open>packages/node/src/indexer/dictionary/v1/ethDictionaryV1.ts\<close>: the entries a project asks a
  version 1 dictionary for. Each entry names an entity and a list of conditions that must all
  hold. The hashes are those of \<open>Utils_String\<close>, whose tables are invisible, computed from
  scratch; \<open>limit\<close> is the command line option \<open>query-address-limit\<close>.
\<close>

section \<open>Entries\<close>

datatype condValue = CStr string | CList "string list" | CBool bool
datatype condMatcher = EqualTo | In | IsNull

record DictionaryQueryCondition =
  field :: string
  cvalue :: condValue
  matcher :: condMatcher

record DictionaryV1QueryEntry =
  entity :: string
  conditions :: "DictionaryQueryCondition list"

definition applyAddresses :: "nat \<Rightarrow> string js list \<Rightarrow> DictionaryQueryCondition list" where
  "applyAddresses limit addresses =
     (if addresses = [] \<or> limit < length addresses \<or> filter (\<lambda>v. \<not> truthy v) addresses \<noteq> [] then []
      else let filterAddresses = map toLowerCase (validAddresses addresses)
           in if length addresses = 1
              then [\<lparr>field = ''address'', cvalue = CStr (hd filterAddresses), matcher = EqualTo\<rparr>]
              else [\<lparr>field = ''address'', cvalue = CList filterAddresses, matcher = In\<rparr>])"

definition topicField :: "nat \<Rightarrow> string" where
  "topicField i = ''topics'' @ show_nat i"

text \<open>The loop over the first four topics, from position \<open>i\<close> on.\<close>

fun topicConditions :: "ethers \<Rightarrow> nat \<Rightarrow> string js list \<Rightarrow> js_error + DictionaryQueryCondition list" where
  "topicConditions E i [] = Inr []"
| "topicConditions E i (t # ts) =
     (if \<not> truthy t then topicConditions E (Suc i) ts
      else if t = Val NOT_NULL_FILTER then
        bindE (topicConditions E (Suc i) ts)
          (\<lambda>cs. Inr (\<lparr>field = topicField i, cvalue = CBool False, matcher = IsNull\<rparr> # cs))
      else case t of
        Val topic \<Rightarrow> bindE (topicOf E topic) (\<lambda>h. bindE (topicConditions E (Suc i) ts)
          (\<lambda>cs. Inr (\<lparr>field = topicField i, cvalue = CStr h, matcher = EqualTo\<rparr> # cs)))
      | _ \<Rightarrow> topicConditions E (Suc i) ts)"

definition eventFilterToQueryEntry ::
    "ethers \<Rightarrow> nat \<Rightarrow> EthereumLogFilter js \<Rightarrow> string js list \<Rightarrow> js_error + DictionaryV1QueryEntry" where
  "eventFilterToQueryEntry E limit flt addresses =
     bindE (case flt of
        Val f \<Rightarrow> (case topics f of Val ts \<Rightarrow> topicConditions E 0 (take 4 ts) | _ \<Rightarrow> Inr [])
      | _ \<Rightarrow> Inr [])
     (\<lambda>cs. Inr \<lparr>entity = ''evmLogs'', conditions = applyAddresses limit addresses @ cs\<rparr>)"

definition fromConditions :: "EthereumTransactionFilter \<Rightarrow> DictionaryQueryCondition list" where
  "fromConditions f =
     (case tf_from f of
        Val s \<Rightarrow> (if s \<noteq> [] then [\<lparr>field = ''from'', cvalue = CStr (toLowerCase s), matcher = EqualTo\<rparr>] else [])
      | _ \<Rightarrow> [])"

definition toConditions :: "EthereumTransactionFilter \<Rightarrow> DictionaryQueryCondition list" where
  "toConditions f =
     (case tf_to f of
        Val s \<Rightarrow> (if s \<noteq> [] then [\<lparr>field = ''to'', cvalue = CStr (toLowerCase s), matcher = EqualTo\<rparr>] else [])
      | Null \<Rightarrow> [\<lparr>field = ''to'', cvalue = CBool True, matcher = IsNull\<rparr>]
      | Undefined \<Rightarrow> [])"

definition functionConditions ::
    "ethers \<Rightarrow> EthereumTransactionFilter \<Rightarrow> js_error + DictionaryQueryCondition list" where
  "functionConditions E f =
     (if tf_function f = Null \<or> tf_function f = Val ''0x''
      then Inr [\<lparr>field = ''func'', cvalue = CBool True, matcher = IsNull\<rparr>]
      else case tf_function f of
        Val s \<Rightarrow> (if s \<noteq> [] then bindE (sighashOf E s)
            (\<lambda>h. Inr [\<lparr>field = ''func'', cvalue = CStr h, matcher = EqualTo\<rparr>]) else Inr [])
      | _ \<Rightarrow> Inr [])"

definition callFilterToQueryEntry ::
    "ethers \<Rightarrow> nat \<Rightarrow> EthereumTransactionFilter js \<Rightarrow> string js list \<Rightarrow> js_error + DictionaryV1QueryEntry" where
  "callFilterToQueryEntry E limit flt addresses =
     (let cs = map (\<lambda>c. if field c = ''address'' then c\<lparr>field := ''to''\<rparr> else c) (applyAddresses limit addresses)
      in case flt of
           Val f \<Rightarrow>
             (let cs1 = cs @ fromConditions f;
                  optionsAddresses = find (\<lambda>c. field c = ''to'') cs1;
                  cs2 = (if optionsAddresses = None then cs1 @ toConditions f else cs1)
              in bindE (functionConditions E f)
                   (\<lambda>fc. Inr \<lparr>entity = ''evmTransactions'', conditions = cs2 @ fc\<rparr>))
         | _ \<Rightarrow> Inr \<lparr>entity = ''evmTransactions'', conditions = cs\<rparr>)"

section \<open>The builder\<close>

text \<open>What one group contributes: \<open>return []\<close>, nothing, or an entry.\<close>

datatype 'q buildStep = ReturnEmpty | NoEntry | Entry 'q

fun hasFilter :: "SubqlHandler \<Rightarrow> bool" where
  "hasFilter (BlockHandler _ flt) = (\<not> nullish flt)"
| "hasFilter (CallHandler _ flt) = (\<not> nullish flt)"
| "hasFilter (EventHandler _ flt) = (\<not> nullish flt)"
| "hasFilter (CustomHandler _ _ flt) = (\<not> nullish flt)"

definition blockHasModulo :: "EthereumBlockFilter js \<Rightarrow> bool" where
  "blockHasModulo flt = (case flt of Val f \<Rightarrow> modulo f \<noteq> Undefined | _ \<Rightarrow> False)"

text \<open>\<open>Object.values(handler.filter).filter((v) => v !== undefined).length\<close>\<close>

definition callFilterNonEmpty :: "EthereumTransactionFilter js \<Rightarrow> bool" where
  "callFilterNonEmpty flt =
     (case flt of
        Val f \<Rightarrow> tf_from f \<noteq> Undefined \<or> tf_to f \<noteq> Undefined \<or> tf_function f \<noteq> Undefined \<or> tf_type f \<noteq> Undefined
      | _ \<Rightarrow> False)"

definition eventFilterNonEmpty :: "EthereumLogFilter js \<Rightarrow> bool" where
  "eventFilterNonEmpty flt = (case flt of Val f \<Rightarrow> (case topics f of Val ts \<Rightarrow> ts \<noteq> [] | _ \<Rightarrow> False) | _ \<Rightarrow> False)"

definition v1Step ::
    "ethers \<Rightarrow> nat \<Rightarrow> SubqlHandler \<times> string js list \<Rightarrow> js_error + DictionaryV1QueryEntry buildStep" where
  "v1Step E limit grp =
     (case grp of (handler, addresses) \<Rightarrow>
        if \<not> hasFilter handler \<and> addresses = [] then Inr ReturnEmpty
        else case handler of
          BlockHandler _ flt \<Rightarrow> Inr (if blockHasModulo flt then NoEntry else ReturnEmpty)
        | CallHandler _ flt \<Rightarrow>
            (if \<not> callFilterNonEmpty flt \<and> validAddresses addresses = [] then Inr ReturnEmpty
             else bindE (callFilterToQueryEntry E limit flt addresses) (\<lambda>e. Inr (Entry e)))
        | EventHandler _ flt \<Rightarrow>
            (if \<not> eventFilterNonEmpty flt \<and> validAddresses addresses = [] then Inr ReturnEmpty
             else bindE (eventFilterToQueryEntry E limit flt addresses) (\<lambda>e. Inr (Entry e)))
        | CustomHandler _ _ _ \<Rightarrow> Inr NoEntry)"

text \<open>The loop; \<open>None\<close> is the early \<open>return []\<close>.\<close>

fun v1Loop ::
    "ethers \<Rightarrow> nat \<Rightarrow> (SubqlHandler \<times> string js list) list \<Rightarrow> DictionaryV1QueryEntry list
      \<Rightarrow> js_error + DictionaryV1QueryEntry list option" where
  "v1Loop E limit [] queryEntries = Inr (Some queryEntries)"
| "v1Loop E limit (g # gs) queryEntries =
     (case v1Step E limit g of
        Inl e \<Rightarrow> Inl e
      | Inr ReturnEmpty \<Rightarrow> Inr None
      | Inr NoEntry \<Rightarrow> v1Loop E limit gs queryEntries
      | Inr (Entry q) \<Rightarrow> v1Loop E limit gs (queryEntries @ [q]))"

text \<open>\<open>sortBy\<close> of lodash keeps the elements.\<close>

definition sortBy_doc :: "((DictionaryQueryCondition \<Rightarrow> string) \<Rightarrow> DictionaryQueryCondition list \<Rightarrow> DictionaryQueryCondition list) \<Rightarrow> bool" where
  "sortBy_doc S \<longleftrightarrow> (\<forall>f xs. set (S f xs) = set xs)"

definition buildDictionaryV1QueryEntries ::
    "(addressHandler, handlerKey) groupBy \<Rightarrow>
     (DictionaryV1QueryEntry, string \<times> DictionaryQueryCondition list) uniqBy \<Rightarrow>
     ((DictionaryQueryCondition \<Rightarrow> string) \<Rightarrow> DictionaryQueryCondition list \<Rightarrow> DictionaryQueryCondition list) \<Rightarrow>
     ethers \<Rightarrow> nat \<Rightarrow> SubqlDatasource list \<Rightarrow> js_error + DictionaryV1QueryEntry list" where
  "buildDictionaryV1QueryEntries G U S E limit dss =
     bindE (v1Loop E limit (groupedDataSources G dss) []) (\<lambda>r.
       case r of
         None \<Rightarrow> Inr []
       | Some queryEntries \<Rightarrow> Inr (U (\<lambda>item. (entity item, S field (conditions item))) queryEntries))"

text \<open>\<open>create\<close>: the chain's alias, when the list of aliases has one, names the dictionary's chain.\<close>

definition dictionaryChainId :: "(string \<rightharpoonup> string) \<Rightarrow> string \<Rightarrow> string" where
  "dictionaryChainId chainAliases networkChainId =
     (case chainAliases networkChainId of Some alias \<Rightarrow> alias | None \<Rightarrow> networkChainId)"

section \<open>What an entry asks for\<close>

text \<open>The entities of the dictionary: the address and the topics of a log; recipient, sender and
  selector of a transaction, \<open>null\<close> where there is none.\<close>

fun entityField :: "IndexItem \<Rightarrow> string \<Rightarrow> string option" where
  "entityField (LogItem l) f =
     (if f = ''address'' then storedAddress (log_address l)
      else if f = topicField 0 then (if 0 < length (log_topics l) then Some (log_topics l ! 0) else None)
      else if f = topicField 1 then (if 1 < length (log_topics l) then Some (log_topics l ! 1) else None)
      else if f = topicField 2 then (if 2 < length (log_topics l) then Some (log_topics l ! 2) else None)
      else if f = topicField 3 then (if 3 < length (log_topics l) then Some (log_topics l ! 3) else None)
      else None)"
| "entityField (TxItem tx) f =
     (if f = ''to'' then storedAddress (tx_to tx)
      else if f = ''from'' then storedAddress (tx_from tx)
      else if f = ''func'' then (if tx_input tx = ''0x'' then None else Some (selector (tx_input tx)))
      else None)"
| "entityField (BlockItem b) f = None"

fun entityOf :: "IndexItem \<Rightarrow> string" where
  "entityOf (LogItem _) = ''evmLogs''"
| "entityOf (TxItem _) = ''evmTransactions''"
| "entityOf (BlockItem _) = []"

definition valueHolds :: "string option \<Rightarrow> condMatcher \<Rightarrow> condValue \<Rightarrow> bool" where
  "valueHolds stored m v =
     (case (m, v) of
        (EqualTo, CStr s) \<Rightarrow> stored = Some s
      | (In, CList ss) \<Rightarrow> (case stored of Some s \<Rightarrow> s \<in> set ss | None \<Rightarrow> False)
      | (IsNull, CBool b) \<Rightarrow> (stored = None) = b
      | _ \<Rightarrow> False)"

definition condHolds :: "IndexItem \<Rightarrow> DictionaryQueryCondition \<Rightarrow> bool" where
  "condHolds item c = valueHolds (entityField item (field c)) (matcher c) (cvalue c)"

lemma valueHolds_simps [simp]:
  "valueHolds v EqualTo (CStr s) \<longleftrightarrow> v = Some s"
  "valueHolds v In (CList ss) \<longleftrightarrow> (\<exists>s \<in> set ss. v = Some s)"
  "valueHolds v IsNull (CBool b) \<longleftrightarrow> (v = None) = b"
  by (auto simp: valueHolds_def split: option.split)

definition entryAsks :: "DictionaryV1QueryEntry \<Rightarrow> IndexItem \<Rightarrow> bool" where
  "entryAsks e item \<longleftrightarrow> entity e = entityOf item \<and> (\<forall>c \<in> set (conditions e). condHolds item c)"

definition v1Asks :: "DictionaryV1QueryEntry list \<Rightarrow> IndexItem \<Rightarrow> bool" where
  "v1Asks entries item \<longleftrightarrow> (\<exists>e \<in> set entries. entryAsks e item)"

section \<open>Coverage\<close>

lemma applyAddresses_holds:
  assumes "Val a \<in> set as" and "a \<noteq> []" and "c \<in> set (applyAddresses limit as)"
  shows "valueHolds (Some (toLowerCase a)) (matcher c) (cvalue c)"
proof (cases "length as = 1")
  case True
  with assms(1) have "as = [Val a]" by (cases as) auto
  with assms show ?thesis
    by (auto simp: applyAddresses_def validAddresses_def map_filter_def Let_def split: if_splits)
next
  case False
  have "toLowerCase a \<in> set (map toLowerCase (validAddresses as))"
    using assms(1,2) by (simp add: in_validAddresses)
  with False assms(3) show ?thesis
    by (auto simp: applyAddresses_def Let_def split: if_splits)
qed

lemma applyAddresses_field: "c \<in> set (applyAddresses limit as) \<Longrightarrow> field c = ''address''"
  by (auto simp: applyAddresses_def Let_def split: if_splits)

lemma applyAddresses_falsy: "\<not> truthy a \<Longrightarrow> a \<in> set as \<Longrightarrow> applyAddresses limit as = []"
  by (auto simp: applyAddresses_def filter_empty_conv)

lemma topicField_inj [simp]: "topicField i = topicField j \<longleftrightarrow> i = j"
  by (simp add: topicField_def)

lemma topicField_address [simp]: "topicField i \<noteq> ''address''"
  by (simp add: topicField_def)

lemma entityField_topic:
  "i < 4 \<Longrightarrow> entityField (LogItem l) (topicField i) =
    (if i < length (log_topics l) then Some (log_topics l ! i) else None)"
  by (auto simp: numeral_eq_Suc less_Suc_eq)

text \<open>What the two hypotheses on topics say of the tail of a filter.\<close>

lemma topics_tail:
  assumes "\<forall>i j. i < j \<and> j < length (t # ts) \<and> (t # ts) ! i = Val NOT_NULL_FILTER \<longrightarrow> \<not> truthy ((t # ts) ! j)"
    and "\<forall>i x h. i < length (t # ts) \<and> k + i < length lt \<and> (t # ts) ! i = Val x \<and> topicOf E x = Inr h \<and>
        hexStringEq E h (lt ! (k + i)) = Inr True \<longrightarrow> lt ! (k + i) = h"
  shows "\<forall>i j. i < j \<and> j < length ts \<and> ts ! i = Val NOT_NULL_FILTER \<longrightarrow> \<not> truthy (ts ! j)"
    and "\<forall>i x h. i < length ts \<and> Suc k + i < length lt \<and> ts ! i = Val x \<and> topicOf E x = Inr h \<and>
        hexStringEq E h (lt ! (Suc k + i)) = Inr True \<longrightarrow> lt ! (Suc k + i) = h"
  using assms by (metis Suc_less_eq length_Cons nth_Cons_Suc)
    (metis assms(2) Suc_less_eq add_Suc add_Suc_right length_Cons nth_Cons_Suc)

lemma topics_behind_not_null:
  assumes "\<forall>i j. i < j \<and> j < length (t # ts) \<and> (t # ts) ! i = Val NOT_NULL_FILTER \<longrightarrow> \<not> truthy ((t # ts) ! j)"
    and "t = Val NOT_NULL_FILTER" and "map jsonElement us = map jsonElement ts" and "x \<in> set us"
  shows "\<not> truthy x"
proof -
  have ts: "\<forall>x \<in> set ts. \<not> truthy x"
    using assms(1,2) by (metis in_set_conv_nth length_Cons nth_Cons_0 nth_Cons_Suc Suc_less_eq zero_less_Suc)
  from assms(3,4) have "jsonElement x \<in> jsonElement ` set ts" by (metis image_eqI image_set)
  then obtain y where "y \<in> set ts" "jsonElement x = jsonElement y" by blast
  with ts show ?thesis by (cases x; cases y) auto
qed

text \<open>Accepted topics meet the conditions the loop makes of them.\<close>

lemma topicConditions_hold:
  assumes "topicsResult E k ts (log_topics l) = Inr True" and "topicConditions E k us = Inr cs"
    and "map jsonElement us = map jsonElement ts"
    and "\<forall>i j. i < j \<and> j < length ts \<and> ts ! i = Val NOT_NULL_FILTER \<longrightarrow> \<not> truthy (ts ! j)"
    and "\<forall>i t h. i < length ts \<and> k + i < length (log_topics l) \<and> ts ! i = Val t \<and> topicOf E t = Inr h \<and>
        hexStringEq E h (log_topics l ! (k + i)) = Inr True \<longrightarrow> log_topics l ! (k + i) = h"
    and "k + length ts \<le> 4"
  shows "\<forall>c \<in> set cs. condHolds (LogItem l) c"
  using assms
proof (induction ts arbitrary: k us cs)
  case Nil
  then show ?case by simp
next
  case (Cons t ts)
  from Cons.prems(3) obtain u us' where us: "us = u # us'" "jsonElement u = jsonElement t"
      "map jsonElement us' = map jsonElement ts"
    by (cases us) auto
  have truthy_eq: "truthy u = truthy t" "truthy t \<Longrightarrow> u = t"
    using us(2) by (cases u; cases t; auto)+
  note tail = topics_tail [OF Cons.prems(4,5)]
  have k: "k < 4" "Suc k + length ts \<le> 4" using Cons.prems(6) by simp_all
  note IH = Cons.IH [OF _ _ us(3) tail k(2)]
  show ?case
  proof (cases "truthy t")
    case False
    with Cons.prems(1,2) show ?thesis
      using IH truthy_eq us(1) by (auto simp: topicResult_def split: if_splits)
  next
    case True
    then obtain topic where t: "t = Val topic" "topic \<noteq> []" "u = t" using truthy_eq by (auto elim: truthyE)
    from Cons.prems(1) True have lt: "truthy (topic_at (log_topics l) k)"
      by (cases "topic_at (log_topics l) k") (auto simp: topicResult_def split: if_splits)
    then have klen: "k < length (log_topics l)" by (auto simp: topic_at_def split: if_splits)
    show ?thesis
    proof (cases "topic = NOT_NULL_FILTER")
      case True
      have "\<forall>x \<in> set us'. \<not> truthy x"
        using topics_behind_not_null [OF Cons.prems(4)] t(1) True us(3) by blast
      then have "topicConditions E j us' = Inr []" for j by (induction us' arbitrary: j) auto
      with Cons.prems(2) t True us(1) show ?thesis
        using klen k(1) by (auto simp: condHolds_def entityField_topic)
    next
      case False
      with Cons.prems(1) t lt klen obtain h where h: "topicOf E topic = Inr h"
          "hexStringEq E h (log_topics l ! k) = Inr True"
          "topicsResult E (Suc k) ts (log_topics l) = Inr True"
        by (auto simp: topicResult_def topic_at_def bindE_eq_Inr_iff split: sum.splits bool.splits if_splits)
      have "log_topics l ! k = h"
        using Cons.prems(5) h t(1) klen by (metis add_0_right length_Cons nth_Cons_0 zero_less_Suc)
      moreover from Cons.prems(2) False t us(1) h(1) obtain cs' where
          "topicConditions E (Suc k) us' = Inr cs'"
          "cs = \<lparr>field = topicField k, cvalue = CStr h, matcher = EqualTo\<rparr> # cs'"
        by (auto simp: bindE_eq_Inr_iff)
      ultimately show ?thesis
        using IH [OF h(3)] klen k(1) by (auto simp: condHolds_def entityField_topic simp del: entityField.simps)
    qed
  qed
qed

text \<open>The entry of a group asks for every plain item that a handler of the group accepts.\<close>

lemma event_entry_asks:
  assumes "logResult E l flt a = Inr True" and "a \<in> set as"
    and "plain_request E ds (EventHandler n flt) (LogItem l)"
    and "filterKey (EventHandler n' flt') = filterKey (EventHandler n flt)"
    and "eventFilterToQueryEntry E limit flt' as = Inr e"
  shows "entryAsks e (LogItem l)"
proof -
  have addr: "condHolds (LogItem l) c" if "c \<in> set (applyAddresses limit as)" for c
  proof -
    from that assms(2) have "truthy a" using applyAddresses_falsy by fastforce
    then obtain s where s: "a = Val s" "s \<noteq> []" by (rule truthyE)
    have "storedAddress (log_address l) = Some (toLowerCase s)"
      using assms(1) s jsNormalizedEq_stored [of a "log_address l"]
      by (auto simp: logResult_def storedAddress_def split: if_splits)
    with s assms(2) that show ?thesis
      using applyAddresses_holds [of s as c limit] applyAddresses_field [of c limit as]
      by (simp add: condHolds_def)
  qed
  obtain cs where e: "e = \<lparr>entity = ''evmLogs'', conditions = applyAddresses limit as @ cs\<rparr>"
      and cs: "(case flt' of Val f \<Rightarrow> (case topics f of Val ts \<Rightarrow> topicConditions E 0 (take 4 ts) | _ \<Rightarrow> Inr [])
        | _ \<Rightarrow> Inr []) = Inr cs"
    using assms(5) by (auto simp: eventFilterToQueryEntry_def bindE_eq_Inr_iff)
  have "\<forall>c \<in> set cs. condHolds (LogItem l) c"
  proof (cases "\<exists>f ts. flt' = Val f \<and> topics f = Val ts")
    case False
    with cs show ?thesis by (auto split: js.splits)
  next
    case True
    then obtain f' us where f': "flt' = Val f'" "topics f' = Val us" by blast
    with assms(4) obtain f ts where f: "flt = Val f" "topics f = Val ts" "map jsonElement us = map jsonElement ts"
      by (cases flt; cases "topics (case flt of Val f \<Rightarrow> f | _ \<Rightarrow> undefined)") auto
    then have "map jsonElement (take 4 us) = map jsonElement (take 4 ts)" by (metis take_map)
    moreover have "topicsResult E 0 (take 4 ts) (log_topics l) = Inr True"
      using assms(1) f by (auto simp: logResult_def split: if_splits)
    moreover have "topics_plain E (take 4 ts) (log_topics l)" using assms(3) f by simp
    moreover have "topicConditions E 0 (take 4 us) = Inr cs" using cs f' by simp
    ultimately show ?thesis
      unfolding topics_plain_def
      by (elim conjE, intro topicConditions_hold [of E 0 "take 4 ts" l "take 4 us" cs]) (assumption | simp only: add_0 | simp)+
  qed
  with addr show ?thesis by (auto simp: entryAsks_def e)
qed

lemma functionConditions_hold:
  assumes "inputResult E tx (tf_function f) = Inr True" and "function_plain E (tf_function f)"
    and "functionConditions E f = Inr fc" and "c \<in> set fc"
  shows "condHolds (TxItem tx) c"
proof (cases "tf_function f = Null \<or> tf_function f = Val ''0x''")
  case True
  with assms(1,3,4) show ?thesis
    by (auto simp: functionConditions_def inputResult_def condHolds_def split: if_splits)
next
  case False
  with assms(3,4) obtain s h where s: "tf_function f = Val s" "s \<noteq> []" "s \<noteq> ''0x''" "sighashOf E s = Inr h"
      and c: "c = \<lparr>field = ''func'', cvalue = CStr h, matcher = EqualTo\<rparr>"
    by (auto simp: functionConditions_def bindE_eq_Inr_iff split: js.splits if_splits)
  have h: "length h = 10" "startsWith (tx_input tx) h"
    using assms(1,2) s by (auto simp: function_plain_def inputResult_def)
  then have "tx_input tx \<noteq> ''0x''" by (auto simp: startsWith_def)
  with h show ?thesis by (simp add: condHolds_def c startsWith_selector)
qed

lemma fromConditions_hold:
  "from_criterion f tx \<Longrightarrow> c \<in> set (fromConditions f) \<Longrightarrow> condHolds (TxItem tx) c"
  by (cases "tf_from f"; cases "tx_from tx") (auto simp: fromConditions_def from_criterion_def condHolds_def storedAddress_def
      split: js.splits if_splits)

lemma toConditions_hold:
  "to_criterion f a tx \<Longrightarrow> c \<in> set (toConditions f) \<Longrightarrow> condHolds (TxItem tx) c"
  by (cases "tf_to f"; cases "tx_to tx") (auto simp: toConditions_def to_criterion_def condHolds_def storedAddress_def nullish_iff
      split: js.splits if_splits)

lemma call_entry_asks:
  assumes "transactionResult E tx flt a = Inr True" and "a \<in> set as" and "a = ds_address ds"
    and "plain_request E ds (CallHandler n flt) (TxItem tx)"
    and "filterKey (CallHandler n' flt') = filterKey (CallHandler n flt)"
    and "callFilterToQueryEntry E limit flt' as = Inr e"
  shows "entryAsks e (TxItem tx)"
proof -
  define cs where "cs = map (\<lambda>c. if field c = ''address'' then c\<lparr>field := ''to''\<rparr> else c) (applyAddresses limit as)"
  have addr: "condHolds (TxItem tx) c" if c: "c \<in> set cs" for c
  proof -
    from c obtain d where d: "d \<in> set (applyAddresses limit as)" "c = d\<lparr>field := ''to''\<rparr>"
      using applyAddresses_field by (fastforce simp: cs_def)
    with assms(2) have "truthy a" using applyAddresses_falsy by fastforce
    then obtain s where s: "a = Val s" "s \<noteq> []" by (rule truthyE)
    with assms(3,4) \<open>truthy a\<close> obtain f where f: "flt = Val f" "tf_to f = Undefined"
      by (cases flt) auto
    have "jsNormalizedEq a (tx_to tx)"
      using assms(1) f \<open>truthy a\<close> by (auto simp: transactionResult_def to_criterion_def split: if_splits)
    then have "storedAddress (tx_to tx) = Some (toLowerCase s)"
      using s jsNormalizedEq_stored [of a "tx_to tx"] by (simp add: storedAddress_def)
    then show ?thesis
      using s assms(2) d applyAddresses_holds [of s as d limit] by (simp add: condHolds_def)
  qed
  show ?thesis
  proof (cases flt')
    case (Val f)
    with assms(5) have flt: "flt = Val f" by (cases flt) auto
    with assms(1) have crit: "to_criterion f a tx" "from_criterion f tx" "inputResult E tx (tf_function f) = Inr True"
      by (auto simp: transactionResult_def bindE_eq_Inr_iff split: if_splits)
    have "function_plain E (tf_function f)" using assms(4) flt by simp
    note holds = functionConditions_hold [OF crit(3) this] fromConditions_hold [OF crit(2)]
      toConditions_hold [OF crit(1)] addr
    from assms(6) Val show ?thesis
      by (auto simp: callFilterToQueryEntry_def Let_def bindE_eq_Inr_iff entryAsks_def cs_def [symmetric]
          split: if_splits intro: holds)
  qed (use assms(6) addr in \<open>auto simp: callFilterToQueryEntry_def entryAsks_def cs_def [symmetric] Let_def\<close>)
qed

lemma v1Loop_keeps: "v1Loop E limit gs acc = Inr (Some r) \<Longrightarrow> set acc \<subseteq> set r"
  by (induction gs arbitrary: acc) (fastforce split: sum.splits buildStep.splits)+

lemma v1Loop_has:
  assumes "v1Loop E limit gs acc = Inr (Some r)" and "g \<in> set gs"
  shows "v1Step E limit g = Inr NoEntry \<or> (\<exists>e \<in> set r. v1Step E limit g = Inr (Entry e))"
  using assms
proof (induction gs arbitrary: acc)
  case (Cons x gs)
  show ?case
  proof (cases "g = x")
    case True
    with Cons.prems(1) show ?thesis
      by (auto split: sum.splits buildStep.splits dest!: v1Loop_keeps)
  next
    case False
    with Cons show ?thesis by (auto split: sum.splits buildStep.splits)
  qed
qed simp

text \<open>The contract of a query builder.\<close>

lemma v1_covers:
  assumes "groupBy_doc G \<and> uniqBy_doc U \<and> sortBy_doc S"
    and "buildDictionaryV1QueryEntries G U S E limit dss = Inr q" and "q \<noteq> []" and "wants E fbt dss item"
  shows "v1Asks q item"
proof -
  from assms(4) obtain ds h where dsh: "ds \<in> set dss" "h \<in> set (ds_handlers ds)"
      "handlerAccepts E fbt item h ds = Inr True" "plain_request E ds h item" and kinds: "proper_kinds dss"
    unfolding wants_def by blast
  obtain h' as where g: "(h', as) \<in> set (groupedDataSources G dss)" "kind h' = kind h"
      "filterKey h' = filterKey h" "ds_address ds \<in> set as" "\<exists>ds' \<in> set dss. h' \<in> set (ds_handlers ds')"
    using grouped_has [of G ds dss h] assms(1) dsh by blast
  from assms(2,3) obtain r where r: "v1Loop E limit (groupedDataSources G dss) [] = Inr (Some r)"
      "q = U (\<lambda>item. (entity item, S field (conditions item))) r"
    by (auto simp: buildDictionaryV1QueryEntries_def bindE_eq_Inr_iff split: option.splits)
  note step = v1Loop_has [OF r(1) g(1)]
  have "\<exists>e \<in> set r. entryAsks e item"
  proof (cases "(E, ds, h, item)" rule: plain_request.cases)
    case (1 E' ds' n flt l)
    with g(2,5) kinds obtain n' flt' where h': "h' = EventHandler n' flt'"
      by (cases h') (auto simp: kind_defs proper_kinds_def)
    with step obtain e where "e \<in> set r" "eventFilterToQueryEntry E limit flt' as = Inr e"
      by (auto simp: v1Step_def bindE_eq_Inr_iff split: if_splits)
    with 1 dsh(3,4) g(3,4) h' event_entry_asks [of E l flt "ds_address ds" as ds n n' flt' limit e] show ?thesis
      by auto
  next
    case (2 E' ds' n flt tx)
    with g(2,5) kinds obtain n' flt' where h': "h' = CallHandler n' flt'"
      by (cases h') (auto simp: kind_defs proper_kinds_def)
    with step obtain e where "e \<in> set r" "callFilterToQueryEntry E limit flt' as = Inr e"
      by (auto simp: v1Step_def bindE_eq_Inr_iff split: if_splits)
    with 2 dsh(3,4) g(3,4) h' call_entry_asks [of E tx flt "ds_address ds" as ds n n' flt' limit e] show ?thesis
      by auto
  qed (use dsh(4) in auto)
  then obtain e where e: "e \<in> set r" "entryAsks e item" by blast
  have "\<exists>e' \<in> set q. (entity e', S field (conditions e')) = (entity e, S field (conditions e))"
    unfolding r(2) using assms(1) e(1) by (intro uniqBy_docE) blast+
  then obtain e' where "e' \<in> set q" "entity e' = entity e" "S field (conditions e') = S field (conditions e)"
    by blast
  moreover from this(3) assms(1) have "set (conditions e') = set (conditions e)"
    unfolding sortBy_doc_def by metis
  ultimately show ?thesis using e(2) by (auto simp: v1Asks_def entryAsks_def)
qed

interpretation v1: query_builder "buildDictionaryV1QueryEntries G U S E limit" "\<lambda>q. q \<noteq> []" v1Asks
    "wants E fbt" "groupBy_doc G \<and> uniqBy_doc U \<and> sortBy_doc S"
  for G U S E limit fbt
  by unfold_locales (rule v1_covers)

section \<open>Properties\<close>


subsection \<open>Samples\<close>

definition call_ds :: "string js \<Rightarrow> EthereumTransactionFilter js \<Rightarrow> SubqlDatasource" where
  "call_ds a flt = \<lparr>ds_kind = EthereumDatasourceKind_Runtime,
     ds_options = Val \<lparr>opt_abi = Undefined, opt_address = a\<rparr>, ds_handlers = [CallHandler ''handleTx'' flt],
     ds_assets = Undefined, ds_processor = None\<rparr>"

definition to_filter :: "string js \<Rightarrow> EthereumTransactionFilter" where
  "to_filter t = \<lparr>tf_from = Undefined, tf_to = t, tf_function = Undefined, tf_type = Undefined\<rparr>"

definition sample_tx :: "string \<Rightarrow> EthereumTransaction" where
  "sample_tx t = \<lparr>tx_blockHash = ''0xab'', tx_blockNumber = 7, tx_blockTimestamp = 1,
     tx_from = Val ''0x9'', gas = 0, gasPrice = 0, tx_hash = ''0x1'', tx_input = ''0x'', tx_nonce = 0,
     tx_to = Val t, tx_transactionIndex = 0, tx_value = 0, tx_type = Undefined, tx_v = 0,
     tx_logs = Undefined, maxFeePerGas = Undefined, maxPriorityFeePerGas = Undefined,
     maxFeePerBlobGas = Undefined, tx_args = None\<rparr>"

abbreviation sample_v1 :: "SubqlDatasource list \<Rightarrow> js_error + DictionaryV1QueryEntry list" where
  "sample_v1 \<equiv> buildDictionaryV1QueryEntries group_by uniq_by (\<lambda>_ cs. cs) sample_ethers 100"

definition address_query :: "DictionaryV1QueryEntry list" where
  "address_query = [\<lparr>entity = ''evmTransactions'',
     conditions = [\<lparr>field = ''to'', cvalue = CStr ''0xa'', matcher = EqualTo\<rparr>]\<rparr>]"

lemma sample_v1_queries:
  "sample_v1 [call_ds (Val ''0xa'') (Val (to_filter Undefined))] = Inr address_query"
  "sample_v1 [call_ds (Val ''0xa'') (Val (to_filter (Val ''0xb'')))] = Inr address_query"
  "sample_v1 [call_ds (Val ''0xa'') Undefined] = Inr address_query"
  by code_simp+

lemma sample_tx_wanted:
  "wants sample_ethers (\<lambda>_ _. True) [call_ds (Val ''0xa'') (Val (to_filter Undefined))] (TxItem (sample_tx ''0xa''))"
  by (simp add: wants_def proper_kinds_def call_ds_def ds_address_def to_filter_def sample_tx_def
      transactionResult_def to_criterion_def from_criterion_def type_criterion_def inputResult_def
      stringNormalizedEq.simps function_plain_def)



end
