(* ===== verification/Dictionary_V2.thy ===== *)
theory Dictionary_V2
  imports Dictionary_V1
begin

text \<open>
  \<open>packages/node/src/indexer/dictionary/v2/\<close>: the query a project sends to a version 2
  dictionary (\<open>ethDictionaryV2.ts\<close>, \<open>types.ts\<close>), the conversion of the blocks it answers with
  (\<open>utils.ts\<close>), and the order of preference of dictionaries
  (\<open>packages/node/src/indexer/dictionary/ethDictionary.service.ts\<close>). \<open>availableFilters\<close> are the
  filters the dictionary's metadata lists, \<open>None\<close> when it lists none. The shared parts are those
  of \<open>Dictionary_V1\<close>.
\<close>

section \<open>Conditions\<close>

record EthDictionaryLogConditions =
  lc_address :: "string list option"
  lc_topics :: "(nat \<times> string list) list"

record EthDictionaryTxConditions =
  tc_to :: "string option list option"
  tc_from :: "string list option"
  tc_data :: "string list option"
  tc_type :: "string list option"

record EthDictionaryV2QueryEntry =
  qe_logs :: "EthDictionaryLogConditions list option"
  qe_transactions :: "EthDictionaryTxConditions list option"

definition applyAddressesV2 :: "nat \<Rightarrow> string js list \<Rightarrow> string list" where
  "applyAddressesV2 limit addresses =
     (if addresses = [] \<or> limit < length addresses \<or> filter (\<lambda>v. \<not> truthy v) addresses \<noteq> [] then []
      else map toLowerCase (validAddresses addresses))"

text \<open>\<open>assignTo\<close>: \<open>null\<close> is kept, \<open>undefined\<close> adds nothing.\<close>

definition assignTo :: "string js \<Rightarrow> string option list" where
  "assignTo v = (case v of Null \<Rightarrow> [None] | Undefined \<Rightarrow> [] | Val s \<Rightarrow> [Some (toLowerCase s)])"

text \<open>\<open>setValue\<close>: a key the dictionary does not list and an empty array are left out.\<close>

definition setValue :: "string list option \<Rightarrow> string \<Rightarrow> 'v list \<Rightarrow> 'v list option" where
  "setValue available k v =
     (if (case available of Some ks \<Rightarrow> k \<notin> set ks | None \<Rightarrow> False) then None
      else if v = [] then None else Some v)"

definition callFilterToDictionaryCondition ::
    "ethers \<Rightarrow> nat \<Rightarrow> EthereumTransactionFilter js \<Rightarrow> string js list \<Rightarrow> string list option
      \<Rightarrow> js_error + EthDictionaryTxConditions" where
  "callFilterToDictionaryCondition E limit flt addresses available =
     (let f = (case flt of Val f \<Rightarrow> f
            | _ \<Rightarrow> \<lparr>tf_from = Undefined, tf_to = Undefined, tf_function = Undefined, tf_type = Undefined\<rparr>);
          fromArray = (case tf_from f of Val s \<Rightarrow> if s \<noteq> [] then [toLowerCase s] else [] | _ \<Rightarrow> []);
          optionsAddresses = applyAddressesV2 limit addresses;
          toArray = (if optionsAddresses = [] then assignTo (tf_to f)
            else concat (map (\<lambda>a. assignTo (Val a)) optionsAddresses))
      in bindE (case tf_function f of
           Val s \<Rightarrow> (if s \<noteq> [] then bindE (sighashOf E s) (\<lambda>h. Inr [h]) else Inr [])
         | _ \<Rightarrow> Inr [])
         (\<lambda>funcArray. Inr \<lparr>tc_to = setValue available ''to'' toArray,
            tc_from = setValue available ''from'' fromArray,
            tc_data = setValue available ''data'' funcArray,
            tc_type = (case tf_type f of Val t \<Rightarrow> if t \<noteq> [] then setValue available ''type'' [t] else None
              | _ \<Rightarrow> None)\<rparr>))"

text \<open>The loop over the first four topics, from position \<open>i\<close> on; each position is set at most once.\<close>

fun topicLists ::
    "ethers \<Rightarrow> string list option \<Rightarrow> nat \<Rightarrow> string js list \<Rightarrow> js_error + (nat \<times> string list) list" where
  "topicLists E available i [] = Inr []"
| "topicLists E available i (t # ts) =
     (if \<not> truthy t \<or> (case available of Some ks \<Rightarrow> topicField i \<notin> set ks | None \<Rightarrow> False)
      then topicLists E available (Suc i) ts
      else if t = Val NOT_NULL_FILTER then
        bindE (topicLists E available (Suc i) ts) (\<lambda>r. Inr ((i, []) # r))
      else case t of
        Val topic \<Rightarrow> bindE (topicOf E topic) (\<lambda>h. bindE (topicLists E available (Suc i) ts)
          (\<lambda>r. Inr ((i, [h]) # r)))
      | _ \<Rightarrow> topicLists E available (Suc i) ts)"

definition eventFilterToDictionaryCondition ::
    "ethers \<Rightarrow> nat \<Rightarrow> EthereumLogFilter js \<Rightarrow> string js list \<Rightarrow> string list option
      \<Rightarrow> js_error + EthDictionaryLogConditions" where
  "eventFilterToDictionaryCondition E limit flt addresses available =
     bindE (case flt of
        Val f \<Rightarrow> (case topics f of Val ts \<Rightarrow> topicLists E available 0 (take 4 ts) | _ \<Rightarrow> Inr [])
      | _ \<Rightarrow> Inr [])
     (\<lambda>ts. Inr \<lparr>lc_address = (if (case available of Some ks \<Rightarrow> ''address'' \<notin> set ks | None \<Rightarrow> False) then None
          else Some (applyAddressesV2 limit addresses)), lc_topics = ts\<rparr>)"

section \<open>The builder\<close>

record V2MetadataFilters =
  mf_logs :: "string list option"
  mf_transactions :: "string list option"

type_synonym v2State = "EthDictionaryLogConditions list \<times> EthDictionaryTxConditions list"

text \<open>What a group does to the two lists; \<open>None\<close> is \<open>return {}\<close>.\<close>

definition v2Step ::
    "ethers \<Rightarrow> nat \<Rightarrow> V2MetadataFilters \<Rightarrow> SubqlHandler \<times> string js list \<Rightarrow> v2State \<Rightarrow> js_error + v2State option" where
  "v2Step E limit available grp st =
     (case grp of (handler, addresses) \<Rightarrow>
        if \<not> hasFilter handler \<and> addresses = [] then Inr None
        else case handler of
          BlockHandler _ flt \<Rightarrow> Inr (if blockHasModulo flt then Some st else None)
        | CallHandler _ flt \<Rightarrow>
            (if callFilterNonEmpty flt \<or> validAddresses addresses \<noteq> [] then
               bindE (callFilterToDictionaryCondition E limit flt addresses (mf_transactions available))
                 (\<lambda>c. Inr (Some (fst st, snd st @ [c])))
             else Inr (Some st))
        | EventHandler _ flt \<Rightarrow>
            (if eventFilterNonEmpty flt \<or> validAddresses addresses \<noteq> [] then
               bindE (eventFilterToDictionaryCondition E limit flt addresses (mf_logs available))
                 (\<lambda>c. Inr (Some (fst st @ [c], snd st)))
             else Inr (Some st))
        | CustomHandler _ _ _ \<Rightarrow> Inr (Some st))"

fun v2Loop ::
    "ethers \<Rightarrow> nat \<Rightarrow> V2MetadataFilters \<Rightarrow> (SubqlHandler \<times> string js list) list \<Rightarrow> v2State
      \<Rightarrow> js_error + v2State option" where
  "v2Loop E limit available [] st = Inr (Some st)"
| "v2Loop E limit available (g # gs) st =
     (case v2Step E limit available g st of
        Inl e \<Rightarrow> Inl e
      | Inr None \<Rightarrow> Inr None
      | Inr (Some st') \<Rightarrow> v2Loop E limit available gs st')"

definition sanitiseDictionaryConditions ::
    "(EthDictionaryLogConditions, EthDictionaryLogConditions) uniqBy \<Rightarrow>
     (EthDictionaryTxConditions, EthDictionaryTxConditions) uniqBy \<Rightarrow> v2State \<Rightarrow> EthDictionaryV2QueryEntry" where
  "sanitiseDictionaryConditions UL UT st =
     \<lparr>qe_logs = (if fst st = [] then None else Some (UL (\<lambda>x. x) (fst st))),
      qe_transactions = (if snd st = [] then None else Some (UT (\<lambda>x. x) (snd st)))\<rparr>"

definition buildDictionaryV2QueryEntry ::
    "(addressHandler, handlerKey) groupBy \<Rightarrow>
     (EthDictionaryLogConditions, EthDictionaryLogConditions) uniqBy \<Rightarrow>
     (EthDictionaryTxConditions, EthDictionaryTxConditions) uniqBy \<Rightarrow>
     ethers \<Rightarrow> nat \<Rightarrow> V2MetadataFilters \<Rightarrow> SubqlDatasource list \<Rightarrow> js_error + EthDictionaryV2QueryEntry" where
  "buildDictionaryV2QueryEntry G UL UT E limit available dss =
     bindE (v2Loop E limit available (groupedDataSources G dss) ([], [])) (\<lambda>r.
       case r of
         None \<Rightarrow> Inr \<lparr>qe_logs = None, qe_transactions = None\<rparr>
       | Some st \<Rightarrow> Inr (sanitiseDictionaryConditions UL UT st))"

section \<open>The answer\<close>

text \<open>\<open>getData\<close>: which fields are asked for.\<close>

record dataFields =
  df_blockHeader :: bool
  df_logs_transaction :: bool
  df_transactions_log :: bool

definition getDataFields :: "bool \<Rightarrow> dataFields" where
  "getDataFields skip = \<lparr>df_blockHeader = True, df_logs_transaction = \<not> skip, df_transactions_log = True\<rparr>"

definition MIN_FETCH_LIMIT :: nat where
  "MIN_FETCH_LIMIT = 200"

text \<open>A block of the dictionary; the lists may be missing. \<open>filterLog\<close> is the formatter of the
  API's provider.\<close>

record RawEthBlock =
  reb_header :: "unit RawBlock"
  reb_transactions :: "RawTransaction list js"
  reb_logs :: "RawLog list js"

definition orEmpty :: "'a list js \<Rightarrow> 'a list" where
  "orEmpty xs = (case xs of Val ys \<Rightarrow> ys | _ \<Rightarrow> [])"

definition withTransactions :: "'b list \<Rightarrow> 'a EthereumBlock \<Rightarrow> 'b EthereumBlock" where
  "withTransactions txs b =
     \<lparr>difficulty = difficulty b, gasLimit = gasLimit b, gasUsed = gasUsed b, block_hash = block_hash b,
      block_logs = block_logs b, block_number = block_number b, parentHash = parentHash b,
      block_size = block_size b, stateRoot = stateRoot b, block_timestamp = block_timestamp b,
      totalDifficulty = totalDifficulty b, transactions = txs, baseFeePerGas = baseFeePerGas b,
      blockGasCost = blockGasCost b, blobGasUsed = blobGasUsed b, excessBlobGas = excessBlobGas b\<rparr>"

fun show_raw :: "rawNumber js \<Rightarrow> string" where
  "show_raw Undefined = ''undefined''"
| "show_raw Null = ''null''"
| "show_raw (Val (RawStr s)) = s"
| "show_raw (Val (RawNum n)) = show_int n"

definition rawBlockToEthBlock ::
    "ethers \<Rightarrow> (RawLog \<Rightarrow> js_error + RawLog) \<Rightarrow> RawEthBlock \<Rightarrow> js_error + EthereumTransaction IBlock" where
  "rawBlockToEthBlock E filterLog block =
     (case bindE (formatBlock E ((reb_header block)\<lparr>raw_transactions := []\<rparr>)) (\<lambda>ethBlock.
           bindE (mapE filterLog (orEmpty (reb_logs block))) (\<lambda>raws.
           bindE (mapE (\<lambda>l. formatLog E l ()) raws) (\<lambda>ls.
             let logged = ethBlock\<lparr>block_logs := map fst ls\<rparr>
             in bindE (mapE (\<lambda>tx. bindE (formatTransaction E tx logged) (\<lambda>t.
                  Inr (t\<lparr>tx_logs := Val (logsOf (map fst ls) (rt_hash tx))\<rparr>))) (orEmpty (reb_transactions block)))
                (\<lambda>txs. Inr (formatBlockUtil (withTransactions txs logged)))))) of
        Inl e \<Rightarrow> Inl (Error (''Convert raw block to Eth block failed at ''
          @ show_raw (raw_number (reb_header block)) @ '','' @ message e))
      | Inr b \<Rightarrow> Inr b)"

record DictionaryResponse =
  batchBlocks :: "EthereumTransaction IBlock list"
  lastBufferedHeight :: "int option"

definition convertResponseBlocks ::
    "ethers \<Rightarrow> (RawLog \<Rightarrow> js_error + RawLog) \<Rightarrow> RawEthBlock list js \<Rightarrow> js_error + DictionaryResponse" where
  "convertResponseBlocks E filterLog blocks =
     bindE (mapE (rawBlockToEthBlock E filterLog) (orEmpty blocks)) (\<lambda>bs.
       Inr \<lparr>batchBlocks = bs,
         lastBufferedHeight = (if bs = [] then None else Some (block_number (iblock (last bs))))\<rparr>)"

section \<open>Choosing dictionaries\<close>

text \<open>\<open>initDictionaries\<close>: each endpoint is tried as version 2, then as version 1; the ones of
  version 2 come first.\<close>

datatype ('v2, 'v1) dictionary = DictV2 'v2 | DictV1 'v1

fun initDictionaries ::
    "(string \<Rightarrow> js_error + 'v2) \<Rightarrow> (string \<Rightarrow> js_error + 'v1) \<Rightarrow> string list \<Rightarrow> 'v2 list \<times> 'v1 list \<Rightarrow> ('v2, 'v1) dictionary list" where
  "initDictionaries createV2 createV1 [] (v2s, v1s) = map DictV2 v2s @ map DictV1 v1s"
| "initDictionaries createV2 createV1 (endpoint # es) (v2s, v1s) =
     (case createV2 endpoint of
        Inr d \<Rightarrow> initDictionaries createV2 createV1 es (v2s @ [d], v1s)
      | Inl _ \<Rightarrow>
          (case createV1 endpoint of
             Inr d \<Rightarrow> initDictionaries createV2 createV1 es (v2s, v1s @ [d])
           | Inl _ \<Rightarrow> initDictionaries createV2 createV1 es (v2s, v1s)))"

section \<open>What a query asks for\<close>

text \<open>A list of values restricts a field to them; an absent or empty list does not restrict it.\<close>

definition oneOf :: "'v list option \<Rightarrow> 'v option \<Rightarrow> bool" where
  "oneOf vs stored = (case vs of None \<Rightarrow> True | Some xs \<Rightarrow> xs = [] \<or> (\<exists>x \<in> set xs. stored = Some x))"

definition logAsked :: "EthDictionaryLogConditions \<Rightarrow> EthereumLog \<Rightarrow> bool" where
  "logAsked c l \<longleftrightarrow> oneOf (lc_address c) (storedAddress (log_address l)) \<and>
     (\<forall>(i, hs) \<in> set (lc_topics c).
        oneOf (Some hs) (if i < length (log_topics l) then Some (log_topics l ! i) else None))"

definition txAsked :: "EthDictionaryTxConditions \<Rightarrow> EthereumTransaction \<Rightarrow> bool" where
  "txAsked c tx \<longleftrightarrow> oneOf (tc_to c) (Some (storedAddress (tx_to tx))) \<and>
     oneOf (tc_from c) (storedAddress (tx_from tx)) \<and>
     oneOf (tc_data c) (Some (selector (tx_input tx))) \<and>
     oneOf (tc_type c) (case tx_type tx of Val t \<Rightarrow> Some t | _ \<Rightarrow> None)"

fun v2Asks :: "EthDictionaryV2QueryEntry \<Rightarrow> IndexItem \<Rightarrow> bool" where
  "v2Asks q (LogItem l) = (\<exists>cs. qe_logs q = Some cs \<and> (\<exists>c \<in> set cs. logAsked c l))"
| "v2Asks q (TxItem tx) = (\<exists>cs. qe_transactions q = Some cs \<and> (\<exists>c \<in> set cs. txAsked c tx))"
| "v2Asks q (BlockItem b) = False"

text \<open>A handler with neither a filter nor an address is not part of a version 2 query.\<close>

fun restricts :: "SubqlDatasource \<Rightarrow> SubqlHandler \<Rightarrow> bool" where
  "restricts ds (CallHandler _ flt) = (callFilterNonEmpty flt \<or> truthy (ds_address ds))"
| "restricts ds (EventHandler _ flt) = (eventFilterNonEmpty flt \<or> truthy (ds_address ds))"
| "restricts ds _ = False"

definition wantsV2 :: "ethers \<Rightarrow> (int \<Rightarrow> EthereumBlockFilter js \<Rightarrow> bool) \<Rightarrow> SubqlDatasource list \<Rightarrow> IndexItem \<Rightarrow> bool" where
  "wantsV2 E fbt dss item \<longleftrightarrow> proper_kinds dss \<and>
     (\<exists>ds \<in> set dss. \<exists>h \<in> set (ds_handlers ds).
        handlerAccepts E fbt item h ds = Inr True \<and> plain_request E ds h item \<and> restricts ds h)"

section \<open>Coverage\<close>

lemma oneOf_simps [simp]: "oneOf None v" "oneOf (Some []) v" "oneOf (Some [x]) v \<longleftrightarrow> v = Some x"
  by (auto simp: oneOf_def)

lemma setValue_oneOf: "vs = [] \<or> (\<exists>v \<in> set vs. stored = Some v) \<Longrightarrow> oneOf (setValue av k vs) stored"
  by (auto simp: setValue_def oneOf_def)

lemma applyAddressesV2_has:
  assumes "a \<in> set as" and "applyAddressesV2 limit as \<noteq> []"
  obtains s where "a = Val s" and "s \<noteq> []" and "toLowerCase s \<in> set (applyAddressesV2 limit as)"
proof -
  from assms have "truthy a" by (auto simp: applyAddressesV2_def filter_empty_conv split: if_splits)
  then obtain s where "a = Val s" "s \<noteq> []" by (rule truthyE)
  with assms that show thesis by (auto simp: applyAddressesV2_def in_validAddresses split: if_splits)
qed

lemma topicLists_none: "\<forall>t \<in> set us. \<not> truthy t \<Longrightarrow> topicLists E av i us = Inr []"
  by (induction us arbitrary: i) auto

lemma topicLists_hold:
  assumes "topicsResult E k ts (log_topics l) = Inr True" and "topicLists E av k us = Inr r"
    and "map jsonElement us = map jsonElement ts"
    and "\<forall>i j. i < j \<and> j < length ts \<and> ts ! i = Val NOT_NULL_FILTER \<longrightarrow> \<not> truthy (ts ! j)"
    and "\<forall>i t h. i < length ts \<and> k + i < length (log_topics l) \<and> ts ! i = Val t \<and> topicOf E t = Inr h \<and>
        hexStringEq E h (log_topics l ! (k + i)) = Inr True \<longrightarrow> log_topics l ! (k + i) = h"
  shows "\<forall>(i, hs) \<in> set r. oneOf (Some hs) (if i < length (log_topics l) then Some (log_topics l ! i) else None)"
  using assms
proof (induction ts arbitrary: k us r)
  case Nil
  then show ?case by simp
next
  case (Cons t ts)
  from Cons.prems(3) obtain u us' where us: "us = u # us'" "jsonElement u = jsonElement t"
      "map jsonElement us' = map jsonElement ts"
    by (cases us) auto
  have truthy_eq: "truthy u = truthy t" "truthy t \<Longrightarrow> u = t"
    using us(2) by (cases u; cases t; auto)+
  note tail = topics_tail [OF Cons.prems(4,5)]
  note IH = Cons.IH [OF _ _ us(3) tail]
  show ?case
  proof (cases "truthy t")
    case False
    with Cons.prems(1,2) show ?thesis
      using IH truthy_eq us(1) by (auto simp: topicResult_def split: if_splits)
  next
    case True
    then obtain topic where t: "t = Val topic" "topic \<noteq> []" "u = t" using truthy_eq by (auto elim: truthyE)
    show ?thesis
    proof (cases "topic = NOT_NULL_FILTER")
      case True
      have "\<forall>x \<in> set us'. \<not> truthy x"
        using topics_behind_not_null [OF Cons.prems(4)] t(1) True us(3) by blast
      then have "topicLists E av (Suc k) us' = Inr []" by (rule topicLists_none)
      with Cons.prems(2) t True us(1) show ?thesis by (auto split: if_splits)
    next
      case False
      with Cons.prems(1) t obtain h where h: "topicOf E topic = Inr h"
          "hexStringEq E h (log_topics l ! k) = Inr True" "k < length (log_topics l)"
          "topicsResult E (Suc k) ts (log_topics l) = Inr True"
        by (auto simp: topicResult_def topic_at_def bindE_eq_Inr_iff split: sum.splits bool.splits if_splits)
      have "log_topics l ! k = h"
        using Cons.prems(5) h t(1) by (metis add_0_right length_Cons nth_Cons_0 zero_less_Suc)
      with Cons.prems(2) False t us(1) h(1,3) IH [OF h(4)] show ?thesis
        by (auto simp: bindE_eq_Inr_iff split: if_splits) (drule (1) bspec, simp)+
    qed
  qed
qed

lemma event_condition_asks:
  assumes "logResult E l flt a = Inr True" and "a \<in> set as"
    and "plain_request E ds (EventHandler n flt) (LogItem l)"
    and "filterKey (EventHandler n' flt') = filterKey (EventHandler n flt)"
    and "eventFilterToDictionaryCondition E limit flt' as av = Inr c"
  shows "logAsked c l"
proof -
  have "oneOf (Some (applyAddressesV2 limit as)) (storedAddress (log_address l))"
  proof (cases "applyAddressesV2 limit as = []")
    case False
    then obtain s where s: "a = Val s" "s \<noteq> []" "toLowerCase s \<in> set (applyAddressesV2 limit as)"
      using applyAddressesV2_has [OF assms(2)] by blast
    with assms(1) have "storedAddress (log_address l) = Some (toLowerCase s)"
      using jsNormalizedEq_stored [of a "log_address l"]
      by (auto simp: logResult_def storedAddress_def split: if_splits)
    with s(3) show ?thesis by (auto simp: oneOf_def)
  qed simp
  moreover obtain r where c: "lc_topics c = r" "lc_address c = None \<or> lc_address c = Some (applyAddressesV2 limit as)"
      and r: "(case flt' of Val f \<Rightarrow> (case topics f of Val ts \<Rightarrow> topicLists E av 0 (take 4 ts) | _ \<Rightarrow> Inr [])
        | _ \<Rightarrow> Inr []) = Inr r"
    using assms(5) by (auto simp: eventFilterToDictionaryCondition_def bindE_eq_Inr_iff)
  moreover have "\<forall>(i, hs) \<in> set r. oneOf (Some hs) (if i < length (log_topics l) then Some (log_topics l ! i) else None)"
  proof (cases "\<exists>f ts. flt' = Val f \<and> topics f = Val ts")
    case False
    with r show ?thesis by (auto split: js.splits)
  next
    case True
    then obtain f' us where f': "flt' = Val f'" "topics f' = Val us" by blast
    with assms(4) obtain f ts where f: "flt = Val f" "topics f = Val ts" "map jsonElement us = map jsonElement ts"
      by (cases flt; cases "topics (case flt of Val f \<Rightarrow> f | _ \<Rightarrow> undefined)") auto
    then have "map jsonElement (take 4 us) = map jsonElement (take 4 ts)" by (metis take_map)
    moreover have "topicsResult E 0 (take 4 ts) (log_topics l) = Inr True"
      using assms(1) f by (auto simp: logResult_def split: if_splits)
    moreover have "topics_plain E (take 4 ts) (log_topics l)" using assms(3) f by simp
    moreover have "topicLists E av 0 (take 4 us) = Inr r" using r f' by simp
    ultimately show ?thesis
      unfolding topics_plain_def
      by (elim conjE, intro topicLists_hold [of E 0 "take 4 ts" l av "take 4 us" r]) (assumption | simp only: add_0)+
  qed
  ultimately show ?thesis by (auto simp: logAsked_def)
qed

lemma call_condition_asks:
  assumes "transactionResult E tx flt a = Inr True" and "a \<in> set as" and "a = ds_address ds"
    and "plain_request E ds (CallHandler n flt) (TxItem tx)"
    and "filterKey (CallHandler n' flt') = filterKey (CallHandler n flt)"
    and "callFilterToDictionaryCondition E limit flt' as av = Inr c"
  shows "txAsked c tx"
proof -
  define f where "f = (case flt' of Val f \<Rightarrow> f
    | _ \<Rightarrow> \<lparr>tf_from = Undefined, tf_to = Undefined, tf_function = Undefined, tf_type = Undefined\<rparr>)"
  define toArray where "toArray = (if applyAddressesV2 limit as = [] then assignTo (tf_to f)
    else concat (map (\<lambda>a. assignTo (Val a)) (applyAddressesV2 limit as)))"
  define fromArray where "fromArray = (case tf_from f of Val s \<Rightarrow> if s \<noteq> [] then [toLowerCase s] else [] | _ \<Rightarrow> [])"
  obtain fa where fa: "(case tf_function f of Val s \<Rightarrow> (if s \<noteq> [] then bindE (sighashOf E s) (\<lambda>h. Inr [h]) else Inr [])
         | _ \<Rightarrow> Inr []) = Inr fa"
      and c: "c = \<lparr>tc_to = setValue av ''to'' toArray, tc_from = setValue av ''from'' fromArray,
        tc_data = setValue av ''data'' fa,
        tc_type = (case tf_type f of Val t \<Rightarrow> if t \<noteq> [] then setValue av ''type'' [t] else None | _ \<Rightarrow> None)\<rparr>"
    using assms(6) by (auto simp: callFilterToDictionaryCondition_def Let_def bindE_eq_Inr_iff
        f_def [symmetric] toArray_def [symmetric] fromArray_def [symmetric])
  have crit: "(truthy a \<and> tf_to f = Undefined \<longrightarrow> jsNormalizedEq a (tx_to tx)) \<and> to_criterion f Undefined tx \<and>
      from_criterion f tx \<and> type_criterion f tx \<and> inputResult E tx (tf_function f) = Inr True \<and>
      function_plain E (tf_function f) \<and> tf_to f \<noteq> Val [] \<and> (truthy a \<longrightarrow> tf_to f = Undefined)"
  proof (cases flt')
    case (Val f')
    with assms(5) have "flt = Val f" by (cases flt) (auto simp: f_def)
    with assms(1,3,4) show ?thesis
      by (auto simp: transactionResult_def bindE_eq_Inr_iff to_criterion_def split: if_splits js.splits)
  next
    case Null
    with assms(3,4,5) have "\<not> truthy a" by (cases flt) auto
    with Null show ?thesis
      by (simp add: f_def to_criterion_def from_criterion_def type_criterion_def inputResult_def function_plain_def)
  next
    case Undefined
    with assms(3,4,5) have "\<not> truthy a" by (cases flt) auto
    with Undefined show ?thesis
      by (simp add: f_def to_criterion_def from_criterion_def type_criterion_def inputResult_def function_plain_def)
  qed
  have "oneOf (setValue av ''to'' toArray) (Some (storedAddress (tx_to tx)))"
  proof (rule setValue_oneOf, cases "applyAddressesV2 limit as = []")
    case True
    with crit show "toArray = [] \<or> (\<exists>v \<in> set toArray. Some (storedAddress (tx_to tx)) = Some v)"
      by (cases "tf_to f"; cases "tx_to tx") (auto simp: toArray_def assignTo_def to_criterion_def storedAddress_def)
  next
    case False
    then obtain s where s: "a = Val s" "s \<noteq> []" "toLowerCase s \<in> set (applyAddressesV2 limit as)"
      using applyAddressesV2_has [OF assms(2)] by blast
    with crit have "storedAddress (tx_to tx) = Some (toLowerCase s)"
      using jsNormalizedEq_stored [of a "tx_to tx"] by (simp add: storedAddress_def)
    with s False show "toArray = [] \<or> (\<exists>v \<in> set toArray. Some (storedAddress (tx_to tx)) = Some v)"
      by (auto simp: toArray_def assignTo_def intro!: image_eqI [of _ _ "toLowerCase s"])
  qed
  moreover have "oneOf (setValue av ''from'' fromArray) (storedAddress (tx_from tx))"
    using crit by (intro setValue_oneOf, cases "tf_from f"; cases "tx_from tx")
      (auto simp: fromArray_def from_criterion_def storedAddress_def)
  moreover have "oneOf (setValue av ''data'' fa) (Some (selector (tx_input tx)))"
  proof (rule setValue_oneOf, cases "\<exists>s. tf_function f = Val s \<and> s \<noteq> []")
    case True
    then obtain s where s: "tf_function f = Val s" "s \<noteq> []" by blast
    with fa obtain h where h: "sighashOf E s = Inr h" "fa = [h]" by (auto simp: bindE_eq_Inr_iff)
    from crit s h have "selector (tx_input tx) = h"
      by (cases "s = ''0x''") (auto simp: function_plain_def inputResult_def selector_def startsWith_selector
          [unfolded selector_def])
    with h show "fa = [] \<or> (\<exists>v \<in> set fa. Some (selector (tx_input tx)) = Some v)" by simp
  next
    case False
    with fa show "fa = [] \<or> (\<exists>v \<in> set fa. Some (selector (tx_input tx)) = Some v)"
      by (auto split: js.splits if_splits)
  qed
  moreover have "oneOf (tc_type c) (case tx_type tx of Val t \<Rightarrow> Some t | _ \<Rightarrow> None)"
    using crit by (cases "tf_type f") (auto simp: c type_criterion_def intro!: setValue_oneOf)
  ultimately show ?thesis by (simp add: txAsked_def c)
qed

text \<open>The loop only adds, and adds the condition of every group it passes.\<close>

lemma v2Step_keeps: "v2Step E limit av g st = Inr (Some st') \<Longrightarrow> set (fst st) \<subseteq> set (fst st') \<and> set (snd st) \<subseteq> set (snd st')"
  by (cases g; cases "fst g") (auto simp: v2Step_def bindE_eq_Inr_iff split: if_splits)

lemma v2Loop_keeps: "v2Loop E limit av gs st = Inr (Some st') \<Longrightarrow> set (fst st) \<subseteq> set (fst st') \<and> set (snd st) \<subseteq> set (snd st')"
proof (induction gs arbitrary: st)
  case (Cons g gs)
  then obtain t where "v2Step E limit av g st = Inr (Some t)" "v2Loop E limit av gs t = Inr (Some st')"
    by (auto split: sum.splits option.splits)
  with Cons.IH v2Step_keeps show ?case by blast
qed simp

lemma v2Loop_has:
  assumes "v2Loop E limit av gs st = Inr (Some r)" and "g \<in> set gs"
  shows "\<exists>t t'. v2Step E limit av g t = Inr (Some t') \<and> set (fst t') \<subseteq> set (fst r) \<and> set (snd t') \<subseteq> set (snd r)"
  using assms
proof (induction gs arbitrary: st)
  case (Cons x gs)
  from Cons.prems(1) obtain t where t: "v2Step E limit av x st = Inr (Some t)" "v2Loop E limit av gs t = Inr (Some r)"
    by (auto split: sum.splits option.splits)
  show ?case
  proof (cases "g = x")
    case True
    with t v2Loop_keeps [OF t(2)] show ?thesis by blast
  next
    case False
    with Cons.prems(2) Cons.IH [OF t(2)] show ?thesis by simp
  qed
qed simp

lemma v2_covers:
  assumes "groupBy_doc G \<and> uniqBy_doc UL \<and> uniqBy_doc UT"
    and "buildDictionaryV2QueryEntry G UL UT E limit av dss = Inr q"
    and "qe_logs q \<noteq> None \<or> qe_transactions q \<noteq> None" and "wantsV2 E fbt dss item"
  shows "v2Asks q item"
proof -
  from assms(4) obtain ds h where dsh: "ds \<in> set dss" "h \<in> set (ds_handlers ds)"
      "handlerAccepts E fbt item h ds = Inr True" "plain_request E ds h item" "restricts ds h"
    and kinds: "proper_kinds dss"
    unfolding wantsV2_def by blast
  obtain h' as where g: "(h', as) \<in> set (groupedDataSources G dss)" "kind h' = kind h"
      "filterKey h' = filterKey h" "ds_address ds \<in> set as" "\<exists>ds' \<in> set dss. h' \<in> set (ds_handlers ds')"
    using grouped_has [of G ds dss h] assms(1) dsh by blast
  from assms(2,3) obtain r where r: "v2Loop E limit av (groupedDataSources G dss) ([], []) = Inr (Some r)"
      "q = sanitiseDictionaryConditions UL UT r"
    by (auto simp: buildDictionaryV2QueryEntry_def bindE_eq_Inr_iff split: option.splits)
  obtain t t' where step: "v2Step E limit av (h', as) t = Inr (Some t')" "set (fst t') \<subseteq> set (fst r)" "set (snd t') \<subseteq> set (snd r)"
    using v2Loop_has [OF r(1) g(1)] by blast
  have valid: "truthy (ds_address ds) \<Longrightarrow> validAddresses as \<noteq> []"
    using g(4) in_validAddresses by (metis empty_iff empty_set truthyE)
  show ?thesis
  proof (cases "(E, ds, h, item)" rule: plain_request.cases)
    case (1 E' ds' n flt l)
    with g(2,5) kinds obtain n' flt' where h': "h' = EventHandler n' flt'"
      by (cases h') (auto simp: kind_defs proper_kinds_def)
    have "eventFilterNonEmpty flt' = eventFilterNonEmpty flt"
      using g(3) 1 h' by (auto simp: eventFilterNonEmpty_def map_eq_Cons_conv split: js.splits)
    with step(1) h' 1 dsh(5) valid obtain c where c: "eventFilterToDictionaryCondition E limit flt' as (mf_logs av) = Inr c"
        "c \<in> set (fst t')"
      by (fastforce simp: v2Step_def bindE_eq_Inr_iff split: if_splits)
    with 1 dsh(3,4) g(3,4) h' event_condition_asks [of E l flt "ds_address ds" as ds n n' flt' limit "mf_logs av" c]
    have "logAsked c l" by simp
    moreover from c(2) step(2) have "c \<in> set (fst r)" by blast
    moreover have "\<exists>c' \<in> set (UL (\<lambda>x. x) (fst r)). c' = c"
      using assms(1) \<open>c \<in> set (fst r)\<close> by (intro uniqBy_docE) blast+
    ultimately show ?thesis using 1 r(2) by (auto simp: sanitiseDictionaryConditions_def)
  next
    case (2 E' ds' n flt tx)
    with g(2,5) kinds obtain n' flt' where h': "h' = CallHandler n' flt'"
      by (cases h') (auto simp: kind_defs proper_kinds_def)
    have "callFilterNonEmpty flt' = callFilterNonEmpty flt"
      using g(3) 2 h' by (auto simp: callFilterNonEmpty_def split: js.splits)
    with step(1) h' 2 dsh(5) valid obtain c where c: "callFilterToDictionaryCondition E limit flt' as (mf_transactions av) = Inr c"
        "c \<in> set (snd t')"
      by (fastforce simp: v2Step_def bindE_eq_Inr_iff split: if_splits)
    with 2 dsh(3,4) g(3,4) h' call_condition_asks [of E tx flt "ds_address ds" as ds n n' flt' limit "mf_transactions av" c]
    have "txAsked c tx" by simp
    moreover from c(2) step(3) have "c \<in> set (snd r)" by blast
    moreover have "\<exists>c' \<in> set (UT (\<lambda>x. x) (snd r)). c' = c"
      using assms(1) \<open>c \<in> set (snd r)\<close> by (intro uniqBy_docE) blast+
    ultimately show ?thesis using 2 r(2) by (auto simp: sanitiseDictionaryConditions_def)
  qed (use dsh(4) in auto)
qed

interpretation v2: query_builder "buildDictionaryV2QueryEntry G UL UT E limit av"
    "\<lambda>q. qe_logs q \<noteq> None \<or> qe_transactions q \<noteq> None" v2Asks "wantsV2 E fbt"
    "groupBy_doc G \<and> uniqBy_doc UL \<and> uniqBy_doc UT"
  for G UL UT E limit av fbt
  by unfold_locales (rule v2_covers)

section \<open>Properties\<close>

text \<open>A version 2 dictionary query covers the handlers that restrict anything: when it is used, a
  block none of whose logs and transactions it asks for holds no item that such a handler accepts
  (\<open>plain_request\<close>), whatever filters the dictionary supports and however many addresses
  there are.\<close>

theorem v2_query_covers:
  assumes "groupBy_doc G" and "uniqBy_doc UL" and "uniqBy_doc UT"
    and "buildDictionaryV2QueryEntry G UL UT E limit av dss = Inr q"
    and "qe_logs q \<noteq> None \<or> qe_transactions q \<noteq> None" and "\<forall>item \<in> set items. \<not> v2Asks q item"
  shows "\<forall>item \<in> set items. \<not> wantsV2 E fbt dss item"
  using v2.skipped_block [of G UL UT E limit av dss q items fbt] assms by blast

subsection \<open>Samples\<close>

abbreviation sample_v2 :: "SubqlDatasource list \<Rightarrow> js_error + EthDictionaryV2QueryEntry" where
  "sample_v2 \<equiv> buildDictionaryV2QueryEntry group_by uniq_by uniq_by sample_ethers 100
     \<lparr>mf_logs = None, mf_transactions = None\<rparr>"

definition event_ds :: "string js \<Rightarrow> EthereumLogFilter js \<Rightarrow> SubqlDatasource" where
  "event_ds a flt = \<lparr>ds_kind = EthereumDatasourceKind_Runtime,
     ds_options = Val \<lparr>opt_abi = Undefined, opt_address = a\<rparr>, ds_handlers = [EventHandler ''handleLog'' flt],
     ds_assets = Undefined, ds_processor = None\<rparr>"

definition topic_log :: "string \<Rightarrow> EthereumLog" where
  "topic_log t = sample_log\<lparr>log_topics := [t]\<rparr>"

definition topic_query :: EthDictionaryV2QueryEntry where
  "topic_query = \<lparr>qe_logs = Some [\<lparr>lc_address = Some [], lc_topics = [(0, [''0xa1''])]\<rparr>], qe_transactions = None\<rparr>"

lemma sample_v2_queries:
  "sample_v2 [event_ds Undefined (Val \<lparr>topics = Val [Val ''0xa1'']\<rparr>)] = Inr topic_query"
  "sample_v2 [event_ds Undefined (Val \<lparr>topics = Val [Val ''0xa1'']\<rparr>), event_ds Undefined Undefined] = Inr topic_query"
  by code_simp+

lemma topic_query_asks: "\<not> v2Asks topic_query (LogItem (topic_log ''0xb2''))"
  by (simp add: topic_query_def logAsked_def topic_log_def oneOf_def)

lemma topic_log_wanted:
  "wantsV2 sample_ethers (\<lambda>_ _. True) [event_ds Undefined (Val \<lparr>topics = Val [Val ''0xa1'']\<rparr>)]
     (LogItem (topic_log ''0xa1''))"
proof -
  have "logResult sample_ethers (topic_log ''0xa1'') (Val \<lparr>topics = Val [Val ''0xa1'']\<rparr>) Undefined = Inr True"
    by code_simp
  moreover have "topics_plain sample_ethers [Val ''0xa1''] [''0xa1'']"
  proof -
    have "topicOf sample_ethers ''0xa1'' = Inr ''0xa1''" by code_simp
    then show ?thesis by (auto simp: topics_plain_def)
  qed
  ultimately show ?thesis
    by (simp add: wantsV2_def proper_kinds_def event_ds_def ds_address_def eventFilterNonEmpty_def
        topic_log_def)
qed

theorem v2_query_covers_witness:
  "\<not> wantsV2 sample_ethers (\<lambda>_ _. True) [event_ds Undefined (Val \<lparr>topics = Val [Val ''0xa1'']\<rparr>)]
     (LogItem (topic_log ''0xb2'')) \<and>
   wantsV2 sample_ethers (\<lambda>_ _. True) [event_ds Undefined (Val \<lparr>topics = Val [Val ''0xa1'']\<rparr>)]
     (LogItem (topic_log ''0xa1''))"
  using v2_query_covers [OF group_by_doc uniq_by_doc uniq_by_doc sample_v2_queries(1),
      of "[LogItem (topic_log ''0xb2'')]" "\<lambda>_ _. True"] topic_query_asks topic_log_wanted
  by (simp add: topic_query_def)

text \<open>A handler without filter and address is dropped from a version 2 query instead of turning the
  dictionary off: next to a handler that asks for the topic \<open>0xa1\<close>, one that accepts every log
  leaves the query as it is, so a block with only a log of topic \<open>0xb2\<close>, which it accepts, is not
  asked for; the version 1 builder returns the empty query, which fetches every block.\<close>

theorem v2_drops_handler_without_filter:
  "sample_v2 [event_ds Undefined (Val \<lparr>topics = Val [Val ''0xa1'']\<rparr>), event_ds Undefined Undefined] = Inr topic_query \<and>
   handlerAccepts sample_ethers (\<lambda>_ _. True) (LogItem (topic_log ''0xb2'')) (EventHandler ''handleLog'' Undefined)
     (event_ds Undefined Undefined) = Inr True \<and>
   \<not> v2Asks topic_query (LogItem (topic_log ''0xb2'')) \<and>
   sample_v1 [event_ds Undefined (Val \<lparr>topics = Val [Val ''0xa1'']\<rparr>), event_ds Undefined Undefined] = Inr []"
proof -
  have "sample_v1 [event_ds Undefined (Val \<lparr>topics = Val [Val ''0xa1'']\<rparr>), event_ds Undefined Undefined] = Inr []"
    by code_simp
  then show ?thesis
    using sample_v2_queries(2) topic_query_asks
    by (simp add: logResult_def event_ds_def ds_address_def)
qed

subsection \<open>The answer\<close>

definition from_raw :: "RawEthBlock \<Rightarrow> EthereumTransaction IBlock \<Rightarrow> bool" where
  "from_raw raw ib \<longleftrightarrow>
     block_hash (iblock ib) = raw_hash (reb_header raw) \<and> parentHash (iblock ib) = raw_parentHash (reb_header raw) \<and>
     map tx_hash (transactions (iblock ib)) = map rt_hash (orEmpty (reb_transactions raw)) \<and>
     log_share_ok (iblock ib) \<and> getHeader ib = ethereumBlockToHeader (iblock ib)"

lemma shared_transactions:
  assumes "mapE (\<lambda>tx. bindE (formatTransaction E tx b) (\<lambda>t.
      Inr (t\<lparr>tx_logs := Val (logsOf logs (rt_hash tx))\<rparr>))) rs = Inr txs"
  shows "map tx_hash txs = map rt_hash rs \<and> (\<forall>t \<in> set txs. tx_logs t = Val (logsOf logs (tx_hash t)))"
  using assms
proof (induction rs arbitrary: txs)
  case (Cons r rs)
  then obtain t ts where t: "formatTransaction E r b = Inr t" "txs = t\<lparr>tx_logs := Val (logsOf logs (rt_hash r))\<rparr> # ts"
      "mapE (\<lambda>tx. bindE (formatTransaction E tx b) (\<lambda>t. Inr (t\<lparr>tx_logs := Val (logsOf logs (rt_hash tx))\<rparr>))) rs = Inr ts"
    by (auto simp: bindE_eq_Inr_iff split: sum.splits)
  with Cons.IH [OF t(3)] formatTransaction_Inr(1) [OF t(1)] show ?case by simp
qed simp

lemma bindE_InrE:
  assumes "bindE m f = Inr y"
  obtains x where "m = Inr x" and "f x = Inr y"
  using assms by (cases m) auto

lemma rawBlock_from_raw:
  assumes "rawBlockToEthBlock E filterLog raw = Inr ib"
  shows "from_raw raw ib"
proof -
  from assms have "bindE (formatBlock E ((reb_header raw)\<lparr>raw_transactions := []\<rparr>)) (\<lambda>ethBlock.
      bindE (mapE filterLog (orEmpty (reb_logs raw))) (\<lambda>raws.
      bindE (mapE (\<lambda>l. formatLog E l ()) raws) (\<lambda>ls.
      bindE (mapE (\<lambda>tx. bindE (formatTransaction E tx (ethBlock\<lparr>block_logs := map fst ls\<rparr>)) (\<lambda>t.
          Inr (t\<lparr>tx_logs := Val (logsOf (map fst ls) (rt_hash tx))\<rparr>))) (orEmpty (reb_transactions raw)))
        (\<lambda>txs. Inr (formatBlockUtil (withTransactions txs (ethBlock\<lparr>block_logs := map fst ls\<rparr>))))))) = Inr ib"
    by (simp add: rawBlockToEthBlock_def Let_def split: sum.splits)
  then show ?thesis
  proof (elim bindE_InrE)
    fix b raws ls txs
    assume b: "formatBlock E ((reb_header raw)\<lparr>raw_transactions := []\<rparr>) = Inr b"
      and txs: "mapE (\<lambda>tx. bindE (formatTransaction E tx (b\<lparr>block_logs := map fst ls\<rparr>)) (\<lambda>t.
        Inr (t\<lparr>tx_logs := Val (logsOf (map fst ls) (rt_hash tx))\<rparr>))) (orEmpty (reb_transactions raw)) = Inr txs"
      and "Inr (formatBlockUtil (withTransactions txs (b\<lparr>block_logs := map fst ls\<rparr>))) = (Inr ib :: js_error + _)"
    then have ib: "ib = formatBlockUtil (withTransactions txs (b\<lparr>block_logs := map fst ls\<rparr>))" by simp
    show ?thesis
      using shared_transactions [OF txs] formatBlock_Inr [OF b]
      by (simp add: from_raw_def ib formatBlockUtil_def withTransactions_def log_share_ok_def)
  qed
qed

text \<open>The blocks a version 2 dictionary answers with are converted one for one and in order: each
  block keeps the hash and parent of its header and the order of its transactions, gives each
  transaction exactly its logs, as \<open>fetchBlock\<close> does, and the height the response is buffered up
  to is the number of the last block, or missing when there is none.\<close>

theorem converted_blocks:
  assumes "convertResponseBlocks E filterLog blocks = Inr r"
  shows "list_all2 from_raw (orEmpty blocks) (batchBlocks r) \<and>
    lastBufferedHeight r = (if orEmpty blocks = [] then None else Some (block_number (iblock (last (batchBlocks r)))))"
proof -
  from assms obtain bs where bs: "mapE (rawBlockToEthBlock E filterLog) (orEmpty blocks) = Inr bs"
      and r: "r = \<lparr>batchBlocks = bs, lastBufferedHeight = (if bs = [] then None else Some (block_number (iblock (last bs))))\<rparr>"
    by (auto simp: convertResponseBlocks_def bindE_eq_Inr_iff)
  have "list_all2 from_raw xs bs" if "mapE (rawBlockToEthBlock E filterLog) xs = Inr bs" for xs bs
    using that
  proof (induction xs arbitrary: bs)
    case (Cons x xs)
    then show ?case by (auto simp: rawBlock_from_raw split: sum.splits)
  qed simp
  with bs mapE_length [OF bs] r show ?thesis by auto
qed

definition sample_raw_eth_block :: RawEthBlock where
  "sample_raw_eth_block = \<lparr>reb_header = sample_rawBlock [], reb_transactions = Val [sample_rawTx ''0x1''],
     reb_logs = Val [sample_rawLog ''0xab'' ''0x1'']\<rparr>"

theorem converted_blocks_witness:
  "\<exists>r. convertResponseBlocks sample_ethers Inr (Val [sample_raw_eth_block]) = Inr r \<and>
     list_all2 from_raw [sample_raw_eth_block] (batchBlocks r)"
proof -
  have "\<exists>r. convertResponseBlocks sample_ethers Inr (Val [sample_raw_eth_block]) = Inr r"
    by (simp add: convertResponseBlocks_def orEmpty_def rawBlockToEthBlock_def sample_raw_eth_block_def
        sample_defs fetch_defs Let_def)
  then obtain r where r: "convertResponseBlocks sample_ethers Inr (Val [sample_raw_eth_block]) = Inr r" ..
  with converted_blocks [OF r] show ?thesis by (simp add: orEmpty_def)
qed

lemma initDictionaries_acc:
  "initDictionaries c2 c1 es (v2s, v1s) =
     map DictV2 (v2s @ List.map_filter (\<lambda>e. case c2 e of Inr d \<Rightarrow> Some d | Inl _ \<Rightarrow> None) es) @
     map DictV1 (v1s @ List.map_filter (\<lambda>e. case c2 e of Inr _ \<Rightarrow> None
       | Inl _ \<Rightarrow> (case c1 e of Inr d \<Rightarrow> Some d | Inl _ \<Rightarrow> None)) es)"
  by (induction es arbitrary: v2s v1s) (auto simp: map_filter_def split: sum.splits)

text \<open>Version 2 dictionaries are preferred: the list holds, in the order of the endpoints, first a
  version 2 dictionary for each endpoint that is one, then a version 1 dictionary for each of the
  other endpoints that is one; an endpoint that is neither is left out, and none is used twice.\<close>

theorem dictionaries_in_order:
  "initDictionaries createV2 createV1 endpoints ([], []) =
     map DictV2 (List.map_filter (\<lambda>e. case createV2 e of Inr d \<Rightarrow> Some d | Inl _ \<Rightarrow> None) endpoints) @
     map DictV1 (List.map_filter (\<lambda>e. case createV2 e of Inr _ \<Rightarrow> None
       | Inl _ \<Rightarrow> (case createV1 e of Inr d \<Rightarrow> Some d | Inl _ \<Rightarrow> None)) endpoints)"
  using initDictionaries_acc [of createV2 createV1 endpoints "[]" "[]"] by simp

end
