(* ===== verification/Web_Geturl.thy ===== *)
theory Web_Geturl
  imports Complex_Main Prelude "HOL-Library.Word"
begin

text \<open>
  \<open>packages/node/src/ethereum/ethers/web/geturl.ts\<close> and \<open>types.ts\<close>: one HTTP exchange. The
  sockets of \<open>http\<close> and \<open>https\<close> are the sequence of events a request produces; \<open>url.parse\<close>,
  \<open>gunzipSync\<close> and the error factory of ethers are the record \<open>webLib\<close>. A JavaScript object with
  string keys is an association list in the order of insertion.
\<close>

type_synonym bytes = "8 word list"
type_synonym headerMap = "(string \<times> string) list"

section \<open>Parameters\<close>

text \<open>The properties ethers copies onto an error it makes.\<close>

datatype errParam = PStr "string js" | PNum int | PRat rat | PHeaders headerMap | PBytes "bytes option" | PError js_error

text \<open>What \<open>url.parse\<close> returns; a part the URL does not have is \<open>null\<close>.\<close>

record ParsedUrl =
  u_protocol :: "string js"
  u_hostname :: "string js"
  u_port :: "string js"
  u_pathname :: "string js"
  u_search :: "string js"

record webLib =
  base64Encode :: "bytes \<Rightarrow> string"
  base64Decode :: "string \<Rightarrow> js_error + bytes"
  toUtf8Bytes :: "string \<Rightarrow> bytes"
  toUtf8String :: "bytes \<Rightarrow> js_error + string"
  hexlify :: "bytes \<Rightarrow> string"
  parseUrl :: "string \<Rightarrow> ParsedUrl"
  gunzipSync :: "bytes \<Rightarrow> js_error + bytes"
  makeError :: "string \<Rightarrow> string \<Rightarrow> (string \<times> errParam) list \<Rightarrow> js_error"

text \<open>The documented behaviour of \<open>Logger.makeError(reason, code, params)\<close> of ethers: the error has
  the reason and the code, and each parameter becomes a property.\<close>

definition makeError_doc :: "webLib \<Rightarrow> bool" where
  "makeError_doc L \<longleftrightarrow>
     (\<forall>r c ps. reason (makeError L r c ps) = Some r \<and> code (makeError L r c ps) = Some (CodeStr c) \<and>
        status (makeError L r c ps) = (case map_of ps ''status'' of Some (PNum n) \<Rightarrow> Some n | _ \<Rightarrow> None))"

lemma makeError_docD:
  assumes "makeError_doc L"
  shows "reason (makeError L r c ps) = Some r" and "code (makeError L r c ps) = Some (CodeStr c)"
    and "status (makeError L r c ps) = (case map_of ps ''status'' of Some (PNum n) \<Rightarrow> Some n | _ \<Rightarrow> None)"
  using assms by (auto simp: makeError_doc_def)

section \<open>Types\<close>

record GetUrlResponse =
  statusCode :: int
  statusMessage :: string
  resp_headers :: headerMap
  resp_body :: "bytes option"

text \<open>An HTTP agent is an opaque handle.\<close>

record agents =
  agent_http :: "nat option"
  agent_https :: "nat option"

record Options =
  opt_method :: "string js"
  opt_allowGzip :: bool
  opt_body :: "bytes option"
  opt_headers :: headerMap
  opt_skipFetchSetup :: "bool js"
  opt_fetchOptions :: "headerMap js"
  opt_agents :: "agents js"

section \<open>The response\<close>

text \<open>What a request emits: an error, or a response whose parts follow as events of their own.\<close>

datatype headerValue = HStr string | HList "string list" | HUndef

record IncomingMessage =
  im_statusCode :: "int js"
  im_statusMessage :: "string js"
  im_headers :: "(string \<times> headerValue) list"

datatype respEvent = DataChunk bytes | EndOfBody | RespFailed js_error
datatype requestEvents = RequestFailed js_error | Responded IncomingMessage "respEvent list"

text \<open>How the promise ends. An exception in an event handler is caught by nobody, \<open>Crashed\<close>; without
  an end event the promise stays \<open>Unsettled\<close>.\<close>

datatype getOutcome = Resolved GetUrlResponse | Rejected js_error "GetUrlResponse option"
  | Crashed js_error | Unsettled

definition joinHeaders :: "(string \<times> headerValue) list \<Rightarrow> headerMap" where
  "joinHeaders hs =
     foldl (\<lambda>accum (name, v). case v of
         HStr s \<Rightarrow> obj_set name s accum
       | HList ss \<Rightarrow> obj_set name (join '', '' ss) accum
       | HUndef \<Rightarrow> accum) [] hs"

fun bodyEvents :: "webLib \<Rightarrow> GetUrlResponse \<Rightarrow> respEvent list \<Rightarrow> getOutcome" where
  "bodyEvents L response [] = Unsettled"
| "bodyEvents L response (DataChunk chunk # es) =
     bodyEvents L (response\<lparr>resp_body := Some ((case resp_body response of Some b \<Rightarrow> b | None \<Rightarrow> []) @ chunk)\<rparr>) es"
| "bodyEvents L response (EndOfBody # es) =
     (if map_of (resp_headers response) ''content-encoding'' = Some ''gzip'' then
        (case resp_body response of
           None \<Rightarrow> Resolved response
         | Some b \<Rightarrow>
             (case gunzipSync L b of
                Inl e \<Rightarrow> Crashed e
              | Inr b' \<Rightarrow> Resolved (response\<lparr>resp_body := Some b'\<rparr>)))
      else Resolved response)"
| "bodyEvents L response (RespFailed e # es) = Rejected e (Some response)"

definition getResponse :: "webLib \<Rightarrow> requestEvents \<Rightarrow> getOutcome" where
  "getResponse L request =
     (case request of
        RequestFailed e \<Rightarrow> Rejected e None
      | Responded resp es \<Rightarrow>
          (case im_statusCode resp of
             Val n \<Rightarrow>
               (if n = 0 then Rejected (Error ''response statusCode is undefined'') None
                else bodyEvents L \<lparr>statusCode = n,
                  statusMessage = (case im_statusMessage resp of Val m \<Rightarrow> m | _ \<Rightarrow> []),
                  resp_headers = joinHeaders (im_headers resp), resp_body = None\<rparr> es)
           | _ \<Rightarrow> Rejected (Error ''response statusCode is undefined'') None))"

section \<open>The request\<close>

definition nonnull :: "string js \<Rightarrow> string" where
  "nonnull v = (case v of Val s \<Rightarrow> s | _ \<Rightarrow> [])"

record RequestOptions =
  ro_protocol :: string
  ro_hostname :: string
  ro_port :: string
  ro_path :: string
  ro_method :: string
  ro_headers :: headerMap
  ro_agent :: "nat option"

text \<open>The request that is sent and the bytes written to it, or an error before anything is sent.\<close>

definition urlRequest :: "webLib \<Rightarrow> string \<Rightarrow> Options \<Rightarrow> js_error + RequestOptions \<times> bytes option" where
  "urlRequest L href options =
     (let url = parseUrl L href;
          headers = (if opt_allowGzip options then obj_set ''accept-encoding'' ''gzip'' (opt_headers options)
            else opt_headers options);
          request = \<lparr>ro_protocol = nonnull (u_protocol url), ro_hostname = nonnull (u_hostname url),
            ro_port = nonnull (u_port url), ro_path = nonnull (u_pathname url) @ nonnull (u_search url),
            ro_method = (if truthy (opt_method options) then nonnull (opt_method options) else ''GET''),
            ro_headers = headers, ro_agent = None\<rparr>;
          protocol = nonnull (u_protocol url)
      in if protocol = ''http:'' then
           Inr (request\<lparr>ro_agent := (case opt_agents options of Val a \<Rightarrow> agent_http a | _ \<Rightarrow> None)\<rparr>, opt_body options)
         else if protocol = ''https:'' then
           Inr (request\<lparr>ro_agent := (case opt_agents options of Val a \<Rightarrow> agent_https a | _ \<Rightarrow> None)\<rparr>, opt_body options)
         else Inl (makeError L (''unsupported protocol '' @ (case u_protocol url of Val p \<Rightarrow> p | Null \<Rightarrow> ''null'' | Undefined \<Rightarrow> ''undefined''))
           ''UNSUPPORTED_OPERATION'' [(''protocol'', PStr (u_protocol url)), (''operation'', PStr (Val ''request''))]))"

text \<open>\<open>net\<close> is what the network does with a request.\<close>

definition getUrl ::
    "webLib \<Rightarrow> (RequestOptions \<Rightarrow> bytes option \<Rightarrow> requestEvents) \<Rightarrow> string \<Rightarrow> Options \<Rightarrow> getOutcome" where
  "getUrl L net href options =
     (case urlRequest L href options of
        Inl e \<Rightarrow> Rejected e None
      | Inr (request, written) \<Rightarrow> getResponse L (net request written))"

section \<open>Properties\<close>

lemma bodyEvents_chunks:
  "bodyEvents L r (map DataChunk cs @ es) =
    bodyEvents L (if cs = [] then r
      else r\<lparr>resp_body := Some ((case resp_body r of Some b \<Rightarrow> b | None \<Rightarrow> []) @ concat cs)\<rparr>) es"
proof (induction cs arbitrary: r)
  case (Cons c cs)
  then show ?case by (cases "cs = []") simp_all
qed simp

text \<open>The body a complete response arrives with, before it is decompressed.\<close>

definition receivedBody :: "bytes list \<Rightarrow> bytes option" where
  "receivedBody cs = (if cs = [] then None else Some (concat cs))"

definition receivedResponse :: "IncomingMessage \<Rightarrow> int \<Rightarrow> bytes option \<Rightarrow> GetUrlResponse" where
  "receivedResponse resp n b = \<lparr>statusCode = n,
     statusMessage = (case im_statusMessage resp of Val m \<Rightarrow> m | _ \<Rightarrow> []),
     resp_headers = joinHeaders (im_headers resp), resp_body = b\<rparr>"

definition gzipped :: "IncomingMessage \<Rightarrow> bool" where
  "gzipped resp \<longleftrightarrow> map_of (joinHeaders (im_headers resp)) ''content-encoding'' = Some ''gzip''"

lemma getResponse_complete:
  assumes "im_statusCode resp = Val n" and "n \<noteq> 0"
  shows "getResponse L (Responded resp (map DataChunk cs @ [EndOfBody])) =
    (if gzipped resp \<and> cs \<noteq> [] then
       (case gunzipSync L (concat cs) of
          Inl e \<Rightarrow> Crashed e
        | Inr b \<Rightarrow> Resolved (receivedResponse resp n (Some b)))
     else Resolved (receivedResponse resp n (receivedBody cs)))"
  using assms
  by (auto simp: getResponse_def bodyEvents_chunks gzipped_def receivedResponse_def receivedBody_def
      split: sum.splits option.splits)

text \<open>A complete response is delivered whole: however the body is cut into chunks, the promise
  resolves with the status and with the chunks in the order of arrival, decompressed when the response
  is gzip, and with no body when there was none.\<close>

theorem response_reassembled:
  assumes "im_statusCode resp = Val n" and "n \<noteq> 0"
    and "gzipped resp \<longrightarrow> gunzipSync L (concat cs) = Inr plain"
  shows "\<exists>r. getResponse L (Responded resp (map DataChunk cs @ [EndOfBody])) = Resolved r \<and>
    statusCode r = n \<and>
    resp_body r = (if cs = [] then None else if gzipped resp then Some plain else Some (concat cs))"
  using assms by (auto simp: getResponse_complete receivedResponse_def receivedBody_def)

subsection \<open>Samples\<close>

definition sample_webLib :: webLib where
  "sample_webLib = \<lparr>base64Encode = map (\<lambda>b. char_of (unat b)), base64Decode = (\<lambda>s. Inr (map of_char s)),
     toUtf8Bytes = map of_char, toUtf8String = (\<lambda>b. Inr (map (\<lambda>x. char_of (unat x)) b)),
     hexlify = (\<lambda>b. ''0x'' @ concat (map (\<lambda>x. show_nat (unat x)) b)),
     parseUrl = (\<lambda>s. \<lparr>u_protocol = (if startsWith s ''https:'' then Val ''https:'' else if startsWith s ''http:'' then Val ''http:'' else Null),
       u_hostname = Val s, u_port = Null, u_pathname = Null, u_search = Null\<rparr>),
     gunzipSync = (\<lambda>b. if take 2 b = [31, 139] then Inr (drop 2 b) else Inl (Error ''incorrect header check'')),
     makeError = (\<lambda>r c ps. \<lparr>err_name = ''Error'', message = r, code = Some (CodeStr c), reason = Some r,
       status = (case map_of ps ''status'' of Some (PNum n) \<Rightarrow> Some n | _ \<Rightarrow> None)\<rparr>)\<rparr>"

lemma sample_makeError_doc: "makeError_doc sample_webLib"
  by (simp add: makeError_doc_def sample_webLib_def)

definition sample_message :: "(string \<times> headerValue) list \<Rightarrow> IncomingMessage" where
  "sample_message hs = \<lparr>im_statusCode = Val 200, im_statusMessage = Val ''OK'', im_headers = hs\<rparr>"

theorem response_reassembled_witness:
  "\<exists>r. getResponse sample_webLib (Responded (sample_message [(''content-encoding'', HStr ''gzip'')])
      (map DataChunk [[31], [139, 7]] @ [EndOfBody])) = Resolved r \<and> resp_body r = Some [7]"
  using response_reassembled [of "sample_message [(''content-encoding'', HStr ''gzip'')]" 200
      sample_webLib "[[31], [139, 7]]" "[7]"]
  by (auto simp: sample_message_def sample_webLib_def gzipped_def joinHeaders_def)

text \<open>A body that is not gzip though its header says so is not an error of the request: \<open>gunzipSync\<close>
  throws in the handler of the end event, where no promise catches it, so the exception leaves the
  event loop.\<close>

theorem corrupt_gzip_crashes:
  "getUrl sample_webLib (\<lambda>_ _. Responded (sample_message [(''content-encoding'', HStr ''gzip'')]) [DataChunk [1], EndOfBody])
      ''https://rpc'' \<lparr>opt_method = Val ''POST'', opt_allowGzip = True, opt_body = Some [], opt_headers = [],
        opt_skipFetchSetup = Undefined, opt_fetchOptions = Undefined, opt_agents = Undefined\<rparr>
    = Crashed (Error ''incorrect header check'')"
proof -
  have "startsWith ''https://rpc'' ''https:''" by code_simp
  then show ?thesis
    using getResponse_complete [of "sample_message [(''content-encoding'', HStr ''gzip'')]" 200 sample_webLib "[[1]]"]
    by (simp add: getUrl_def urlRequest_def Let_def sample_message_def sample_webLib_def gzipped_def
        joinHeaders_def nonnull_def)
qed

end
