(* ===== verification/Web_Fetch.thy ===== *)
theory Web_Fetch
  imports Web_Geturl Eth_Types Bounded_Retry
begin

text \<open>
  \<open>packages/node/src/ethereum/ethers/web/index.ts\<close>: the HTTP client under the JSON-RPC providers,
  with its retries, its timeout and its errors. \<open>fetchPlan\<close> is the part of \<open>_fetchData\<close> before the
  first request, \<open>fetchLoop\<close> the loop over the attempts, \<open>fetchData\<close> the race with the timeout.

  An answer of \<open>getUrl\<close> is a response or an error that may carry one. \<open>roll n\<close> is the number
  \<open>parseInt(String(Math.random() * Math.pow(2, n)))\<close> that attempt \<open>n\<close> draws. Time shows in the
  events of the loop, and in \<open>elapsed\<close>, how long the loop takes (\<open>None\<close>: for ever).
\<close>

section \<open>Bodies\<close>

text \<open>\<open>bodyify\<close> of \<open>null\<close>, of a string and of bytes; the second argument is the content type.\<close>

datatype bodyValue = NoBody | StrBody string | BytesBody bytes

definition textual :: "string js \<Rightarrow> bool" where
  "textual ctype =
     (case ctype of
        Val t \<Rightarrow> t \<noteq> [] \<and> (takeWhile (\<lambda>c. c \<noteq> CHR ''/'') t = ''text''
          \<or> trim (takeWhile (\<lambda>c. c \<noteq> CHR '';'') t) = ''application/json'')
      | _ \<Rightarrow> False)"

definition bodyify :: "webLib \<Rightarrow> bodyValue \<Rightarrow> string js \<Rightarrow> string js" where
  "bodyify L v ctype =
     (case v of
        NoBody \<Rightarrow> Null
      | StrBody s \<Rightarrow> Val s
      | BytesBody b \<Rightarrow>
          (if textual ctype then (case toUtf8String L b of Inr s \<Rightarrow> Val s | Inl _ \<Rightarrow> Val (hexlify L b))
           else Val (hexlify L b)))"

definition bodyOf :: "bytes option \<Rightarrow> bodyValue" where
  "bodyOf b = (case b of None \<Rightarrow> NoBody | Some bs \<Rightarrow> BytesBody bs)"

section \<open>Connections\<close>

text \<open>A header value that is a number is already its decimal text.\<close>

record ConnectionInfo =
  c_url :: "string js"
  c_headers :: "headerMap js"
  c_user :: "string js"
  c_password :: "string js"
  allowInsecureAuthentication :: bool
  allowGzip :: bool
  throttleLimit :: "rat js"
  throttleSlotInterval :: "rat js"
  throttleCallback :: "(nat \<Rightarrow> string \<Rightarrow> js_error + bool) option"
  skipFetchSetup :: "bool js"
  fetchOptions :: "headerMap js"
  errorPassThrough :: bool
  c_timeout :: "rat js"
  c_agents :: "agents js"

datatype connection = UrlOnly string | Connection ConnectionInfo

definition plainConnection :: "string js \<Rightarrow> ConnectionInfo" where
  "plainConnection u = \<lparr>c_url = u, c_headers = Undefined, c_user = Undefined, c_password = Undefined,
     allowInsecureAuthentication = False, allowGzip = False, throttleLimit = Undefined,
     throttleSlotInterval = Undefined, throttleCallback = None, skipFetchSetup = Undefined,
     fetchOptions = Undefined, errorPassThrough = False, c_timeout = Undefined, c_agents = Undefined\<rparr>"

text \<open>A string connects like an object with nothing but the URL, except that its URL is never
  missing.\<close>

fun connectionInfo :: "connection \<Rightarrow> ConnectionInfo" where
  "connectionInfo (UrlOnly u) = plainConnection (Val u)"
| "connectionInfo (Connection c) = c"

section \<open>The plan\<close>

text \<open>Headers by their names in lower case, each with the name as it was written.\<close>

type_synonym headerTable = "(string \<times> string \<times> string) list"

record fetchPlan =
  attemptLimit :: nat
  slotInterval :: rat
  passThrough :: bool
  callback :: "(nat \<Rightarrow> string \<Rightarrow> js_error + bool) option"
  plan_url :: string
  options :: Options
  allow304 :: bool
  timeout_ms :: rat

definition positiveInteger :: "rat \<Rightarrow> bool" where
  "positiveInteger r \<longleftrightarrow> r > 0 \<and> r = of_int \<lfloor>r\<rfloor>"

definition argumentError :: "webLib \<Rightarrow> string \<Rightarrow> string \<Rightarrow> errParam \<Rightarrow> js_error" where
  "argumentError L m name v = makeError L m ''INVALID_ARGUMENT'' [(''argument'', PStr (Val name)), (''value'', v)]"

definition connectionHeaders :: "headerMap js \<Rightarrow> headerTable" where
  "connectionHeaders hs =
     (case hs of
        Val kvs \<Rightarrow> foldl (\<lambda>h (k, v). obj_set (toLowerCase k) (k, v) h) [] kvs
      | _ \<Rightarrow> [])"

definition conditional :: "headerMap js \<Rightarrow> bool" where
  "conditional hs =
     (case hs of
        Val kvs \<Rightarrow> list_ex (\<lambda>(k, v). List.member [''if-none-match'', ''if-modified-since''] (toLowerCase k)) kvs
      | _ \<Rightarrow> False)"

definition basicAuth :: "webLib \<Rightarrow> ConnectionInfo \<Rightarrow> string \<Rightarrow> headerTable \<Rightarrow> js_error + headerTable" where
  "basicAuth L c url headers =
     (case (c_user c, c_password c) of
        (Val user, Val password) \<Rightarrow>
          (if take 6 url \<noteq> ''https:'' \<and> \<not> allowInsecureAuthentication c then
             Inl (makeError L ''basic authentication requires a secure https url'' ''INVALID_ARGUMENT''
               [(''argument'', PStr (Val ''url'')), (''url'', PStr (Val url)), (''user'', PStr (Val user)),
                (''password'', PStr (Val ''[REDACTED]''))])
           else Inr (obj_set ''authorization'' (''Authorization'',
             ''Basic '' @ base64Encode L (toUtf8Bytes L (user @ '':'' @ password))) headers))
      | _ \<Rightarrow> Inr headers)"

definition defaultHeader :: "string \<Rightarrow> string \<times> string \<Rightarrow> headerTable \<Rightarrow> headerTable" where
  "defaultHeader k h headers = (if map_of headers k = None then obj_set k h headers else headers)"

definition bodyHeaders :: "bytes option \<Rightarrow> headerTable \<Rightarrow> headerTable" where
  "bodyHeaders body headers =
     (case body of
        None \<Rightarrow> headers
      | Some b \<Rightarrow> defaultHeader ''content-length'' (''Content-Length'', show_nat (length b))
          (defaultHeader ''content-type'' (''Content-Type'', ''application/octet-stream'') headers))"

definition flatHeaders :: "headerTable \<Rightarrow> headerMap" where
  "flatHeaders headers = foldl (\<lambda>flat (k, name, v). obj_set name v flat) [] headers"

text \<open>The plan of a connection whose arguments are valid.\<close>

definition planOf :: "ConnectionInfo \<Rightarrow> rat \<Rightarrow> rat \<Rightarrow> string \<Rightarrow> headerTable \<Rightarrow> bytes option \<Rightarrow> fetchPlan" where
  "planOf c limit slot url headers body =
     \<lparr>attemptLimit = nat \<lfloor>limit\<rfloor>, slotInterval = slot, passThrough = errorPassThrough c,
      callback = throttleCallback c, plan_url = url,
      options = \<lparr>opt_method = Val (if body = None then ''GET'' else ''POST''),
        opt_allowGzip = allowGzip c, opt_body = body,
        opt_headers = flatHeaders (bodyHeaders body headers),
        opt_skipFetchSetup = (case skipFetchSetup c of Val b \<Rightarrow> Val b | _ \<Rightarrow> Undefined),
        opt_fetchOptions = (case fetchOptions c of Val f \<Rightarrow> Val f | _ \<Rightarrow> Undefined),
        opt_agents = (case c_agents c of Val a \<Rightarrow> Val a | _ \<Rightarrow> Undefined)\<rparr>,
      allow304 = conditional (c_headers c),
      timeout_ms = (case c_timeout c of Val t \<Rightarrow> if t > 0 then t else 120000 | _ \<Rightarrow> 120000)\<rparr>"

definition limitOf :: "ConnectionInfo \<Rightarrow> rat" where
  "limitOf c = (case throttleLimit c of Val r \<Rightarrow> r | _ \<Rightarrow> 12)"

definition slotOf :: "ConnectionInfo \<Rightarrow> rat" where
  "slotOf c = (case throttleSlotInterval c of Val r \<Rightarrow> r | _ \<Rightarrow> 100)"

definition makePlan :: "webLib \<Rightarrow> connection \<Rightarrow> bytes option \<Rightarrow> js_error + fetchPlan" where
  "makePlan L con body =
     (let c = connectionInfo con
      in if \<not> positiveInteger (limitOf c) then
           Inl (argumentError L ''invalid connection throttle limit'' ''connection.throttleLimit'' (PRat (limitOf c)))
         else if \<not> positiveInteger (slotOf c) then
           Inl (argumentError L ''invalid connection throttle slot interval'' ''connection.throttleSlotInterval'' (PRat (slotOf c)))
         else case c_url c of
           Val url \<Rightarrow>
             bindE (basicAuth L c url (connectionHeaders (c_headers c))) (\<lambda>headers.
               Inr (planOf c (limitOf c) (slotOf c) url headers body))
         | _ \<Rightarrow> Inl (argumentError L ''missing URL'' ''connection.url'' (PStr Null)))"

section \<open>One attempt\<close>

type_synonym answers = "nat \<Rightarrow> string \<Rightarrow> Options \<Rightarrow> (js_error \<times> GetUrlResponse option) + GetUrlResponse"

text \<open>A processor may mark its error with \<open>throttleRetry\<close>.\<close>

type_synonym 'r processor = "bytes option \<Rightarrow> GetUrlResponse \<Rightarrow> (js_error \<times> bool) + 'r"

datatype 'r fetchResult = RawBody "bytes option" | Processed 'r
datatype fetchEvent = Requested string | Stalled rat
datatype 'r attemptResult = Again string "fetchEvent list" | Settled "js_error + 'r fetchResult"

definition header_of :: "GetUrlResponse \<Rightarrow> string \<Rightarrow> string js" where
  "header_of r k = js_of_option (map_of (resp_headers r) k)"

text \<open>The details every error has.\<close>

definition requestDetails :: "webLib \<Rightarrow> fetchPlan \<Rightarrow> string \<Rightarrow> (string \<times> errParam) list" where
  "requestDetails L p url =
     [(''requestBody'', PStr (bodyify L (bodyOf (opt_body (options p)))
        (js_of_option (map_of (opt_headers (options p)) ''content-type'')))),
      (''requestMethod'', PStr (opt_method (options p))), (''url'', PStr (Val url))]"

definition missingResponse :: "webLib \<Rightarrow> fetchPlan \<Rightarrow> js_error \<Rightarrow> string \<Rightarrow> js_error" where
  "missingResponse L p e url =
     makeError L ''missing response'' ''SERVER_ERROR'' ((''serverError'', PError e) # requestDetails L p url)"

definition badResponse :: "webLib \<Rightarrow> fetchPlan \<Rightarrow> GetUrlResponse \<Rightarrow> string \<Rightarrow> js_error" where
  "badResponse L p response url =
     makeError L ''bad response'' ''SERVER_ERROR''
       ([(''status'', PNum (statusCode response)), (''headers'', PHeaders (resp_headers response)),
         (''body'', PStr (bodyify L (bodyOf (resp_body response)) (header_of response ''content-type'')))]
        @ requestDetails L p url)"

definition processingError :: "webLib \<Rightarrow> fetchPlan \<Rightarrow> bytes option \<Rightarrow> GetUrlResponse \<Rightarrow> js_error \<Rightarrow> string \<Rightarrow> js_error" where
  "processingError L p body response e url =
     makeError L ''processing response error'' ''SERVER_ERROR''
       ([(''body'', PStr (bodyify L (bodyOf body) (header_of response ''content-type''))), (''error'', PError e)]
        @ requestDetails L p url)"

definition failedResponse :: "webLib \<Rightarrow> fetchPlan \<Rightarrow> string \<Rightarrow> js_error" where
  "failedResponse L p url = makeError L ''failed response'' ''SERVER_ERROR'' (requestDetails L p url)"

definition timeoutError :: "webLib \<Rightarrow> fetchPlan \<Rightarrow> js_error" where
  "timeoutError L p = makeError L ''timeout'' ''TIMEOUT'' ((''timeout'', PRat (timeout_ms p)) # requestDetails L p (plan_url p))"

definition tryAgain :: "fetchPlan \<Rightarrow> nat \<Rightarrow> string \<Rightarrow> js_error + bool" where
  "tryAgain p attempt url = (case callback p of None \<Rightarrow> Inr True | Some f \<Rightarrow> f attempt url)"

text \<open>\<open>/^[1-9][0-9]*$/\<close>\<close>

definition positiveDecimal :: "string \<Rightarrow> bool" where
  "positiveDecimal s =
     (case s of [] \<Rightarrow> False | c # cs \<Rightarrow> is_digit c \<and> c \<noteq> CHR ''0'' \<and> list_all is_digit cs)"

definition throttleStall :: "fetchPlan \<Rightarrow> (nat \<Rightarrow> nat) \<Rightarrow> nat \<Rightarrow> GetUrlResponse \<Rightarrow> rat" where
  "throttleStall p roll attempt response =
     (case header_of response ''retry-after'' of
        Val s \<Rightarrow> if positiveDecimal s then of_nat (read_nat s * 1000) else slotInterval p * of_nat (roll attempt)
      | _ \<Rightarrow> slotInterval p * of_nat (roll attempt))"

text \<open>What happens to a response that is neither followed nor retried.\<close>

definition settleResponse ::
    "webLib \<Rightarrow> fetchPlan \<Rightarrow> (nat \<Rightarrow> nat) \<Rightarrow> 'r processor option \<Rightarrow> nat \<Rightarrow> string \<Rightarrow> GetUrlResponse \<Rightarrow> 'r attemptResult" where
  "settleResponse L p roll processFunc attempt url response =
     (let cached = allow304 p \<and> statusCode response = 304;
          body = (if cached then None else resp_body response)
      in if \<not> cached \<and> \<not> passThrough p \<and> (statusCode response < 200 \<or> 300 \<le> statusCode response)
         then Settled (Inl (badResponse L p response url))
         else case processFunc of
           None \<Rightarrow> Settled (Inr (RawBody body))
         | Some f \<Rightarrow>
             (case f body response of
                Inr r \<Rightarrow> Settled (Inr (Processed r))
              | Inl (e, throttleRetry) \<Rightarrow>
                  (if throttleRetry then
                     (case tryAgain p attempt url of
                        Inl e' \<Rightarrow> Settled (Inl e')
                      | Inr True \<Rightarrow> Again url [Stalled (slotInterval p * of_nat (roll attempt))]
                      | Inr False \<Rightarrow> Settled (Inl (processingError L p body response e url)))
                   else Settled (Inl (processingError L p body response e url)))))"

definition redirectTarget :: "fetchPlan \<Rightarrow> GetUrlResponse \<Rightarrow> string option" where
  "redirectTarget p response =
     (if statusCode response = 301 \<or> statusCode response = 302 then
        (case header_of response ''location'' of
           Val location \<Rightarrow>
             (if opt_method (options p) = Val ''GET'' \<and> startsWith location ''https:'' then Some location else None)
         | _ \<Rightarrow> None)
      else None)"

definition attemptOnce ::
    "webLib \<Rightarrow> fetchPlan \<Rightarrow> answers \<Rightarrow> (nat \<Rightarrow> nat) \<Rightarrow> 'r processor option \<Rightarrow> nat \<Rightarrow> string \<Rightarrow> 'r attemptResult" where
  "attemptOnce L p ans roll processFunc attempt url =
     (case ans attempt url (options p) of
        Inl (e, resp) \<Rightarrow> Settled (Inl (missingResponse L p e url))
      | Inr response \<Rightarrow>
          (case redirectTarget p response of
             Some location \<Rightarrow> Again location []
           | None \<Rightarrow>
               (if statusCode response = 429 then
                  (if attempt = attemptLimit p - 1
                   then Settled (Inl (missingResponse L p (Error ''rate limited'') url))
                   else case tryAgain p attempt url of
                     Inl e \<Rightarrow> Settled (Inl (missingResponse L p e url))
                   | Inr True \<Rightarrow> Again url [Stalled (throttleStall p roll attempt response)]
                   | Inr False \<Rightarrow> settleResponse L p roll processFunc attempt url response)
                else settleResponse L p roll processFunc attempt url response)))"

section \<open>The loop\<close>

function fetchLoop ::
    "webLib \<Rightarrow> fetchPlan \<Rightarrow> answers \<Rightarrow> (nat \<Rightarrow> nat) \<Rightarrow> 'r processor option \<Rightarrow> nat \<Rightarrow> string
      \<Rightarrow> (js_error + 'r fetchResult) \<times> fetchEvent list" where
  "fetchLoop L p ans roll processFunc attempt url =
     (if attempt < attemptLimit p then
        (case attemptOnce L p ans roll processFunc attempt url of
           Settled r \<Rightarrow> (r, [Requested url])
         | Again url' stalls \<Rightarrow>
             (let (r, evs) = fetchLoop L p ans roll processFunc (Suc attempt) url'
              in (r, Requested url # stalls @ evs)))
      else (Inl (failedResponse L p url), []))"
  by pat_completeness auto

termination
  by (relation "measure (\<lambda>(_, p, _, _, _, attempt, _). attemptLimit p - attempt)") auto

declare fetchLoop.simps [simp del]

section \<open>Data URLs\<close>

text \<open>\<open>/^data:([^;:]*)?(;base64)?,(.*)$/i\<close>: the first group is as long as possible; the dot matches no
  line terminator.\<close>

definition singleLine :: "string \<Rightarrow> bool" where
  "singleLine s = list_all (\<lambda>c. c \<noteq> CHR 0x0A \<and> c \<noteq> CHR 0x0D) s"

fun dataSplit :: "string \<Rightarrow> nat \<Rightarrow> (string \<times> bool \<times> string) option" where
  "dataSplit s n =
     (let rest = drop n s
      in if startsWith (toLowerCase rest) '';base64,'' \<and> singleLine (drop 8 rest)
         then Some (take n s, True, drop 8 rest)
         else if startsWith rest '','' \<and> singleLine (drop 1 rest) then Some (take n s, False, drop 1 rest)
         else case n of 0 \<Rightarrow> None | Suc m \<Rightarrow> dataSplit s m)"

declare dataSplit.simps [simp del]

definition matchData :: "string \<Rightarrow> (string \<times> bool \<times> string) option" where
  "matchData url =
     (if startsWith (toLowerCase url) ''data:'' then
        (let s = drop 5 url in dataSplit s (length (takeWhile (\<lambda>c. c \<noteq> CHR '';'' \<and> c \<noteq> CHR '':'') s)))
      else None)"

fun unpercentChars :: "string \<Rightarrow> string" where
  "unpercentChars (c # d # e # s) =
     (case (hex_digit d, hex_digit e) of
        (Some x, Some y) \<Rightarrow> (if c = CHR ''%'' then char_of (16 * x + y) # unpercentChars s else c # unpercentChars (d # e # s))
      | _ \<Rightarrow> c # unpercentChars (d # e # s))"
| "unpercentChars s = s"

definition unpercent :: "webLib \<Rightarrow> string \<Rightarrow> bytes" where
  "unpercent L value = toUtf8Bytes L (unpercentChars value)"

definition fetchDataUrl ::
    "webLib \<Rightarrow> string \<Rightarrow> string \<times> bool \<times> string \<Rightarrow> 'r processor option \<Rightarrow> js_error + 'r fetchResult" where
  "fetchDataUrl L url m processFunc =
     (case m of (ctype, base64, content) \<Rightarrow>
        let failed = (\<lambda>e. Inl (makeError L ''processing response error'' ''SERVER_ERROR''
              [(''body'', PStr (if ctype = [] then Null else Val ctype)), (''error'', PError e),
               (''requestBody'', PStr Null), (''requestMethod'', PStr (Val ''GET'')), (''url'', PStr (Val url))]))
        in case (if base64 then base64Decode L content else Inr (unpercent L content)) of
             Inl e \<Rightarrow> failed e
           | Inr b \<Rightarrow>
               (case processFunc of
                  None \<Rightarrow> Inr (RawBody (Some b))
                | Some f \<Rightarrow>
                    (case f (Some b) \<lparr>statusCode = 200, statusMessage = ''OK'',
                         resp_headers = [(''content-type'', if ctype = [] then ''text/plain'' else ctype)],
                         resp_body = Some b\<rparr> of
                       Inr r \<Rightarrow> Inr (Processed r)
                     | Inl (e, _) \<Rightarrow> failed e)))"

section \<open>The whole\<close>

text \<open>The race of the loop with the timer; the loop goes on when it has lost.\<close>

definition raceTimeout ::
    "webLib \<Rightarrow> fetchPlan \<Rightarrow> rat option \<Rightarrow> (js_error + 'r fetchResult) \<Rightarrow> js_error + 'r fetchResult" where
  "raceTimeout L p elapsed r =
     (case elapsed of
        Some t \<Rightarrow> if t < timeout_ms p then r else Inl (timeoutError L p)
      | None \<Rightarrow> Inl (timeoutError L p))"

definition fetchData ::
    "webLib \<Rightarrow> answers \<Rightarrow> (nat \<Rightarrow> nat) \<Rightarrow> rat option \<Rightarrow> connection \<Rightarrow> bytes option \<Rightarrow> 'r processor option
      \<Rightarrow> (js_error + 'r fetchResult) \<times> fetchEvent list" where
  "fetchData L ans roll elapsed con body processFunc =
     (case makePlan L con body of
        Inl e \<Rightarrow> (Inl e, [])
      | Inr p \<Rightarrow>
          (case matchData (plan_url p) of
             Some m \<Rightarrow> (fetchDataUrl L (plan_url p) m processFunc, [])
           | None \<Rightarrow>
               (let (r, evs) = fetchLoop L p ans roll processFunc 0 (plan_url p)
                in (raceTimeout L p elapsed r, evs))))"

section \<open>JSON\<close>

definition jsonConnection :: "connection \<Rightarrow> connection" where
  "jsonConnection con =
     (let c = connectionInfo con
      in Connection (c\<lparr>c_headers :=
           (case c_headers c of
              Val hs \<Rightarrow>
                (if filter (\<lambda>(k, v). toLowerCase k = ''content-type'') hs = []
                 then Val (obj_set ''content-type'' ''application/json'' hs) else Val hs)
            | _ \<Rightarrow> Val [(''content-type'', ''application/json'')])\<rparr>))"

text \<open>\<open>decodeJson\<close> is \<open>JSON.parse(new TextDecoder('utf8').decode(value))\<close>. Without a processor the parsed
  value is the result, \<open>\<lambda>v _. Inr v\<close>.\<close>

definition processJson ::
    "webLib \<Rightarrow> (bytes \<Rightarrow> js_error + json) \<Rightarrow> (json \<Rightarrow> GetUrlResponse \<Rightarrow> (js_error \<times> bool) + 'r) \<Rightarrow> 'r processor" where
  "processJson L decodeJson processFunc value response =
     (case value of
        None \<Rightarrow> processFunc JNull response
      | Some b \<Rightarrow>
          (case decodeJson b of
             Inl e \<Rightarrow> Inl (makeError L ''invalid JSON'' ''SERVER_ERROR'' [(''body'', PBytes value), (''error'', PError e)], False)
           | Inr j \<Rightarrow> processFunc j response))"

definition fetchJson ::
    "webLib \<Rightarrow> (bytes \<Rightarrow> js_error + json) \<Rightarrow> answers \<Rightarrow> (nat \<Rightarrow> nat) \<Rightarrow> rat option \<Rightarrow> connection \<Rightarrow> string option
      \<Rightarrow> (json \<Rightarrow> GetUrlResponse \<Rightarrow> (js_error \<times> bool) + 'r) \<Rightarrow> (js_error + 'r fetchResult) \<times> fetchEvent list" where
  "fetchJson L decodeJson ans roll elapsed con json processFunc =
     fetchData L ans roll elapsed
       (case json of None \<Rightarrow> con | Some _ \<Rightarrow> jsonConnection con)
       (map_option (toUtf8Bytes L) json)
       (Some (processJson L decodeJson processFunc))"

section \<open>Properties\<close>

definition fetchStep ::
    "webLib \<Rightarrow> fetchPlan \<Rightarrow> answers \<Rightarrow> (nat \<Rightarrow> nat) \<Rightarrow> 'r processor option \<Rightarrow> nat \<Rightarrow> string
      \<Rightarrow> (js_error + 'r fetchResult) + string" where
  "fetchStep L p ans roll processFunc attempt url =
     (case attemptOnce L p ans roll processFunc attempt url of
        Settled r \<Rightarrow> Inl r | Again url' _ \<Rightarrow> Inr url')"

interpretation attempts: bounded_retry
    "\<lambda>attempt url. fst (fetchLoop L p ans roll processFunc attempt url)"
    "fetchStep L p ans roll processFunc" "\<lambda>_ url. Inl (failedResponse L p url)" "attemptLimit p"
  for L p ans roll processFunc
  by unfold_locales
    (subst fetchLoop.simps, simp add: fetchStep_def case_prod_unfold Let_def split: attemptResult.split)

fun requestsOf :: "fetchEvent list \<Rightarrow> string list" where
  "requestsOf [] = []"
| "requestsOf (Requested u # es) = u # requestsOf es"
| "requestsOf (Stalled _ # es) = requestsOf es"

lemma requestsOf_append [simp]: "requestsOf (es @ fs) = requestsOf es @ requestsOf fs"
  by (induction es rule: requestsOf.induct) auto

lemma settleResponse_again:
  "settleResponse L p roll pf n url r = Again u st \<Longrightarrow> u = url \<and> requestsOf st = []"
  by (auto simp: settleResponse_def Let_def split: if_splits option.splits sum.splits bool.splits)

lemma redirectTarget_get: "redirectTarget p r = Some u \<Longrightarrow> opt_method (options p) = Val ''GET''"
  by (simp add: redirectTarget_def split: if_splits js.splits)

lemma attemptOnce_again:
  assumes "attemptOnce L p ans roll pf n url = Again u st"
  shows "requestsOf st = [] \<and> (u = url \<or> opt_method (options p) = Val ''GET'')"
proof (cases "ans n url (options p)")
  case (Inl e)
  with assms show ?thesis by (simp add: attemptOnce_def split: prod.splits)
next
  case (Inr r)
  have settle: "settleResponse L p roll pf n url r = Again u st \<Longrightarrow> u = url \<and> requestsOf st = []"
    by (rule settleResponse_again)
  show ?thesis
  proof (cases "redirectTarget p r")
    case None
    with assms Inr settle show ?thesis
      by (simp add: attemptOnce_def split: if_splits sum.splits bool.splits) auto
  next
    case (Some u')
    with assms Inr show ?thesis by (simp add: attemptOnce_def redirectTarget_get)
  qed
qed

lemma fetchLoop_requests:
  "length (requestsOf (snd (fetchLoop L p ans roll pf n url))) \<le> attemptLimit p - n \<and>
   (opt_method (options p) \<noteq> Val ''GET'' \<longrightarrow> set (requestsOf (snd (fetchLoop L p ans roll pf n url))) \<subseteq> {url})"
proof (induction "attemptLimit p - n" arbitrary: n url)
  case 0
  then show ?case by (simp add: fetchLoop.simps)
next
  case (Suc d)
  then have n: "n < attemptLimit p" by simp
  show ?case
  proof (cases "attemptOnce L p ans roll pf n url")
    case (Settled r)
    with n show ?thesis by (simp add: fetchLoop.simps)
  next
    case (Again u st)
    note again = attemptOnce_again [OF Again]
    have "length (requestsOf (snd (fetchLoop L p ans roll pf (Suc n) u))) \<le> attemptLimit p - Suc n"
      "opt_method (options p) \<noteq> Val ''GET'' \<longrightarrow> set (requestsOf (snd (fetchLoop L p ans roll pf (Suc n) u))) \<subseteq> {u}"
      using Suc.hyps(1) [of "Suc n" u] Suc.hyps(2) by auto
    with n Again again show ?thesis
      by (auto simp: fetchLoop.simps [of L p ans roll pf n] case_prod_unfold Let_def)
  qed
qed

lemma makePlan_InrE:
  assumes "makePlan L con body = Inr p"
  obtains url headers where "p = planOf (connectionInfo con) (limitOf (connectionInfo con)) (slotOf (connectionInfo con)) url headers body"
    and "c_url (connectionInfo con) = Val url"
    and "basicAuth L (connectionInfo con) url (connectionHeaders (c_headers (connectionInfo con))) = Inr headers"
    and "positiveInteger (limitOf (connectionInfo con))"
  using assms by (auto simp: makePlan_def Let_def bindE_eq_Inr_iff split: if_splits js.splits)

lemma planOf_sel [simp]:
  "attemptLimit (planOf c limit slot url headers body) = nat \<lfloor>limit\<rfloor>"
  "callback (planOf c limit slot url headers body) = throttleCallback c"
  "plan_url (planOf c limit slot url headers body) = url"
  "passThrough (planOf c limit slot url headers body) = errorPassThrough c"
  "opt_method (options (planOf c limit slot url headers body)) = Val (if body = None then ''GET'' else ''POST'')"
  "opt_headers (options (planOf c limit slot url headers body)) = flatHeaders (bodyHeaders body headers)"
  "opt_body (options (planOf c limit slot url headers body)) = body"
  by (simp_all add: planOf_def)

lemma positiveInteger_pos: "positiveInteger r \<Longrightarrow> 0 < nat \<lfloor>r\<rfloor>"
  unfolding positiveInteger_def by (metis of_int_0_less_iff zero_less_nat_eq)

text \<open>C22. A request is repeated a bounded number of times and, when it has a body, never redirected:
  whatever the endpoint answers, \<open>fetchData\<close> sends at most \<open>throttleLimit\<close> requests (12 when the
  connection does not say), and every JSON-RPC request, which is a POST, goes to the URL of the
  connection.\<close>

theorem requests_bounded:
  "length (requestsOf (snd (fetchData L ans roll elapsed con body pf))) \<le> nat \<lfloor>limitOf (connectionInfo con)\<rfloor> \<and>
   (body = None \<or> Val ` set (requestsOf (snd (fetchData L ans roll elapsed con body pf))) \<subseteq> {c_url (connectionInfo con)})"
proof (cases "makePlan L con body")
  case (Inl e)
  then show ?thesis by (simp add: fetchData_def)
next
  case (Inr p)
  then obtain url headers where p: "p = planOf (connectionInfo con) (limitOf (connectionInfo con)) (slotOf (connectionInfo con)) url headers body"
      "c_url (connectionInfo con) = Val url"
    by (rule makePlan_InrE)
  show ?thesis
  proof (cases "matchData url")
    case None
    then show ?thesis
      using Inr p fetchLoop_requests [of L p ans roll pf 0 url]
      by (auto simp: fetchData_def case_prod_unfold Let_def)
  qed (simp add: fetchData_def Inr p)
qed

subsection \<open>Errors\<close>

text \<open>A server error that is neither a timeout nor has the status 429.\<close>

definition ordinary :: "js_error \<Rightarrow> bool" where
  "ordinary e \<longleftrightarrow> code e = Some (CodeStr ''SERVER_ERROR'') \<and> reason e \<noteq> None \<and> reason e \<noteq> Some ''timeout'' \<and> status e \<noteq> Some 429"

lemma ordinary_errors:
  assumes "makeError_doc L"
  shows "ordinary (missingResponse L p e url)" and "ordinary (processingError L p b r e url)"
    and "ordinary (failedResponse L p url)" and "statusCode r \<noteq> 429 \<Longrightarrow> ordinary (badResponse L p r url)"
  by (simp_all add: ordinary_def missingResponse_def processingError_def failedResponse_def badResponse_def
      requestDetails_def makeError_docD [OF assms])

lemma settleResponse_ordinary:
  assumes "makeError_doc L" and "callback p = None" and "statusCode r \<noteq> 429"
    and "settleResponse L p roll pf n url r = Settled (Inl e)"
  shows "ordinary e"
  using assms(2-4) ordinary_errors [OF assms(1)]
  by (auto simp: settleResponse_def Let_def tryAgain_def split: if_splits option.splits sum.splits)

lemma attemptOnce_ordinary:
  assumes "makeError_doc L" and "callback p = None" and "attemptOnce L p ans roll pf n url = Settled (Inl e)"
  shows "ordinary e"
proof (cases "ans n url (options p)")
  case (Inl x)
  with assms(3) ordinary_errors(1) [OF assms(1)] show ?thesis
    by (cases x) (auto simp: attemptOnce_def)
next
  case (Inr r)
  show ?thesis
  proof (cases "statusCode r = 429")
    case True
    then have "redirectTarget p r = None" by (simp add: redirectTarget_def)
    with True Inr assms(2,3) ordinary_errors(1) [OF assms(1)] show ?thesis
      by (auto simp: attemptOnce_def tryAgain_def split: if_splits)
  next
    case False
    with Inr assms(3) have "settleResponse L p roll pf n url r = Settled (Inl e)"
      by (simp add: attemptOnce_def split: option.splits)
    with assms(1,2) False show ?thesis by (rule settleResponse_ordinary)
  qed
qed

lemma fetchLoop_ordinary:
  assumes "makeError_doc L" and "callback p = None" and "fst (fetchLoop L p ans roll pf 0 url) = Inl e"
  shows "ordinary e"
proof -
  let ?P = "\<lambda>r. case r of Inl e \<Rightarrow> ordinary e | Inr _ \<Rightarrow> True"
  have "?P (fst (fetchLoop L p ans roll pf 0 url))"
  proof (rule attempts.run_cases [where I = "\<lambda>_. True"])
    fix i s r
    assume "fetchStep L p ans roll pf i s = Inl r"
    then have "attemptOnce L p ans roll pf i s = Settled r"
      by (simp add: fetchStep_def split: attemptResult.splits)
    with attemptOnce_ordinary [OF assms(1,2)] show "?P r" by (cases r) simp_all
  qed (simp_all add: ordinary_errors [OF assms(1)])
  with assms(3) show ?thesis by simp
qed

text \<open>C24. What the callers of the client see of a rate limit and of a timeout: without a
  \<open>throttleCallback\<close>, no error of a request has the status 429, because the last attempt answered with
  429 ends in \<open>missing response\<close>, which has no status; and an error has the reason \<open>timeout\<close>, the only one
  \<open>retryOnFailEth\<close> retries, exactly when the timer won the race.\<close>

theorem request_errors:
  assumes "makeError_doc L" and "throttleCallback (connectionInfo con) = None"
    and "makePlan L con body = Inr p" and "matchData (plan_url p) = None"
    and "fst (fetchData L ans roll elapsed con body pf) = Inl e"
  shows "status e \<noteq> Some 429 \<and>
    (reason e = Some ''timeout'' \<longleftrightarrow> (case elapsed of Some t \<Rightarrow> timeout_ms p \<le> t | None \<Rightarrow> True))"
proof -
  have cb: "callback p = None" using assms(2,3) by (auto elim!: makePlan_InrE)
  have race: "raceTimeout L p elapsed (fst (fetchLoop L p ans roll pf 0 (plan_url p))) = Inl e"
    using assms(3-5) by (simp add: fetchData_def case_prod_unfold Let_def)
  have timer: "reason (timeoutError L p) = Some ''timeout''" "status (timeoutError L p) = None"
    using assms(1) by (simp_all add: timeoutError_def makeError_docD requestDetails_def)
  show ?thesis
  proof (cases "case elapsed of Some t \<Rightarrow> timeout_ms p \<le> t | None \<Rightarrow> True")
    case True
    with race have "e = timeoutError L p" by (auto simp: raceTimeout_def split: option.splits)
    with True timer show ?thesis by simp
  next
    case False
    with race have "fst (fetchLoop L p ans roll pf 0 (plan_url p)) = Inl e"
      by (auto simp: raceTimeout_def split: option.splits)
    with False fetchLoop_ordinary [OF assms(1) cb this] show ?thesis by (simp add: ordinary_def)
  qed
qed

subsection \<open>Retries\<close>

definition answeredWith :: "answers \<Rightarrow> fetchPlan \<Rightarrow> nat \<Rightarrow> int \<Rightarrow> bool" where
  "answeredWith ans p i n \<longleftrightarrow> (\<exists>r. ans i (plan_url p) (options p) = Inr r \<and> statusCode r = n)"

lemma throttled_step:
  assumes "answeredWith ans p i 429" and "callback p = None" and "i < attemptLimit p - 1"
  shows "fetchStep L p ans roll pf i (plan_url p) = Inr (plan_url p)"
proof -
  from assms(1) obtain r where r: "ans i (plan_url p) (options p) = Inr r" "statusCode r = 429"
    unfolding answeredWith_def by blast
  then have "redirectTarget p r = None" by (simp add: redirectTarget_def)
  with r assms(2,3) show ?thesis by (simp add: fetchStep_def attemptOnce_def tryAgain_def)
qed


subsection \<open>Headers\<close>

text \<open>A table has each name once, under its lower-case form.\<close>

definition table_ok :: "headerTable \<Rightarrow> bool" where
  "table_ok hs \<longleftrightarrow> distinct (map fst hs) \<and> (\<forall>(k, name, v) \<in> set hs. k = toLowerCase name)"

lemma set_obj_set: "set (obj_set k v xs) \<subseteq> insert (k, v) (set xs)"
proof (induction xs)
  case (Cons x xs)
  then show ?case by (cases x; cases "k = fst x") auto
qed simp

lemma table_ok_set: "table_ok hs \<Longrightarrow> k = toLowerCase name \<Longrightarrow> table_ok (obj_set k (name, v) hs)"
  using set_obj_set [of k "(name, v)" hs] by (fastforce simp: table_ok_def)

lemma table_ok_connection: "table_ok (connectionHeaders hs)"
proof (cases hs)
  case (Val kvs)
  have "table_ok (foldl (\<lambda>h (k, v). obj_set (toLowerCase k) (k, v) h) t kvs)" if "table_ok t" for t
    using that by (induction kvs arbitrary: t) (auto intro: table_ok_set)
  moreover have "table_ok []" by (simp add: table_ok_def)
  ultimately show ?thesis using Val by (simp add: connectionHeaders_def)
qed (simp_all add: connectionHeaders_def table_ok_def)

lemma toLowerCase_names [simp]:
  "toLowerCase ''Authorization'' = ''authorization''" "toLowerCase ''Content-Type'' = ''content-type''"
  "toLowerCase ''Content-Length'' = ''content-length''" "toLowerCase ''content-type'' = ''content-type''"
  by code_simp+

lemma table_ok_plan:
  assumes "basicAuth L c url hs = Inr hs'" and "table_ok hs"
  shows "table_ok (bodyHeaders body hs')"
proof -
  have "table_ok hs'"
    using assms by (auto simp: basicAuth_def table_ok_set split: js.splits if_splits)
  then show ?thesis by (auto simp: bodyHeaders_def defaultHeader_def table_ok_set split: option.split)
qed

lemma flatHeaders_table:
  assumes "table_ok hs"
  shows "flatHeaders hs = map snd hs"
proof -
  have flat: "foldl (\<lambda>flat (k, name, v). obj_set name v flat) acc ts = acc @ map snd ts"
    if "distinct (map fst (acc @ map snd ts))" for acc ts
    using that
  proof (induction ts arbitrary: acc)
    case (Cons t ts)
    obtain k name v where t: "t = (k, name, v)" by (cases t)
    with Cons.prems have "name \<notin> fst ` set acc" by force
    then have "obj_set name v acc = acc @ [(name, v)]" by (rule obj_set_fresh)
    with Cons.IH [of "acc @ [(name, v)]"] Cons.prems t show ?case by simp
  qed simp
  have "distinct (map fst (map snd hs))"
    using assms unfolding table_ok_def by (auto simp: distinct_map inj_on_def split_beta)
  with flat [of "[]" hs] show ?thesis by (simp add: flatHeaders_def)
qed

lemma connectionHeaders_lookup:
  "map_of (connectionHeaders (Val kvs)) k = find (\<lambda>(name, v). toLowerCase name = k) (rev kvs)"
proof -
  have "map_of (foldl (\<lambda>h (k, v). obj_set (toLowerCase k) (k, v) h) t kvs) k =
      (case find (\<lambda>(name, v). toLowerCase name = k) (rev kvs) of Some e \<Rightarrow> Some e | None \<Rightarrow> map_of t k)" for t
    by (induction kvs rule: rev_induct) (auto split: prod.split)
  then show ?thesis by (simp add: connectionHeaders_def split: option.split)
qed

lemma find_lookup_eq: "find P xs = Some x \<Longrightarrow> x \<in> set xs \<and> P x"
  by (auto simp: find_Some_iff)

lemma filter_key: "distinct (map fst xs) \<Longrightarrow> map_of xs k = Some e \<Longrightarrow> filter (\<lambda>x. fst x = k) xs = [(k, e)]"
proof (induction xs)
  case (Cons x xs)
  show ?case
  proof (cases "fst x = k")
    case True
    then have "k \<notin> fst ` set xs" using Cons.prems(1) by auto
    then have "filter (\<lambda>x. fst x = k) xs = []" by (auto simp: filter_empty_conv)
    with True Cons.prems(2) show ?thesis by (cases x) simp
  next
    case False
    with Cons show ?thesis by (cases x) simp
  qed
qed simp

lemma plan_content_type:
  assumes "basicAuth L c url hs = Inr hs'" and "map_of hs ''content-type'' = Some e"
  shows "map_of (bodyHeaders (Some b) hs') ''content-type'' = Some e"
proof -
  have "map_of hs' ''content-type'' = Some e"
    using assms by (auto simp: basicAuth_def split: js.splits if_splits)
  then show ?thesis by (simp add: bodyHeaders_def defaultHeader_def)
qed

definition ownHeaders :: "connection \<Rightarrow> headerMap" where
  "ownHeaders con = (case c_headers (connectionInfo con) of Val hs \<Rightarrow> hs | _ \<Rightarrow> [])"

definition contentTypes :: "headerMap \<Rightarrow> headerMap" where
  "contentTypes hs = filter (\<lambda>(k, v). toLowerCase k = ''content-type'') hs"

lemma jsonConnection_header:
  "\<exists>kvs name v. c_headers (connectionInfo (jsonConnection con)) = Val kvs \<and>
    find (\<lambda>(name, v). toLowerCase name = ''content-type'') (rev kvs) = Some (name, v) \<and>
    (if contentTypes (ownHeaders con) = [] then (name, v) = (''content-type'', ''application/json'')
     else (name, v) \<in> set (contentTypes (ownHeaders con)))"
proof (cases "contentTypes (ownHeaders con) = []")
  case True
  have "''content-type'' \<notin> fst ` set (ownHeaders con)"
  proof
    assume "''content-type'' \<in> fst ` set (ownHeaders con)"
    then obtain v where "(''content-type'', v) \<in> set (ownHeaders con)" by auto
    with True toLowerCase_names(4) show False unfolding contentTypes_def filter_empty_conv by fastforce
  qed
  then have "obj_set ''content-type'' ''application/json'' (ownHeaders con) =
      ownHeaders con @ [(''content-type'', ''application/json'')]"
    by (rule obj_set_fresh)
  then have "c_headers (connectionInfo (jsonConnection con)) = Val (ownHeaders con @ [(''content-type'', ''application/json'')])"
    using True by (cases "c_headers (connectionInfo con)")
      (simp_all add: jsonConnection_def ownHeaders_def contentTypes_def Let_def)
  with True show ?thesis by simp
next
  case False
  then have own: "c_headers (connectionInfo (jsonConnection con)) = Val (ownHeaders con)"
    by (cases "c_headers (connectionInfo con)") (simp_all add: jsonConnection_def ownHeaders_def contentTypes_def Let_def)
  have "find (\<lambda>(name, v). toLowerCase name = ''content-type'') (rev (ownHeaders con)) \<noteq> None"
    using False by (auto simp: find_None_iff contentTypes_def filter_empty_conv)
  then obtain name v where f: "find (\<lambda>(name, v). toLowerCase name = ''content-type'') (rev (ownHeaders con)) = Some (name, v)"
    by auto
  then have "(name, v) \<in> set (contentTypes (ownHeaders con))"
    using find_lookup_eq [OF f] by (simp add: contentTypes_def)
  with False own f show ?thesis by auto
qed

text \<open>A JSON request has one content type: among the headers handed to the socket exactly one is
  called \<open>content-type\<close>, however it is spelled; it is one of the connection's own if the connection
  names any, and otherwise \<open>application/json\<close>, never the \<open>application/octet-stream\<close> that a body gets by
  default.\<close>

theorem json_content_type:
  assumes "makePlan L (jsonConnection con) (Some b) = Inr p"
  shows "\<exists>name v. contentTypes (opt_headers (options p)) = [(name, v)] \<and>
    (if contentTypes (ownHeaders con) = [] then (name, v) = (''content-type'', ''application/json'')
     else (name, v) \<in> set (contentTypes (ownHeaders con)))"
proof -
  let ?c = "connectionInfo (jsonConnection con)"
  obtain kvs name v where kvs: "c_headers ?c = Val kvs"
      "find (\<lambda>(name, v). toLowerCase name = ''content-type'') (rev kvs) = Some (name, v)"
    and own: "if contentTypes (ownHeaders con) = [] then (name, v) = (''content-type'', ''application/json'')
      else (name, v) \<in> set (contentTypes (ownHeaders con))"
    using jsonConnection_header [of con] by blast
  obtain url headers where p: "opt_headers (options p) = flatHeaders (bodyHeaders (Some b) headers)"
      "basicAuth L ?c url (connectionHeaders (c_headers ?c)) = Inr headers"
    using assms by (rule makePlan_InrE) simp
  let ?t = "bodyHeaders (Some b) headers"
  have ok: "table_ok ?t" using p(2) table_ok_connection by (rule table_ok_plan)
  have "map_of (connectionHeaders (c_headers ?c)) ''content-type'' = Some (name, v)"
    unfolding kvs(1) connectionHeaders_lookup by (rule kvs(2))
  with p(2) have "map_of ?t ''content-type'' = Some (name, v)" by (rule plan_content_type)
  then have "filter (\<lambda>x. fst x = ''content-type'') ?t = [(''content-type'', name, v)]"
    using ok by (intro filter_key) (simp_all add: table_ok_def)
  moreover have "contentTypes (map snd ?t) = map snd (filter (\<lambda>x. fst x = ''content-type'') ?t)"
    using ok unfolding contentTypes_def filter_map comp_def table_ok_def
    by (intro arg_cong [where f = "map snd"] filter_cong) auto
  ultimately have "contentTypes (opt_headers (options p)) = [(name, v)]"
    using p(1) flatHeaders_table [OF ok] by simp
  with own show ?thesis by blast
qed

subsection \<open>Samples\<close>

definition sample_connection :: ConnectionInfo where
  "sample_connection = (plainConnection (Val ''https://rpc''))\<lparr>throttleLimit := Val 2,
     c_headers := Val [(''User-Agent'', ''Subquery-Node'')]\<rparr>"

definition sample_answer :: "int \<Rightarrow> GetUrlResponse" where
  "sample_answer n = \<lparr>statusCode = n, statusMessage = [], resp_headers = [], resp_body = Some [7]\<rparr>"

definition sample_plan :: fetchPlan where
  "sample_plan = planOf sample_connection 2 100 ''https://rpc''
     [(''user-agent'', ''User-Agent'', ''Subquery-Node'')] (Some [1])"

lemma sample_positive: "positiveInteger 2" "positiveInteger 5" "positiveInteger 100" "positiveInteger 1"
  by (simp_all add: positiveInteger_def)

lemma sample_makePlan: "makePlan sample_webLib (Connection sample_connection) (Some [1]) = Inr sample_plan"
proof -
  have "connectionHeaders (Val [(''User-Agent'', ''Subquery-Node'')]) = [(''user-agent'', ''User-Agent'', ''Subquery-Node'')]"
    by code_simp
  then show ?thesis
    by (simp add: makePlan_def sample_connection_def plainConnection_def limitOf_def slotOf_def
        sample_positive basicAuth_def sample_plan_def)
qed

lemma sample_no_data: "matchData ''https://rpc'' = None"
  by code_simp

lemma sample_plan_sel: "plan_url sample_plan = ''https://rpc''" "callback sample_plan = None"
    "attemptLimit sample_plan = 2" "timeout_ms sample_plan = 120000"
  by (simp_all add: sample_plan_def sample_connection_def plainConnection_def planOf_def)


theorem request_errors_witness:
  "\<exists>e. fst (fetchData sample_webLib (\<lambda>_ _ _. Inr (sample_answer 429)) (\<lambda>_. 0) (Some 7)
      (Connection sample_connection) (Some [1]) (Some (\<lambda>b _. Inr b))) = Inl e \<and> status e \<noteq> Some 429"
proof -
  have "fst (fetchData sample_webLib (\<lambda>_ _ _. Inr (sample_answer 429)) (\<lambda>_. 0) (Some 7)
      (Connection sample_connection) (Some [1]) (Some (\<lambda>b _. Inr b))) =
    Inl (missingResponse sample_webLib sample_plan (Error ''rate limited'') ''https://rpc'')"
    by (simp add: fetchData_def sample_makePlan sample_plan_sel sample_no_data case_prod_unfold Let_def
        raceTimeout_def fetchLoop.simps attemptOnce_def redirectTarget_def sample_answer_def tryAgain_def)
  with request_errors [OF sample_makeError_doc _ sample_makePlan _ this]
  show ?thesis by (simp add: sample_plan_sel sample_no_data sample_connection_def plainConnection_def)
qed

theorem json_content_type_witness:
  "\<exists>name v. contentTypes (opt_headers (options (projr (makePlan sample_webLib (jsonConnection (UrlOnly ''https://rpc'')) (Some [1])))))
    = [(name, v)] \<and> v = ''application/json''"
proof -
  have "\<exists>p. makePlan sample_webLib (jsonConnection (UrlOnly ''https://rpc'')) (Some [1]) = Inr p"
    by (simp add: makePlan_def jsonConnection_def plainConnection_def limitOf_def slotOf_def
        sample_positive basicAuth_def positiveInteger_def)
  then obtain p where p: "makePlan sample_webLib (jsonConnection (UrlOnly ''https://rpc'')) (Some [1]) = Inr p" ..
  have "contentTypes (ownHeaders (UrlOnly ''https://rpc'')) = []"
    by (simp add: ownHeaders_def plainConnection_def contentTypes_def)
  with json_content_type [OF p] p show ?thesis by simp
qed

end
