(* ===== verification/Web_Data.thy ===== *)
theory Web_Data
  imports Web_Fetch
begin

text \<open>
  The data URLs of \<open>packages/node/src/ethereum/ethers/web/index.ts\<close>: \<open>_fetchData\<close> answers them itself.
  What it answers for a text that was percent-encoded into a URL, and where the expression that splits
  the URL goes wrong.
\<close>

section \<open>Percent encoding\<close>

text \<open>The encoding of RFC 3986: a character that may not stand for itself becomes a percent sign and two
  hexadecimal digits.\<close>

definition percentChar :: "(char \<Rightarrow> bool) \<Rightarrow> char \<Rightarrow> string" where
  "percentChar safe c =
     (if safe c then [c] else [CHR ''%'', hex_char (of_char c div 16), hex_char (of_char c mod 16)])"

definition percentEncode :: "(char \<Rightarrow> bool) \<Rightarrow> string \<Rightarrow> string" where
  "percentEncode safe s = concat (map (percentChar safe) s)"

lemma hex_digit_char: "d < 16 \<Longrightarrow> hex_digit (hex_char d) = Some d"
  by (auto simp: hex_char_def hex_digit_def Let_def)

lemma unpercent_plain: "c \<noteq> CHR ''%'' \<Longrightarrow> unpercentChars (c # s) = c # unpercentChars s"
  by (cases s rule: list.exhaust; cases "tl s") (auto split: option.split)

lemma unpercent_code:
  "x < 16 \<Longrightarrow> y < 16 \<Longrightarrow>
    unpercentChars (CHR ''%'' # hex_char x # hex_char y # s) = char_of (16 * x + y) # unpercentChars s"
  by (simp add: hex_digit_char)

lemma unpercent_encode:
  assumes "\<not> safe (CHR ''%'')"
  shows "unpercentChars (percentEncode safe s) = s"
proof (induction s)
  case (Cons c s)
  show ?case
  proof (cases "safe c")
    case True
    with assms have "c \<noteq> CHR ''%''" by auto
    with Cons True show ?thesis by (simp add: percentEncode_def percentChar_def unpercent_plain)
  next
    case False
    have bound: "of_char c div 16 < (16::nat)" "of_char c mod 16 < (16::nat)"
      by (simp_all add: less_mult_imp_div_less)
    have "char_of (16 * (of_char c div 16) + of_char c mod 16 :: nat) = c" by simp
    with Cons False bound show ?thesis
      by (simp add: percentEncode_def percentChar_def unpercent_code del: unpercentChars.simps)
  qed
qed (simp add: percentEncode_def)

section \<open>Splitting the URL\<close>

definition plain_char :: "char \<Rightarrow> bool" where
  "plain_char c \<longleftrightarrow> c \<noteq> CHR '','' \<and> c \<noteq> CHR '';'' \<and> c \<noteq> CHR '':'' \<and> c \<noteq> CHR 0x0A \<and> c \<noteq> CHR 0x0D"

lemma hex_char_plain: "d < 16 \<Longrightarrow> plain_char (hex_char d)"
proof -
  assume "d < 16"
  then have "hex_digit (hex_char d) \<noteq> None" by (simp add: hex_digit_char)
  then show ?thesis by (auto simp: plain_char_def hex_digit_def)
qed

lemma percentEncode_plain:
  assumes "\<And>c. safe c \<Longrightarrow> plain_char c"
  shows "list_all plain_char (percentEncode safe s)"
proof -
  have "list_all plain_char (percentChar safe c)" for c
  proof -
    have "of_char c div 16 < (16::nat)" "of_char c mod 16 < (16::nat)"
      by (simp_all add: less_mult_imp_div_less)
    moreover have "plain_char (CHR ''%'')" by (simp add: plain_char_def)
    ultimately show ?thesis using assms by (simp add: percentChar_def hex_char_plain)
  qed
  then show ?thesis by (induction s) (simp_all add: percentEncode_def)
qed

lemma lower_char_semicolon: "lower_char c = CHR '';'' \<Longrightarrow> c = CHR '';''"
proof (rule ccontr)
  assume a: "lower_char c = CHR '';''" and "c \<noteq> CHR '';''"
  then have "char_of (of_char c + 32 :: nat) = CHR '';''" "of_char c \<le> (222 :: nat)" "(65 :: nat) \<le> of_char c"
    by (auto simp: lower_char_def Let_def split: if_splits)
  moreover have "of_char (char_of (of_char c + 32 :: nat)) = (59 :: nat)"
    unfolding calculation(1) by simp
  then have "(of_char c + 32) mod 256 = (59 :: nat)" by (simp only: of_char_of)
  ultimately show False by auto
qed

lemma no_marker: "list_all plain_char t \<Longrightarrow> \<not> startsWith (toLowerCase t) '';base64,'' \<and> \<not> startsWith t '',''"
  using lower_char_semicolon
  by (cases t) (auto simp: startsWith_def toLowerCase_def plain_char_def)

lemma dataSplit_plain:
  assumes "list_all plain_char t" and "length mt \<le> n" and "n \<le> length mt + Suc (length t)"
  shows "dataSplit (mt @ CHR '','' # t) n = Some (mt, False, t)"
  using assms(2,3)
proof (induction n)
  case 0
  have "singleLine t" using assms(1) by (auto simp: singleLine_def plain_char_def list_all_iff)
  with 0 show ?case by (simp add: dataSplit.simps startsWith_def toLowerCase_def lower_char_def)
next
  case (Suc n)
  have line: "singleLine t" using assms(1) by (auto simp: singleLine_def plain_char_def list_all_iff)
  show ?case
  proof (cases "length mt = Suc n")
    case True
    have "lower_char (CHR '','') = CHR '',''" by (simp add: lower_char_def)
    with True line show ?thesis by (simp add: dataSplit.simps [of _ "Suc n"] startsWith_def toLowerCase_def Let_def)
  next
    case False
    with Suc.prems have n: "length mt \<le> n" by simp
    then have "drop (Suc n) (mt @ CHR '','' # t) = drop (n - length mt) t" by (simp add: Suc_diff_le)
    moreover have "list_all plain_char (drop (n - length mt) t)"
      using assms(1) by (auto simp: list_all_iff dest: in_set_dropD)
    note no_marker [OF this]
    ultimately have "dataSplit (mt @ CHR '','' # t) (Suc n) = dataSplit (mt @ CHR '','' # t) n"
      by (simp add: dataSplit.simps [of _ "Suc n"] Let_def)
    with Suc.IH n Suc.prems show ?thesis by simp
  qed
qed

lemma matchData_plain:
  assumes "list_all plain_char mt" and "list_all plain_char t"
  shows "matchData (''data:'' @ mt @ '','' @ t) = Some (mt, False, t)"
proof -
  have "takeWhile (\<lambda>c. c \<noteq> CHR '';'' \<and> c \<noteq> CHR '':'') (mt @ CHR '','' # t) = mt @ CHR '','' # t"
    using assms by (auto simp: plain_char_def list_all_iff takeWhile_eq_all_conv)
  moreover have "startsWith (toLowerCase (''data:'' @ mt @ '','' @ t)) ''data:''"
    by (simp add: startsWith_def toLowerCase_def lower_char_def)
  moreover have "drop 5 (''data:'' @ mt @ '','' @ t) = mt @ CHR '','' # t" by simp
  moreover have "dataSplit (mt @ CHR '','' # t) (length (mt @ CHR '','' # t)) = Some (mt, False, t)"
    using assms(2) by (intro dataSplit_plain) simp_all
  ultimately show ?thesis by (simp only: matchData_def Let_def if_True)
qed

section \<open>Properties\<close>



text \<open>A comma in the data is taken for the separator when it is the last one, because the first group of
  the expression is greedy: everything before it becomes the content type.\<close>

lemma data_url_last_comma:
  "matchData ''data:text/plain,one,two'' = Some (''text/plain,one'', False, ''two'')"
  by code_simp

end
