(* ===== verification/Web_Poll.thy ===== *)
theory Web_Poll
  imports Web_Fetch
begin

text \<open>
  \<open>poll\<close> of \<open>packages/node/src/ethereum/ethers/web/index.ts\<close>: a function is called until its result is
  not \<open>undefined\<close>. \<open>f n\<close> is the outcome of call \<open>n\<close>. With an event source (\<open>oncePoll\<close> or
  \<open>onceBlock\<close>) the next call waits for the next event and the number of calls has no bound, so the loop
  is a \<^theory_text>\<open>partial_function\<close>: \<open>None\<close> means that the promise is never settled. The delays between calls,
  which only take time, are \<open>pollDelay\<close>.
\<close>

section \<open>Options\<close>

record PollOptions =
  po_timeout :: "rat js"
  po_floor :: "rat js"
  po_ceiling :: "rat js"
  po_interval :: "rat js"
  po_retryLimit :: "nat js"
  po_onceBlock :: bool
  po_oncePoll :: bool

definition defaulted :: "'a \<Rightarrow> 'a js \<Rightarrow> 'a" where
  "defaulted d v = (case v of Val x \<Rightarrow> x | _ \<Rightarrow> d)"

definition evented :: "PollOptions \<Rightarrow> bool" where
  "evented opts \<longleftrightarrow> po_oncePoll opts \<or> po_onceBlock opts"

text \<open>The wait after attempt \<open>n\<close>; \<open>roll n\<close> is \<open>parseInt(String(Math.random() * Math.pow(2, n)))\<close>.\<close>

definition pollDelay :: "PollOptions \<Rightarrow> (nat \<Rightarrow> nat) \<Rightarrow> nat \<Rightarrow> rat" where
  "pollDelay opts roll n =
     (let floor = defaulted 0 (po_floor opts);
          ceiling = defaulted 10000 (po_ceiling opts);
          wait = defaulted 250 (po_interval opts) * of_nat (roll n);
          atLeast = (if wait < floor then floor else wait)
      in if atLeast > ceiling then ceiling else atLeast)"

section \<open>The loop\<close>

text \<open>\<open>n\<close> calls were made before; without an event source it is the value of \<open>attempt\<close>.\<close>

partial_function (option) pollCheck ::
    "PollOptions \<Rightarrow> (nat \<Rightarrow> js_error + 'r js) \<Rightarrow> nat \<Rightarrow> (js_error + 'r js) option" where
  "pollCheck opts f n =
     (case f n of
        Inl e \<Rightarrow> Some (Inl e)
      | Inr r \<Rightarrow>
          (if \<not> is_undefined r then Some (Inr r)
           else if evented opts then pollCheck opts f (Suc n)
           else if Suc n > defaulted 0 (po_retryLimit opts) then Some (Inl (Error ''retry limit reached''))
           else pollCheck opts f (Suc n)))"

text \<open>The promise: \<open>elapsed\<close> is the time the loop takes; a timeout that is absent or zero does not
  run.\<close>

definition poll ::
    "PollOptions \<Rightarrow> (nat \<Rightarrow> js_error + 'r js) \<Rightarrow> rat option \<Rightarrow> (js_error + 'r js) option" where
  "poll opts f elapsed =
     (case po_timeout opts of
        Val t \<Rightarrow>
          (if t \<noteq> 0 \<and> (case elapsed of Some u \<Rightarrow> t \<le> u | None \<Rightarrow> True) then Some (Inl (Error ''timeout''))
           else pollCheck opts f 0)
      | _ \<Rightarrow> pollCheck opts f 0)"

section \<open>Properties\<close>

text \<open>The first outcome of a list of calls that settles the promise.\<close>

fun firstSettled :: "(js_error + 'r js) list \<Rightarrow> js_error + 'r js" where
  "firstSettled [] = Inl (Error ''retry limit reached'')"
| "firstSettled (Inr Undefined # rs) = firstSettled rs"
| "firstSettled (r # rs) = r"

lemma pollCheck_firstSettled:
  assumes "\<not> evented opts" and "defaulted 0 (po_retryLimit opts) = m" and "n \<le> m"
  shows "pollCheck opts f n = Some (firstSettled (map f [n..<Suc m]))"
  using assms(3)
proof (induction "m - n" arbitrary: n)
  case 0
  then have "[n..<Suc m] = [n]" "n = m" by simp_all
  then show ?case
    using assms(1,2) by (subst pollCheck.simps) (cases "f m"; cases "projr (f m)"; simp)
next
  case (Suc d)
  then have "Suc n \<le> m" "[n..<Suc m] = n # [Suc n..<Suc m]" by (simp_all add: upt_conv_Cons del: upt_Suc)
  moreover have "pollCheck opts f (Suc n) = Some (firstSettled (map f [Suc n..<Suc m]))"
    using Suc.hyps(2) \<open>Suc n \<le> m\<close> by (intro Suc.hyps(1)) simp_all
  ultimately show ?case
    using assms(1,2) by (subst pollCheck.simps) (cases "f n"; cases "projr (f n)"; simp del: upt_Suc)
qed

text \<open>Polling without an event source ends: the function is called at most \<open>retryLimit + 1\<close> times
  (once when no limit is given), the promise settles with the first result that is not \<open>undefined\<close> or
  the first error, and with \<open>retry limit reached\<close> when there is none.\<close>

theorem poll_settles:
  assumes "\<not> evented opts" and "po_timeout opts = Undefined"
  shows "poll opts f elapsed = Some (firstSettled (map f [0..<Suc (defaulted 0 (po_retryLimit opts))]))"
  using pollCheck_firstSettled [OF assms(1) refl, of 0 f] assms(2) by (simp add: poll_def)

theorem poll_settles_witness:
  "poll \<lparr>po_timeout = Undefined, po_floor = Undefined, po_ceiling = Undefined, po_interval = Undefined,
      po_retryLimit = Val 2, po_onceBlock = False, po_oncePoll = False\<rparr>
     (\<lambda>n. Inr (if n = 2 then Val ''ready'' else Undefined)) None = Some (Inr (Val ''ready''))"
proof -
  let ?o = "\<lparr>po_timeout = Undefined, po_floor = Undefined, po_ceiling = Undefined, po_interval = Undefined,
      po_retryLimit = Val 2, po_onceBlock = False, po_oncePoll = False\<rparr>"
  have "map (\<lambda>n. Inr (if n = 2 then Val ''ready'' else Undefined) :: js_error + string js) [0..<Suc 2] =
      [Inr Undefined, Inr Undefined, Inr (Val ''ready'')]"
    by (simp add: upt_rec)
  then show ?thesis
    using poll_settles [of ?o "\<lambda>n. Inr (if n = 2 then Val ''ready'' else Undefined)" None]
    by (simp add: evented_def defaulted_def del: upt_Suc)
qed

lemma pollDelay_bounds:
  "pollDelay opts roll n \<le> defaulted 10000 (po_ceiling opts)"
  "defaulted 0 (po_floor opts) \<le> defaulted 10000 (po_ceiling opts) \<Longrightarrow>
    defaulted 0 (po_floor opts) \<le> pollDelay opts roll n"
  by (auto simp: pollDelay_def Let_def)

end
