(* ===== verification/Json_Rpc_Provider.thy ===== *)
theory Json_Rpc_Provider
  imports Web_Fetch Eth_Fetch Safe_Api Batch_Provider
begin

text \<open>
  \<open>packages/node/src/ethereum/ethers/json-rpc-provider.ts\<close>: the provider that sends every request on
  its own, with its short-lived cache, and the connection that \<open>api.ethereum.ts\<close> gives to the
  providers. \<open>jr_issued\<close> are the requests that went out; a promise is named by the id of its request.
  Timers that clear the cache run in the order in which they were set. \<open>JSON.stringify\<close> of a request
  is a parameter.
\<close>

section \<open>Results\<close>

text \<open>The text an \<open>Error\<close> makes of its argument.\<close>

fun jsonText :: "json \<Rightarrow> string" where
  "jsonText JNull = ''null''"
| "jsonText (JBool b) = (if b then ''true'' else ''false'')"
| "jsonText (JNum n) = show_int n"
| "jsonText (JStr s) = s"
| "jsonText (JArr xs) = join '','' (map (\<lambda>x. if x = JNull then [] else jsonText x) xs)"
| "jsonText (JObj fs) = ''[object Object]''"

definition codeOf :: "json option \<Rightarrow> js_code option" where
  "codeOf j = (case j of Some (JNum n) \<Rightarrow> Some (CodeNum n) | Some (JStr s) \<Rightarrow> Some (CodeStr s) | _ \<Rightarrow> None)"

text \<open>The flag is \<open>throttleRetry\<close>, which no error made here has.\<close>

definition getResult :: "json \<Rightarrow> GetUrlResponse \<Rightarrow> (js_error \<times> bool) + json option" where
  "getResult payload response =
     (case json_get payload ''error'' of
        Inl e \<Rightarrow> Inl (e, False)
      | Inr (Some err) \<Rightarrow>
          (if json_truthy err then
             (let field = (\<lambda>k. case json_get err k of Inr v \<Rightarrow> v | Inl _ \<Rightarrow> None);
                  error = Error (case field ''message'' of Some m \<Rightarrow> jsonText m | None \<Rightarrow> [])
              in Inl (error\<lparr>code := codeOf (field ''code'')\<rparr>, False))
           else (case json_get payload ''result'' of Inr v \<Rightarrow> Inr v | Inl e \<Rightarrow> Inl (e, False)))
      | Inr None \<Rightarrow> (case json_get payload ''result'' of Inr v \<Rightarrow> Inr v | Inl e \<Rightarrow> Inl (e, False)))"

section \<open>Requests and the cache\<close>

record JsonRpcProvider =
  jr_nextId :: nat
  jr_cache :: "string \<rightharpoonup> nat"
  jr_clears :: "string list"
  jr_issued :: "Request list"
  jr_promises :: "nat \<rightharpoonup> js_error + json option"

definition newJsonRpcProvider :: "nat \<Rightarrow> JsonRpcProvider" where
  "newJsonRpcProvider firstId =
     \<lparr>jr_nextId = firstId, jr_cache = Map.empty, jr_clears = [], jr_issued = [], jr_promises = Map.empty\<rparr>"

definition cacheable :: "string \<Rightarrow> bool" where
  "cacheable meth = List.member [''eth_chainId'', ''eth_blockNumber''] meth"

text \<open>The promise \<open>send\<close> returns; the id is used up even when the cache has a promise.\<close>

definition jsend :: "string \<Rightarrow> string list \<Rightarrow> JsonRpcProvider \<Rightarrow> nat \<times> JsonRpcProvider" where
  "jsend meth ps p =
     (let request = \<lparr>rq_method = meth, params = ps, rid = jr_nextId p\<rparr>;
          p1 = p\<lparr>jr_nextId := Suc (jr_nextId p)\<rparr>;
          result = jr_nextId p;
          p2 = p1\<lparr>jr_issued := jr_issued p1 @ [request]\<rparr>
      in if cacheable meth then
           (case jr_cache p1 meth of
              Some i \<Rightarrow> (i, p1)
            | None \<Rightarrow> (result, p2\<lparr>jr_cache := (jr_cache p2)(meth \<mapsto> result), jr_clears := jr_clears p2 @ [meth]\<rparr>))
         else (result, p2))"

text \<open>The first timer fires.\<close>

definition clearCache :: "JsonRpcProvider \<Rightarrow> JsonRpcProvider" where
  "clearCache p =
     (case jr_clears p of
        [] \<Rightarrow> p
      | meth # rest \<Rightarrow> p\<lparr>jr_cache := (jr_cache p)(meth := None), jr_clears := rest\<rparr>)"

text \<open>What the exchange of a request settles its promise with.\<close>

definition exchange ::
    "webLib \<Rightarrow> (bytes \<Rightarrow> js_error + json) \<Rightarrow> (Request \<Rightarrow> string) \<Rightarrow> answers \<Rightarrow> (nat \<Rightarrow> nat) \<Rightarrow> rat option
      \<Rightarrow> connection \<Rightarrow> Request \<Rightarrow> js_error + json option fetchResult" where
  "exchange L decodeJson stringify ans roll elapsed con request =
     fst (fetchJson L decodeJson ans roll elapsed con (Some (stringify request)) getResult)"

definition jsettle :: "nat \<Rightarrow> js_error + json option \<Rightarrow> JsonRpcProvider \<Rightarrow> JsonRpcProvider" where
  "jsettle i out p = p\<lparr>jr_promises := (jr_promises p)(i \<mapsto> out)\<rparr>"

section \<open>Steps\<close>

text \<open>Calls and answers happen within a turn of the event loop; a timer ends one.\<close>

inductive turnStep :: "JsonRpcProvider \<Rightarrow> JsonRpcProvider \<Rightarrow> bool" where
  call: "turnStep p (snd (jsend meth ps p))"
| reply: "r \<in> set (jr_issued p) \<Longrightarrow> jr_promises p (rid r) = None \<Longrightarrow> turnStep p (jsettle (rid r) out p)"

inductive jstep :: "JsonRpcProvider \<Rightarrow> JsonRpcProvider \<Rightarrow> bool" where
  turn: "turnStep p q \<Longrightarrow> jstep p q"
| timer: "jr_clears p \<noteq> [] \<Longrightarrow> jstep p (clearCache p)"

inductive_cases turnStepE: "turnStep p q"
inductive_cases jstepE: "jstep p q"

section \<open>Invariant\<close>

definition jr_inv :: "JsonRpcProvider \<Rightarrow> bool" where
  "jr_inv p \<longleftrightarrow>
     distinct (map rid (jr_issued p)) \<and> (\<forall>r \<in> set (jr_issued p). rid r < jr_nextId p) \<and>
     dom (jr_promises p) \<subseteq> rid ` set (jr_issued p) \<and>
     distinct (jr_clears p) \<and> set (jr_clears p) = dom (jr_cache p) \<and>
     (\<forall>meth i. jr_cache p meth = Some i \<longrightarrow>
        cacheable meth \<and> (\<exists>r \<in> set (jr_issued p). rid r = i \<and> rq_method r = meth))"

lemma jr_inv_new: "jr_inv (newJsonRpcProvider n)"
  by (simp add: jr_inv_def newJsonRpcProvider_def)

text \<open>The three ways \<open>send\<close> ends.\<close>

lemma jsend_cases:
  obtains (hit) i where "cacheable meth" "jr_cache p meth = Some i"
      "jsend meth ps p = (i, p\<lparr>jr_nextId := Suc (jr_nextId p)\<rparr>)"
  | (miss) "cacheable meth" "jr_cache p meth = None"
      "jsend meth ps p = (jr_nextId p, p\<lparr>jr_nextId := Suc (jr_nextId p),
         jr_issued := jr_issued p @ [\<lparr>rq_method = meth, params = ps, rid = jr_nextId p\<rparr>],
         jr_cache := (jr_cache p)(meth \<mapsto> jr_nextId p), jr_clears := jr_clears p @ [meth]\<rparr>)"
  | (uncached) "\<not> cacheable meth"
      "jsend meth ps p = (jr_nextId p, p\<lparr>jr_nextId := Suc (jr_nextId p),
         jr_issued := jr_issued p @ [\<lparr>rq_method = meth, params = ps, rid = jr_nextId p\<rparr>]\<rparr>)"
  by (cases "cacheable meth"; cases "jr_cache p meth") (simp_all add: jsend_def Let_def)

lemma jr_inv_send: "jr_inv p \<Longrightarrow> jr_inv (snd (jsend meth ps p))"
proof (cases rule: jsend_cases [of meth p ps])
  case (hit i)
  assume "jr_inv p"
  with hit show ?thesis by (auto simp: jr_inv_def less_Suc_eq)
next
  case miss
  assume "jr_inv p"
  with miss show ?thesis by (auto simp: jr_inv_def less_Suc_eq)
next
  case uncached
  assume "jr_inv p"
  with uncached show ?thesis by (auto simp: jr_inv_def less_Suc_eq)
qed

lemma jr_inv_turn: "jr_inv p \<Longrightarrow> turnStep p q \<Longrightarrow> jr_inv q"
  by (erule turnStepE) (auto simp: jr_inv_send, auto simp: jr_inv_def jsettle_def)

lemma jr_inv_step: "jr_inv p \<Longrightarrow> jstep p q \<Longrightarrow> jr_inv q"
proof (erule jstepE)
  assume "jr_inv p" "q = clearCache p" "jr_clears p \<noteq> []"
  then show "jr_inv q"
    by (cases "jr_clears p") (auto simp: jr_inv_def clearCache_def)
qed (rule jr_inv_turn)

interpretation jr: step_invariant jstep jr_inv
  by unfold_locales (rule jr_inv_step)

text \<open>Within a turn, a cached promise stays cached.\<close>

definition keeps_cache :: "JsonRpcProvider \<Rightarrow> JsonRpcProvider \<Rightarrow> bool" where
  "keeps_cache p q \<longleftrightarrow> jr_cache p \<subseteq>\<^sub>m jr_cache q"

interpretation turn: step_monotone turnStep jr_inv keeps_cache
proof unfold_locales
  show "jr_inv p \<Longrightarrow> turnStep p q \<Longrightarrow> jr_inv q" for p q by (rule jr_inv_turn)
  show "keeps_cache p p" for p by (simp add: keeps_cache_def)
  show "keeps_cache p q \<Longrightarrow> keeps_cache q r \<Longrightarrow> keeps_cache p r" for p q r
    by (auto simp: keeps_cache_def intro: map_le_trans)
  show "turnStep p q \<Longrightarrow> keeps_cache p q" for p q
  proof (erule turnStepE)
    fix meth ps
    assume "q = snd (jsend meth ps p)"
    then show "keeps_cache p q"
      by (cases rule: jsend_cases [of meth p ps]) (auto simp: keeps_cache_def map_le_def)
  qed (simp add: keeps_cache_def jsettle_def)
qed

section \<open>Properties\<close>

lemma jsend_own:
  assumes "jr_inv p"
  shows "\<exists>r. r \<in> set (jr_issued (snd (jsend meth ps p))) \<and> rid r = fst (jsend meth ps p) \<and> rq_method r = meth"
proof (cases rule: jsend_cases [of meth p ps])
  case (hit i)
  then obtain r where "r \<in> set (jr_issued p)" "rid r = i" "rq_method r = meth"
    using assms unfolding jr_inv_def by blast
  with hit show ?thesis by auto
qed auto

text \<open>C25. A caller never gets the answer to a request of another kind: in every state a provider can reach,
  the promise \<open>send\<close> returns is that of exactly one request that went out, and that request has the
  method the caller asked for, also when the promise comes from the cache.\<close>

theorem promise_is_of_method:
  assumes "jstep\<^sup>*\<^sup>* (newJsonRpcProvider firstId) p"
  shows "\<exists>!r. r \<in> set (jr_issued (snd (jsend meth ps p))) \<and> rid r = fst (jsend meth ps p) \<and> rq_method r = meth"
proof -
  have inv: "jr_inv p" using assms jr_inv_new by (rule jr.reach)
  from jr_inv_send [OF this, of meth ps]
  have "inj_on rid (set (jr_issued (snd (jsend meth ps p))))" by (simp add: jr_inv_def distinct_map)
  then have "x = y" if "x \<in> set (jr_issued (snd (jsend meth ps p)))" "y \<in> set (jr_issued (snd (jsend meth ps p)))"
      "rid x = rid y" for x y
    using that by (auto dest: inj_onD)
  then show ?thesis using jsend_own [OF inv, of meth ps] by metis
qed

text \<open>The chain id and the block number are asked for at most once in a turn of the event loop: after
  such a call, whatever other calls are made and whatever answers arrive before a timer fires, the
  same call returns the same promise and sends nothing.\<close>

theorem one_request_per_turn:
  assumes "jstep\<^sup>*\<^sup>* (newJsonRpcProvider firstId) p" and "cacheable meth"
    and "turnStep\<^sup>*\<^sup>* (snd (jsend meth ps p)) q"
  shows "jsend meth ps' q = (fst (jsend meth ps p), q\<lparr>jr_nextId := Suc (jr_nextId q)\<rparr>)"
proof -
  have "jr_inv p" using assms(1) jr_inv_new by (rule jr.reach)
  then have "keeps_cache (snd (jsend meth ps p)) q"
    using assms(3) by (intro turn.reach_le jr_inv_send)
  moreover have "jr_cache (snd (jsend meth ps p)) meth = Some (fst (jsend meth ps p))"
    using assms(2) by (cases rule: jsend_cases [of meth p ps]) simp_all
  ultimately have "jr_cache q meth = Some (fst (jsend meth ps p))"
    by (auto simp: keeps_cache_def map_le_def dom_def)
  with assms(2) show ?thesis by (simp add: jsend_def Let_def)
qed

subsection \<open>The API's connection\<close>

text \<open>The connection the constructor of \<open>EthereumApi\<close> makes for an HTTP endpoint: the headers of the
  endpoint's configuration and the query parameters of its URL become headers.\<close>

definition addHeaders :: "headerMap \<Rightarrow> headerMap \<Rightarrow> headerMap" where
  "addHeaders new hs = foldl (\<lambda>h (k, v). obj_set k v h) hs new"

definition apiConnection :: "string \<Rightarrow> string \<Rightarrow> headerMap \<Rightarrow> headerMap \<Rightarrow> agents \<Rightarrow> ConnectionInfo" where
  "apiConnection packageVersion endpoint configHeaders searchParams httpAgents =
     (plainConnection (Val endpoint))\<lparr>
       c_headers := Val (addHeaders searchParams (addHeaders configHeaders
         [(''User-Agent'', ''Subquery-Node '' @ packageVersion)])),
       allowGzip := True, throttleLimit := Val 5, throttleSlotInterval := Val 1, c_agents := Val httpAgents\<rparr>"

lemma jsonConnection_fields:
  "c_url (connectionInfo (jsonConnection con)) = c_url (connectionInfo con)"
  "throttleCallback (connectionInfo (jsonConnection con)) = throttleCallback (connectionInfo con)"
  "limitOf (connectionInfo (jsonConnection con)) = limitOf (connectionInfo con)"
  "slotOf (connectionInfo (jsonConnection con)) = slotOf (connectionInfo con)"
  "c_user (connectionInfo (jsonConnection con)) = c_user (connectionInfo con)"
  "c_timeout (connectionInfo (jsonConnection con)) = c_timeout (connectionInfo con)"
  by (simp_all add: jsonConnection_def Let_def limitOf_def slotOf_def)

lemma makePlan_api:
  assumes "c = apiConnection v endpoint ch sp ag"
  shows "\<exists>p. makePlan L (jsonConnection (Connection c)) body = Inr p \<and> plan_url p = endpoint \<and> callback p = None \<and>
    attemptLimit p = 5 \<and> timeout_ms p = 120000"
proof -
  have c: "c_url c = Val endpoint" "limitOf c = 5" "slotOf c = 1" "c_user c = Undefined" "throttleCallback c = None"
      "c_timeout c = Undefined"
    by (simp_all add: assms apiConnection_def plainConnection_def limitOf_def slotOf_def)
  have "positiveInteger 5" "positiveInteger 1" by (simp_all add: positiveInteger_def)
  moreover have "timeout_ms (planOf (connectionInfo (jsonConnection (Connection c))) l sl u h body) = 120000" for l sl u h
    by (simp add: planOf_def jsonConnection_fields c)
  ultimately show ?thesis by (simp add: makePlan_def Let_def jsonConnection_fields c basicAuth_def)
qed

lemma http_no_data: "startsWith endpoint ''http'' \<Longrightarrow> matchData endpoint = None"
  by (cases endpoint) (auto simp: matchData_def startsWith_def toLowerCase_def lower_char_def)

text \<open>Over the API's connection every failure is a server error of the client or its timeout.\<close>

lemma api_request_fails:
  assumes "makeError_doc L" and "startsWith endpoint ''http''"
    and "fst (fetchJson L decodeJson ans roll elapsed (Connection (apiConnection v endpoint ch sp ag)) (Some txt) pf) = Inl e"
  shows "ordinary e \<or> (code e = Some (CodeStr ''TIMEOUT'') \<and> status e = None)"
proof -
  obtain p where p: "makePlan L (jsonConnection (Connection (apiConnection v endpoint ch sp ag))) (Some (toUtf8Bytes L txt)) = Inr p"
      "plan_url p = endpoint" "callback p = None"
    using makePlan_api [OF refl] by blast
  have race: "raceTimeout L p elapsed (fst (fetchLoop L p ans roll (Some (processJson L decodeJson pf)) 0 endpoint)) = Inl e"
    using assms(3) p(1,2) http_no_data [OF assms(2)]
    by (simp add: fetchJson_def fetchData_def case_prod_unfold Let_def)
  have "code (timeoutError L p) = Some (CodeStr ''TIMEOUT'')" "status (timeoutError L p) = None"
    using assms(1) by (simp_all add: timeoutError_def makeError_docD requestDetails_def)
  moreover have "ordinary e"
    if "fst (fetchLoop L p ans roll (Some (processJson L decodeJson pf)) 0 endpoint) = Inl e"
    by (rule fetchLoop_ordinary [OF assms(1) p(3) that])
  ultimately show ?thesis
    using race by (auto simp: raceTimeout_def split: option.splits if_splits)
qed

text \<open>Rate limits are not recognised over HTTP: whatever the endpoint answers, an error of a request made
  with the connection of the API does not have the status 429, so \<open>handleError\<close>, which turns that
  status into the error \<open>Rate Limited at endpoint\<close>, changes nothing.\<close>

theorem rate_limit_never_recognised:
  assumes "makeError_doc L" and "startsWith endpoint ''http''"
    and "fst (fetchJson L decodeJson ans roll elapsed (Connection (apiConnection v endpoint ch sp ag)) (Some txt) pf) = Inl e"
  shows "handleError a e = e"
  using api_request_fails [OF assms] by (auto simp: handleError_def ordinary_def)

subsection \<open>Errors of the remote procedure\<close>

text \<open>An error the endpoint reports inside a successful response reaches the caller of the plain provider
  as a failed response: \<open>getResult\<close> throws it, \<open>fetchData\<close> wraps it into \<open>processing response error\<close> with
  the code \<open>SERVER_ERROR\<close>, which the proxy of the safe API retries on another endpoint.\<close>

theorem rpc_error_is_retried:
  assumes "makeError_doc L"
    and "makePlan L (jsonConnection con) (Some (toUtf8Bytes L (stringify request))) = Inr p"
    and "matchData (plan_url p) = None" and "elapsed = Some t" and "t < timeout_ms p"
    and "ans 0 (plan_url p) (options p) = Inr r" and "200 \<le> statusCode r" and "statusCode r < 300"
    and "resp_body r = Some b" and "decodeJson b = Inr payload" and "getResult payload r = Inl (err, retry)"
  shows "\<exists>e. exchange L decodeJson stringify ans roll elapsed con request = Inl e \<and> retryCode e"
proof -
  have noretry: "\<not> retry"
    using assms(11) by (auto simp: getResult_def Let_def split: sum.splits option.splits if_splits)
  have "redirectTarget p r = None" using assms(7,8) by (simp add: redirectTarget_def)
  moreover have "processJson L decodeJson getResult (Some b) r = Inl (err, False)"
    using assms(10,11) noretry by (simp add: processJson_def)
  ultimately have "attemptOnce L p ans roll (Some (processJson L decodeJson getResult)) 0 (plan_url p) =
      Settled (Inl (processingError L p (Some b) r err (plan_url p)))"
    using assms(6-9) by (simp add: attemptOnce_def settleResponse_def Let_def)
  moreover have "0 < attemptLimit p"
    using assms(2) by (rule makePlan_InrE) (simp only: planOf_sel positiveInteger_pos)
  ultimately have "exchange L decodeJson stringify ans roll elapsed con request =
      Inl (processingError L p (Some b) r err (plan_url p))"
    using assms(2-5)
    by (simp add: exchange_def fetchJson_def fetchData_def case_prod_unfold Let_def raceTimeout_def fetchLoop.simps)
  moreover have "retryCode (processingError L p (Some b) r err (plan_url p))"
    using assms(1) by (simp add: processingError_def retryCode_def makeError_docD retryErrorCodes_def)
  ultimately show ?thesis by blast
qed

subsection \<open>Samples\<close>

theorem promise_is_of_method_witness:
  "\<exists>!r. r \<in> set (jr_issued (snd (jsend ''eth_chainId'' [] (newJsonRpcProvider 42)))) \<and>
     rid r = 42 \<and> rq_method r = ''eth_chainId''"
proof -
  have "fst (jsend ''eth_chainId'' [] (newJsonRpcProvider 42)) = 42"
    by (simp add: jsend_def newJsonRpcProvider_def cacheable_def Let_def)
  with promise_is_of_method [of 42 "newJsonRpcProvider 42" "''eth_chainId''" "[]"] show ?thesis by simp
qed

lemma sample_turn: "turnStep\<^sup>*\<^sup>* p (snd (jsend ''eth_call'' [] p))"
  by (intro r_into_rtranclp turnStep.call)

theorem one_request_per_turn_witness:
  "fst (jsend ''eth_blockNumber'' [] (snd (jsend ''eth_call'' []
     (snd (jsend ''eth_blockNumber'' [] (newJsonRpcProvider 42)))))) = 42"
proof -
  have "fst (jsend ''eth_blockNumber'' [] (newJsonRpcProvider 42)) = 42" "cacheable ''eth_blockNumber''"
    by (simp_all add: jsend_def newJsonRpcProvider_def cacheable_def Let_def)
  with one_request_per_turn [OF rtranclp.rtrancl_refl _ sample_turn, where meth = "''eth_blockNumber''" and firstId = 42]
  show ?thesis by simp
qed

definition sample_api_connection :: ConnectionInfo where
  "sample_api_connection = apiConnection ''5.0'' ''https://rpc'' [] [] \<lparr>agent_http = None, agent_https = None\<rparr>"

text \<open>An endpoint that always answers 429.\<close>

lemma sample_throttled:
  "\<exists>e. fst (fetchJson sample_webLib (\<lambda>_. Inr JNull) (\<lambda>_ _ _. Inr (sample_answer 429)) (\<lambda>_. 0) (Some 7)
      (Connection sample_api_connection) (Some ''[]'') (\<lambda>v _. Inr v)) = Inl e"
proof -
  obtain p where p: "makePlan sample_webLib (jsonConnection (Connection sample_api_connection))
        (Some (toUtf8Bytes sample_webLib ''[]'')) = Inr p"
      "plan_url p = ''https://rpc''" "callback p = None" "attemptLimit p = 5"
    using makePlan_api [OF sample_api_connection_def] by blast
  have no: "\<exists>e. fst (fetchLoop sample_webLib p (\<lambda>_ _ _. Inr (sample_answer 429)) (\<lambda>_. 0) pf 0 url) = Inl e"
    for pf :: "json processor option" and url
  proof -
    have "fetchStep sample_webLib p (\<lambda>_ _ _. Inr (sample_answer 429)) (\<lambda>_. 0) pf i url = Inr url" if "i < 4" for i
      using that p(3,4)
      by (simp add: fetchStep_def attemptOnce_def redirectTarget_def sample_answer_def tryAgain_def)
    moreover have "fetchStep sample_webLib p (\<lambda>_ _ _. Inr (sample_answer 429)) (\<lambda>_. 0) pf 4 url =
        Inl (Inl (missingResponse sample_webLib p (Error ''rate limited'') url))"
      using p(4) by (simp add: fetchStep_def attemptOnce_def redirectTarget_def sample_answer_def)
    ultimately have "fst (fetchLoop sample_webLib p (\<lambda>_ _ _. Inr (sample_answer 429)) (\<lambda>_. 0) pf 0 url) =
        Inl (missingResponse sample_webLib p (Error ''rate limited'') url)"
      using p(4) by (intro attempts.run_settles [where ss = "\<lambda>_. url" and k = 4]) simp_all
    then show ?thesis ..
  qed
  show ?thesis
    using p(1,2) no [of "Some (processJson sample_webLib (\<lambda>_. Inr JNull) (\<lambda>v _. Inr v))" "''https://rpc''"] sample_no_data
    by (auto simp: fetchJson_def fetchData_def case_prod_unfold Let_def raceTimeout_def)
qed

theorem rate_limit_never_recognised_witness:
  "\<exists>e. fst (fetchJson sample_webLib (\<lambda>_. Inr JNull) (\<lambda>_ _ _. Inr (sample_answer 429)) (\<lambda>_. 0) (Some 7)
      (Connection sample_api_connection) (Some ''[]'') (\<lambda>v _. Inr v)) = Inl e \<and> handleError sample_api e = e"
proof -
  obtain e where e: "fst (fetchJson sample_webLib (\<lambda>_. Inr JNull) (\<lambda>_ _ _. Inr (sample_answer 429)) (\<lambda>_. 0) (Some 7)
      (Connection sample_api_connection) (Some ''[]'') (\<lambda>v _. Inr v)) = Inl e"
    using sample_throttled by blast
  have "startsWith ''https://rpc'' ''http''" by (simp add: startsWith_def)
  from rate_limit_never_recognised [OF sample_makeError_doc this, folded sample_api_connection_def] e
  show ?thesis unfolding sample_api_connection_def by blast
qed

theorem rpc_error_is_retried_witness:
  "\<exists>e. exchange sample_webLib (\<lambda>_. Inr (JObj [(''error'', JObj [(''code'', JNum 3), (''message'', JStr ''execution reverted'')])]))
      (\<lambda>_. ''{}'') (\<lambda>_ _ _. Inr (sample_answer 200)) (\<lambda>_. 0) (Some 7) (Connection sample_api_connection) (sample_request 42)
    = Inl e \<and> retryCode e"
proof -
  obtain p where p: "makePlan sample_webLib (jsonConnection (Connection sample_api_connection))
        (Some (toUtf8Bytes sample_webLib ''{}'')) = Inr p" "plan_url p = ''https://rpc''" "timeout_ms p = 120000"
    using makePlan_api [OF sample_api_connection_def] by blast
  have t: "(7::rat) < timeout_ms p" using p(3) by simp
  let ?j = "JObj [(''error'', JObj [(''code'', JNum 3), (''message'', JStr ''execution reverted'')])]"
  have res: "getResult ?j (sample_answer 200) = Inl ((Error ''execution reverted'')\<lparr>code := Some (CodeNum 3)\<rparr>, False)"
    by (simp add: getResult_def json_get_def codeOf_def Let_def)
  show ?thesis
    by (rule rpc_error_is_retried [OF sample_makeError_doc p(1) _ refl t, where r = "sample_answer 200" and b = "[7]"
          and payload = ?j and retry = False])
      (simp_all only: p(2) sample_no_data res, simp_all add: sample_answer_def)
qed

end
