(* ===== verification/Chain_Formats.thy ===== *)
theory Chain_Formats
  imports Web_Geturl Eth_Types
begin

text \<open>
  \<open>packages/node/src/ethereum/ethers/celo/celo-provider.ts\<close> and \<open>op/op-provider.ts\<close>: the two mixins
  that change a formatter of the ethers provider. The formatters themselves are parameters. A
  \<open>BigNumber\<close> of ethers is an object with \<open>toString\<close>, its decimal text, and without \<open>valueOf\<close>, so the
  operator \<open><\<close> converts both sides to text and compares the texts.
\<close>

section \<open>Comparing texts\<close>

fun textLess :: "string \<Rightarrow> string \<Rightarrow> bool" where
  "textLess s [] = False"
| "textLess [] (d # t) = True"
| "textLess (c # s) (d # t) = ((of_char c :: nat) < of_char d \<or> c = d \<and> textLess s t)"

lemma textLess_snoc:
  "length s = length t \<Longrightarrow>
    textLess (s @ [c]) (t @ [d]) \<longleftrightarrow> textLess s t \<or> s = t \<and> (of_char c :: nat) < of_char d"
  by (induction s t rule: list_induct2) auto

lemma of_digit_char: "d < 10 \<Longrightarrow> (of_char (digit_char d) :: nat) = 48 + d"
  by (simp add: digit_char_def)

lemma length_show_nat_div: "10 \<le> n \<Longrightarrow> length (show_nat n) = Suc (length (show_nat (n div 10)))"
  by (simp add: show_nat_big)

lemma length_show_nat_one: "length (show_nat n) = 1 \<longleftrightarrow> n < 10"
proof (cases "n < 10")
  case False
  then have "length (show_nat n) = Suc (length (show_nat (n div 10)))" by (intro length_show_nat_div) simp
  moreover have "length (show_nat (n div 10)) \<noteq> 0" by simp
  ultimately show ?thesis using False by (simp only: One_nat_def nat.inject simp_thms)
qed (simp add: show_nat_small)

lemma div_mod_less: "m < n \<longleftrightarrow> m div 10 < n div 10 \<or> m div 10 = n div 10 \<and> m mod 10 < (n mod 10 :: nat)"
proof -
  have "m = 10 * (m div 10) + m mod 10" "n = 10 * (n div 10) + n mod 10" by simp_all
  moreover have "m mod 10 < 10" "n mod 10 < 10" by simp_all
  ultimately show ?thesis by linarith
qed

text \<open>For numbers with equally many digits the texts compare as the numbers do.\<close>

lemma textLess_show:
  "length (show_nat m) = length (show_nat n) \<Longrightarrow> textLess (show_nat m) (show_nat n) \<longleftrightarrow> m < n"
proof (induction m arbitrary: n rule: show_nat.induct)
  case (1 m)
  have digit: "(of_char (digit_char (x mod 10)) :: nat) = 48 + x mod 10" for x by (simp add: of_digit_char)
  show ?case
  proof (cases "m < 10")
    case True
    then have "n < 10" using "1.prems" length_show_nat_one [of m] length_show_nat_one [of n] by simp
    with True show ?thesis by (simp add: show_nat_small of_digit_char)
  next
    case False
    then have big: "\<not> n < 10" using "1.prems" length_show_nat_one [of m] length_show_nat_one [of n] by simp
    then have len: "length (show_nat (m div 10)) = length (show_nat (n div 10))"
      using "1.prems" False length_show_nat_div [of m] length_show_nat_div [of n] by simp
    have "textLess (show_nat m) (show_nat n) \<longleftrightarrow> textLess (show_nat (m div 10)) (show_nat (n div 10)) \<or>
        show_nat (m div 10) = show_nat (n div 10) \<and> m mod 10 < n mod 10"
      unfolding show_nat_big [OF False] show_nat_big [OF big] textLess_snoc [OF len] digit by simp
    also have "\<dots> \<longleftrightarrow> m div 10 < n div 10 \<or> m div 10 = n div 10 \<and> m mod 10 < n mod 10"
      unfolding "1.IH" [OF False len] show_nat_inject ..
    also have "\<dots> \<longleftrightarrow> m < n" by (rule div_mod_less [symmetric])
    finally show ?thesis .
  qed
qed

lemma length_show_nat_eight:
  assumes "10000000 \<le> n" and "n < 100000000"
  shows "length (show_nat n) = 8"
proof -
  have "n div 10000000 < 10" using assms(2) by simp
  then have "length (show_nat (n div 10000000)) = 1" by (simp add: show_nat_small)
  with assms(1) show ?thesis
    by (simp add: length_show_nat_div div_mult2_eq [symmetric])
qed

section \<open>Celo\<close>

text \<open>A raw block as the object it is; a property that is present can still be \<open>undefined\<close>.\<close>

type_synonym rawObject = "(string \<times> rawNumber js) list"

definition flanHardForkBlock :: int where
  "flanHardForkBlock = 16068685"

definition bigNumberLess :: "int \<Rightarrow> int \<Rightarrow> bool" where
  "bigNumberLess m n = textLess (show_int m) (show_int n)"

definition property :: "rawObject \<Rightarrow> string \<Rightarrow> rawNumber js" where
  "property raw k = (case map_of raw k of Some v \<Rightarrow> v | None \<Rightarrow> Undefined)"

text \<open>\<open>{ gasLimit: \<dots>, ...raw }\<close>\<close>

definition celoValue :: "ethers \<Rightarrow> rawObject \<Rightarrow> js_error + rawObject" where
  "celoValue E raw =
     bindE (case property raw ''number'' of
         Val n \<Rightarrow> bigNumberFrom E n
       | _ \<Rightarrow> Inl (Error ''invalid BigNumber value''))
       (\<lambda>n. Inr (foldl (\<lambda>obj (k, v). obj_set k v obj)
         [(''gasLimit'', if bigNumberLess n flanHardForkBlock then Val (RawNum 0) else property raw ''gasLimit'')] raw))"

definition celoBlock :: "ethers \<Rightarrow> (rawObject \<Rightarrow> js_error + 'b) \<Rightarrow> rawObject \<Rightarrow> js_error + 'b" where
  "celoBlock E originalBlockFormatter raw = bindE (celoValue E raw) originalBlockFormatter"

section \<open>OP\<close>

text \<open>A format maps the name of a field to the function that formats it.\<close>

definition opReceiptFormat ::
    "(('f \<Rightarrow> 'f) \<Rightarrow> 'g) \<Rightarrow> ('f \<Rightarrow> 'f) \<Rightarrow> ('f \<Rightarrow> 'f) \<Rightarrow> (string \<times> 'g) list \<Rightarrow> (string \<times> 'g) list" where
  "opReceiptFormat allowNull bigNumber number receipt =
     obj_set ''l1GasUsed'' (allowNull bigNumber) (obj_set ''l1GasPrice'' (allowNull bigNumber)
       (obj_set ''l1FeeScalar'' (allowNull number) (obj_set ''l1Fee'' (allowNull bigNumber) receipt)))"

section \<open>Properties\<close>

lemma distinct_map_of_rev: "distinct (map fst xs) \<Longrightarrow> map_of (rev xs) = map_of xs"
proof (induction xs)
  case (Cons x xs)
  then have "fst x \<notin> dom (map_of xs)" by (simp add: dom_map_of_conv_image_fst)
  with Cons show ?case by (cases x) (auto simp: map_add_def fun_eq_iff dom_def split: option.split)
qed simp

lemma spread_lookup:
  "map_of (foldl (\<lambda>obj (k, v). obj_set k v obj) base raw) k =
    (case map_of (rev raw) k of Some v \<Rightarrow> Some v | None \<Rightarrow> map_of base k)"
  by (induction raw arbitrary: base) (auto simp: map_add_def split: option.split prod.split)

text \<open>A property the block itself has wins over the one in front of the spread.\<close>

lemma celo_own_property:
  assumes "celoValue E raw = Inr v" and "distinct (map fst raw)" and "k \<in> fst ` set raw"
  shows "property v k = property raw k"
proof -
  obtain g where v: "v = foldl (\<lambda>obj (k, v). obj_set k v obj) [(''gasLimit'', g)] raw"
    using assms(1) by (auto simp: celoValue_def bindE_eq_Inr_iff)
  have "map_of (rev raw) k = map_of raw k"
    using assms(2) by (simp add: distinct_map_of_rev)
  moreover have "map_of raw k \<noteq> None" using assms(3) by (simp add: map_of_eq_None_iff)
  ultimately show ?thesis by (auto simp: v property_def spread_lookup)
qed

text \<open>Before the Flan hard fork a Celo block has no gas limit, and the provider puts zero there; for
  the heights from ten million to the last with eight digits it does so exactly below the fork. A block
  with a gas limit of its own always keeps it.\<close>

theorem celo_gas_limit:
  assumes "celoValue E raw = Inr v" and "distinct (map fst raw)" and "property raw ''number'' = Val n"
    and "bigNumberFrom E n = Inr height" and "10 ^ 7 \<le> height" and "height < 10 ^ 8"
  shows "property v ''gasLimit'' =
    (if ''gasLimit'' \<in> fst ` set raw then property raw ''gasLimit''
     else if height < 16068685 then Val (RawNum 0) else Undefined)"
proof (cases "''gasLimit'' \<in> fst ` set raw")
  case True
  with celo_own_property [OF assms(1,2)] show ?thesis by simp
next
  case False
  then have none: "map_of raw ''gasLimit'' = None" "map_of (rev raw) ''gasLimit'' = None"
    by (simp_all add: map_of_eq_None_iff)
  have digits: "length (show_nat (nat height)) = 8"
    using assms(5,6) by (intro length_show_nat_eight) simp_all
  have "length (show_nat 16068685) = 8" by (intro length_show_nat_eight) simp_all
  with digits have "bigNumberLess height flanHardForkBlock \<longleftrightarrow> height < 16068685"
    using assms(5) textLess_show [of "nat height" 16068685]
    by (simp add: bigNumberLess_def flanHardForkBlock_def show_int_def nat_less_iff)
  moreover have "v = foldl (\<lambda>obj (k, v). obj_set k v obj)
      [(''gasLimit'', if bigNumberLess height flanHardForkBlock then Val (RawNum 0) else property raw ''gasLimit'')] raw"
    using assms(1,3,4) by (simp add: celoValue_def)
  ultimately show ?thesis using False none by (simp add: property_def spread_lookup)
qed

theorem celo_gas_limit_witness:
  "\<exists>v. celoValue sample_ethers [(''number'', Val (RawNum 16068684))] = Inr v \<and> property v ''gasLimit'' = Val (RawNum 0)"
proof -
  have "\<exists>v. celoValue sample_ethers [(''number'', Val (RawNum 16068684))] = Inr v"
    by (simp add: celoValue_def property_def sample_ethers_def)
  then obtain v where v: "celoValue sample_ethers [(''number'', Val (RawNum 16068684))] = Inr v" ..
  with celo_gas_limit [OF v, of "RawNum 16068684" 16068684] show ?thesis
    by (simp add: property_def sample_ethers_def)
qed

text \<open>At height two million the texts compare the other way round: the block gets no gas limit, and the
  original formatter, which requires one, rejects it.\<close>

lemma digit_chars:
  "digit_char 0 = CHR ''0''" "digit_char (Suc 0) = CHR ''1''" "digit_char 2 = CHR ''2''" "digit_char 5 = CHR ''5''"
  "digit_char 6 = CHR ''6''" "digit_char 8 = CHR ''8''"
  by code_simp+

lemma celo_two_million:
  "map_sum id (\<lambda>v. property v ''gasLimit'') (celoValue sample_ethers [(''number'', Val (RawNum 2000000))]) = Inr Undefined"
proof -
  have "show_nat 2000000 = ''2000000''" "show_nat 16068685 = ''16068685''"
    by (simp_all add: show_nat_small show_nat_big digit_chars)
  then have "\<not> bigNumberLess 2000000 flanHardForkBlock"
    by (simp add: bigNumberLess_def flanHardForkBlock_def show_int_def)
  then show ?thesis by (simp add: celoValue_def property_def sample_ethers_def)
qed

lemma op_receipt_fields:
  "map_of (opReceiptFormat allowNull bigNumber number receipt) k =
    (if k \<in> {''l1Fee'', ''l1GasPrice'', ''l1GasUsed''} then Some (allowNull bigNumber)
     else if k = ''l1FeeScalar'' then Some (allowNull number) else map_of receipt k)"
  by (simp add: opReceiptFormat_def)

end
