(* ===== verification/Codegen.thy ===== *)
theory Codegen
  imports Eth_Decode Block_Filters
begin

text \<open>
  \<open>packages/common-ethereum/src/codegen\<close>: the checks of a project's handlers against its ABIs, the
  choice of the ABI files, the names of the generated interfaces, and \<open>generateAbis\<close>, which writes
  them. ethers, typechain, the templates and the file system are the parameter \<open>codegenLib\<close>;
  \<open>generateAbis\<close> returns its outcome and the list of the effects it started.
\<close>

record AbiInterface =
  ai_name :: string
  ai_type :: string
  ai_inputs :: "AbiInput list"

datatype ReadAbi = AbiArray "AbiInterface list" | Artifact "AbiInterface list option"

record AbiRenderProps =
  rp_name :: string
  rp_events :: "string list"
  rp_functions :: "(string \<times> string) list"

text \<open>\<open>functionFormats i\<close> is \<open>Object.values(iface.functions).map((func) => func.format())\<close>;
  \<open>contractName\<close> is \<open>parseContractPath(path).name\<close>; the last four fields are the outcomes of the
  asynchronous calls, by the path they work on.\<close>

record 'i codegenLib = "'i abiLib" +
  functionFormats :: "'i \<Rightarrow> string list"
  eventFormats :: "'i \<Rightarrow> string list"
  join_path :: "string list \<Rightarrow> string"
  existsSync :: "string \<Rightarrow> bool"
  contractName :: "string \<Rightarrow> string"
  loadReadAbi :: "string \<Rightarrow> js_error + ReadAbi"
  globFiles :: "string \<Rightarrow> string list \<Rightarrow> js_error + string list"
  readdirSync :: "string \<Rightarrow> js_error + string list"
  prepareDirPath :: "string \<Rightarrow> bool \<Rightarrow> js_error + unit"
  runTypeChain :: "string \<Rightarrow> js_error + unit"
  renderTemplate :: "string \<Rightarrow> js_error + unit"

section \<open>The check of handlers against ABIs\<close>

definition CUSTOM_EVM_HANDLERS :: "string list" where
  "CUSTOM_EVM_HANDLERS =
     [''cosmos/EthermintEvm'', ''substrate/FrontierEvm'', ''substrate/AcalaEvm'', ''substrate/Moonbeam'']"

definition validateCustomDsDs :: "SubqlDatasource \<Rightarrow> bool" where
  "validateCustomDsDs d = List.member CUSTOM_EVM_HANDLERS (ds_kind d)"

definition assetMissing :: "string \<Rightarrow> string" where
  "assetMissing abiName = ''Asset: \"'' @ abiName @ ''\" not found in project''"

text \<open>The first topic the ABI does not know.\<close>

fun findUnknown :: "ethers \<Rightarrow> string list \<Rightarrow> string js list \<Rightarrow> js_error + string option" where
  "findUnknown E abiEvents [] = Inr None"
| "findUnknown E abiEvents (Val topic # ts) =
     (if topic = [] \<or> topic = NOT_NULL_FILTER then findUnknown E abiEvents ts
      else bindE (eventFormat E (removeIndexed topic)) (\<lambda>f.
        if List.member abiEvents f then findUnknown E abiEvents ts else Inr (Some topic)))"
| "findUnknown E abiEvents (_ # ts) = findUnknown E abiEvents ts"

text \<open>The issues a handler adds to those of the topics and of the functions.\<close>

definition checkHandler ::
    "ethers \<Rightarrow> string list \<Rightarrow> string list \<Rightarrow> string list \<times> string list \<Rightarrow> SubqlHandler
      \<Rightarrow> js_error + string list \<times> string list" where
  "checkHandler E abiEvents abiFunctions = (\<lambda>(topicIssues, funcIssues) h.
     (case h of
        EventHandler _ (Val f) \<Rightarrow>
          (case topics f of
             Val ts \<Rightarrow> bindE (findUnknown E abiEvents ts) (\<lambda>notMatch.
               case notMatch of
                 Some topic \<Rightarrow> Inr (topicIssues @ [topic], funcIssues)
               | None \<Rightarrow> Inr (topicIssues, funcIssues))
           | _ \<Rightarrow> Inr (topicIssues, funcIssues))
      | CallHandler _ (Val f) \<Rightarrow>
          (case tf_function f of
             Val signature \<Rightarrow>
               (if signature = [] then Inr (topicIssues, funcIssues)
                else bindE (functionFormat E signature) (\<lambda>functionFormat.
                  if List.member abiFunctions functionFormat then Inr (topicIssues, funcIssues)
                  else Inr (topicIssues, funcIssues @ [signature])))
           | _ \<Rightarrow> Inr (topicIssues, funcIssues))
      | _ \<Rightarrow> Inr (topicIssues, funcIssues)))"

definition issueTexts :: "string \<Rightarrow> string list \<Rightarrow> string list \<Rightarrow> string list \<times> string list \<Rightarrow> string list" where
  "issueTexts abiName abiEvents abiFunctions = (\<lambda>(topicIssues, funcIssues).
     (if topicIssues = [] then []
      else [''Topic: \"'' @ join '', '' topicIssues @ ''\" not found in '' @ abiName @
        '' contract interface, supported topics: '' @ join '', '' abiEvents]) @
     (if funcIssues = [] then []
      else [''Function: \"'' @ join '', '' funcIssues @ ''\" not found in '' @ abiName @
        '' contract interface, supported functions: '' @ join '', '' abiFunctions]))"

definition assetFile :: "SubqlDatasource \<Rightarrow> string \<Rightarrow> string option" where
  "assetFile ds abiName = (case ds_assets ds of Val entries \<Rightarrow> map_of entries abiName | _ \<Rightarrow> None)"

definition assetText :: "('i, 'x) codegenLib_scheme \<Rightarrow> string \<Rightarrow> SubqlDatasource \<Rightarrow> string \<Rightarrow> string option" where
  "assetText L projectPath ds abiName =
     (case assetFile ds abiName of
        None \<Rightarrow> None
      | Some file \<Rightarrow> (case readFile L (join_path L [projectPath, file]) of Inl _ \<Rightarrow> None | Inr txt \<Rightarrow> Some txt))"

definition parsedAbi :: "('i, 'x) abiLib_scheme \<Rightarrow> string \<Rightarrow> js_error + 'i" where
  "parsedAbi L txt = bindE (JSON_parse L txt) (\<lambda>j. bindE (unwrapArtifact j) (newInterface L))"

definition abiIssues ::
    "('i, 'x) codegenLib_scheme \<Rightarrow> ethers \<Rightarrow> string \<Rightarrow> SubqlDatasource \<Rightarrow> js_error + string list" where
  "abiIssues L E projectPath ds =
     (case ds_abi ds of
        Val abiName \<Rightarrow>
          (if abiName = [] then Inr []
           else case assetText L projectPath ds abiName of
             None \<Rightarrow> Inr [assetMissing abiName]
           | Some data \<Rightarrow>
               bindE (parsedAbi L data) (\<lambda>iface.
                 bindE (foldE (checkHandler E (eventFormats L iface) (functionFormats L iface)) ([], []) (ds_handlers ds))
                   (\<lambda>found. Inr (issueTexts abiName (eventFormats L iface) (functionFormats L iface) found))))
      | _ \<Rightarrow> Inr [])"

definition AssertionError :: "string \<Rightarrow> js_error" where
  "AssertionError m = (Error m)\<lparr>err_name := ''AssertionError'', code := Some (CodeStr ''ERR_ASSERTION'')\<rparr>"

definition validateAbi ::
    "('i, 'x) codegenLib_scheme \<Rightarrow> ethers \<Rightarrow> SubqlDatasource list \<Rightarrow> string \<Rightarrow> js_error + unit" where
  "validateAbi L E datasources projectPath =
     bindE (foldE (\<lambda>issues ds. bindE (abiIssues L E projectPath ds) (\<lambda>new. Inr (issues @ new))) [] datasources)
       (\<lambda>issues. if issues = [] then Inr () else Inl (AssertionError (join [CHR 0x0A] issues)))"

section \<open>The ABI files of a project\<close>

definition addAsset ::
    "('i, 'x) codegenLib_scheme \<Rightarrow> string \<Rightarrow> (string \<times> string) list \<Rightarrow> string \<times> string
      \<Rightarrow> js_error + (string \<times> string) list" where
  "addAsset L projectPath sortedAssets = (\<lambda>(name, file).
     (let filePath = join_path L [projectPath, file]
      in if existsSync L filePath then Inr (obj_set (contractName L filePath) file sortedAssets)
         else Inl (Error (''Error: Asset '' @ name @ '', file '' @ file @ '' does not exist''))))"

definition prepareSortedAssets ::
    "('i, 'x) codegenLib_scheme \<Rightarrow> SubqlDatasource list \<Rightarrow> string \<Rightarrow> js_error + (string \<times> string) list" where
  "prepareSortedAssets L datasources projectPath =
     foldE (\<lambda>sortedAssets d.
       case ds_assets d of
         Val entries \<Rightarrow>
           (if \<not> isRuntimeDs d \<and> \<not> isCustomDs d \<and> \<not> validateCustomDsDs d then Inr sortedAssets
            else foldE (addAsset L projectPath) sortedAssets entries)
       | _ \<Rightarrow> Inr sortedAssets) [] datasources"

section \<open>The generated interfaces\<close>

text \<open>\<open>replace(/\[\]/g, '_arr')\<close>\<close>

fun arraySuffix :: "string \<Rightarrow> string" where
  "arraySuffix (CHR ''['' # CHR '']'' # s) = ''_arr'' @ arraySuffix s"
| "arraySuffix (c # s) = c # arraySuffix s"
| "arraySuffix [] = []"

definition joinInputAbiName :: "AbiInterface \<Rightarrow> string" where
  "joinInputAbiName abiObject =
     ai_name abiObject @ ''_'' @
     join ''_'' (map (\<lambda>obj. toLowerCase (arraySuffix (input_type obj))) (ai_inputs abiObject)) @ ''_''"

fun inputsToArgs :: "AbiInput list \<Rightarrow> string" and argOf :: "AbiInput \<Rightarrow> string" where
  "inputsToArgs inputs = ''('' @ join '','' (map argOf inputs) @ '')''"
| "argOf (AbiInput n t it cs) =
     (case cs of
        Val inner \<Rightarrow> (if t = ''tuple[]'' then inputsToArgs inner @ ''[]'' else inputsToArgs inner)
      | _ \<Rightarrow> toLowerCase t)"

text \<open>\<open>filter((name, index, arr) => arr.indexOf(name) !== index)\<close>\<close>

definition firstIndex :: "'a list \<Rightarrow> 'a \<Rightarrow> nat" where
  "firstIndex xs x = length (takeWhile (\<lambda>y. y \<noteq> x) xs)"

definition duplicateNames :: "string list \<Rightarrow> string list" where
  "duplicateNames arr = map fst (filter (\<lambda>(name, index). firstIndex arr name \<noteq> index) (zip arr [0..<length arr]))"

definition namesOfType :: "string \<Rightarrow> AbiInterface list \<Rightarrow> string list" where
  "namesOfType ty abiArray = map ai_name (filter (\<lambda>abiObject. ai_type abiObject = ty) abiArray)"

definition addEntry :: "string list \<Rightarrow> string list \<Rightarrow> AbiRenderProps \<Rightarrow> AbiInterface \<Rightarrow> AbiRenderProps" where
  "addEntry duplicateFunctionNames duplicateEventNames renderProps abiObject =
     (if ai_type abiObject = ''function'' then
        (let (typeName, functionName) =
           (if List.member duplicateFunctionNames (ai_name abiObject)
            then (joinInputAbiName abiObject, ai_name abiObject @ inputsToArgs (ai_inputs abiObject))
            else (ai_name abiObject, ai_name abiObject))
         in renderProps\<lparr>rp_functions := rp_functions renderProps @ [(typeName, functionName)]\<rparr>)
      else if ai_type abiObject = ''event'' then
        renderProps\<lparr>rp_events := rp_events renderProps @
          [if List.member duplicateEventNames (ai_name abiObject) then joinInputAbiName abiObject else ai_name abiObject]\<rparr>
      else renderProps)"

definition abiEntries :: "ReadAbi \<Rightarrow> js_error + AbiInterface list" where
  "abiEntries readAbi =
     (case readAbi of
        AbiArray a \<Rightarrow> Inr a
      | Artifact (Some a) \<Rightarrow> Inr a
      | Artifact None \<Rightarrow> Inl (Error ''Provided ABI is not a valid ABI or Artifact''))"

definition emptyAbi :: "string \<Rightarrow> string \<Rightarrow> js_error" where
  "emptyAbi key file = Error (''Invalid abi is provided at asset: '' @ key @ '', '' @ file @ '', 0'')"

definition abiJob :: "string \<Rightarrow> string \<Rightarrow> ReadAbi \<Rightarrow> js_error + AbiRenderProps" where
  "abiJob key file readAbi =
     bindE (abiEntries readAbi) (\<lambda>abiArray.
       if abiArray = [] then Inl (emptyAbi key file)
       else Inr (foldl (addEntry (duplicateNames (namesOfType ''function'' abiArray))
                                 (duplicateNames (namesOfType ''event'' abiArray)))
                  \<lparr>rp_name = key, rp_events = [], rp_functions = []\<rparr> abiArray))"

definition prepareAbiJob ::
    "('i, 'x) codegenLib_scheme \<Rightarrow> (string \<times> string) list \<Rightarrow> string \<Rightarrow> js_error + AbiRenderProps list" where
  "prepareAbiJob L sortedAssets projectPath =
     foldE (\<lambda>jobs (key, file).
       bindE (loadReadAbi L (join_path L [projectPath, file])) (\<lambda>readAbi.
         bindE (abiJob key file readAbi) (\<lambda>renderProps. Inr (jobs @ [renderProps]))))
       [] sortedAssets"

text \<open>\<open>path.parse(file).name\<close> of a file in a directory listing: the name up to its last dot, when that
  is not its first character.\<close>

definition fileStem :: "string \<Rightarrow> string" where
  "fileStem f =
     (let ext = takeWhile (\<lambda>c. c \<noteq> CHR ''.'') (rev f)
      in if length f \<le> Suc (length ext) then f else take (length f - Suc (length ext)) f)"

text \<open>\<open>s.replace(p, '')\<close>\<close>

definition removeFirst :: "string \<Rightarrow> string \<Rightarrow> string" where
  "removeFirst p s = (case indexOf s p of None \<Rightarrow> s | Some i \<Rightarrow> take i s @ drop (i + length p) s)"

definition getAbiNames :: "string list \<Rightarrow> string list" where
  "getAbiNames files =
     map (\<lambda>fileName. removeFirst ''__factory'' (fileStem fileName)) (filter (\<lambda>filename. filename \<noteq> ''index.ts'') files)"

section \<open>Writing the interfaces\<close>

datatype codegenEffect =
    PrepareDir string bool
  | TypeChain string
  | RenderFactories string "string list"
  | RenderContracts string "string list"
  | RenderInterface string AbiRenderProps
  | LogError string

type_synonym 'a writing = "(js_error + 'a) \<times> codegenEffect list"

definition thenW :: "'a writing \<Rightarrow> ('a \<Rightarrow> 'b writing) \<Rightarrow> 'b writing" where
  "thenW m f = (case m of
     (Inl e, w) \<Rightarrow> (Inl e, w)
   | (Inr x, w) \<Rightarrow> (case f x of (r, w') \<Rightarrow> (r, w @ w')))"

definition pureW :: "js_error + 'a \<Rightarrow> 'a writing" where
  "pureW r = (r, [])"

text \<open>\<open>Promise.all\<close> of calls that all start; of several that fail the first in the list is reported.\<close>

definition allOf :: "(codegenEffect \<times> (js_error + unit)) list \<Rightarrow> unit writing" where
  "allOf calls = (bindE (mapE snd calls) (\<lambda>_. Inr ()), map fst calls)"

definition ABI_INTERFACES_ROOT_DIR :: string where
  "ABI_INTERFACES_ROOT_DIR = ''src/types/abi-interfaces''"

definition CONTRACTS_DIR :: string where
  "CONTRACTS_DIR = ''src/types/contracts''"

definition FACTORIES_DIR :: string where
  "FACTORIES_DIR = ''src/types/contracts/factories''"

definition writeInterfaces ::
    "('i, 'x) codegenLib_scheme \<Rightarrow> (string \<times> string) list \<Rightarrow> string \<Rightarrow> unit writing" where
  "writeInterfaces L sortedAssets projectPath =
     thenW (pureW (globFiles L projectPath (map snd sortedAssets))) (\<lambda>allFiles.
     thenW (allOf (map (\<lambda>file. (TypeChain file, runTypeChain L file)) allFiles)) (\<lambda>_.
     thenW (pureW (readdirSync L (join_path L [projectPath, FACTORIES_DIR]))) (\<lambda>factoryFiles.
     let abiNames = getAbiNames factoryFiles;
         factoriesIndex = join_path L [projectPath, FACTORIES_DIR, ''index.ts''];
         contractsIndex = join_path L [projectPath, CONTRACTS_DIR, ''index.ts'']
     in
     thenW (allOf [(RenderFactories factoriesIndex abiNames, renderTemplate L factoriesIndex),
                     (RenderContracts contractsIndex abiNames, renderTemplate L contractsIndex)]) (\<lambda>_.
     thenW (pureW (prepareAbiJob L sortedAssets projectPath)) (\<lambda>renderAbiJobs.
     allOf (map (\<lambda>renderProps.
       let target = join_path L [projectPath, ABI_INTERFACES_ROOT_DIR, rp_name renderProps @ ''.ts'']
       in (RenderInterface target renderProps, renderTemplate L target)) renderAbiJobs))))))"

text \<open>The command line tool passes the assets as an object, which becomes a map; both are association
  lists here.\<close>

definition withAssetMap :: "SubqlDatasource \<Rightarrow> SubqlDatasource" where
  "withAssetMap d = d\<lparr>ds_assets := (case ds_assets d of Val entries \<Rightarrow> Val entries | _ \<Rightarrow> Undefined)\<rparr>"

definition generateAbis ::
    "('i, 'x) codegenLib_scheme \<Rightarrow> ethers \<Rightarrow> SubqlDatasource list \<Rightarrow> string \<Rightarrow> unit writing" where
  "generateAbis L E dss projectPath =
     (let datasources = map withAssetMap dss;
          interfacesDir = join_path L [projectPath, ABI_INTERFACES_ROOT_DIR]
      in thenW (pureW (validateAbi L E datasources projectPath)) (\<lambda>_.
         thenW (pureW (prepareSortedAssets L datasources projectPath)) (\<lambda>sortedAssets.
         if sortedAssets = [] then allOf [(PrepareDir interfacesDir False, prepareDirPath L interfacesDir False)]
         else thenW (allOf [(PrepareDir interfacesDir True, prepareDirPath L interfacesDir True)]) (\<lambda>_.
           case writeInterfaces L sortedAssets projectPath of
             (Inr _, effects) \<Rightarrow> (Inr (), effects)
           | (Inl e, effects) \<Rightarrow>
               (Inr (), effects @ [LogError (''! Unable to generate abi interface. '' @ message e)])))))"

section \<open>Which projects pass the check\<close>

text \<open>A topic or function of a filter that the ABI has.\<close>

definition knownTopic :: "ethers \<Rightarrow> string list \<Rightarrow> string js \<Rightarrow> bool" where
  "knownTopic E abiEvents t =
     (case t of
        Val topic \<Rightarrow> topic = [] \<or> topic = NOT_NULL_FILTER \<or>
          (case eventFormat E (removeIndexed topic) of Inr f \<Rightarrow> List.member abiEvents f | Inl _ \<Rightarrow> False)
      | _ \<Rightarrow> True)"

definition knownHandler :: "ethers \<Rightarrow> string list \<Rightarrow> string list \<Rightarrow> SubqlHandler \<Rightarrow> bool" where
  "knownHandler E abiEvents abiFunctions h =
     (case h of
        EventHandler _ (Val f) \<Rightarrow> (case topics f of Val ts \<Rightarrow> list_all (knownTopic E abiEvents) ts | _ \<Rightarrow> True)
      | CallHandler _ (Val f) \<Rightarrow>
          (case tf_function f of
             Val signature \<Rightarrow> signature = [] \<or>
               (case functionFormat E signature of Inr g \<Rightarrow> List.member abiFunctions g | Inl _ \<Rightarrow> False)
           | _ \<Rightarrow> True)
      | _ \<Rightarrow> True)"

definition abiCovers :: "('i, 'x) codegenLib_scheme \<Rightarrow> ethers \<Rightarrow> string \<Rightarrow> SubqlDatasource \<Rightarrow> bool" where
  "abiCovers L E projectPath ds =
     (case ds_abi ds of
        Val abiName \<Rightarrow> abiName = [] \<or>
          (case assetText L projectPath ds abiName of
             None \<Rightarrow> False
           | Some data \<Rightarrow>
               (case parsedAbi L data of
                  Inl _ \<Rightarrow> False
                | Inr i \<Rightarrow> list_all (knownHandler E (eventFormats L i) (functionFormats L i)) (ds_handlers ds)))
      | _ \<Rightarrow> True)"

lemma findUnknown_None: "findUnknown E abiEvents ts = Inr None \<longleftrightarrow> list_all (knownTopic E abiEvents) ts"
proof (induction ts)
  case (Cons t ts)
  then show ?case
    by (cases t) (auto simp: knownTopic_def bindE_eq_Inr_iff split: sum.splits)
qed simp

lemma checkHandler_mono:
  assumes "checkHandler E evs fns (a, b) h = Inr (a', b')"
  shows "(knownHandler E evs fns h \<longrightarrow> a' = a \<and> b' = b) \<and> (\<not> knownHandler E evs fns h \<longrightarrow> a' \<noteq> [] \<or> b' \<noteq> []) \<and>
    (a \<noteq> [] \<longrightarrow> a' \<noteq> []) \<and> (b \<noteq> [] \<longrightarrow> b' \<noteq> [])"
  using assms
  by (auto simp: checkHandler_def knownHandler_def bindE_eq_Inr_iff findUnknown_None [symmetric]
      split: SubqlHandler.splits js.splits option.splits if_splits sum.splits)

lemma checkHandler_known:
  "knownHandler E evs fns h \<Longrightarrow> checkHandler E evs fns (a, b) h = Inr (a, b)"
  by (auto simp: checkHandler_def knownHandler_def findUnknown_None [symmetric]
      split: SubqlHandler.splits js.splits sum.splits)

lemma checkHandlers_from_Nil: "foldE (checkHandler E evs fns) p hs = Inr ([], []) \<Longrightarrow> p = ([], [])"
proof (induction hs arbitrary: p)
  case (Cons h hs)
  obtain q where q: "checkHandler E evs fns p h = Inr q" "foldE (checkHandler E evs fns) q hs = Inr ([], [])"
    using Cons.prems by (auto split: sum.splits)
  with Cons.IH have "q = ([], [])" by blast
  with q(1) show ?case using checkHandler_mono [of E evs fns "fst p" "snd p" h "[]" "[]"] by (cases p) auto
qed simp

lemma checkHandlers_Nil:
  "foldE (checkHandler E evs fns) ([], []) hs = Inr ([], []) \<longleftrightarrow> list_all (knownHandler E evs fns) hs"
proof (induction hs)
  case (Cons h hs)
  show ?case
  proof (cases "knownHandler E evs fns h")
    case True
    with Cons show ?thesis by (simp add: checkHandler_known)
  next
    case False
    have "checkHandler E evs fns ([], []) h \<noteq> Inr ([], [])"
      using False checkHandler_mono [of E evs fns "[]" "[]" h "[]" "[]"] by auto
    then have "foldE (checkHandler E evs fns) ([], []) (h # hs) \<noteq> Inr ([], [])"
      using checkHandlers_from_Nil by (auto split: sum.splits)
    with False show ?thesis by simp
  qed
qed simp

lemma abiIssues_Nil: "abiIssues L E projectPath ds = Inr [] \<longleftrightarrow> abiCovers L E projectPath ds"
proof -
  have texts: "issueTexts n evs fns found = [] \<longleftrightarrow> found = ([], [])" for n evs fns found
    by (cases found) (simp add: issueTexts_def)
  have "bindE (foldE (checkHandler E evs fns) ([], []) hs) (\<lambda>found. Inr (issueTexts n evs fns found)) = Inr [] \<longleftrightarrow>
      list_all (knownHandler E evs fns) hs" for n evs fns hs
    using checkHandlers_Nil [of E evs fns hs] by (auto simp: bindE_eq_Inr_iff texts)
  then show ?thesis
    by (auto simp: abiIssues_def abiCovers_def bindE_eq_Inr_iff split: js.splits option.splits sum.splits)
qed

lemma collect_grows: "foldE (\<lambda>acc x. bindE (f x) (\<lambda>new. Inr (acc @ new))) acc xs = Inr [] \<Longrightarrow> acc = []"
  by (induction xs arbitrary: acc) (force split: sum.splits simp: bindE_eq_Inr_iff)+

lemma collect_Nil:
  "foldE (\<lambda>acc x. bindE (f x) (\<lambda>new. Inr (acc @ new))) [] xs = Inr [] \<longleftrightarrow> list_all (\<lambda>x. f x = Inr []) xs"
proof (induction xs)
  case (Cons x xs)
  show ?case
  proof (cases "f x")
    case (Inr new)
    with Cons collect_grows [of f new xs] show ?thesis by (cases "new = []") auto
  qed simp
qed simp

lemma validateAbi_iff: "validateAbi L E dss projectPath = Inr () \<longleftrightarrow> list_all (abiCovers L E projectPath) dss"
proof -
  have "validateAbi L E dss projectPath = Inr () \<longleftrightarrow>
      foldE (\<lambda>issues ds. bindE (abiIssues L E projectPath ds) (\<lambda>new. Inr (issues @ new))) [] dss = Inr []"
    by (auto simp: validateAbi_def bindE_eq_Inr_iff split: if_splits)
  then show ?thesis by (simp add: collect_Nil abiIssues_Nil)
qed

text \<open>C26. Code generation accepts a project exactly when every data source that names an ABI has that asset,
  its file can be read and parsed, and every topic and function of its handlers' filters (empty topics and
  \<open>!null\<close> aside) parses as a signature that the ABI has.\<close>

theorem codegen_accepts:
  "validateAbi L E dss projectPath = Inr () \<longleftrightarrow> list_all (abiCovers L E projectPath) dss"
  by (rule validateAbi_iff)

text \<open>A filter may also hold a topic or a function as hexadecimal data: the interfaces document the sighash
  and \<open>0x\<close> for a function, and the later topics of a log are data. Code generation refuses such a
  project, because such a text, which has no parameter list, is parsed as a signature all the same.\<close>

theorem codegen_rejects_hex_filters:
  assumes "\<And>s. CHR ''('' \<notin> set s \<Longrightarrow> isl (functionFormat E s)"
    and "ds \<in> set dss" and "ds_abi ds = Val abiName" and "abiName \<noteq> []"
    and "CallHandler handler (Val f) \<in> set (ds_handlers ds)" and "tf_function f = Val signature"
    and "signature \<noteq> []" and "CHR ''('' \<notin> set signature"
  shows "isl (validateAbi L E dss projectPath)"
proof -
  have "\<not> knownHandler E evs fns (CallHandler handler (Val f))" for evs fns
    using assms(1) [OF assms(8)] assms(6,7) by (auto simp: knownHandler_def split: sum.splits)
  then have "\<not> list_all (knownHandler E evs fns) (ds_handlers ds)" for evs fns
    using assms(5) by (auto simp: list_all_iff)
  then have "\<not> abiCovers L E projectPath ds"
    using assms(3,4) by (simp add: abiCovers_def split: option.splits sum.splits)
  with assms(2) have "validateAbi L E dss projectPath \<noteq> Inr ()"
    by (auto simp: validateAbi_iff list_all_iff)
  then show ?thesis by (cases "validateAbi L E dss projectPath") auto
qed

section \<open>Which ABI files are used\<close>

text \<open>The entries of the assets of the data sources that count, in order.\<close>

definition assetEntries :: "SubqlDatasource list \<Rightarrow> (string \<times> string) list" where
  "assetEntries dss = concat (map (\<lambda>d. case ds_assets d of
     Val entries \<Rightarrow> if isRuntimeDs d \<or> isCustomDs d \<or> validateCustomDsDs d then entries else []
   | _ \<Rightarrow> []) dss)"

definition presentAsset :: "('i, 'x) codegenLib_scheme \<Rightarrow> string \<Rightarrow> string \<times> string \<Rightarrow> bool" where
  "presentAsset L projectPath = (\<lambda>(name, file). existsSync L (join_path L [projectPath, file]))"

definition contractOf :: "('i, 'x) codegenLib_scheme \<Rightarrow> string \<Rightarrow> string \<times> string \<Rightarrow> string \<times> string" where
  "contractOf L projectPath = (\<lambda>(name, file). (contractName L (join_path L [projectPath, file]), file))"

lemma foldE_append: "foldE f s (xs @ ys) = bindE (foldE f s xs) (\<lambda>t. foldE f t ys)"
  by (induction xs arbitrary: s) (auto split: sum.splits)

lemma prepareSortedAssets_entries:
  "prepareSortedAssets L dss projectPath = foldE (addAsset L projectPath) [] (assetEntries dss)"
proof -
  have "foldE (\<lambda>s d. case ds_assets d of
         Val entries \<Rightarrow>
           (if \<not> isRuntimeDs d \<and> \<not> isCustomDs d \<and> \<not> validateCustomDsDs d then Inr s
            else foldE (addAsset L projectPath) s entries)
       | _ \<Rightarrow> Inr s) t dss = foldE (addAsset L projectPath) t (assetEntries dss)" for t
  proof (induction dss arbitrary: t)
    case (Cons d dss)
    then show ?case
      by (cases "ds_assets d") (auto simp: assetEntries_def foldE_append split: sum.splits)
  qed (simp add: assetEntries_def)
  then show ?thesis by (simp add: prepareSortedAssets_def)
qed

lemma addAssets_present:
  assumes "list_all (presentAsset L projectPath) es"
  shows "foldE (addAsset L projectPath) s es =
    Inr (foldl (\<lambda>o' (k, v). obj_set k v o') s (map (contractOf L projectPath) es))"
  using assms by (induction es arbitrary: s) (auto simp: addAsset_def presentAsset_def contractOf_def Let_def)

lemma addAssets_missing:
  assumes "\<not> list_all (presentAsset L projectPath) es"
  shows "isl (foldE (addAsset L projectPath) s es)"
  using assms
  by (induction es arbitrary: s) (auto simp: addAsset_def presentAsset_def Let_def split: if_splits sum.splits)

lemma spread_map_of:
  "map_of (foldl (\<lambda>o' (k, v). obj_set k v o') s es) k =
    (case map_of (rev es) k of Some v \<Rightarrow> Some v | None \<Rightarrow> map_of s k)"
  by (induction es arbitrary: s) (auto simp: map_add_def split: option.split prod.split)

text \<open>The ABI files of a project: the assets are rejected exactly when a file is missing; otherwise the
  file used under a contract name is that of the last asset whose file has this name, so of two files with
  one name in different directories only the last gets an interface.\<close>

theorem sorted_assets_by_file_name:
  "case prepareSortedAssets L dss projectPath of
     Inl _ \<Rightarrow> \<not> list_all (presentAsset L projectPath) (assetEntries dss)
   | Inr byName \<Rightarrow> list_all (presentAsset L projectPath) (assetEntries dss) \<and> distinct (map fst byName) \<and>
       map_of byName = map_of (rev (map (contractOf L projectPath) (assetEntries dss)))"
proof (cases "list_all (presentAsset L projectPath) (assetEntries dss)")
  case True
  let ?es = "map (contractOf L projectPath) (assetEntries dss)"
  let ?byName = "foldl (\<lambda>o' (k, v). obj_set k v o') [] ?es"
  have "prepareSortedAssets L dss projectPath = Inr ?byName"
    unfolding prepareSortedAssets_entries by (rule addAssets_present [OF True])
  moreover have "distinct (map fst s) \<Longrightarrow> distinct (map fst (foldl (\<lambda>o' (k, v). obj_set k v o') s es))" for s es
    by (induction es arbitrary: s) (auto split: prod.split)
  from this [of "[]"] have "distinct (map fst ?byName)" by simp
  moreover have "map_of ?byName = map_of (rev ?es)"
    by (rule ext) (simp add: spread_map_of split: option.split)
  ultimately show ?thesis using True by simp
next
  case False
  then show ?thesis
    using addAssets_missing [OF False, of "[]"] by (auto simp: prepareSortedAssets_entries split: sum.splits)
qed

section \<open>The entries of an interface\<close>

lemma firstIndex_less: "x \<in> set xs \<Longrightarrow> firstIndex xs x < length xs"
  by (induction xs) (auto simp: firstIndex_def)

lemma firstIndex_snoc:
  "x \<in> set xs \<Longrightarrow> firstIndex (xs @ [y]) x = firstIndex xs x"
  "x \<notin> set xs \<Longrightarrow> firstIndex (xs @ [x]) x = length xs"
  by (induction xs) (auto simp: firstIndex_def)

lemma duplicateNames_snoc:
  "duplicateNames (xs @ [x]) = duplicateNames xs @ (if x \<in> set xs then [x] else [])"
proof -
  have "filter (\<lambda>(name, index). firstIndex (xs @ [x]) name \<noteq> index) (zip xs [0..<length xs]) =
      filter (\<lambda>(name, index). firstIndex xs name \<noteq> index) (zip xs [0..<length xs])"
    by (rule filter_cong) (auto dest: set_zip_leftD simp: firstIndex_snoc)
  moreover have "firstIndex (xs @ [x]) x \<noteq> length xs \<longleftrightarrow> x \<in> set xs"
    using firstIndex_less [of x xs] by (cases "x \<in> set xs") (simp_all add: firstIndex_snoc)
  ultimately show ?thesis by (simp add: duplicateNames_def)
qed

lemma duplicateNames_iff: "x \<in> set (duplicateNames xs) \<longleftrightarrow> 1 < count_list xs x"
proof (induction xs rule: rev_induct)
  case (snoc y xs)
  have "x \<in> set xs \<longleftrightarrow> 0 < count_list xs x" using count_list_0_iff [of xs x] by auto
  with snoc show ?case by (auto simp: duplicateNames_snoc)
qed (simp add: duplicateNames_def)

text \<open>The names the source's comment asks for: an event or function keeps its name unless another entry of
  its type has it too.\<close>

definition eventName :: "AbiInterface list \<Rightarrow> AbiInterface \<Rightarrow> string" where
  "eventName abi obj =
     (if 1 < count_list (namesOfType ''event'' abi) (ai_name obj) then joinInputAbiName obj else ai_name obj)"

definition functionNames :: "AbiInterface list \<Rightarrow> AbiInterface \<Rightarrow> string \<times> string" where
  "functionNames abi obj =
     (if 1 < count_list (namesOfType ''function'' abi) (ai_name obj)
      then (joinInputAbiName obj, ai_name obj @ inputsToArgs (ai_inputs obj)) else (ai_name obj, ai_name obj))"

definition interfaceEntries :: "string \<Rightarrow> AbiInterface list \<Rightarrow> AbiRenderProps" where
  "interfaceEntries key abi =
     \<lparr>rp_name = key, rp_events = map (eventName abi) (filter (\<lambda>x. ai_type x = ''event'') abi),
      rp_functions = map (functionNames abi) (filter (\<lambda>x. ai_type x = ''function'') abi)\<rparr>"

lemma addEntries:
  "foldl (addEntry (duplicateNames (namesOfType ''function'' abi)) (duplicateNames (namesOfType ''event'' abi))) p xs =
     p\<lparr>rp_events := rp_events p @ map (eventName abi) (filter (\<lambda>x. ai_type x = ''event'') xs),
       rp_functions := rp_functions p @ map (functionNames abi) (filter (\<lambda>x. ai_type x = ''function'') xs)\<rparr>"
  by (induction xs arbitrary: p)
    (auto simp: addEntry_def eventName_def functionNames_def duplicateNames_iff List.member_iff)

lemma foldE_jobs:
  "foldE (\<lambda>jobs x. bindE (f x) (\<lambda>y. Inr (jobs @ [y]))) acc xs = bindE (mapE f xs) (\<lambda>ys. Inr (acc @ ys))"
  by (induction xs arbitrary: acc) (auto simp: bindE_eq_Inr_iff split: sum.splits)

text \<open>The interfaces that are generated: one per ABI file, under its contract name, with the events and
  the functions of the ABI in its order, where an overloaded one is told apart by its inputs; one that
  is no ABI, or an empty one, is an error.\<close>

theorem abi_jobs:
  "prepareAbiJob L sortedAssets projectPath =
     mapE (\<lambda>(key, file). bindE (loadReadAbi L (join_path L [projectPath, file])) (\<lambda>readAbi.
       bindE (abiEntries readAbi) (\<lambda>abi.
         if abi = [] then Inl (emptyAbi key file) else Inr (interfaceEntries key abi)))) sortedAssets"
proof -
  have job: "abiJob key f readAbi = bindE (abiEntries readAbi) (\<lambda>abi.
      if abi = [] then Inl (emptyAbi key f) else Inr (interfaceEntries key abi))" for key f readAbi
    by (cases "abiEntries readAbi") (simp_all add: abiJob_def addEntries interfaceEntries_def)
  have assoc: "bindE m (\<lambda>x. bindE (f x) g) = bindE (bindE m f) g" for m f g
    by (cases m) simp_all
  have "bindE m Inr = m" for m :: "js_error + AbiRenderProps list"
    by (cases m) simp_all
  then show ?thesis
    unfolding prepareAbiJob_def job case_prod_unfold assoc foldE_jobs by simp
qed

section \<open>The names of overloaded entries\<close>

text \<open>A type as Solidity writes it: a name of letters and digits in lower case that does not begin with
  \<open>arr\<close>, and the dimensions of an array.\<close>

definition base_char :: "char \<Rightarrow> bool" where
  "base_char c = (let n = (of_char c :: nat) in (48 \<le> n \<and> n \<le> 57) \<or> (97 \<le> n \<and> n \<le> 122))"

definition dim_char :: "char \<Rightarrow> bool" where
  "dim_char c = (c = CHR ''['' \<or> c = CHR '']'' \<or> is_digit c)"

definition elementary :: "string \<Rightarrow> bool" where
  "elementary t =
     (let base = takeWhile base_char t; dims = dropWhile base_char t
      in base \<noteq> [] \<and> \<not> startsWith base ''arr'' \<and> list_all dim_char dims)"

text \<open>Reading the types back.\<close>

function readDims :: "string \<Rightarrow> string \<times> string" where
  "readDims s =
     (if startsWith s ''_arr'' then map_prod ((@) ''[]'') id (readDims (drop 4 s))
      else case s of
        [] \<Rightarrow> ([], [])
      | c # s' \<Rightarrow> if dim_char c then map_prod ((#) c) id (readDims s') else ([], s))"
  by auto

termination
  by (relation "measure length") (auto simp: startsWith_iff)

declare readDims.simps [simp del]

lemma readDims_length: "length (snd (readDims s)) \<le> length s"
proof (induction s rule: readDims.induct)
  case (1 s)
  show ?case
  proof (cases "startsWith s ''_arr''")
    case True
    with 1(1) show ?thesis by (simp add: readDims.simps [of s])
  next
    case False
    show ?thesis
    proof (cases s)
      case Nil
      then show ?thesis by (simp add: readDims.simps [of "[]"] startsWith_def)
    next
      case (Cons c s')
      with False 1(2) [OF False Cons] show ?thesis
        by (auto simp: readDims.simps [of "c # s'"] intro: le_SucI)
    qed
  qed
qed

function readTypes :: "string \<Rightarrow> string list" where
  "readTypes s =
     (if s = [] then []
      else (takeWhile base_char s @ fst (readDims (dropWhile base_char s))) #
        readTypes (tl (snd (readDims (dropWhile base_char s)))))"
  by auto

termination
proof (relation "measure length")
  fix s :: string
  assume "s \<noteq> []"
  have "length (tl (snd (readDims (dropWhile base_char s)))) < length s"
  proof (cases "snd (readDims (dropWhile base_char s))")
    case Nil
    with \<open>s \<noteq> []\<close> show ?thesis by simp
  next
    case (Cons c r)
    then show ?thesis
      using readDims_length [of "dropWhile base_char s"] length_dropWhile_le [of base_char s] by simp
  qed
  then show "(tl (snd (readDims (dropWhile base_char s))), s) \<in> measure length" by simp
qed simp

declare readTypes.simps [simp del]

definition readInputs :: "string \<Rightarrow> string \<Rightarrow> string list" where
  "readInputs name s = readTypes (butlast (drop (Suc (length name)) s))"

definition ends_type :: "string \<Rightarrow> bool" where
  "ends_type r \<longleftrightarrow> r = [] \<or> (\<exists>r'. r = CHR ''_'' # r' \<and> \<not> startsWith r' ''arr'')"

lemma dim_not_base: "c = CHR ''['' \<or> c = CHR '']'' \<Longrightarrow> \<not> base_char c"
  by (auto simp: base_char_def)

lemma under_not_dim: "\<not> dim_char (CHR ''_'')" "\<not> base_char (CHR ''_'')"
  by (simp_all add: dim_char_def is_digit_def base_char_def)

lemma readDims_stop: "ends_type r \<Longrightarrow> readDims r = ([], r)"
  by (subst readDims.simps) (auto simp: ends_type_def under_not_dim startsWith_def split: list.split)

lemma readDims_dim: "dim_char c \<Longrightarrow> readDims (c # s) = map_prod ((#) c) id (readDims s)"
  using under_not_dim(1) by (subst readDims.simps) (auto simp: startsWith_def)

lemma readDims_arr: "readDims (''_arr'' @ s) = map_prod ((@) ''[]'') id (readDims s)"
  by (subst readDims.simps) (simp add: startsWith_def)

lemma readDims_arraySuffix:
  assumes "list_all dim_char d" and "ends_type r"
  shows "readDims (arraySuffix d @ r) = (d, r)"
  using assms(1)
proof (induction d rule: arraySuffix.induct)
  case (1 s)
  then show ?case using readDims_arr [of "arraySuffix s @ r"] by simp
qed (use assms(2) in \<open>auto simp: readDims_stop readDims_dim\<close>)

lemma arraySuffix_Cons: "c \<noteq> CHR ''['' \<Longrightarrow> arraySuffix (c # s) = c # arraySuffix s"
  by (cases "c # s" rule: arraySuffix.cases) auto

lemma arraySuffix_base: "list_all base_char b \<Longrightarrow> arraySuffix (b @ d) = b @ arraySuffix d"
proof (induction b)
  case (Cons c b)
  then have "c \<noteq> CHR ''[''" using dim_not_base by auto
  with Cons show ?case by (simp add: arraySuffix_Cons)
qed simp

lemma lower_fixed: "base_char c \<or> dim_char c \<Longrightarrow> lower_char c = c"
  by (auto simp: base_char_def dim_char_def is_digit_def lower_char_def Let_def)

lemma toLowerCase_fixed: "list_all (\<lambda>c. lower_char c = c) s \<Longrightarrow> toLowerCase s = s"
  by (induction s) (auto simp: toLowerCase_def)

lemma arraySuffix_lower: "list_all dim_char d \<Longrightarrow> list_all (\<lambda>c. lower_char c = c) (arraySuffix d)"
  by (induction d rule: arraySuffix.induct) (auto simp: lower_fixed, simp_all add: lower_char_def)

text \<open>The dimensions of an elementary type begin with a bracket.\<close>

lemma elementary_parts:
  assumes "elementary t"
  obtains b d where "t = b @ d" "b \<noteq> []" "list_all base_char b" "\<not> startsWith b ''arr''"
    "list_all dim_char d" "d = [] \<or> \<not> base_char (hd d)"
proof (rule that)
  let ?b = "takeWhile base_char t" and ?d = "dropWhile base_char t"
  show "t = ?b @ ?d" by simp
  show "?b \<noteq> []" "\<not> startsWith ?b ''arr''" "list_all dim_char ?d"
    using assms by (simp_all add: elementary_def Let_def)
  show "list_all base_char ?b" by (auto simp: list_all_iff dest: set_takeWhileD)
  show "?d = [] \<or> \<not> base_char (hd ?d)" using hd_dropWhile [of base_char t] by blast
qed

lemma arraySuffix_hd:
  assumes "d \<noteq> []" and "\<not> base_char (hd d)"
  shows "\<exists>c s. arraySuffix d = c # s \<and> \<not> base_char c"
  using assms under_not_dim by (cases d rule: arraySuffix.cases) auto

lemma encoded_elementary:
  assumes "elementary t"
  obtains b d where "t = b @ d" "b \<noteq> []" "list_all base_char b" "\<not> startsWith b ''arr''" "list_all dim_char d"
    "toLowerCase (arraySuffix t) = b @ arraySuffix d"
    "arraySuffix d = [] \<and> d = [] \<or> arraySuffix d \<noteq> [] \<and> \<not> base_char (hd (arraySuffix d))"
proof -
  obtain b d where t: "t = b @ d" "b \<noteq> []" "list_all base_char b" "\<not> startsWith b ''arr''" "list_all dim_char d"
      "d = [] \<or> \<not> base_char (hd d)"
    using assms by (rule elementary_parts)
  have "list_all (\<lambda>c. lower_char c = c) b"
    using t(3) by (auto simp: list_all_iff lower_fixed)
  with t have "toLowerCase (arraySuffix t) = b @ arraySuffix d"
    by (simp add: arraySuffix_base toLowerCase_append toLowerCase_fixed arraySuffix_lower)
  moreover have "arraySuffix d = [] \<and> d = [] \<or> arraySuffix d \<noteq> [] \<and> \<not> base_char (hd (arraySuffix d))"
    using t(6) arraySuffix_hd [of d] by (cases "d = []") auto
  ultimately show thesis using t by (intro that) auto
qed

lemma base_run:
  assumes "list_all base_char b" and "x = [] \<or> \<not> base_char (hd x)"
  shows "takeWhile base_char (b @ x) = b" "dropWhile base_char (b @ x) = x"
  using assms by (cases x; auto simp: list_all_iff takeWhile_append dropWhile_append)+

lemma base_prefix:
  assumes "startsWith (b @ x) p" and "list_all base_char p" and "x = [] \<or> \<not> base_char (hd x)"
  shows "startsWith b p"
  using assms(1,2)
proof (induction p arbitrary: b)
  case (Cons c p)
  show ?case
  proof (cases b)
    case Nil
    with Cons.prems assms(3) show ?thesis by (auto simp: startsWith_iff)
  next
    case (Cons e b')
    with Cons.prems Cons.IH [of b'] show ?thesis by (auto simp: startsWith_def)
  qed
qed simp

lemma readTypes_step:
  assumes "elementary t" and "ends_type r"
  shows "readTypes (toLowerCase (arraySuffix t) @ r) = t # readTypes (tl r)"
proof -
  obtain b d where t: "t = b @ d" "b \<noteq> []" "list_all base_char b" "list_all dim_char d"
      "toLowerCase (arraySuffix t) = b @ arraySuffix d"
      "arraySuffix d = [] \<and> d = [] \<or> arraySuffix d \<noteq> [] \<and> \<not> base_char (hd (arraySuffix d))"
    using assms(1) by (rule encoded_elementary)
  have "arraySuffix d @ r = [] \<or> \<not> base_char (hd (arraySuffix d @ r))"
    using t(6) assms(2) under_not_dim by (auto simp: ends_type_def)
  note run = base_run [OF t(3) this]
  have "readTypes (b @ arraySuffix d @ r) = (b @ d) # readTypes (tl r)"
    using t(2) by (subst readTypes.simps) (simp add: run readDims_arraySuffix [OF t(4) assms(2)])
  with t(1,5) show ?thesis by simp
qed

lemma ends_type_elementary:
  assumes "elementary t" and "r = [] \<or> hd r = CHR ''_''"
  shows "ends_type (CHR ''_'' # toLowerCase (arraySuffix t) @ r)"
proof -
  obtain b d where t: "\<not> startsWith b ''arr''" "toLowerCase (arraySuffix t) = b @ arraySuffix d"
      "arraySuffix d = [] \<and> d = [] \<or> arraySuffix d \<noteq> [] \<and> \<not> base_char (hd (arraySuffix d))"
    using assms(1) by (rule encoded_elementary)
  have "arraySuffix d @ r = [] \<or> \<not> base_char (hd (arraySuffix d @ r))"
    using t(3) assms(2) under_not_dim by auto
  moreover have "list_all base_char ''arr''" by (simp add: base_char_def)
  ultimately show ?thesis
    using base_prefix [of b "arraySuffix d @ r" "''arr''"] t(1,2) by (auto simp: ends_type_def)
qed

lemma readTypes_join:
  "list_all elementary ts \<Longrightarrow> readTypes (join ''_'' (map (\<lambda>t. toLowerCase (arraySuffix t)) ts)) = ts"
proof (induction ts)
  case Nil
  show ?case by (simp add: readTypes.simps)
next
  case (Cons t ts)
  then have t: "elementary t" by simp
  show ?case
  proof (cases ts)
    case Nil
    then show ?thesis
      using readTypes_step [OF t, of "[]"] by (simp add: ends_type_def readTypes.simps [of "[]"])
  next
    case (Cons u us)
    let ?f = "\<lambda>t. toLowerCase (arraySuffix t)"
    have "elementary u" using Cons Cons.prems by simp
    have "\<exists>r. join ''_'' (map ?f ts) = ?f u @ r \<and> (r = [] \<or> hd r = CHR ''_'')"
      unfolding Cons by (cases us) auto
    then obtain r where r: "join ''_'' (map ?f ts) = ?f u @ r" "r = [] \<or> hd r = CHR ''_''" by blast
    then have "readTypes (?f t @ CHR ''_'' # join ''_'' (map ?f ts)) = t # readTypes (join ''_'' (map ?f ts))"
      using readTypes_step [OF t ends_type_elementary [OF \<open>elementary u\<close> r(2)]] by simp
    with Cons.IH Cons.prems Cons show ?thesis by simp
  qed
qed

text \<open>C33. The name of an overloaded event or function tells its overloads apart: the types of the inputs can
  be read back from it, whenever each is a Solidity type name with the dimensions of an array.\<close>

theorem overload_name_roundtrip:
  assumes "list_all elementary (map input_type (ai_inputs a))"
  shows "readInputs (ai_name a) (joinInputAbiName a) = map input_type (ai_inputs a)"
  using readTypes_join [OF assms] by (simp add: readInputs_def joinInputAbiName_def comp_def)

text \<open>Overloads that differ only in the members of a tuple are not told apart: both get one name, which
  the generated file then declares twice.\<close>

theorem tuple_overloads_collide:
  "abiJob key abiFile (AbiArray
     [\<lparr>ai_name = n, ai_type = ''event'', ai_inputs = [AbiInput p ''tuple'' it cs]\<rparr>,
      \<lparr>ai_name = n, ai_type = ''event'', ai_inputs = [AbiInput q ''tuple'' it' cs']\<rparr>]) =
   Inr \<lparr>rp_name = key, rp_events = [n @ ''_tuple_'', n @ ''_tuple_''], rp_functions = []\<rparr>"
proof -
  have low: "toLowerCase ''tuple'' = ''tuple''" by (rule toLowerCase_fixed) (simp add: lower_char_def)
  have "joinInputAbiName \<lparr>ai_name = n, ai_type = ''event'', ai_inputs = [AbiInput r ''tuple'' jt ds]\<rparr> = n @ ''_tuple_''"
    for r jt ds
    by (simp add: joinInputAbiName_def low)
  then show ?thesis
    unfolding abiJob_def
    by (simp add: abiEntries_def namesOfType_def addEntry_def List.member_iff duplicateNames_iff)
qed

section \<open>The command\<close>

lemma allOf_single: "allOf [(e, r)] = (r, [e])"
  by (cases r) (simp_all add: allOf_def)

text \<open>What the command reports: an ABI that does not fit the handlers or a missing file ends it before
  anything is written; after that its outcome is that of preparing the directory, which comes first, and a
  failure of the generation itself is only logged.\<close>

theorem generation_outcome:
  "case bindE (validateAbi L E (map withAssetMap dss) projectPath)
      (\<lambda>_. prepareSortedAssets L (map withAssetMap dss) projectPath) of
     Inl e \<Rightarrow> generateAbis L E dss projectPath = (Inl e, [])
   | Inr sortedAssets \<Rightarrow>
       fst (generateAbis L E dss projectPath) =
         prepareDirPath L (join_path L [projectPath, ABI_INTERFACES_ROOT_DIR]) (sortedAssets \<noteq> []) \<and>
       hd (snd (generateAbis L E dss projectPath)) =
         PrepareDir (join_path L [projectPath, ABI_INTERFACES_ROOT_DIR]) (sortedAssets \<noteq> [])"
proof (cases "bindE (validateAbi L E (map withAssetMap dss) projectPath)
      (\<lambda>_. prepareSortedAssets L (map withAssetMap dss) projectPath)")
  case (Inl e)
  then show ?thesis
    by (auto simp: generateAbis_def Let_def thenW_def pureW_def split: sum.splits elim: bindE.elims)
next
  case (Inr sa)
  let ?dir = "join_path L [projectPath, ABI_INTERFACES_ROOT_DIR]"
  from Inr have "validateAbi L E (map withAssetMap dss) projectPath = Inr ()"
      "prepareSortedAssets L (map withAssetMap dss) projectPath = Inr sa"
    by (auto simp: bindE_eq_Inr_iff)
  with Inr show ?thesis
    by (cases "prepareDirPath L ?dir (sa \<noteq> [])"; cases "writeInterfaces L sa projectPath"; cases "sa = []")
      (auto simp: generateAbis_def Let_def thenW_def pureW_def allOf_single split: sum.splits)
qed

section \<open>Witnesses\<close>

definition abi_call_ds :: "string \<Rightarrow> SubqlDatasource" where
  "abi_call_ds signature = \<lparr>ds_kind = EthereumDatasourceKind_Runtime,
     ds_options = Val \<lparr>opt_abi = Val ''erc20'', opt_address = Undefined\<rparr>,
     ds_handlers = [CallHandler ''handleCall'' (Val \<lparr>tf_from = Undefined, tf_to = Undefined,
       tf_function = Val signature, tf_type = Undefined\<rparr>)],
     ds_assets = Val [(''erc20'', ''abis/erc20.json'')], ds_processor = None\<rparr>"

definition sample_codegenLib :: "string list codegenLib" where
  "sample_codegenLib =
     \<lparr>JSON_parse = (\<lambda>s. Inr (JArr [JStr s])), newInterface = (\<lambda>j. Inr [''transfer(address,uint256)'']),
      iface_parseLog = (\<lambda>i l. Inl (Error ''no event'')), iface_getFunction = (\<lambda>i s. Inl (Error ''no function'')),
      decodeFunctionData = (\<lambda>i f s. Inl (Error ''no data'')), readFile = Inr,
      functionFormats = id, eventFormats = (\<lambda>i. []), join_path = join ''/'', existsSync = (\<lambda>p. True),
      contractName = id, loadReadAbi = (\<lambda>p. Inr (AbiArray [])), globFiles = (\<lambda>p fs. Inr fs),
      readdirSync = (\<lambda>p. Inr []), prepareDirPath = (\<lambda>p b. Inr ()), runTypeChain = (\<lambda>p. Inr ()),
      renderTemplate = (\<lambda>p. Inr ())\<rparr>"

text \<open>The same project passes with the signature in place of \<open>0x\<close>.\<close>

theorem codegen_rejects_hex_filters_witness:
  "validateAbi sample_codegenLib sample_ethers [abi_call_ds ''transfer(address,uint256)''] ''/project'' = Inr () \<and>
   isl (validateAbi sample_codegenLib sample_ethers [abi_call_ds ''0x''] ''/project'')"
proof
  show "validateAbi sample_codegenLib sample_ethers [abi_call_ds ''transfer(address,uint256)''] ''/project'' = Inr ()"
    by code_simp
  show "isl (validateAbi sample_codegenLib sample_ethers [abi_call_ds ''0x''] ''/project'')"
  proof (rule codegen_rejects_hex_filters [where ds = "abi_call_ds ''0x''" and abiName = "''erc20''"
        and handler = "''handleCall''" and signature = "''0x''"
        and f = "\<lparr>tf_from = Undefined, tf_to = Undefined, tf_function = Val ''0x'', tf_type = Undefined\<rparr>"])
    show "isl (functionFormat sample_ethers s)" if "CHR ''('' \<notin> set s" for s
      using that by (auto simp: sample_ethers_def includes_str_iff)
  qed (simp_all add: abi_call_ds_def ds_abi_def)
qed

definition transfer_event :: AbiInterface where
  "transfer_event = \<lparr>ai_name = ''Sent'', ai_type = ''event'',
     ai_inputs = [AbiInput ''to'' ''address'' Undefined Undefined, AbiInput ''ids'' ''uint256[3][]'' Undefined Undefined]\<rparr>"

theorem overload_name_roundtrip_witness:
  "joinInputAbiName transfer_event = ''Sent_address_uint256[3]_arr_'' \<and>
   readInputs ''Sent'' ''Sent_address_uint256[3]_arr_'' = [''address'', ''uint256[3][]'']"
proof -
  have name: "joinInputAbiName transfer_event = ''Sent_address_uint256[3]_arr_''" by code_simp
  have "list_all elementary (map input_type (ai_inputs transfer_event))" by code_simp
  from overload_name_roundtrip [OF this] name show ?thesis by (simp add: transfer_event_def)
qed

end
