(* ===== verification/Manifest.thy ===== *)
theory Manifest
  imports Eth_Types
begin

text \<open>
  \<open>packages/common-ethereum/src/project\<close>: the classes of a project manifest with the decorators that
  say how a value is transformed and validated (\<open>models.ts\<close>, \<open>versioned/v1_0_0/model.ts\<close>), the code
  in these files that runs then (the transformations of handlers, networks and chain ids,
  \<open>forbidNonWhitelisted\<close>, \<open>isEthereumOrZilliqaAddress\<close>) and the choice of the version. A class is the
  list of its properties; class-transformer and class-validator, which interpret the decorators, are
  parameters, with what is documented of them as hypotheses. The classes these extend come from
  \<open>@subql/common\<close>; their properties are the parameter \<open>base\<close>.
\<close>

section \<open>Instances and classes\<close>

text \<open>A value in the fields of an instance: a plain value, an array of instances, or an instance of a
  class. An absent field is \<open>undefined\<close>.\<close>

datatype inst = Leaf json | Seq "inst list" | Obj string "(string \<times> inst) list"

datatype decorator =
    IsOptional | IsString | IsInt | IsPositive | IsArray | IsObject | IsNotEmpty
  | IsEnum "string list" | IsIn "string list" | Equals string
  | ValidateNested | ForbidNonWhitelisted "string list" | IsEthereumOrZilliqaAddress
  | IsNetworkEndpoint string

text \<open>\<open>@Type(() => C)\<close>, \<open>@Type\<close> with a discriminator (the subtypes by kind, and the class otherwise),
  \<open>@Transform\<close>.\<close>

datatype typeHint = Untyped | TypeOf string | ByKind "(string \<times> string) list" string | Transformed

record propertyDecl =
  pd_name :: string
  pd_decorators :: "decorator list"
  pd_type :: typeHint

type_synonym classDecl = "propertyDecl list"

definition decl :: "string \<Rightarrow> decorator list \<Rightarrow> typeHint \<Rightarrow> propertyDecl" where
  "decl n ds t = \<lparr>pd_name = n, pd_decorators = ds, pd_type = t\<rparr>"

subsection \<open>models.ts\<close>

definition handlerKinds :: "string list" where
  "handlerKinds = [EthereumHandlerKind_Block, EthereumHandlerKind_Call, EthereumHandlerKind_Event]"

definition BlockFilter :: classDecl where
  "BlockFilter = [decl ''modulo'' [IsOptional, IsInt] Untyped, decl ''timestamp'' [IsOptional, IsString] Untyped]"

definition LogFilter :: classDecl where
  "LogFilter = [decl ''topics'' [IsOptional, IsArray] Untyped]"

definition TransactionFilter :: classDecl where
  "TransactionFilter =
     [decl ''from'' [IsOptional, IsString] Untyped, decl ''to'' [IsOptional, IsString] Untyped,
      decl ''function'' [IsOptional, IsString] Untyped, decl ''type'' [IsOptional, IsString] Untyped]"

definition BlockHandlerClass :: classDecl where
  "BlockHandlerClass =
     [decl ''filter'' [IsObject, IsOptional] (TypeOf ''BlockFilter''), decl ''kind'' [IsEnum handlerKinds] Untyped,
      decl ''handler'' [IsString] Untyped]"

definition CallHandlerClass :: classDecl where
  "CallHandlerClass =
     [decl ''filter'' [ForbidNonWhitelisted [''from'', ''to'', ''function'', ''type''], IsOptional, ValidateNested]
        (TypeOf ''TransactionFilter''),
      decl ''kind'' [IsEnum handlerKinds] Untyped, decl ''handler'' [IsString] Untyped]"

definition EventHandlerClass :: classDecl where
  "EventHandlerClass =
     [decl ''filter'' [ForbidNonWhitelisted [''topics''], IsOptional, ValidateNested] (TypeOf ''LogFilter''),
      decl ''kind'' [IsEnum handlerKinds] Untyped, decl ''handler'' [IsString] Untyped]"

definition CustomHandlerClass :: classDecl where
  "CustomHandlerClass =
     [decl ''kind'' [IsString] Untyped, decl ''handler'' [IsString] Untyped,
      decl ''filter'' [IsObject, IsOptional] Untyped]"

definition EthereumMapping :: classDecl where
  "EthereumMapping =
     [decl ''handlers'' [IsArray, ValidateNested] Transformed, decl ''file'' [IsString] Untyped]"

definition CustomMapping :: classDecl where
  "CustomMapping =
     [decl ''handlers'' [IsArray, ValidateNested] (TypeOf ''CustomHandler''), decl ''file'' [IsString] Untyped]"

definition EthereumProcessorOptions :: classDecl where
  "EthereumProcessorOptions =
     [decl ''abi'' [IsOptional, IsString] Untyped, decl ''address'' [IsOptional, IsEthereumOrZilliqaAddress] Untyped]"

definition RuntimeDataSourceBase :: "(string \<Rightarrow> classDecl) \<Rightarrow> classDecl" where
  "RuntimeDataSourceBase base = base ''BaseDataSource'' @
     [decl ''kind'' [IsEnum [EthereumDatasourceKind_Runtime]] Untyped,
      decl ''mapping'' [ValidateNested] (TypeOf ''EthereumMapping''),
      decl ''assets'' [ValidateNested, IsOptional] (TypeOf ''FileReferenceImpl''),
      decl ''options'' [IsOptional, ValidateNested] (TypeOf ''EthereumProcessorOptions'')]"

definition FileReferenceImpl :: classDecl where
  "FileReferenceImpl = [decl ''file'' [IsString] Untyped]"

definition CustomDataSourceBase :: "(string \<Rightarrow> classDecl) \<Rightarrow> classDecl" where
  "CustomDataSourceBase base = base ''BaseDataSource'' @
     [decl ''kind'' [IsString] Untyped,
      decl ''mapping'' [ValidateNested] (TypeOf ''CustomMapping''),
      decl ''assets'' [ValidateNested] (TypeOf ''FileReferenceImpl''),
      decl ''processor'' [IsObject] (TypeOf ''FileReferenceImpl''),
      decl ''options'' [IsOptional, ValidateNested] Untyped]"

subsection \<open>versioned/v1\_0\_0/model.ts\<close>

definition EthereumRunnerNodeImpl :: "(string \<Rightarrow> classDecl) \<Rightarrow> classDecl" where
  "EthereumRunnerNodeImpl base = base ''RunnerNodeImpl'' @ [decl ''name'' [IsIn [''@subql/node-ethereum'']] Untyped]"

definition EthereumRuntimeDataSourceImpl :: "(string \<Rightarrow> classDecl) \<Rightarrow> classDecl" where
  "EthereumRuntimeDataSourceImpl = RuntimeDataSourceBase"

definition EthereumCustomDataSourceImpl :: "(string \<Rightarrow> classDecl) \<Rightarrow> classDecl" where
  "EthereumCustomDataSourceImpl = CustomDataSourceBase"

definition RuntimeDatasourceTemplateImpl :: "(string \<Rightarrow> classDecl) \<Rightarrow> classDecl" where
  "RuntimeDatasourceTemplateImpl base = EthereumRuntimeDataSourceImpl base @ [decl ''name'' [IsString] Untyped]"

definition CustomDatasourceTemplateImpl :: "(string \<Rightarrow> classDecl) \<Rightarrow> classDecl" where
  "CustomDatasourceTemplateImpl base = EthereumCustomDataSourceImpl base @ [decl ''name'' [IsString] Untyped]"

definition EthereumRunnerSpecsImpl :: classDecl where
  "EthereumRunnerSpecsImpl =
     [decl ''node'' [IsObject, ValidateNested] (TypeOf ''EthereumRunnerNodeImpl''),
      decl ''query'' [IsObject, ValidateNested] (TypeOf ''RunnerQueryBaseModel'')]"

definition ProjectNetworkDeploymentV1_0_0 :: classDecl where
  "ProjectNetworkDeploymentV1_0_0 =
     [decl ''chainId'' [IsNotEmpty, IsString] Transformed, decl ''bypassBlocks'' [IsOptional, IsArray] Untyped]"

definition EthereumEndpointConfig :: "(string \<Rightarrow> classDecl) \<Rightarrow> classDecl" where
  "EthereumEndpointConfig base = base ''CommonEndpointConfig'' @ [decl ''batchSize'' [IsOptional, IsPositive] Untyped]"

definition ProjectNetworkV1_0_0 :: "(string \<Rightarrow> classDecl) \<Rightarrow> classDecl" where
  "ProjectNetworkV1_0_0 base = base ''CommonProjectNetworkV1_0_0'' @
     [decl ''endpoint'' [IsOptional, IsNetworkEndpoint ''EthereumEndpointConfig''] Untyped]"

definition dataSourceHint :: typeHint where
  "dataSourceHint = ByKind [(''ethereum/Runtime'', ''EthereumRuntimeDataSourceImpl'')] ''EthereumCustomDataSourceImpl''"

definition templateHint :: typeHint where
  "templateHint = ByKind [(''ethereum/Runtime'', ''RuntimeDatasourceTemplateImpl'')] ''CustomDatasourceTemplateImpl''"

definition DeploymentV1_0_0 :: "(string \<Rightarrow> classDecl) \<Rightarrow> classDecl" where
  "DeploymentV1_0_0 base = base ''BaseDeploymentV1_0_0'' @
     [decl ''network'' [ValidateNested] Transformed,
      decl ''runner'' [IsObject, ValidateNested] (TypeOf ''EthereumRunnerSpecsImpl''),
      decl ''dataSources'' [IsArray, ValidateNested] dataSourceHint,
      decl ''templates'' [IsOptional, IsArray, ValidateNested] templateHint]"

definition ProjectManifestV1_0_0Impl :: "(string \<Rightarrow> classDecl) \<Rightarrow> classDecl" where
  "ProjectManifestV1_0_0Impl base = base ''ProjectManifestBaseImpl'' @
     [decl ''specVersion'' [Equals ''1.0.0''] Untyped,
      decl ''dataSources'' [] dataSourceHint,
      decl ''network'' [] (TypeOf ''ProjectNetworkV1_0_0''),
      decl ''name'' [IsString] Untyped, decl ''version'' [IsString] Untyped,
      decl ''schema'' [ValidateNested] (TypeOf ''FileType''),
      decl ''templates'' [IsOptional, IsArray, ValidateNested] templateHint,
      decl ''runner'' [IsObject, ValidateNested] (TypeOf ''EthereumRunnerSpecsImpl''),
      decl ''parent'' [IsOptional, IsObject] (TypeOf ''ParentProjectModel'')]"

definition classes :: "(string \<Rightarrow> classDecl) \<Rightarrow> string \<rightharpoonup> classDecl" where
  "classes base = map_of
     [(''BlockFilter'', BlockFilter), (''LogFilter'', LogFilter), (''TransactionFilter'', TransactionFilter),
      (''BlockHandler'', BlockHandlerClass), (''CallHandler'', CallHandlerClass), (''EventHandler'', EventHandlerClass),
      (''CustomHandler'', CustomHandlerClass), (''EthereumMapping'', EthereumMapping), (''CustomMapping'', CustomMapping),
      (''EthereumProcessorOptions'', EthereumProcessorOptions), (''FileReferenceImpl'', FileReferenceImpl),
      (''EthereumRunnerNodeImpl'', EthereumRunnerNodeImpl base),
      (''EthereumRuntimeDataSourceImpl'', EthereumRuntimeDataSourceImpl base),
      (''EthereumCustomDataSourceImpl'', EthereumCustomDataSourceImpl base),
      (''RuntimeDatasourceTemplateImpl'', RuntimeDatasourceTemplateImpl base),
      (''CustomDatasourceTemplateImpl'', CustomDatasourceTemplateImpl base),
      (''EthereumRunnerSpecsImpl'', EthereumRunnerSpecsImpl),
      (''ProjectNetworkDeploymentV1_0_0'', ProjectNetworkDeploymentV1_0_0),
      (''EthereumEndpointConfig'', EthereumEndpointConfig base), (''ProjectNetworkV1_0_0'', ProjectNetworkV1_0_0 base),
      (''DeploymentV1_0_0'', DeploymentV1_0_0 base), (''ProjectManifestV1_0_0Impl'', ProjectManifestV1_0_0Impl base)]"

section \<open>The code the decorators run\<close>

record manifestLib =
  fromBech32Address :: "string \<Rightarrow> js_error + string"
  isEthereumAddress :: "string \<Rightarrow> bool"
  toText :: "json \<Rightarrow> string"
  stringify :: "inst \<Rightarrow> string"
  networkEndpoint :: "string \<Rightarrow> inst \<Rightarrow> bool"

definition TypeError :: "string \<Rightarrow> js_error" where
  "TypeError m = (Error m)\<lparr>err_name := ''TypeError''\<rparr>"

definition isEthereumOrZilliqaAddress :: "manifestLib \<Rightarrow> string \<Rightarrow> bool" where
  "isEthereumOrZilliqaAddress L address =
     (case fromBech32Address L address of
        Inr ethFormat \<Rightarrow> isEthereumAddress L ethFormat
      | Inl _ \<Rightarrow> isEthereumAddress L address)"

text \<open>\<open>key in keys\<close> also finds what an object literal inherits.\<close>

definition objectPrototype :: "string list" where
  "objectPrototype = [''constructor'', ''__defineGetter__'', ''__defineSetter__'', ''hasOwnProperty'',
     ''__lookupGetter__'', ''__lookupSetter__'', ''isPrototypeOf'', ''propertyIsEnumerable'', ''toString'',
     ''valueOf'', ''__proto__'', ''toLocaleString'']"

text \<open>\<open>Object.keys\<close>\<close>

definition objectKeys :: "inst \<Rightarrow> js_error + string list" where
  "objectKeys v =
     (case v of
        Obj _ fs \<Rightarrow> Inr (map fst fs)
      | Seq xs \<Rightarrow> Inr (map show_nat [0..<length xs])
      | Leaf j \<Rightarrow>
          (case j of
             JNull \<Rightarrow> Inl (TypeError ''Cannot convert undefined or null to object'')
           | JObj fs \<Rightarrow> Inr (map fst fs)
           | JArr xs \<Rightarrow> Inr (map show_nat [0..<length xs])
           | JStr s \<Rightarrow> Inr (map show_nat [0..<length s])
           | _ \<Rightarrow> Inr []))"

text \<open>The validator that \<open>forbidNonWhitelisted(keys)\<close> registers.\<close>

definition forbidNonWhitelisted :: "manifestLib \<Rightarrow> string list \<Rightarrow> inst \<Rightarrow> js_error + bool" where
  "forbidNonWhitelisted L keys v =
     bindE (objectKeys v) (\<lambda>ks.
       if list_all (\<lambda>k. List.member keys k \<or> List.member objectPrototype k) ks then Inr True
       else Inl (Error (''Invalid keys present in value: '' @ stringify L v @ ''. Whitelisted keys: '' @
         stringify L (Leaf (JArr (map JStr keys))))))"

definition handlerClass :: "string \<Rightarrow> string option" where
  "handlerClass k =
     (if k = EthereumHandlerKind_Event then Some ''EventHandler''
      else if k = EthereumHandlerKind_Call then Some ''CallHandler''
      else if k = EthereumHandlerKind_Block then Some ''BlockHandler''
      else None)"

text \<open>The transformation of \<open>handlers\<close>; \<open>plainToClass\<close> is a parameter.\<close>

definition handlerInstance :: "manifestLib \<Rightarrow> (string \<Rightarrow> json \<Rightarrow> inst) \<Rightarrow> json \<Rightarrow> js_error + inst" where
  "handlerInstance L plainToClass handler =
     bindE (json_get handler ''kind'') (\<lambda>k.
       case k of
         Some (JStr s) \<Rightarrow>
           (case handlerClass s of
              Some c \<Rightarrow> Inr (plainToClass c handler)
            | None \<Rightarrow> Inl (Error (''handler '' @ s @ '' not supported'')))
       | Some j \<Rightarrow> Inl (Error (''handler '' @ toText L j @ '' not supported''))
       | None \<Rightarrow> Inl (Error ''handler undefined not supported''))"

definition mappingHandlers :: "manifestLib \<Rightarrow> (string \<Rightarrow> json \<Rightarrow> inst) \<Rightarrow> json \<Rightarrow> js_error + inst" where
  "mappingHandlers L plainToClass v =
     (case v of
        JArr handlers \<Rightarrow> bindE (mapE (handlerInstance L plainToClass) handlers) (\<lambda>is. Inr (Seq is))
      | JNull \<Rightarrow> Inl (TypeError ''Cannot read properties of null (reading 'map')'')
      | _ \<Rightarrow> Inl (TypeError ''handlers.map is not a function''))"

text \<open>The network of a deployment: \<open>genesisHash\<close> stands in for a missing \<open>chainId\<close>, which is then trimmed.\<close>

definition deploymentNetwork :: "json \<Rightarrow> js_error + json" where
  "deploymentNetwork v =
     bindE (json_get v ''genesisHash'') (\<lambda>g. bindE (json_get v ''chainId'') (\<lambda>c.
       Inr (case (v, g) of
         (JObj fs, Some genesisHash) \<Rightarrow>
           (if json_truthy genesisHash \<and> (case c of Some j \<Rightarrow> \<not> json_truthy j | None \<Rightarrow> True)
            then JObj (obj_set ''chainId'' genesisHash fs) else v)
       | _ \<Rightarrow> v)))"

definition trimmedChainId :: "json \<Rightarrow> js_error + json" where
  "trimmedChainId v =
     (case v of
        JStr s \<Rightarrow> Inr (JStr (trim s))
      | JNull \<Rightarrow> Inl (TypeError ''Cannot read properties of null (reading 'trim')'')
      | _ \<Rightarrow> Inl (TypeError ''value.trim is not a function''))"

definition validateObject ::
    "(inst \<Rightarrow> js_error + string list) \<Rightarrow> inst \<Rightarrow> string \<Rightarrow> js_error + unit" where
  "validateObject validateSync object errorMessage =
     bindE (validateSync object) (\<lambda>errors.
       if errors = [] then Inr ()
       else Inl (Error (errorMessage @ [CHR 0x0A] @ join [CHR 0x0A] errors)))"

definition validateRuntimeDs :: "(inst \<Rightarrow> js_error + string list) \<Rightarrow> inst \<Rightarrow> js_error + unit" where
  "validateRuntimeDs validateSync ds = validateObject validateSync ds ''failed to validate runtime datasource.''"

definition validateCustomDs :: "(inst \<Rightarrow> js_error + string list) \<Rightarrow> inst \<Rightarrow> js_error + unit" where
  "validateCustomDs validateSync ds = validateObject validateSync ds ''failed to validate custom datasource.''"

section \<open>The version\<close>

text \<open>The looked up class: the one implementation, or a function the table inherits.\<close>

datatype manifestClass = ProjectManifestV1_0_0 | Inherited string

definition supportedVersion :: "string \<Rightarrow> manifestClass option" where
  "supportedVersion v =
     (if v = ''1.0.0'' then Some ProjectManifestV1_0_0
      else if List.member objectPrototype v then Some (Inherited v) else None)"

definition manifestVersion :: "manifestLib \<Rightarrow> json \<Rightarrow> js_error + manifestClass" where
  "manifestVersion L projectManifest =
     bindE (json_get projectManifest ''specVersion'') (\<lambda>v.
       let version = (case v of Some (JStr s) \<Rightarrow> s | Some j \<Rightarrow> toText L j | None \<Rightarrow> ''undefined'')
       in case supportedVersion version of
            Some k \<Rightarrow> Inr k
          | None \<Rightarrow> Inl (Error ''specVersion not supported for project manifest file''))"

section \<open>What is documented of the two libraries\<close>

text \<open>class-validator: what a decorator asks of a field (\<open>None\<close> is an absent one), where the flag says
  whether the value itself validates. \<open>@ValidateNested\<close> asks nothing of a missing value, and of an array
  that each element validates.\<close>

definition decOk :: "manifestLib \<Rightarrow> decorator \<Rightarrow> (inst \<times> bool) option \<Rightarrow> bool" where
  "decOk L d fld =
     (case d of
        IsOptional \<Rightarrow> True
      | IsString \<Rightarrow> (case fld of Some (Leaf (JStr _), _) \<Rightarrow> True | _ \<Rightarrow> False)
      | IsInt \<Rightarrow> (case fld of Some (Leaf (JNum _), _) \<Rightarrow> True | _ \<Rightarrow> False)
      | IsPositive \<Rightarrow> (case fld of Some (Leaf (JNum n), _) \<Rightarrow> 0 < n | _ \<Rightarrow> False)
      | IsArray \<Rightarrow> (case fld of Some (Seq _, _) \<Rightarrow> True | Some (Leaf (JArr _), _) \<Rightarrow> True | _ \<Rightarrow> False)
      | IsObject \<Rightarrow> (case fld of Some (Obj _ _, _) \<Rightarrow> True | Some (Leaf (JObj _), _) \<Rightarrow> True | _ \<Rightarrow> False)
      | IsNotEmpty \<Rightarrow> (case fld of None \<Rightarrow> False | Some (Leaf JNull, _) \<Rightarrow> False | Some (Leaf (JStr []), _) \<Rightarrow> False | _ \<Rightarrow> True)
      | IsEnum vs \<Rightarrow> (case fld of Some (Leaf (JStr s), _) \<Rightarrow> List.member vs s | _ \<Rightarrow> False)
      | IsIn vs \<Rightarrow> (case fld of Some (Leaf (JStr s), _) \<Rightarrow> List.member vs s | _ \<Rightarrow> False)
      | Equals e \<Rightarrow> (case fld of Some (Leaf (JStr s), _) \<Rightarrow> s = e | _ \<Rightarrow> False)
      | ValidateNested \<Rightarrow> (case fld of None \<Rightarrow> True | Some (Leaf JNull, _) \<Rightarrow> True | Some (_, valid) \<Rightarrow> valid)
      | ForbidNonWhitelisted keys \<Rightarrow> (case fld of None \<Rightarrow> False | Some (v, _) \<Rightarrow> forbidNonWhitelisted L keys v = Inr True)
      | IsEthereumOrZilliqaAddress \<Rightarrow> (case fld of Some (Leaf (JStr s), _) \<Rightarrow> isEthereumOrZilliqaAddress L s | _ \<Rightarrow> False)
      | IsNetworkEndpoint c \<Rightarrow> (case fld of Some (v, _) \<Rightarrow> networkEndpoint L c v | None \<Rightarrow> False))"

definition propOk :: "manifestLib \<Rightarrow> propertyDecl \<Rightarrow> (inst \<times> bool) option \<Rightarrow> bool" where
  "propOk L p fld =
     ((List.member (pd_decorators p) IsOptional \<and> (case fld of None \<Rightarrow> True | Some (v, _) \<Rightarrow> v = Leaf JNull)) \<or>
      list_all (\<lambda>d. decOk L d fld) (pd_decorators p))"

definition fieldsOk :: "manifestLib \<Rightarrow> classDecl \<Rightarrow> (string \<times> inst \<times> bool) list \<Rightarrow> bool" where
  "fieldsOk L ps fs =
     (list_all (\<lambda>(k, _). List.member (map pd_name ps) k) fs \<and> list_all (\<lambda>p. propOk L p (map_of fs (pd_name p))) ps)"

text \<open>A value that validates with the options \<open>whitelist\<close> and \<open>forbidNonWhitelisted\<close>: its fields are
  declared and each declaration is met. Nothing is said of a class without declarations.\<close>

fun accepted :: "manifestLib \<Rightarrow> (string \<rightharpoonup> classDecl) \<Rightarrow> inst \<Rightarrow> bool" where
  "accepted L D (Leaf j) = (case j of JObj _ \<Rightarrow> True | JArr _ \<Rightarrow> True | _ \<Rightarrow> False)"
| "accepted L D (Seq xs) = list_all (accepted L D) xs"
| "accepted L D (Obj c fs) =
     (case D c of
        None \<Rightarrow> True
      | Some ps \<Rightarrow> fieldsOk L ps (map (\<lambda>(k, v). (k, v, accepted L D v)) fs))"

definition validator_doc :: "(string \<Rightarrow> classDecl) \<Rightarrow> manifestLib \<Rightarrow> (inst \<Rightarrow> js_error + string list) \<Rightarrow> bool" where
  "validator_doc base L validateSync \<longleftrightarrow> (\<forall>i. validateSync i = Inr [] \<longrightarrow> accepted L (classes base) i)"

text \<open>class-transformer on a class without \<open>@Transform\<close>: the fields of the plain object, those with a
  \<open>@Type\<close> transformed in turn, an array element by element.\<close>

definition hintOf :: "(string \<rightharpoonup> classDecl) \<Rightarrow> string \<Rightarrow> string \<Rightarrow> string option" where
  "hintOf D c k =
     (case D c of
        None \<Rightarrow> None
      | Some ps \<Rightarrow> (case find (\<lambda>p. pd_name p = k) ps of
          Some p \<Rightarrow> (case pd_type p of TypeOf c' \<Rightarrow> Some c' | _ \<Rightarrow> None)
        | None \<Rightarrow> None))"

fun plainTo :: "(string \<rightharpoonup> classDecl) \<Rightarrow> string \<Rightarrow> json \<Rightarrow> inst" where
  "plainTo D c (JObj fs) =
     Obj c (map (\<lambda>(k, v). (k, case hintOf D c k of Some c' \<Rightarrow> plainTo D c' v | None \<Rightarrow> Leaf v)) fs)"
| "plainTo D c (JArr xs) = Seq (map (plainTo D c) xs)"
| "plainTo D c j = Leaf j"

definition transformer_doc :: "(string \<Rightarrow> classDecl) \<Rightarrow> (string \<Rightarrow> json \<Rightarrow> inst) \<Rightarrow> bool" where
  "transformer_doc base plainToClass \<longleftrightarrow>
     (\<forall>c j. List.member [''BlockHandler'', ''CallHandler'', ''EventHandler''] c \<longrightarrow> plainToClass c j = plainTo (classes base) c j)"

section \<open>What a validated data source can be read as\<close>

text \<open>A field that is a string, \<open>null\<close> or absent.\<close>

definition readString :: "inst \<Rightarrow> string \<Rightarrow> string js option" where
  "readString v k =
     (case v of
        Obj _ fs \<Rightarrow> (case map_of fs k of
          None \<Rightarrow> Some Undefined
        | Some (Leaf JNull) \<Rightarrow> Some Null
        | Some (Leaf (JStr s)) \<Rightarrow> Some (Val s)
        | _ \<Rightarrow> None)
      | _ \<Rightarrow> Some Undefined)"

definition readCallFilter :: "inst \<Rightarrow> EthereumTransactionFilter option" where
  "readCallFilter v =
     (case (readString v ''from'', readString v ''to'', readString v ''function'', readString v ''type'') of
        (Some f, Some t, Some g, Some ty) \<Rightarrow> Some \<lparr>tf_from = f, tf_to = t, tf_function = g, tf_type = ty\<rparr>
      | _ \<Rightarrow> None)"

definition readTopics :: "inst \<Rightarrow> json list js option" where
  "readTopics v =
     (case v of
        Obj _ fs \<Rightarrow> (case map_of fs ''topics'' of
          None \<Rightarrow> Some Undefined
        | Some (Leaf JNull) \<Rightarrow> Some Null
        | Some (Leaf (JArr ts)) \<Rightarrow> Some (Val ts)
        | _ \<Rightarrow> None)
      | _ \<Rightarrow> Some Undefined)"

text \<open>The handler's name; the filter of a call is read as the indexer reads it, that of an event up to its
  topics, and of that of a block nothing is known.\<close>

datatype typedHandler =
    BlockWith string | CallWith string "EthereumTransactionFilter js" | EventWith string "json list js js"

definition readFilter :: "(inst \<Rightarrow> 'a option) \<Rightarrow> (string \<times> inst) list \<Rightarrow> 'a js option" where
  "readFilter f fs =
     (case map_of fs ''filter'' of
        None \<Rightarrow> Some Undefined
      | Some (Leaf JNull) \<Rightarrow> Some Null
      | Some v \<Rightarrow> map_option Val (f v))"

definition readHandler :: "inst \<Rightarrow> typedHandler option" where
  "readHandler h =
     (case h of
        Obj c fs \<Rightarrow>
          (case map_of fs ''handler'' of
             Some (Leaf (JStr name)) \<Rightarrow>
               (if c = ''CallHandler'' then map_option (CallWith name) (readFilter readCallFilter fs)
                else if c = ''EventHandler'' then map_option (EventWith name) (readFilter readTopics fs)
                else Some (BlockWith name))
           | _ \<Rightarrow> None)
      | _ \<Rightarrow> None)"

section \<open>Lemmas\<close>

lemma map_of_keyed: "map_of (map (\<lambda>(k, v). (k, f k v)) fs) k = map_option (f k) (map_of fs k)"
  by (induction fs) auto

lemma decl_sel [simp]:
  "pd_name (decl n ds t) = n" "pd_decorators (decl n ds t) = ds" "pd_type (decl n ds t) = t"
  by (simp_all add: decl_def)

lemma decOk_nested: "decOk L ValidateNested (Some (v, valid)) \<Longrightarrow> v \<noteq> Leaf JNull \<Longrightarrow> valid"
  by (auto simp: decOk_def split: inst.splits json.splits)

lemma propOk_nested:
  "propOk L (decl n ds t) (Some (v, valid)) \<Longrightarrow> ValidateNested \<in> set ds \<Longrightarrow> IsOptional \<notin> set ds \<Longrightarrow>
    v \<noteq> Leaf JNull \<Longrightarrow> valid"
  using decOk_nested by (auto simp: propOk_def List.member_iff list_all_iff)

lemma class_of_handlers:
  "classes base ''CallHandler'' = Some CallHandlerClass" "classes base ''EventHandler'' = Some EventHandlerClass"
  "classes base ''BlockHandler'' = Some BlockHandlerClass" "classes base ''TransactionFilter'' = Some TransactionFilter"
  "classes base ''LogFilter'' = Some LogFilter" "classes base ''EthereumMapping'' = Some EthereumMapping"
  "classes base ''EthereumRuntimeDataSourceImpl'' = Some (RuntimeDataSourceBase base)"
  by (simp_all add: classes_def EthereumRuntimeDataSourceImpl_def)

lemma filter_hints:
  "hintOf (classes base) ''CallHandler'' ''filter'' = Some ''TransactionFilter''"
  "hintOf (classes base) ''EventHandler'' ''filter'' = Some ''LogFilter''"
  "hintOf (classes base) c ''handler'' = None \<or> c \<notin> {''BlockHandler'', ''CallHandler'', ''EventHandler''}"
  by (auto simp: hintOf_def class_of_handlers CallHandlerClass_def EventHandlerClass_def BlockHandlerClass_def decl_def)

lemma filter_decls:
  "decl ''filter'' [ForbidNonWhitelisted [''from'', ''to'', ''function'', ''type''], IsOptional, ValidateNested]
     (TypeOf ''TransactionFilter'') \<in> set CallHandlerClass"
  "decl ''filter'' [ForbidNonWhitelisted [''topics''], IsOptional, ValidateNested] (TypeOf ''LogFilter'')
     \<in> set EventHandlerClass"
  by (simp_all add: CallHandlerClass_def EventHandlerClass_def)

lemma accepted_field:
  assumes "accepted L D (Obj c fs)" and "D c = Some ps" and "p \<in> set ps"
  shows "propOk L p (map_option (\<lambda>v. (v, accepted L D v)) (map_of fs (pd_name p)))"
  using assms by (auto simp: fieldsOk_def list_all_iff map_of_keyed)

lemma accepted_string:
  assumes "accepted L D (Obj c fs)" and "D c = Some ps" and "decl k [IsOptional, IsString] t \<in> set ps"
  shows "readString (Obj c fs) k \<noteq> None"
  using accepted_field [OF assms]
  by (auto simp: propOk_def decl_def List.member_iff decOk_def readString_def
      split: option.splits inst.splits json.splits)

lemma validated:
  assumes "validator_doc base L V" and "validateObject V i m = Inr ()"
  shows "accepted L (classes base) i"
  using assms by (auto simp: validator_doc_def validateObject_def bindE_eq_Inr_iff split: if_splits)

lemma readCallFilter_accepted:
  assumes "accepted L (classes base) (plainTo (classes base) ''TransactionFilter'' j)"
  shows "readCallFilter (plainTo (classes base) ''TransactionFilter'' j) \<noteq> None"
proof (cases j)
  case (JObj fs)
  then obtain gs where gs: "plainTo (classes base) ''TransactionFilter'' j = Obj ''TransactionFilter'' gs" by simp
  have "readString (Obj ''TransactionFilter'' gs) k \<noteq> None"
    if "k \<in> {''from'', ''to'', ''function'', ''type''}" for k
    using that assms
    by (intro accepted_string [where L = L and D = "classes base" and ps = TransactionFilter and t = Untyped])
      (auto simp: gs class_of_handlers TransactionFilter_def)
  note known = this
  show ?thesis
    using known [of "''from''"] known [of "''to''"] known [of "''function''"] known [of "''type''"]
    by (auto simp: gs readCallFilter_def)
qed (use assms in \<open>auto simp: readCallFilter_def readString_def\<close>)

lemma readTopics_accepted:
  assumes "accepted L (classes base) (plainTo (classes base) ''LogFilter'' j)"
  shows "readTopics (plainTo (classes base) ''LogFilter'' j) \<noteq> None"
proof (cases j)
  case (JObj fs)
  then have gs: "plainTo (classes base) ''LogFilter'' j = Obj ''LogFilter'' (map (\<lambda>(k, v). (k, Leaf v)) fs)"
    by (auto simp: hintOf_def class_of_handlers LogFilter_def decl_def)
  have "propOk L (decl ''topics'' [IsOptional, IsArray] Untyped) (map_option
      (\<lambda>v. (v, accepted L (classes base) v)) (map_of (map (\<lambda>(k, v). (k, Leaf v)) fs) ''topics''))"
    using accepted_field [of L "classes base" "''LogFilter''" _ LogFilter "decl ''topics'' [IsOptional, IsArray] Untyped"]
      assms by (simp add: gs class_of_handlers LogFilter_def decl_def)
  then show ?thesis
    by (auto simp: gs readTopics_def propOk_def decl_def List.member_iff decOk_def map_of_keyed split: option.splits json.splits)
qed (use assms in \<open>auto simp: readTopics_def\<close>)

lemma nested_filter:
  assumes "propOk L (decl ''filter'' [ForbidNonWhitelisted keys, IsOptional, ValidateNested] t)
      (map_option (\<lambda>v. (v, accepted L D v)) (map_of fs ''filter''))"
    and "map_of fs ''filter'' = Some v" and "v \<noteq> Leaf JNull"
  shows "accepted L D v"
  using assms by (auto simp: propOk_def decl_def List.member_iff decOk_def split: inst.splits json.splits)

lemma readFilter_accepted:
  assumes "propOk L (decl ''filter'' [ForbidNonWhitelisted keys, IsOptional, ValidateNested] t)
      (map_option (\<lambda>v. (v, accepted L D v)) (map_of fs ''filter''))"
    and "\<And>v. map_of fs ''filter'' = Some v \<Longrightarrow> accepted L D v \<Longrightarrow> f v \<noteq> None"
  shows "readFilter f fs \<noteq> None"
proof (cases "map_of fs ''filter''")
  case (Some v)
  show ?thesis
  proof (cases "v = Leaf JNull")
    case False
    then have "accepted L D v" using nested_filter [OF assms(1) Some] by simp
    then have "f v \<noteq> None" using assms(2) Some by simp
    with Some False show ?thesis
      by (auto simp: readFilter_def split: inst.splits json.splits)
  qed (simp add: readFilter_def Some)
qed (simp add: readFilter_def)

lemma accepted_handler:
  assumes "accepted L (classes base) (plainTo (classes base) c (JObj gs))"
    and "c \<in> {''BlockHandler'', ''CallHandler'', ''EventHandler''}"
  shows "readHandler (plainTo (classes base) c (JObj gs)) \<noteq> None"
proof -
  let ?D = "classes base"
  let ?fs = "map (\<lambda>(k, v). (k, case hintOf ?D c k of Some c' \<Rightarrow> plainTo ?D c' v | None \<Rightarrow> Leaf v)) gs"
  have acc: "accepted L ?D (Obj c ?fs)" using assms(1) by simp
  have "\<exists>ps. ?D c = Some ps \<and> decl ''handler'' [IsString] Untyped \<in> set ps"
    using assms(2) by (auto simp: class_of_handlers BlockHandlerClass_def CallHandlerClass_def EventHandlerClass_def)
  then obtain ps where ps: "?D c = Some ps" "decl ''handler'' [IsString] Untyped \<in> set ps" by blast
  have "propOk L (decl ''handler'' [IsString] Untyped)
      (map_option (\<lambda>v. (v, accepted L ?D v)) (map_of ?fs ''handler''))"
    using accepted_field [OF acc ps] by (simp only: decl_sel)
  then obtain name where name: "map_of ?fs ''handler'' = Some (Leaf (JStr name))"
    by (auto simp: propOk_def List.member_iff decOk_def split: option.splits inst.splits json.splits)
  have call: "readFilter readCallFilter ?fs \<noteq> None" if c: "c = ''CallHandler''"
  proof (rule readFilter_accepted)
    show "propOk L (decl ''filter'' [ForbidNonWhitelisted [''from'', ''to'', ''function'', ''type''], IsOptional,
        ValidateNested] (TypeOf ''TransactionFilter'')) (map_option (\<lambda>v. (v, accepted L ?D v)) (map_of ?fs ''filter''))"
      using accepted_field [OF acc _ filter_decls(1)] c by (simp add: class_of_handlers)
    show "readCallFilter v \<noteq> None" if "map_of ?fs ''filter'' = Some v" "accepted L ?D v" for v
      using that readCallFilter_accepted by (auto simp: map_of_keyed c filter_hints)
  qed
  have event: "readFilter readTopics ?fs \<noteq> None" if c: "c = ''EventHandler''"
  proof (rule readFilter_accepted)
    show "propOk L (decl ''filter'' [ForbidNonWhitelisted [''topics''], IsOptional, ValidateNested] (TypeOf ''LogFilter''))
        (map_option (\<lambda>v. (v, accepted L ?D v)) (map_of ?fs ''filter''))"
      using accepted_field [OF acc _ filter_decls(2)] c by (simp add: class_of_handlers)
    show "readTopics v \<noteq> None" if "map_of ?fs ''filter'' = Some v" "accepted L ?D v" for v
      using that readTopics_accepted by (auto simp: map_of_keyed c filter_hints)
  qed
  show ?thesis using name call event assms(2) by (auto simp: readHandler_def)
qed

lemma handlerInstanceE:
  assumes "handlerInstance L P j = Inr i"
  obtains c gs where "c \<in> {''BlockHandler'', ''CallHandler'', ''EventHandler''}" "j = JObj gs" "i = P c j"
proof -
  obtain k where k: "json_get j ''kind'' = Inr k"
      "(case k of Some (JStr s) \<Rightarrow> (case handlerClass s of Some c \<Rightarrow> Inr (P c j)
          | None \<Rightarrow> Inl (Error (''handler '' @ s @ '' not supported'')))
        | Some j' \<Rightarrow> Inl (Error (''handler '' @ toText L j' @ '' not supported''))
        | None \<Rightarrow> Inl (Error ''handler undefined not supported'')) = Inr i"
    using assms unfolding handlerInstance_def bindE_eq_Inr_iff by blast
  then obtain s c where s: "k = Some (JStr s)" "handlerClass s = Some c" "i = P c j"
    by (auto split: option.splits json.splits)
  from k(1) s(1) obtain gs where "j = JObj gs" by (auto simp: json_get_def split: json.splits)
  moreover have "c \<in> {''BlockHandler'', ''CallHandler'', ''EventHandler''}"
    using s(2) unfolding handlerClass_def by (auto split: if_splits)
  ultimately show thesis using that s(3) by blast
qed

section \<open>Properties\<close>


text \<open>The chain id of a deployment: the one the network gives, or its genesis hash when that is missing
  or empty.\<close>

theorem deployment_chain_id:
  "deploymentNetwork (JObj fs) = Inr net \<longleftrightarrow>
   (case (map_of fs ''chainId'', map_of fs ''genesisHash'') of
      (Some c, Some g) \<Rightarrow> net = (if \<not> json_truthy c \<and> json_truthy g then JObj (obj_set ''chainId'' g fs) else JObj fs)
    | (None, Some g) \<Rightarrow> net = (if json_truthy g then JObj (obj_set ''chainId'' g fs) else JObj fs)
    | (_, None) \<Rightarrow> net = JObj fs)"
  by (auto simp: deploymentNetwork_def json_get_def split: option.splits)

text \<open>A manifest of another version is refused, unless its version is the name of something every object
  inherits: the table of versions is asked with an index, which finds \<open>constructor\<close> or \<open>toString\<close> too.\<close>

theorem version_check:
  "manifestVersion L (JObj [(''specVersion'', JStr v)]) =
     (if v = ''1.0.0'' then Inr ProjectManifestV1_0_0
      else if List.member objectPrototype v then Inr (Inherited v)
      else Inl (Error ''specVersion not supported for project manifest file''))"
  by (simp add: manifestVersion_def json_get_def supportedVersion_def)

text \<open>The filter of a block handler is not validated, whatever its fields hold: its declaration lacks
  \<open>@ValidateNested\<close>, which those of the two other handlers have.\<close>

theorem block_filter_unchecked:
  "accepted L (classes base) (plainTo (classes base) ''BlockHandler''
     (JObj [(''kind'', JStr EthereumHandlerKind_Block), (''handler'', JStr name), (''filter'', JObj fs)]))"
proof -
  have hints: "hintOf (classes base) ''BlockHandler'' ''kind'' = None" "hintOf (classes base) ''BlockHandler'' ''handler'' = None"
      "hintOf (classes base) ''BlockHandler'' ''filter'' = Some ''BlockFilter''"
    by (simp_all add: hintOf_def class_of_handlers BlockHandlerClass_def)
  show ?thesis
    by (simp add: hints class_of_handlers BlockHandlerClass_def fieldsOk_def List.member_iff propOk_def decOk_def
        handlerKinds_def del: plainTo.simps(1) accepted.simps(3)
        add: plainTo.simps(1) [of _ "''BlockHandler''"] plainTo.simps(1) [of _ "''BlockFilter''"]
          accepted.simps(3) [of _ _ "''BlockHandler''"])
qed

text \<open>The endpoint configuration documents a batch size of zero as the way to switch batches off, and
  \<open>applyBatchSize\<close> implements it; validation refuses it.\<close>

theorem zero_batch_size_refused:
  assumes "validator_doc base L validateSync" and "map_of fs ''batchSize'' = Some (Leaf (JNum 0))"
  shows "validateSync (Obj ''EthereumEndpointConfig'' fs) \<noteq> Inr []"
proof
  assume "validateSync (Obj ''EthereumEndpointConfig'' fs) = Inr []"
  then have "accepted L (classes base) (Obj ''EthereumEndpointConfig'' fs)"
    using assms(1) by (simp only: validator_doc_def)
  moreover have "classes base ''EthereumEndpointConfig'' = Some (EthereumEndpointConfig base)"
    by (simp add: classes_def)
  moreover have "decl ''batchSize'' [IsOptional, IsPositive] Untyped \<in> set (EthereumEndpointConfig base)"
    by (simp add: EthereumEndpointConfig_def)
  ultimately show False
    using accepted_field [of L "classes base" "''EthereumEndpointConfig''" fs "EthereumEndpointConfig base"
        "decl ''batchSize'' [IsOptional, IsPositive] Untyped"] assms(2)
    by (simp add: propOk_def decOk_def List.member_iff del: accepted.simps)
qed

section \<open>Witnesses\<close>

definition sample_manifestLib :: manifestLib where
  "sample_manifestLib =
     \<lparr>fromBech32Address = (\<lambda>s. Inl (Error ''not bech32'')), isEthereumAddress = (\<lambda>s. startsWith s ''0x''),
      toText = (\<lambda>j. []), stringify = (\<lambda>i. []), networkEndpoint = (\<lambda>c v. True)\<rparr>"

definition sample_validate :: "inst \<Rightarrow> js_error + string list" where
  "sample_validate i = Inr (if accepted sample_manifestLib (classes (\<lambda>_. [])) i then [] else [''invalid''])"

definition raw_handlers :: json where
  "raw_handlers = JArr [JObj [(''kind'', JStr EthereumHandlerKind_Call), (''handler'', JStr ''handleCall''),
     (''filter'', JObj [(''from'', JStr ''0xab''), (''to'', JNull)])]]"

definition handler_instances :: "inst list" where
  "handler_instances = [Obj ''CallHandler'' [(''kind'', Leaf (JStr EthereumHandlerKind_Call)),
     (''handler'', Leaf (JStr ''handleCall'')),
     (''filter'', Obj ''TransactionFilter'' [(''from'', Leaf (JStr ''0xab'')), (''to'', Leaf JNull)])]]"

lemma sample_handlers:
  "mappingHandlers sample_manifestLib (plainTo (classes (\<lambda>_. []))) raw_handlers = Inr (Seq handler_instances)"
  by code_simp

definition sample_ds :: "(string \<times> inst) list" where
  "sample_ds = [(''kind'', Leaf (JStr EthereumDatasourceKind_Runtime)),
     (''mapping'', Obj ''EthereumMapping'' [(''file'', Leaf (JStr ''index.js'')), (''handlers'', Seq handler_instances)])]"

lemma sample_validates: "validateRuntimeDs sample_validate (Obj ''EthereumRuntimeDataSourceImpl'' sample_ds) = Inr ()"
  by code_simp


end
