(* ===== verification/Eth_Dictionary.thy ===== *)
theory Eth_Dictionary
  imports Dictionary_V2 Blockchain_Service
begin

text \<open>
  The dictionary classes of \<open>packages/node/src/indexer/dictionary\<close> around the query builders
  (\<open>EthDictionaryV1\<close>, \<open>EthDictionaryV2\<close>, \<open>EthDictionaryService\<close>), and what becomes of the blocks a
  version 2 dictionary answers with when they are indexed. The base classes of node-core are
  parameters: \<open>init\<close>, which reads the metadata and may fail, and \<open>getData\<close>, which sends the query.
\<close>

section \<open>Version 1\<close>

record EthDictionaryV1 =
  v1_dictionaryUrl :: string
  v1_chainId :: string

definition newEthDictionaryV1 :: "string \<Rightarrow> string \<Rightarrow> string option \<Rightarrow> EthDictionaryV1" where
  "newEthDictionaryV1 networkChainId dictionaryUrl chainAlias =
     \<lparr>v1_dictionaryUrl = dictionaryUrl,
      v1_chainId = (case chainAlias of Some c \<Rightarrow> c | None \<Rightarrow> networkChainId)\<rparr>"

text \<open>The file of aliases: \<open>fetchText\<close> is the response to the request for it, \<open>parse5\<close> is \<open>JSON5.parse\<close>.\<close>

definition CHAIN_ALIASES_URL :: string where
  "CHAIN_ALIASES_URL = ''https://raw.githubusercontent.com/subquery/templates/main/chainAliases.json5''"

definition getEvmChainId ::
    "(string \<Rightarrow> js_error + string) \<Rightarrow> (string \<Rightarrow> js_error + (string \<rightharpoonup> string)) \<Rightarrow> js_error + (string \<rightharpoonup> string)" where
  "getEvmChainId fetchText parse5 = bindE (fetchText CHAIN_ALIASES_URL) parse5"

definition createV1 ::
    "(string \<Rightarrow> js_error + string) \<Rightarrow> (string \<Rightarrow> js_error + (string \<rightharpoonup> string)) \<Rightarrow>
     (EthDictionaryV1 \<Rightarrow> js_error + EthDictionaryV1) \<Rightarrow> string \<Rightarrow> string \<Rightarrow> js_error + EthDictionaryV1" where
  "createV1 fetchText parse5 baseInit networkChainId dictionaryUrl =
     bindE (getEvmChainId fetchText parse5) (\<lambda>chainAliases.
       baseInit (newEthDictionaryV1 networkChainId dictionaryUrl (chainAliases networkChainId)))"

definition buildDictionaryQueryEntriesV1 ::
    "(addressHandler, handlerKey) groupBy \<Rightarrow>
     (DictionaryV1QueryEntry, string \<times> DictionaryQueryCondition list) uniqBy \<Rightarrow>
     ((DictionaryQueryCondition \<Rightarrow> string) \<Rightarrow> DictionaryQueryCondition list \<Rightarrow> DictionaryQueryCondition list) \<Rightarrow>
     ethers \<Rightarrow> nat \<Rightarrow> EthDictionaryV1 \<Rightarrow> SubqlDatasource list \<Rightarrow> js_error + DictionaryV1QueryEntry list" where
  "buildDictionaryQueryEntriesV1 G U S E limit d dss = buildDictionaryV1QueryEntries G U S E limit dss"

section \<open>Version 2\<close>

record EthDictionaryV2 =
  v2_endpoint :: string
  v2_chainId :: string
  v2_metadata :: "V2MetadataFilters option option"
  v2_skipTransactions :: bool
  v2_api :: EthereumApi

definition newEthDictionaryV2 :: "string \<Rightarrow> NodeConfig \<Rightarrow> string \<Rightarrow> EthereumApi \<Rightarrow> EthDictionaryV2" where
  "newEthDictionaryV2 endpoint config networkChainId api =
     \<lparr>v2_endpoint = endpoint, v2_chainId = networkChainId, v2_metadata = None,
      v2_skipTransactions = skipTransactions config, v2_api = api\<rparr>"

definition createV2 ::
    "(EthDictionaryV2 \<Rightarrow> js_error + EthDictionaryV2) \<Rightarrow> string \<Rightarrow> NodeConfig \<Rightarrow> string \<Rightarrow> EthereumApi
      \<Rightarrow> js_error + EthDictionaryV2" where
  "createV2 baseInit endpoint config networkChainId api =
     baseInit (newEthDictionaryV2 endpoint config networkChainId api)"

text \<open>\<open>this._metadata?.filters\<close>, where the metadata may be missing and may have no filters.\<close>

definition metadataFilters :: "EthDictionaryV2 \<Rightarrow> V2MetadataFilters" where
  "metadataFilters d =
     (case v2_metadata d of
        Some (Some f) \<Rightarrow> f
      | _ \<Rightarrow> \<lparr>mf_logs = None, mf_transactions = None\<rparr>)"

definition buildDictionaryQueryEntries ::
    "(addressHandler, handlerKey) groupBy \<Rightarrow>
     (EthDictionaryLogConditions, EthDictionaryLogConditions) uniqBy \<Rightarrow>
     (EthDictionaryTxConditions, EthDictionaryTxConditions) uniqBy \<Rightarrow>
     ethers \<Rightarrow> nat \<Rightarrow> EthDictionaryV2 \<Rightarrow> SubqlDatasource list \<Rightarrow> js_error + EthDictionaryV2QueryEntry" where
  "buildDictionaryQueryEntries G UL UT E limit d dss =
     buildDictionaryV2QueryEntry G UL UT E limit (metadataFilters d) dss"

definition getData ::
    "(EthDictionaryV2 \<Rightarrow> int \<Rightarrow> int \<Rightarrow> nat \<Rightarrow> dataFields \<Rightarrow> 'r) \<Rightarrow> EthDictionaryV2 \<Rightarrow> int \<Rightarrow> int \<Rightarrow> nat option \<Rightarrow> 'r" where
  "getData superGetData d startBlock endBlock limit =
     superGetData d startBlock endBlock (case limit of Some l \<Rightarrow> l | None \<Rightarrow> MIN_FETCH_LIMIT)
       (getDataFields (v2_skipTransactions d))"

section \<open>The service\<close>

text \<open>\<open>initDictionaries\<close> of the service: \<open>proj\<close> is the injected project, with its chain id;
  \<open>getDictionaryEndpoints\<close> is the method of the base class.\<close>

definition service_initDictionaries ::
    "(string \<Rightarrow> js_error + string list) \<Rightarrow> (string \<Rightarrow> string \<Rightarrow> js_error + 'v2) \<Rightarrow> (string \<Rightarrow> string \<Rightarrow> js_error + 'v1) \<Rightarrow>
     string option \<Rightarrow> js_error + ('v2, 'v1) dictionary list" where
  "service_initDictionaries getDictionaryEndpoints create2 create1 proj =
     (case proj of
        None \<Rightarrow> Inl (Error ''Project in Dictionary service not initialized '')
      | Some networkChainId \<Rightarrow>
          bindE (getDictionaryEndpoints networkChainId) (\<lambda>endpoints.
            Inr (initDictionaries (\<lambda>e. create2 e networkChainId) (\<lambda>e. create1 networkChainId e) endpoints ([], []))))"

text \<open>The aliases are fetched for every endpoint that is no version 2 dictionary: when that request
  fails, no version 1 dictionary is used, whatever the endpoints are.\<close>

theorem no_aliases_no_v1:
  assumes "getEvmChainId fetchText parse5 = Inl e"
    and "service_initDictionaries getDictionaryEndpoints create2
      (\<lambda>net url. createV1 fetchText parse5 baseInit net url) proj = Inr ds"
  shows "\<forall>d \<in> set ds. \<exists>v. d = DictV2 v"
proof -
  have "createV1 fetchText parse5 baseInit net url = Inl e" for net url
    by (simp add: createV1_def assms(1))
  then have "List.map_filter (\<lambda>u. case create2 u net of Inr _ \<Rightarrow> None
      | Inl _ \<Rightarrow> (case createV1 fetchText parse5 baseInit net u of Inr d \<Rightarrow> Some d | Inl _ \<Rightarrow> None)) us = []" for net us
    by (induction us) (auto simp: map_filter_def split: sum.split)
  with assms(2) show ?thesis
    by (auto simp: service_initDictionaries_def bindE_eq_Inr_iff dictionaries_in_order split: option.splits)
qed

section \<open>From the answer to the handlers\<close>

text \<open>
  What the answer to a query holds of a block, as the field selection documents it: the logs and the
  transactions the query asks for (\<open>lq\<close>, \<open>tq\<close>), with \<open>logs.transaction\<close> also the transactions of those
  logs, with \<open>transactions.log\<close> also the logs of those transactions.
\<close>

definition answers_doc ::
    "dataFields \<Rightarrow> (RawLog \<Rightarrow> bool) \<Rightarrow> (RawTransaction \<Rightarrow> bool) \<Rightarrow> RawEthBlock \<Rightarrow> RawEthBlock \<Rightarrow> bool" where
  "answers_doc flds lq tq chain_block answer \<longleftrightarrow>
     (let ls = orEmpty (reb_logs chain_block); txs = orEmpty (reb_transactions chain_block) in
      reb_header answer = reb_header chain_block \<and>
      orEmpty (reb_logs answer) = filter (\<lambda>l. lq l \<or>
        df_transactions_log flds \<and> (\<exists>tx \<in> set txs. tq tx \<and> rt_hash tx = rl_transactionHash l)) ls \<and>
      orEmpty (reb_transactions answer) = filter (\<lambda>tx. tq tx \<or>
        df_logs_transaction flds \<and> (\<exists>l \<in> set ls. lq l \<and> rt_hash tx = rl_transactionHash l)) txs)"

text \<open>The formatter of a provider for logs keeps the hash of the transaction.\<close>

definition filterLog_doc :: "(RawLog \<Rightarrow> js_error + RawLog) \<Rightarrow> bool" where
  "filterLog_doc filterLog \<longleftrightarrow> (\<forall>l m. filterLog l = Inr m \<longrightarrow> rl_transactionHash m = rl_transactionHash l)"

text \<open>The log a raw log of an answer becomes.\<close>

definition converted ::
    "ethers \<Rightarrow> (RawLog \<Rightarrow> js_error + RawLog) \<Rightarrow> RawLog \<Rightarrow> EthereumLog \<Rightarrow> bool" where
  "converted E filterLog raw l \<longleftrightarrow> (\<exists>m. filterLog raw = Inr m \<and> formatLog E m () = Inr (l, ()))"

lemma converted_hash:
  assumes "filterLog_doc filterLog" and "converted E filterLog raw l"
  shows "log_transactionHash l = rl_transactionHash raw"
  using assms by (auto simp: converted_def filterLog_doc_def formatLog_def bindE_eq_Inr_iff)

lemma converted_logs:
  assumes "rawBlockToEthBlock E filterLog raw = Inr ib"
  shows "list_all2 (converted E filterLog) (orEmpty (reb_logs raw)) (block_logs (iblock ib))"
proof -
  obtain raws ls where raws: "mapE filterLog (orEmpty (reb_logs raw)) = Inr raws"
      and ls: "mapE (\<lambda>l. formatLog E l ()) raws = Inr ls" and logs: "block_logs (iblock ib) = map fst ls"
    using assms
    by (auto simp: rawBlockToEthBlock_def bindE_eq_Inr_iff Let_def formatBlockUtil_def withTransactions_def
        split: sum.splits)
  have step1: "list_all2 (\<lambda>x y. f x = Inr y) xs ys" if "mapE f xs = Inr ys"
    for f :: "'x \<Rightarrow> js_error + 'y" and xs ys
    using that by (induction xs arbitrary: ys) (auto split: sum.splits)
  have "list_all2 (\<lambda>x y. filterLog x = Inr y) (orEmpty (reb_logs raw)) raws" using raws by (rule step1)
  moreover have "list_all2 (\<lambda>m y. formatLog E m () = Inr y) raws ls" using ls by (rule step1)
  ultimately have "list_all2 (\<lambda>x y. converted E filterLog x (fst y)) (orEmpty (reb_logs raw)) ls"
    by (rule list_all2_trans [rotated]) (auto simp: converted_def)
  then show ?thesis by (simp add: logs list_all2_map2)
qed

lemma converted_of_answer:
  assumes "rawBlockToEthBlock E filterLog answer = Inr ib" and "raw \<in> set (orEmpty (reb_logs answer))"
  shows "\<exists>l \<in> set (block_logs (iblock ib)). converted E filterLog raw l"
proof -
  obtain i where "i < length (orEmpty (reb_logs answer))" "raw = orEmpty (reb_logs answer) ! i"
    using assms(2) by (auto simp: in_set_conv_nth)
  with converted_logs [OF assms(1)] show ?thesis
    by (metis list_all2_conv_all_nth nth_mem)
qed

lemma answer_parts:
  assumes "answers_doc flds lq tq chain_block answer"
  shows "raw \<in> set (orEmpty (reb_logs chain_block)) \<Longrightarrow> lq raw \<Longrightarrow> raw \<in> set (orEmpty (reb_logs answer))"
    and "tx \<in> set (orEmpty (reb_transactions chain_block)) \<Longrightarrow> tq tx \<Longrightarrow> tx \<in> set (orEmpty (reb_transactions answer))"
    and "df_logs_transaction flds \<Longrightarrow> raw \<in> set (orEmpty (reb_logs chain_block)) \<Longrightarrow> lq raw \<Longrightarrow>
      rl_transactionHash raw \<in> rt_hash ` set (orEmpty (reb_transactions chain_block)) \<Longrightarrow>
      rl_transactionHash raw \<in> rt_hash ` set (orEmpty (reb_transactions answer))"
    and "\<not> df_logs_transaction flds \<Longrightarrow> t \<in> set (orEmpty (reb_transactions answer)) \<Longrightarrow> tq t"
  using assms by (fastforce simp: answers_doc_def Let_def)+

lemma schedule_of_answer:
  assumes "rawBlockToEthBlock E filterLog answer = Inr ib"
    and "orEmpty (reb_transactions answer) \<noteq> []" and "l \<in> set (block_logs (iblock ib))" and "ds \<in> set dss"
  shows "(EthereumHandlerKind_Event, LogItem l, ds) \<in> set (schedule (fullContent (iblock ib)) dss) \<longleftrightarrow>
    log_transactionHash l \<in> rt_hash ` set (orEmpty (reb_transactions answer))"
proof -
  have from_answer: "map tx_hash (transactions (iblock ib)) = map rt_hash (orEmpty (reb_transactions answer))"
      "log_share_ok (iblock ib)"
    using rawBlock_from_raw [OF assms(1)] by (simp_all add: from_raw_def)
  have "transactions (iblock ib) \<noteq> []" using from_answer(1) assms(2) by auto
  then have "isFullBlock (fullContent (iblock ib))"
    by (cases "transactions (iblock ib)") (simp_all add: isFullBlock_def fullContent_def)
  moreover have "logsOrEmpty (tx_logs tx) = logsOf (block_logs (iblock ib)) (tx_hash tx)"
    if "tx \<in> set (transactions (iblock ib))" for tx
    using from_answer(2) that by (simp add: log_share_ok_def logsOrEmpty_def)
  moreover have "rt_hash ` set (orEmpty (reb_transactions answer)) = tx_hash ` set (transactions (iblock ib))"
    using arg_cong [OF from_answer(1), of set] by simp
  ultimately show ?thesis
    using assms(3,4) by (auto simp: schedule_events logsOf_def)
qed


text \<open>C17. With \<open>skipTransactions\<close> a project that has other handlers than event handlers loses events: the
  API service then still fetches full blocks, but the version 2 dictionary leaves out the transactions
  of the logs, and a block with one transaction the query asked for counts as a full block, of which
  only the logs of its transactions are indexed. An asked log of another transaction is part of the
  block and is offered to no data source.\<close>

theorem v2_skip_transactions_loses_events:
  assumes "skipTransactions (nodeConfig s)" and "\<not> only_runtime_events (project s)"
    and "d = newEthDictionaryV2 endpoint (nodeConfig s) networkChainId api" and "filterLog_doc filterLog"
    and "answers_doc (getDataFields (v2_skipTransactions d)) lq tq chain_block answer"
    and "rawBlockToEthBlock E filterLog answer = Inr ib"
    and "raw \<in> set (orEmpty (reb_logs chain_block))" and "lq raw"
    and "tx \<in> set (orEmpty (reb_transactions chain_block))" and "tq tx"
    and "\<forall>t. tq t \<longrightarrow> rt_hash t \<noteq> rl_transactionHash raw"
  shows "fetchBlocksFunction (updateBlockFetching s) = Some FetchFull \<and>
    (\<exists>l \<in> set (block_logs (iblock ib)). converted E filterLog raw l \<and>
      (EthereumHandlerKind_Event, LogItem l, ds) \<notin> set (schedule (fullContent (iblock ib)) dss))"
proof
  show "fetchBlocksFunction (updateBlockFetching s) = Some FetchFull"
    using assms(2) by (simp add: updateBlockFetching_def Let_def isOnlyEventHandlers_iff only_runtime_events_def)
  have no_tx: "\<not> df_logs_transaction (getDataFields (v2_skipTransactions d))"
    using assms(1,3) by (simp add: getDataFields_def newEthDictionaryV2_def)
  have none: "rl_transactionHash raw \<notin> rt_hash ` set (orEmpty (reb_transactions answer))"
    using answer_parts(4) [OF assms(5) no_tx] assms(11) by (metis imageE)
  have "raw \<in> set (orEmpty (reb_logs answer))" and asked: "tx \<in> set (orEmpty (reb_transactions answer))"
    using answer_parts(1,2) [OF assms(5)] assms(7-10) by simp_all
  with converted_of_answer [OF assms(6)] obtain l where l: "l \<in> set (block_logs (iblock ib))" "converted E filterLog raw l"
    by blast
  have "orEmpty (reb_transactions answer) \<noteq> []" using asked by auto
  then have "(EthereumHandlerKind_Event, LogItem l, ds) \<notin> set (schedule (fullContent (iblock ib)) dss)"
    using schedule_of_answer [OF assms(6) _ l(1), of ds dss] converted_hash [OF assms(4) l(2)] none
    by (cases "ds \<in> set dss") (simp_all add: schedule_events)
  with l show "\<exists>l \<in> set (block_logs (iblock ib)). converted E filterLog raw l \<and>
      (EthereumHandlerKind_Event, LogItem l, ds) \<notin> set (schedule (fullContent (iblock ib)) dss)" by blast
qed

text \<open>Where the query asks for no transaction, as for a project with event handlers only, the option loses
  nothing.\<close>

theorem v2_skip_transactions_without_calls:
  assumes "v2_skipTransactions d" and "\<forall>t. \<not> tq t"
    and "answers_doc (getDataFields (v2_skipTransactions d)) lq tq chain_block answer"
    and "rawBlockToEthBlock E filterLog answer = Inr ib"
    and "raw \<in> set (orEmpty (reb_logs chain_block))" and "lq raw" and "ds \<in> set dss"
  shows "\<exists>l \<in> set (block_logs (iblock ib)). converted E filterLog raw l \<and>
    (EthereumHandlerKind_Event, LogItem l, ds) \<in> set (schedule (fullContent (iblock ib)) dss)"
proof -
  have no_tx: "\<not> df_logs_transaction (getDataFields (v2_skipTransactions d))"
    using assms(1) by (simp add: getDataFields_def)
  have "set (orEmpty (reb_transactions answer)) = {}"
    using answer_parts(4) [OF assms(3) no_tx] assms(2) by (metis all_not_in_conv)
  then have "transactions (iblock ib) = []"
    using rawBlock_from_raw [OF assms(4)] by (simp add: from_raw_def)
  then have light: "\<not> isFullBlock (fullContent (iblock ib))" by (simp add: isFullBlock_def fullContent_def)
  obtain l where "l \<in> set (block_logs (iblock ib))" "converted E filterLog raw l"
    using converted_of_answer [OF assms(4) answer_parts(1) [OF assms(3,5,6)]] by blast
  with light assms(7) show ?thesis by (auto simp: schedule_events fullContent_def)
qed

subsection \<open>Samples\<close>

text \<open>A block with two transactions and a log of the second; the query asks for the log and for the
  first transaction.\<close>

definition two_tx_block :: RawEthBlock where
  "two_tx_block = \<lparr>reb_header = sample_rawBlock [], reb_transactions = Val [sample_rawTx ''0x1'', sample_rawTx ''0x2''],
     reb_logs = Val [sample_rawLog ''0xab'' ''0x2'']\<rparr>"

definition first_tx_answer :: RawEthBlock where
  "first_tx_answer = two_tx_block\<lparr>reb_transactions := Val [sample_rawTx ''0x1'']\<rparr>"

definition asks_first :: "RawTransaction \<Rightarrow> bool" where
  "asks_first tx = (rt_hash tx = ''0x1'')"

lemma two_tx_hashes:
  "rt_hash (sample_rawTx h) = h" "rl_transactionHash (sample_rawLog b h) = h"
  by (simp_all add: sample_rawTx_def sample_rawLog_def)

lemma sample_answers:
  "answers_doc (getDataFields False) (\<lambda>_. True) asks_first two_tx_block two_tx_block"
  "answers_doc (getDataFields True) (\<lambda>_. True) asks_first two_tx_block first_tx_answer"
  by (simp_all add: answers_doc_def getDataFields_def two_tx_block_def first_tx_answer_def orEmpty_def
      asks_first_def two_tx_hashes)

lemma sample_conversions:
  "\<exists>ib. rawBlockToEthBlock sample_ethers Inr two_tx_block = Inr ib"
  "\<exists>ib. rawBlockToEthBlock sample_ethers Inr first_tx_answer = Inr ib"
  by (simp_all add: rawBlockToEthBlock_def two_tx_block_def first_tx_answer_def orEmpty_def
      sample_defs fetch_defs Let_def)

definition both_handlers_service :: EthereumApiService where
  "both_handlers_service =
     \<lparr>project = \<lparr>dataSources = [(runtime_ds ''0xA'')\<lparr>ds_handlers := [CallHandler ''handleCall'' Undefined,
        EventHandler ''handleLog'' Undefined]\<rparr>], templates = [], root = ''/project''\<rparr>,
      nodeConfig = \<lparr>cfg_skipTransactions = Some True, cfg_blockConfirmations = 200, cfg_blockForkReindex = 1000,
        cfg_profiler = False\<rparr>, fetchBlocksFunction = None\<rparr>"


theorem v2_skip_transactions_without_calls_witness:
  "\<exists>ib. rawBlockToEthBlock sample_ethers Inr (two_tx_block\<lparr>reb_transactions := Val []\<rparr>) = Inr ib \<and>
     (\<exists>l \<in> set (block_logs (iblock ib)).
       (EthereumHandlerKind_Event, LogItem l, runtime_ds ''0xA'') \<in> set (schedule (fullContent (iblock ib)) [runtime_ds ''0xA'']))"
proof -
  let ?d = "\<lparr>v2_endpoint = ''https://dict'', v2_chainId = ''1'', v2_metadata = None, v2_skipTransactions = True,
    v2_api = sample_api\<rparr>"
  let ?answer = "two_tx_block\<lparr>reb_transactions := Val []\<rparr>"
  obtain ib where ib: "rawBlockToEthBlock sample_ethers Inr ?answer = Inr ib"
    by (simp add: rawBlockToEthBlock_def two_tx_block_def orEmpty_def sample_defs fetch_defs Let_def)
  have "answers_doc (getDataFields (v2_skipTransactions ?d)) (\<lambda>_. True) (\<lambda>_. False) two_tx_block ?answer"
    by (simp add: answers_doc_def getDataFields_def two_tx_block_def orEmpty_def)
  from v2_skip_transactions_without_calls [OF _ _ this ib, of "sample_rawLog ''0xab'' ''0x2''" "runtime_ds ''0xA''"
      "[runtime_ds ''0xA'']"] ib
  show ?thesis by (auto simp: two_tx_block_def orEmpty_def)
qed

theorem v2_skip_transactions_loses_events_witness:
  "\<exists>ib. rawBlockToEthBlock sample_ethers Inr first_tx_answer = Inr ib \<and>
     fetchBlocksFunction (updateBlockFetching both_handlers_service) = Some FetchFull \<and>
     (\<exists>l \<in> set (block_logs (iblock ib)). (EthereumHandlerKind_Event, LogItem l, runtime_ds ''0xA'')
        \<notin> set (schedule (fullContent (iblock ib)) [runtime_ds ''0xA'']))"
proof -
  obtain ib where ib: "rawBlockToEthBlock sample_ethers Inr first_tx_answer = Inr ib" using sample_conversions(2) by blast
  have doc: "filterLog_doc Inr" by (simp add: filterLog_doc_def)
  have cfg: "skipTransactions (nodeConfig both_handlers_service)" "\<not> only_runtime_events (project both_handlers_service)"
    by (simp_all add: both_handlers_service_def skipTransactions_def only_runtime_events_def kind_defs)
  let ?d = "newEthDictionaryV2 ''https://dict'' (nodeConfig both_handlers_service) ''1'' sample_api"
  have "answers_doc (getDataFields (v2_skipTransactions ?d)) (\<lambda>_. True) asks_first two_tx_block first_tx_answer"
    using sample_answers(2) cfg(1) by (simp add: newEthDictionaryV2_def)
  from v2_skip_transactions_loses_events [OF cfg refl doc this ib, of "sample_rawLog ''0xab'' ''0x2''"
      "sample_rawTx ''0x1''" "runtime_ds ''0xA''" "[runtime_ds ''0xA'']"] ib
  show ?thesis by (auto simp: two_tx_block_def orEmpty_def two_tx_hashes asks_first_def)
qed

end
