(* ===== verification/Worker_Service.thy ===== *)
theory Worker_Service
  imports Indexer_Manager Blockchain_Service
begin

text \<open>
  How blocks get from the API to the indexer, in the process of the node and in worker threads:
  the operations of \<open>packages/node/src/blockchain.service.ts\<close> and
  \<open>packages/node/src/indexer/indexer.manager.ts\<close> that pass a block on, and
  \<open>packages/node/src/indexer/worker/worker.service.ts\<close>, \<open>worker.ts\<close>. The base classes of node-core
  are parameters: \<open>apiFetch\<close> is \<open>fetchBlocks\<close> of its \<open>ApiService\<close>, which runs the fetch function of the
  service on a connection of the pool, and \<open>internalIndexBlock\<close> that of its indexer manager.
\<close>

section \<open>Blocks of either kind\<close>

datatype AnyBlock = FullBlock "EthereumTransaction IBlock" | LightBlock "string IBlock"

definition lightContent :: "string EthereumBlock \<Rightarrow> BlockContent" where
  "lightContent b =
     \<lparr>difficulty = difficulty b, gasLimit = gasLimit b, gasUsed = gasUsed b, block_hash = block_hash b,
      block_logs = block_logs b, block_number = block_number b, parentHash = parentHash b,
      block_size = block_size b, stateRoot = stateRoot b, block_timestamp = block_timestamp b,
      totalDifficulty = totalDifficulty b, transactions = map TxHash (transactions b),
      baseFeePerGas = baseFeePerGas b, blockGasCost = blockGasCost b, blobGasUsed = blobGasUsed b,
      excessBlobGas = excessBlobGas b\<rparr>"

fun content :: "AnyBlock \<Rightarrow> BlockContent" where
  "content (FullBlock ib) = fullContent (iblock ib)"
| "content (LightBlock ib) = lightContent (iblock ib)"

fun header :: "AnyBlock \<Rightarrow> Header" where
  "header (FullBlock ib) = getHeader ib"
| "header (LightBlock ib) = getHeader ib"

fun fetchedList :: "fetched \<Rightarrow> AnyBlock list" where
  "fetchedList (FullBlocks bs) = map FullBlock bs"
| "fetchedList (LightBlocks bs) = map LightBlock bs"

section \<open>The process of the node\<close>

definition svc_fetchBlocks :: "(int list \<Rightarrow> js_error + fetched) \<Rightarrow> int list \<Rightarrow> js_error + fetched" where
  "svc_fetchBlocks apiFetch blockNums = apiFetch blockNums"

definition svc_getBlockSize :: "AnyBlock \<Rightarrow> int" where
  "svc_getBlockSize b = getBlockSize (content b)"

text \<open>\<open>indexBlock\<close>: the getter of the safe API is passed on and is called by the base class.\<close>

definition indexBlock ::
    "(AnyBlock \<Rightarrow> SubqlDatasource list \<Rightarrow> (unit \<Rightarrow> js_error + SafeEthProvider) \<Rightarrow> js_error + 'r) \<Rightarrow> EthereumApi
      \<Rightarrow> AnyBlock \<Rightarrow> SubqlDatasource list \<Rightarrow> js_error + 'r" where
  "indexBlock internalIndexBlock api b dss = internalIndexBlock b dss (\<lambda>_. svc_getSafeApi api (content b))"

text \<open>\<open>getDsProcessor\<close>: the sandbox of a data source gets the safe API and the client of the unsafe
  one.\<close>

definition getDsProcessor ::
    "(SubqlDatasource \<Rightarrow> SafeEthProvider \<Rightarrow> nat \<Rightarrow> 'vm) \<Rightarrow> EthereumApi \<Rightarrow> SubqlDatasource \<Rightarrow> SafeEthProvider \<Rightarrow> 'vm" where
  "getDsProcessor sandbox api ds safeApi = sandbox ds safeApi (client api)"

section \<open>A worker\<close>

text \<open>\<open>const [block] = await ...\<close> of an empty list is \<open>undefined\<close>, of which \<open>getHeader\<close> cannot be read.\<close>

definition fetchChainBlock :: "(int list \<Rightarrow> js_error + fetched) \<Rightarrow> int \<Rightarrow> js_error + AnyBlock js" where
  "fetchChainBlock apiFetch height =
     bindE (apiFetch [height]) (\<lambda>bs. Inr (case fetchedList bs of [] \<Rightarrow> Undefined | b # _ \<Rightarrow> Val b))"

definition toBlockResponse :: "AnyBlock js \<Rightarrow> js_error + Header" where
  "toBlockResponse b =
     (case b of
        Val x \<Rightarrow> Inr (header x)
      | _ \<Rightarrow> Inl (TypeError ''Cannot read properties of undefined (reading 'getHeader')''))"

definition processFetchedBlock :: "(AnyBlock \<Rightarrow> SubqlDatasource list \<Rightarrow> js_error + 'r) \<Rightarrow> AnyBlock \<Rightarrow> SubqlDatasource list \<Rightarrow> js_error + 'r" where
  "processFetchedBlock managerIndexBlock b dss = managerIndexBlock b dss"

definition worker_getBlockSize :: "AnyBlock \<Rightarrow> int" where
  "worker_getBlockSize b = getBlockSize (content b)"

text \<open>\<open>fetchBlockWorker\<close> of the node asks a worker for a block; the second argument is a retry count.\<close>

definition fetchBlockWorker :: "(int \<Rightarrow> int \<Rightarrow> js_error + Header) \<Rightarrow> int \<Rightarrow> js_error + Header" where
  "fetchBlockWorker workerFetchBlock blockNum = workerFetchBlock blockNum 0"

section \<open>Properties\<close>

lemma fullContent_fields [simp]:
  "block_number (fullContent b) = block_number b" "block_logs (fullContent b) = block_logs b"
  "block_size (fullContent b) = block_size b" "block_hash (fullContent b) = block_hash b"
  by (simp_all add: fullContent_def)

lemma lightContent_fields [simp]:
  "block_number (lightContent b) = block_number b" "block_logs (lightContent b) = block_logs b"
  "block_size (lightContent b) = block_size b" "block_hash (lightContent b) = block_hash b"
  by (simp_all add: lightContent_def)

lemma light_is_not_full [simp]: "\<not> isFullBlock (lightContent b)"
  by (cases "transactions b") (simp_all add: isFullBlock_def lightContent_def)

lemma mapE_map_sum: "mapE (\<lambda>n. map_sum id g (f n)) ns = map_sum id (map g) (mapE f ns)"
  by (induction ns) (auto split: sum.splits)

lemma fetchChainBlock_full:
  "fetchChainBlock (conn_fetchBlocks (Some FetchFull) E env c) =
     (\<lambda>n. map_sum id (Val \<circ> FullBlock) (fetchBlock E env (unsafeApi c) n))"
  by (auto simp: fetchChainBlock_def conn_fetchBlocks_def fetchBlocksBatches_def runFetch_def
      Eth_Fetch.fetchBlocks_def fun_eq_iff split: sum.split)

lemma fetchChainBlock_light:
  "fetchChainBlock (conn_fetchBlocks (Some FetchLight) E env c) =
     (\<lambda>n. map_sum id (Val \<circ> LightBlock) (fetchLightBlock E env (unsafeApi c) n))"
  by (auto simp: fetchChainBlock_def conn_fetchBlocks_def fetchBlocksBatches_def runFetch_def
      fetchBlocksLight_def fun_eq_iff split: sum.split)

lemma fetchChainBlock_each:
  "mapE (fetchChainBlock (conn_fetchBlocks (Some f) E env c)) heights =
     map_sum id (\<lambda>bs. map Val (fetchedList bs)) (svc_fetchBlocks (conn_fetchBlocks (Some f) E env c) heights)"
proof (cases f)
  case FetchFull
  show ?thesis
    unfolding FetchFull fetchChainBlock_full mapE_map_sum
    by (cases "mapE (fetchBlock E env (unsafeApi c)) heights")
      (simp_all add: svc_fetchBlocks_def conn_fetchBlocks_def fetchBlocksBatches_def runFetch_def Eth_Fetch.fetchBlocks_def)
next
  case FetchLight
  show ?thesis
    unfolding FetchLight fetchChainBlock_light mapE_map_sum
    by (cases "mapE (fetchLightBlock E env (unsafeApi c)) heights")
      (simp_all add: svc_fetchBlocks_def conn_fetchBlocks_def fetchBlocksBatches_def runFetch_def fetchBlocksLight_def)
qed


text \<open>What node-core's worker is relied on for: a request for a block fetches it, keeps it and answers with
  its response; a request to process the block processes the one it kept.\<close>

definition base_worker_doc ::
    "(int \<Rightarrow> js_error + AnyBlock js) \<Rightarrow> (AnyBlock \<Rightarrow> SubqlDatasource list \<Rightarrow> js_error + 'r) \<Rightarrow>
     (int \<Rightarrow> int \<Rightarrow> js_error + Header) \<Rightarrow> (int \<Rightarrow> SubqlDatasource list \<Rightarrow> js_error + 'r) \<Rightarrow> bool" where
  "base_worker_doc chainBlock process fetchB processB \<longleftrightarrow>
     (\<forall>h retries. fetchB h retries = bindE (chainBlock h) toBlockResponse) \<and>
     (\<forall>h b dss. chainBlock h = Inr (Val b) \<longrightarrow> processB h dss = process b dss)"

text \<open>C21. A worker thread does for a block what the node itself does without workers: asked for a height at
  which the node would fetch a block, it answers with the header of that block, and processing it then
  has the result of indexing that block in the node.\<close>

theorem worker_indexes_like_the_node:
  assumes "base_worker_doc (fetchChainBlock apiFetch) (processFetchedBlock (indexBlock internalIndexBlock api)) fetchB processB"
    and "apiFetch = conn_fetchBlocks (Some f) E env c" and "svc_fetchBlocks apiFetch [height] = Inr bs"
  shows "\<exists>b. fetchedList bs = [b] \<and> fetchBlockWorker fetchB height = Inr (header b) \<and>
    processB height dss = indexBlock internalIndexBlock api b dss"
proof -
  have "mapE (fetchChainBlock apiFetch) [height] = Inr (map Val (fetchedList bs))"
    using fetchChainBlock_each [of f E env c "[height]"] assms(3) by (simp only: assms(2) map_sum.simps)
  then obtain b where "fetchChainBlock apiFetch height = Inr (Val b)" "fetchedList bs = [b]"
    by (auto split: sum.splits)
  with assms(1) show ?thesis
    by (auto simp: base_worker_doc_def fetchBlockWorker_def processFetchedBlock_def toBlockResponse_def)
qed

section \<open>Handlers and the chain\<close>

text \<open>
  The code of a project's handlers, as far as the chain sees it: a program that asks the safe API and
  goes on with the answer. \<open>runHandler\<close> runs it on a safe API; the environment may answer every call
  (numbered by \<open>k\<close>) differently.
\<close>

datatype 'r handlerCode = Done 'r | Ask SafeCall "js_error + Answer \<Rightarrow> 'r handlerCode"

primrec runHandler ::
    "(nat \<Rightarrow> EthereumApi) \<Rightarrow> (nat \<Rightarrow> nat \<Rightarrow> nat \<Rightarrow> Provider) \<Rightarrow> int \<Rightarrow> 'r handlerCode \<Rightarrow> nat \<Rightarrow> SafeEthProvider \<Rightarrow> 'r" where
  "runHandler pool envs height (Done r) = (\<lambda>k target. r)"
| "runHandler pool envs height (Ask call cont) = (\<lambda>k target.
     let (answer, target') = proxyCall pool (envs k) height target call
     in runHandler pool envs height (cont answer) (Suc k) target')"

text \<open>What \<open>internalIndexBlock\<close> of node-core is relied on for: given a safe API it runs the code of the
  handlers on it, which the block and the data sources determine.\<close>

definition runs_handlers ::
    "(nat \<Rightarrow> EthereumApi) \<Rightarrow>
     ((nat \<Rightarrow> nat \<Rightarrow> nat \<Rightarrow> Provider) \<Rightarrow> AnyBlock \<Rightarrow> SubqlDatasource list \<Rightarrow> (unit \<Rightarrow> js_error + SafeEthProvider) \<Rightarrow> js_error + 'r) \<Rightarrow>
     (AnyBlock \<Rightarrow> SubqlDatasource list \<Rightarrow> (js_error + 'r) handlerCode) \<Rightarrow> bool" where
  "runs_handlers pool internal prog \<longleftrightarrow>
     (\<forall>envs b dss getApi target. getApi () = Inr target \<longrightarrow>
        internal envs b dss getApi = runHandler pool envs (sp_blockHeight target) (prog b dss) 0 target)"

lemma proxyCall_agree:
  assumes "\<And>n c. agree_at height (env n c) (env' n c)" and "sp_blockHeight target = height"
  shows "proxyCall api env height target call = proxyCall api env' height target call"
proof -
  obtain t where t: "withTag t call = call" by (cases call) auto
  show ?thesis
    using retryLoop_pinned [of height env env' target api t call 0 None, OF assms]
      safeCall_agree [of target "env 0 (baseApi target)" "env' 0 (baseApi target)" call] assms
    by (simp add: proxyCall_def t)
qed

lemma proxyCall_height: "sp_blockHeight (snd (proxyCall api env height target call)) = sp_blockHeight target"
  by (cases call) (auto simp: proxyCall_def safeCall_def safe_getNetwork_def Let_def split: option.split sum.split prod.split)

lemma runHandler_agree:
  assumes "\<And>k n c. agree_at height (envs k n c) (envs' k n c)"
  shows "sp_blockHeight target = height \<Longrightarrow>
    runHandler api envs height prog k target = runHandler api envs' height prog k target"
proof (induction prog arbitrary: k target)
  case (Ask call cont)
  have "proxyCall api (envs k) height target call = proxyCall api (envs' k) height target call"
    by (rule proxyCall_agree) (use assms Ask.prems in auto)
  moreover have "sp_blockHeight (snd (proxyCall api (envs' k) height target call)) = height"
    by (simp add: proxyCall_height Ask.prems)
  ultimately show ?case
    using Ask.IH by (simp add: case_prod_unfold Let_def)
qed simp

lemma svc_getSafeApi_height: "svc_getSafeApi api b = Inr target \<Longrightarrow> sp_blockHeight target = block_number b"
  by (auto simp: svc_getSafeApi_def bindE_eq_Inr_iff newSafeEthProvider_def dest: getSafeApi_height)

text \<open>C15. Indexing a block is reproducible: whatever the handlers ask of the chain through the API they are
  given, through all retries and on all endpoints, the result depends on the endpoints only through
  their answers at the height of the block. Two runs whose endpoints agree at that height give the
  same result, even when the chain has grown or the endpoints differ elsewhere.\<close>

theorem indexing_reads_its_height:
  assumes "runs_handlers pool internal prog"
    and "\<And>k n c. agree_at (block_number (content b)) (envs k n c) (envs' k n c)"
    and "svc_getSafeApi api (content b) = Inr target"
  shows "indexBlock (internal envs) api b dss = indexBlock (internal envs') api b dss"
  using assms(1) runHandler_agree [OF assms(2), of target] svc_getSafeApi_height [OF assms(3)] assms(3)
  by (simp add: runs_handlers_def indexBlock_def)

subsection \<open>Samples\<close>

definition sample_fetch :: "int list \<Rightarrow> js_error + fetched" where
  "sample_fetch = conn_fetchBlocks (Some FetchFull) sample_ethers (sample_fetch_env (Inr [sample_rawLog ''0xab'' ''0x1'']))
     \<lparr>unsafeApi = sample_api, networkMeta = \<lparr>chain = ''1'', specName = ''ethereum'', nm_genesisHash = ''0x0''\<rparr>\<rparr>"

definition count_indexer :: "AnyBlock \<Rightarrow> SubqlDatasource list \<Rightarrow> (unit \<Rightarrow> js_error + SafeEthProvider) \<Rightarrow> js_error + nat" where
  "count_indexer b dss getApi = Inr (length dss)"

definition sample_processBlock :: "int \<Rightarrow> SubqlDatasource list \<Rightarrow> js_error + nat" where
  "sample_processBlock h dss =
     (case fetchChainBlock sample_fetch h of
        Inr (Val b) \<Rightarrow> processFetchedBlock (indexBlock count_indexer sample_api) b dss
      | _ \<Rightarrow> Inl (Error ''not fetched''))"

lemma sample_base_worker:
  "base_worker_doc (fetchChainBlock sample_fetch) (processFetchedBlock (indexBlock count_indexer sample_api))
     (\<lambda>h _. bindE (fetchChainBlock sample_fetch h) toBlockResponse) sample_processBlock"
  by (simp add: base_worker_doc_def sample_processBlock_def)

theorem worker_indexes_like_the_node_witness:
  "\<exists>b. fetchBlockWorker (\<lambda>h _. bindE (fetchChainBlock sample_fetch h) toBlockResponse) 7 = Inr (header b) \<and>
     sample_processBlock 7 [runtime_ds ''0xA''] = Inr 1"
proof -
  obtain ib where ib: "fetchBlock sample_ethers (sample_fetch_env (Inr [sample_rawLog ''0xab'' ''0x1''])) sample_api 7 = Inr ib"
    using sample_fetchBlock by blast
  have fetched: "svc_fetchBlocks sample_fetch [7] = Inr (FullBlocks [ib])"
    by (simp add: svc_fetchBlocks_def sample_fetch_def conn_fetchBlocks_def fetchBlocksBatches_def runFetch_def
        Eth_Fetch.fetchBlocks_def ib)
  obtain b where b: "fetchBlockWorker (\<lambda>h _. bindE (fetchChainBlock sample_fetch h) toBlockResponse) 7 = Inr (header b)"
      "sample_processBlock 7 [runtime_ds ''0xA''] = indexBlock count_indexer sample_api b [runtime_ds ''0xA'']"
    using worker_indexes_like_the_node [OF sample_base_worker sample_fetch_def fetched] by blast
  from b(2) have "sample_processBlock 7 [runtime_ds ''0xA''] = Inr 1" by (simp add: indexBlock_def count_indexer_def)
  with b(1) show ?thesis by (intro exI conjI)
qed

text \<open>A handler that stores the balance of an account.\<close>

definition balance_indexer ::
    "(nat \<Rightarrow> nat \<Rightarrow> nat \<Rightarrow> Provider) \<Rightarrow> AnyBlock \<Rightarrow> SubqlDatasource list \<Rightarrow> (unit \<Rightarrow> js_error + SafeEthProvider) \<Rightarrow> js_error + Answer" where
  "balance_indexer envs b dss getApi =
     bindE (getApi ()) (\<lambda>target. runHandler (\<lambda>_. sample_api) envs (sp_blockHeight target)
       (Ask (GetBalance ''0x1'' None) Done) 0 target)"

definition sample_light :: AnyBlock where
  "sample_light = LightBlock \<lparr>iblock = \<lparr>difficulty = 0, gasLimit = 0, gasUsed = 0, block_hash = ''0xab'',
     block_logs = [sample_log], block_number = 7, parentHash = ''0xaa'', block_size = 1, stateRoot = ''0x0'',
     block_timestamp = 1, totalDifficulty = 0, transactions = [''0x1''], baseFeePerGas = Undefined,
     blockGasCost = Undefined, blobGasUsed = Undefined, excessBlobGas = Undefined\<rparr>,
     getHeader = \<lparr>blockHeight = 7, blockHash = ''0xab'', h_parentHash = Val ''0xaa'', h_timestamp = 1000\<rparr>\<rparr>"

theorem indexing_reads_its_height_witness:
  "indexBlock (balance_indexer (\<lambda>_ _ _. sample_provider False 100)) sample_api sample_light [] =
   indexBlock (balance_indexer (\<lambda>_ _ _. sample_provider False 8)) sample_api sample_light []"
proof -
  have "runs_handlers (\<lambda>_. sample_api) balance_indexer (\<lambda>_ _. Ask (GetBalance ''0x1'' None) Done)"
    by (simp add: runs_handlers_def balance_indexer_def)
  moreover have "block_number (content sample_light) = 7" by (simp add: sample_light_def)
  moreover have "agree_at 7 (sample_provider False 100) (sample_provider False 8)"
    by (simp add: agree_at_def sample_provider_def)
  moreover have "svc_getSafeApi sample_api (content sample_light) = Inr (newSafeEthProvider 1 7)"
    by (simp add: svc_getSafeApi_def getSafeApi_sample sample_light_def)
  ultimately show ?thesis
    by (intro indexing_reads_its_height [where pool = "\<lambda>_. sample_api"]) simp_all
qed

end
