(* ===== verification/Api_Start.thy ===== *)
theory Api_Start
  imports Worker_Service
begin

text \<open>
  \<open>init\<close> of \<open>packages/node/src/ethereum/api.service.ethereum.ts\<close>: the service is made, and a connection
  for every endpoint of the project and the primary endpoint of the command line. \<open>createConnections\<close>
  is the method of node-core's \<open>ApiService\<close>, which makes the connections with the function it is
  given and keeps them in a pool; \<open>parseUrl\<close> is \<open>new URL(endpoint)\<close>, its host name and protocol.
\<close>

section \<open>Starting the service\<close>

text \<open>How an operation of the process ends: \<open>exitWithError\<close> ends the process, and nothing runs after it.\<close>

datatype 'a process = Exited js_error | Rejected js_error | Resolved 'a

type_synonym connectFun = "string \<Rightarrow> int js \<Rightarrow> (js_error + EthereumApiConnection) option"
type_synonym pool = "string \<rightharpoonup> EthereumApiConnection"

text \<open>The function \<open>init\<close> hands to \<open>createConnections\<close>.\<close>

definition connectEndpoint ::
    "(string \<Rightarrow> js_error + string \<times> string) \<Rightarrow> (string \<Rightarrow> nat \<Rightarrow> netEnv) \<Rightarrow> NodeConfig \<Rightarrow> bool \<Rightarrow> connectFun" where
  "connectEndpoint parseUrl envOf config unfinalized endpoint bsize =
     (case parseUrl endpoint of
        Inl e \<Rightarrow> Some (Inl e)
      | Inr (host, protocol) \<Rightarrow>
          create (envOf endpoint) host protocol (config_blockConfirmations config) unfinalized bsize)"

text \<open>\<open>None\<close> when connecting to some endpoint never returns. \<open>network\<close> is the getter of the project,
  which may throw.\<close>

definition service_init ::
    "((string \<rightharpoonup> int js) \<Rightarrow> connectFun \<Rightarrow> (js_error + pool) option) \<Rightarrow> (string \<Rightarrow> js_error + string \<times> string) \<Rightarrow>
     (string \<Rightarrow> nat \<Rightarrow> netEnv) \<Rightarrow> SubqueryProject \<Rightarrow> js_error + (string \<rightharpoonup> int js) \<Rightarrow> (string \<times> int js) option \<Rightarrow>
     NodeConfig \<Rightarrow> bool \<Rightarrow> (EthereumApiService \<times> pool) process option" where
  "service_init createConnections parseUrl envOf proj network primary config unfinalized =
     (case network of
        Inl e \<Rightarrow> Some (Exited (Error ''Failed to init api''))
      | Inr endpoints \<Rightarrow>
          (case createConnections (withPrimaryEndpoint primary endpoints)
              (connectEndpoint parseUrl envOf config unfinalized) of
             None \<Rightarrow> None
           | Some (Inl e) \<Rightarrow> Some (Rejected e)
           | Some (Inr conns) \<Rightarrow> Some (Resolved (newEthereumApiService proj config, conns))))"

section \<open>Properties\<close>

text \<open>What \<open>createConnections\<close> is relied on for: a connection in the pool was made by the function for one
  of the endpoints, with its options.\<close>

definition createConnections_doc :: "((string \<rightharpoonup> int js) \<Rightarrow> connectFun \<Rightarrow> (js_error + pool) option) \<Rightarrow> bool" where
  "createConnections_doc createConnections \<longleftrightarrow>
     (\<forall>endpoints mk conns. createConnections endpoints mk = Some (Inr conns) \<longrightarrow>
        (\<forall>e c. conns e = Some c \<longrightarrow> (\<exists>cfg. endpoints e = Some cfg \<and> mk e cfg = Some (Inr c))))"

lemma createE:
  assumes "create env host protocol n u bsize = Some (Inr c)"
  obtains a where "newEthereumApi host protocol n u bsize = Inr a" and "init env 0 a = Some (Inr (unsafeApi c))"
    and "chainId (unsafeApi c) \<noteq> None" and "chainId (unsafeApi c) \<noteq> Some 0"
    and "chain (networkMeta c) = show_int (the (chainId (unsafeApi c)))"
  using assms
  by (auto simp: create_def newEthereumApiConnection_def bindE_eq_Inr_iff getChainId_def
      split: sum.splits option.splits if_splits)

lemma celoClients_options [simp]:
  "blockConfirmations (celoClients cid x) = blockConfirmations x"
  "unfinalizedBlocks (celoClients cid x) = unfinalizedBlocks x"
  "config_batchSize (celoClients cid x) = config_batchSize x" "hostname (celoClients cid x) = hostname x"
  by (simp_all add: celoClients_def applyBatchSize_def split: js.split option.split)

lemma init_options:
  assumes "init env t a = Some (Inr b)"
  shows "blockConfirmations b = blockConfirmations a \<and> unfinalizedBlocks b = unfinalizedBlocks a \<and>
    config_batchSize b = config_batchSize a \<and> hostname b = hostname a"
proof -
  let ?I = "\<lambda>b. blockConfirmations b = blockConfirmations a \<and> unfinalizedBlocks b = unfinalizedBlocks a \<and>
    config_batchSize b = config_batchSize a \<and> hostname b = hostname a"
  show ?thesis
    using assms
    by (rule init_rule [where I = ?I]) (auto elim!: initRound_nextE initRound_doneE)
qed

lemma newEthereumApi_options:
  "newEthereumApi host protocol n u bsize = Inr a \<Longrightarrow>
    blockConfirmations a = n \<and> unfinalizedBlocks a = u \<and> config_batchSize a = bsize \<and> hostname a = host"
  by (auto simp: newEthereumApi_def Let_def applyBatchSize_def split: if_splits js.splits option.splits)


subsection \<open>Samples\<close>

definition one_connection :: "(string \<rightharpoonup> int js) \<Rightarrow> connectFun \<Rightarrow> (js_error + pool) option" where
  "one_connection endpoints mk =
     (case endpoints ''https://rpc'' of
        None \<Rightarrow> Some (Inr Map.empty)
      | Some cfg \<Rightarrow>
          (case mk ''https://rpc'' cfg of
             None \<Rightarrow> None
           | Some (Inl e) \<Rightarrow> Some (Inl e)
           | Some (Inr c) \<Rightarrow> Some (Inr [''https://rpc'' \<mapsto> c])))"

lemma one_connection_doc: "createConnections_doc one_connection"
  by (auto simp: createConnections_doc_def one_connection_def split: option.splits sum.splits if_splits)

abbreviation sample_start :: "(EthereumApiService \<times> pool) process option" where
  "sample_start \<equiv> service_init one_connection (\<lambda>_. Inr (''host'', ''https:''))
     (\<lambda>_ _. sample_env 1 (\<lambda>_ _. Inr (Some sample_block)))
     \<lparr>dataSources = [], templates = [], root = ''/project''\<rparr> (Inr Map.empty) (Some (''https://rpc'', Undefined))
     \<lparr>cfg_skipTransactions = None, cfg_blockConfirmations = 200, cfg_blockForkReindex = 1000, cfg_profiler = False\<rparr> False"

lemma sample_start_resolves:
  "\<exists>s c. sample_start = Some (Resolved (s, [''https://rpc'' \<mapsto> c]))"
proof -
  have "\<exists>a'. init (\<lambda>_. sample_env 1 (\<lambda>_ _. Inr (Some sample_block))) 0 sample_api = Some (Inr a') \<and> chainId a' = Some 1"
    by (simp add: init.simps initRound_def sample_api_def newEthereumApi_def dropColon_def Let_def
        injectClient_def cur_def newClient_def applyBatchSize_def sample_env_def fetchGenesisHash_def celoClients_def)
  then obtain a' where "init (\<lambda>_. sample_env 1 (\<lambda>_ _. Inr (Some sample_block))) 0 sample_api = Some (Inr a')"
      "chainId a' = Some 1" by blast
  then show ?thesis
    by (simp add: service_init_def one_connection_def connectEndpoint_def withPrimaryEndpoint_def create_def
        config_blockConfirmations_def sample_api_new newEthereumApiConnection_def getChainId_def) (rule exI, rule refl)
qed


end
