(* ===== verification/Project_Load.thy ===== *)
theory Project_Load
  imports Manifest Project_Utils
begin

text \<open>
  Loading a project: \<open>EthereumProjectManifestVersioned\<close> with its accessors
  (\<open>packages/common-ethereum/src/project/versioned/ProjectManifestVersioned.ts\<close>),
  \<open>parseEthereumProjectManifest\<close> (\<open>load.ts\<close>) and \<open>createSubQueryProject\<close>
  (\<open>packages/node/src/configure/SubqueryProject.ts\<close>). \<open>instantiate\<close> is \<open>plainToClass\<close> with the class
  the table of versions gave, \<open>baseValidate\<close> and \<open>toYaml\<close> are methods of the base classes of
  \<open>@subql/common\<close>, \<open>baseCreate\<close> is \<open>BaseSubqueryProject.create\<close> of node-core.
\<close>

section \<open>The versioned manifest\<close>

record EthereumProjectManifestVersioned =
  mv_class :: manifestClass
  mv_impl :: inst

definition newManifestVersioned ::
    "manifestLib \<Rightarrow> (manifestClass \<Rightarrow> json \<Rightarrow> js_error + inst) \<Rightarrow> json \<Rightarrow> js_error + EthereumProjectManifestVersioned" where
  "newManifestVersioned L instantiate projectManifest =
     bindE (manifestVersion L projectManifest) (\<lambda>klass.
     bindE (instantiate klass projectManifest) (\<lambda>i. Inr \<lparr>mv_class = klass, mv_impl = i\<rparr>))"

definition asImpl :: "EthereumProjectManifestVersioned \<Rightarrow> inst" where
  "asImpl m = mv_impl m"

definition asV1_0_0 :: "EthereumProjectManifestVersioned \<Rightarrow> inst" where
  "asV1_0_0 m = mv_impl m"

text \<open>A property of an object; \<open>None\<close> is \<open>undefined\<close>.\<close>

definition fieldOf :: "inst \<Rightarrow> string \<Rightarrow> inst option" where
  "fieldOf i k = (case i of Obj _ fs \<Rightarrow> map_of fs k | Leaf (JObj fs) \<Rightarrow> map_option Leaf (map_of fs k) | _ \<Rightarrow> None)"

definition mv_specVersion :: "EthereumProjectManifestVersioned \<Rightarrow> inst option" where
  "mv_specVersion m = fieldOf (mv_impl m) ''specVersion''"

definition isV1_0_0 :: "EthereumProjectManifestVersioned \<Rightarrow> bool" where
  "isV1_0_0 m = (mv_specVersion m = Some (Leaf (JStr ''1.0.0'')))"

definition manifestIsV1_0_0 :: "inst \<Rightarrow> bool" where
  "manifestIsV1_0_0 manifest = (fieldOf manifest ''specVersion'' = Some (Leaf (JStr ''1.0.0'')))"

definition mv_dataSources :: "EthereumProjectManifestVersioned \<Rightarrow> inst option" where
  "mv_dataSources m = fieldOf (mv_impl m) ''dataSources''"

definition mv_schema :: "EthereumProjectManifestVersioned \<Rightarrow> js_error + inst option" where
  "mv_schema m =
     (case fieldOf (mv_impl m) ''schema'' of
        None \<Rightarrow> Inl (TypeError ''Cannot read properties of undefined (reading 'file')'')
      | Some (Leaf JNull) \<Rightarrow> Inl (TypeError ''Cannot read properties of null (reading 'file')'')
      | Some s \<Rightarrow> Inr (fieldOf s ''file''))"

definition mv_description :: "EthereumProjectManifestVersioned \<Rightarrow> inst option" where
  "mv_description m = fieldOf (mv_impl m) ''description''"

definition mv_repository :: "EthereumProjectManifestVersioned \<Rightarrow> inst option" where
  "mv_repository m = fieldOf (mv_impl m) ''repository''"

definition toDeployment :: "(inst \<Rightarrow> js_error + string) \<Rightarrow> EthereumProjectManifestVersioned \<Rightarrow> js_error + string" where
  "toDeployment toYaml m = toYaml (mv_impl m)"

text \<open>Only the implementation has a method \<open>validate\<close>; what every object inherits has none.\<close>

definition mv_validate :: "(inst \<Rightarrow> js_error + unit) \<Rightarrow> EthereumProjectManifestVersioned \<Rightarrow> js_error + unit" where
  "mv_validate baseValidate m =
     (case mv_class m of
        ProjectManifestV1_0_0 \<Rightarrow> baseValidate (mv_impl m)
      | Inherited _ \<Rightarrow> Inl (TypeError ''this._impl.validate is not a function''))"

section \<open>Loading\<close>

definition parseEthereumProjectManifest ::
    "manifestLib \<Rightarrow> (manifestClass \<Rightarrow> json \<Rightarrow> js_error + inst) \<Rightarrow> (inst \<Rightarrow> js_error + unit) \<Rightarrow> json
      \<Rightarrow> js_error + EthereumProjectManifestVersioned" where
  "parseEthereumProjectManifest L instantiate baseValidate raw =
     bindE (newManifestVersioned L instantiate raw) (\<lambda>projectManifest.
     bindE (mv_validate baseValidate projectManifest) (\<lambda>_. Inr projectManifest))"

definition createSubQueryProject ::
    "manifestLib \<Rightarrow> (manifestClass \<Rightarrow> json \<Rightarrow> js_error + inst) \<Rightarrow> (inst \<Rightarrow> js_error + unit) \<Rightarrow>
     ((json \<Rightarrow> js_error + inst) \<Rightarrow> json \<Rightarrow> js_error + SubqueryProject) \<Rightarrow> abiFiles \<Rightarrow> json \<Rightarrow> string
      \<Rightarrow> js_error + SubqueryProject" where
  "createSubQueryProject L instantiate baseValidate baseCreate F rawManifest rootDir =
     bindE (baseCreate (\<lambda>raw. bindE (parseEthereumProjectManifest L instantiate baseValidate raw) (\<lambda>m. Inr (asV1_0_0 m)))
       rawManifest) (\<lambda>p. Inr (resolveProject F rootDir p))"

section \<open>Properties\<close>

text \<open>What the libraries are relied on for: \<open>validate\<close> of the base class is class-validator's check, an
  instance of the implementation has its class, and a project is made of the manifest that was parsed.\<close>

definition baseValidate_doc :: "(inst \<Rightarrow> js_error + string list) \<Rightarrow> (inst \<Rightarrow> js_error + unit) \<Rightarrow> bool" where
  "baseValidate_doc validateSync baseValidate \<longleftrightarrow> (\<forall>i. baseValidate i = Inr () \<longrightarrow> validateSync i = Inr [])"

definition instantiate_doc :: "(manifestClass \<Rightarrow> json \<Rightarrow> js_error + inst) \<Rightarrow> bool" where
  "instantiate_doc instantiate \<longleftrightarrow>
     (\<forall>j i. instantiate ProjectManifestV1_0_0 j = Inr i \<longrightarrow> (\<exists>fs. i = Obj ''ProjectManifestV1_0_0Impl'' fs))"

definition baseCreate_doc :: "((json \<Rightarrow> js_error + inst) \<Rightarrow> json \<Rightarrow> js_error + SubqueryProject) \<Rightarrow> bool" where
  "baseCreate_doc baseCreate \<longleftrightarrow> (\<forall>parse raw p. baseCreate parse raw = Inr p \<longrightarrow> (\<exists>i. parse raw = Inr i))"

lemma parsed_manifest:
  assumes "validator_doc base L validateSync" and "baseValidate_doc validateSync baseValidate"
    and "instantiate_doc instantiate" and "parseEthereumProjectManifest L instantiate baseValidate raw = Inr m"
  shows "accepted L (classes base) (asV1_0_0 m)" and "isV1_0_0 m" and "manifestVersion L raw = Inr ProjectManifestV1_0_0"
proof -
  from assms(4) have v: "manifestVersion L raw = Inr (mv_class m)" "instantiate (mv_class m) raw = Inr (mv_impl m)"
      "mv_validate baseValidate m = Inr ()"
    by (auto simp: parseEthereumProjectManifest_def newManifestVersioned_def bindE_eq_Inr_iff)
  then have k: "mv_class m = ProjectManifestV1_0_0" and ok: "baseValidate (mv_impl m) = Inr ()"
    by (auto simp: mv_validate_def split: manifestClass.splits)
  with v(1) show "manifestVersion L raw = Inr ProjectManifestV1_0_0" by simp
  from ok assms(1,2) have acc: "accepted L (classes base) (mv_impl m)"
    by (simp add: validator_doc_def baseValidate_doc_def)
  then show "accepted L (classes base) (asV1_0_0 m)" by (simp add: asV1_0_0_def)
  from v(2) k assms(3) obtain fs where i: "mv_impl m = Obj ''ProjectManifestV1_0_0Impl'' fs"
    unfolding instantiate_doc_def by auto
  have "classes base ''ProjectManifestV1_0_0Impl'' = Some (ProjectManifestV1_0_0Impl base)" by (simp add: classes_def)
  moreover have "decl ''specVersion'' [Equals ''1.0.0''] Untyped \<in> set (ProjectManifestV1_0_0Impl base)"
    by (simp add: ProjectManifestV1_0_0Impl_def)
  ultimately have "propOk L (decl ''specVersion'' [Equals ''1.0.0''] Untyped)
      (map_option (\<lambda>v. (v, accepted L (classes base) v)) (map_of fs ''specVersion''))"
    using accepted_field [OF acc [unfolded i]] by fastforce
  then show "isV1_0_0 m"
    by (auto simp: propOk_def decOk_def isV1_0_0_def mv_specVersion_def fieldOf_def i List.member_iff
        split: option.splits inst.splits json.splits)
qed


subsection \<open>Samples\<close>

definition sample_manifest :: json where
  "sample_manifest = JObj [(''specVersion'', JStr ''1.0.0''), (''name'', JStr ''demo''), (''version'', JStr ''0.0.1'')]"

definition sample_instantiate :: "manifestClass \<Rightarrow> json \<Rightarrow> js_error + inst" where
  "sample_instantiate k j =
     (case k of
        ProjectManifestV1_0_0 \<Rightarrow> Inr (Obj ''ProjectManifestV1_0_0Impl''
          [(''specVersion'', Leaf (JStr ''1.0.0'')), (''name'', Leaf (JStr ''demo'')), (''version'', Leaf (JStr ''0.0.1'')),
           (''runner'', Obj ''EthereumRunnerSpecs'' [])])
      | Inherited _ \<Rightarrow> Inr (Leaf j))"

definition sample_baseValidate :: "inst \<Rightarrow> js_error + unit" where
  "sample_baseValidate i = validateObject sample_validate i ''invalid manifest''"

definition sample_baseCreate :: "(json \<Rightarrow> js_error + inst) \<Rightarrow> json \<Rightarrow> js_error + SubqueryProject" where
  "sample_baseCreate parse raw = bindE (parse raw) (\<lambda>_. Inr \<lparr>
     dataSources = [sample_event_ds ''nft.json'' Undefined ''Open(Kind)''], templates = [], root = ''/p''\<rparr>)"

lemma sample_docs:
  "validator_doc (\<lambda>_. []) sample_manifestLib sample_validate" "baseValidate_doc sample_validate sample_baseValidate"
  "instantiate_doc sample_instantiate" "baseCreate_doc sample_baseCreate"
  by (auto simp: validator_doc_def sample_validate_def baseValidate_doc_def sample_baseValidate_def validateObject_def
      instantiate_doc_def sample_instantiate_def baseCreate_doc_def sample_baseCreate_def bindE_eq_Inr_iff split: if_splits)

lemma sample_project_loads:
  "isl (createSubQueryProject sample_manifestLib sample_instantiate sample_baseValidate sample_baseCreate sample_files
     sample_manifest ''/p'') = False"
  by code_simp


text \<open>A manifest whose version is the name of an inherited function gets past the lookup and no further.\<close>

theorem inherited_version_refused:
  "manifestVersion L (JObj [(''specVersion'', JStr ''toString'')]) = Inr (Inherited ''toString'') \<and>
   isl (parseEthereumProjectManifest L instantiate baseValidate (JObj [(''specVersion'', JStr ''toString'')]))"
proof -
  have "manifestVersion L (JObj [(''specVersion'', JStr ''toString'')]) = Inr (Inherited ''toString'')"
    by (simp add: manifestVersion_def json_get_def supportedVersion_def objectPrototype_def List.member_iff)
  then show ?thesis
    by (cases "instantiate (Inherited ''toString'') (JObj [(''specVersion'', JStr ''toString'')])")
      (simp_all add: parseEthereumProjectManifest_def newManifestVersioned_def mv_validate_def)
qed

end
