(* ===== verification/Application.thy ===== *)
theory Application
  imports Api_Start
begin

text \<open>
  The processes of \<open>packages/node/src\<close>: their entry points (\<open>main.ts\<close>, \<open>init.ts\<close>,
  \<open>indexer/worker/worker.ts\<close>, \<open>subcommands\<close>) as sequences of steps on the environment, and the
  modules that wire the services together (\<open>indexer/fetch.module.ts\<close>,
  \<open>indexer/worker/worker-fetch.module.ts\<close>, \<open>configure/configure.module.ts\<close> and those of the
  subcommands) as tables of providers. What a step does is node-core's and Nest's; \<open>world\<close> says
  whether it succeeds.
\<close>

section \<open>Entry points\<close>

datatype step = ValidPort | CreateApp string | AppInit | ProjectInit "int option" | FetchInit | EnableHooks
  | Listen | InitServices | GetInstance | RunTests | GetTestRunner

text \<open>The steps of a \<open>try\<close> block until the first that fails: the ones tried, and the error.\<close>

fun runSteps :: "(step \<Rightarrow> js_error + unit) \<Rightarrow> step list \<Rightarrow> step list \<times> js_error option" where
  "runSteps world [] = ([], None)"
| "runSteps world (s # ss) =
     (case world s of
        Inl e \<Rightarrow> ([s], Some e)
      | Inr _ \<Rightarrow> (let (tried, err) = runSteps world ss in (s # tried, err)))"

definition bootSteps :: "step list" where
  "bootSteps = [CreateApp ''AppModule'', AppInit, ProjectInit None, FetchInit, EnableHooks, Listen]"

text \<open>\<open>bootstrap\<close>: the port is looked for outside the \<open>try\<close> block.\<close>

definition bootstrap :: "(step \<Rightarrow> js_error + unit) \<Rightarrow> step list \<times> unit process" where
  "bootstrap world =
     (case world ValidPort of
        Inl e \<Rightarrow> ([ValidPort], Rejected e)
      | Inr _ \<Rightarrow>
          (let (tried, err) = runSteps world bootSteps
           in (ValidPort # tried, case err of
                 Some e \<Rightarrow> Exited (Error ''Node failed to start'')
               | None \<Rightarrow> Resolved ())))"

text \<open>\<open>main.ts\<close> runs \<open>bootstrap\<close> when the command line names no subcommand.\<close>

definition runMain :: "(step \<Rightarrow> js_error + unit) \<Rightarrow> string list \<Rightarrow> (step list \<times> unit process) option" where
  "runMain world argv = (if argv = [] then Some (bootstrap world) else None)"

text \<open>\<open>initWorker\<close> logs an error and throws it again.\<close>

definition workerSteps :: "int option \<Rightarrow> step list" where
  "workerSteps startHeight = [CreateApp ''WorkerModule'', AppInit, ProjectInit startHeight, InitServices]"

definition initWorker :: "(step \<Rightarrow> js_error + unit) \<Rightarrow> int option \<Rightarrow> step list \<times> unit process" where
  "initWorker world startHeight =
     (let (tried, err) = runSteps world (workerSteps startHeight)
      in (tried, case err of Some e \<Rightarrow> Rejected e | None \<Rightarrow> Resolved ()))"

text \<open>\<open>getTestRunner\<close>; \<open>testingInit\<close> ends the process in any case, with code 0 when the tests were run.\<close>

definition testRunnerSteps :: "step list" where
  "testRunnerSteps = [CreateApp ''TestingModule'', AppInit, ProjectInit None, GetTestRunner]"

definition getTestRunner :: "(step \<Rightarrow> js_error + unit) \<Rightarrow> step list \<times> unit process" where
  "getTestRunner world =
     (let (tried, err) = runSteps world testRunnerSteps
      in (tried, case err of Some e \<Rightarrow> Rejected e | None \<Rightarrow> Resolved ()))"

datatype exitStatus = ExitCode int | ExitWithError js_error

definition testingInit :: "(step \<Rightarrow> js_error + unit) \<Rightarrow> step list \<times> exitStatus" where
  "testingInit world =
     (let (tried, err) = runSteps world [GetInstance, RunTests]
      in (tried, case err of Some e \<Rightarrow> ExitWithError (Error ''Testing failed'') | None \<Rightarrow> ExitCode 0))"

definition forceCleanInit :: "(string \<Rightarrow> 'r) \<Rightarrow> 'r" where
  "forceCleanInit forceClean = forceClean ''ForceCleanModule''"

definition reindexInit :: "(string \<Rightarrow> int \<Rightarrow> 'r) \<Rightarrow> int \<Rightarrow> 'r" where
  "reindexInit baseReindexInit targetHeight = baseReindexInit ''ReindexModule'' targetHeight"

text \<open>The options the node adds to those of node-core, with their defaults.\<close>

definition runOptions :: "(string \<times> int) list" where
  "runOptions = [(''block-confirmations'', 200), (''block-fork-reindex'', 1000), (''query-address-limit'', 100)]"

lemma runSteps_take:
  "runSteps world ss = (tried, err) \<Longrightarrow>
    (err = None \<longrightarrow> tried = ss \<and> (\<forall>s \<in> set ss. world s = Inr ())) \<and>
    (\<forall>e. err = Some e \<longrightarrow> (\<exists>i < length ss. tried = take (Suc i) ss \<and> world (ss ! i) = Inl e \<and>
      (\<forall>j < i. world (ss ! j) = Inr ())))"
proof (induction ss arbitrary: tried err)
  case (Cons s ss)
  show ?case
  proof (cases "world s")
    case (Inl e)
    with Cons.prems show ?thesis by (auto intro!: exI [of _ 0])
  next
    case (Inr u)
    obtain d where d: "runSteps world ss = (d, err)" "tried = s # d"
      using Cons.prems Inr by (auto simp: Let_def case_prod_unfold prod_eq_iff)
    show ?thesis
    proof (cases err)
      case None
      with Cons.IH [OF d(1)] d(2) Inr show ?thesis by simp
    next
      case (Some e)
      with Cons.IH [OF d(1)] obtain i where "i < length ss" "d = take (Suc i) ss" "world (ss ! i) = Inl e"
          "\<forall>j < i. world (ss ! j) = Inr ()" by blast
      with d(2) Inr have "Suc i < length (s # ss) \<and> tried = take (Suc (Suc i)) (s # ss) \<and>
          world ((s # ss) ! Suc i) = Inl e \<and> (\<forall>j < Suc i. world ((s # ss) ! j) = Inr ())"
        by (auto simp: less_Suc_eq_0_disj)
      with Some show ?thesis by (intro conjI allI impI exI [of _ "Suc i"]) simp_all
    qed
  qed
qed simp

text \<open>A node that listens has started: \<open>bootstrap\<close> does its steps in the one order, projects before the
  fetching of blocks before the port is opened; when one fails the process exits and no later step is
  attempted, and it resolves exactly when all succeed.\<close>

theorem bootstrap_all_or_exit:
  assumes "bootstrap world = (attempted, outcome)" and "world ValidPort = Inr ()"
  shows "(outcome = Resolved () \<longleftrightarrow> (\<forall>s \<in> set bootSteps. world s = Inr ())) \<and>
    (outcome = Resolved () \<longrightarrow> attempted = ValidPort # bootSteps) \<and>
    (outcome \<noteq> Resolved () \<longrightarrow> outcome = Exited (Error ''Node failed to start'') \<and>
      (\<exists>i < length bootSteps. \<exists>e. attempted = ValidPort # take (Suc i) bootSteps \<and> world (bootSteps ! i) = Inl e \<and>
        (\<forall>j < i. world (bootSteps ! j) = Inr ())))"
proof -
  obtain d err where r: "runSteps world bootSteps = (d, err)" by fastforce
  note t = runSteps_take [OF r]
  show ?thesis
  proof (cases err)
    case None
    with assms r t show ?thesis by (auto simp: bootstrap_def)
  next
    case (Some e)
    with t obtain i where i: "i < length bootSteps" "d = take (Suc i) bootSteps" "world (bootSteps ! i) = Inl e"
        "\<forall>j < i. world (bootSteps ! j) = Inr ()" by blast
    then have "\<not> (\<forall>s \<in> set bootSteps. world s = Inr ())" using nth_mem [OF i(1)] by fastforce
    with assms r Some i show ?thesis by (auto simp: bootstrap_def)
  qed
qed

section \<open>Modules\<close>

text \<open>A token is a class or a string. A provider stands for its own class, or says which class, factory
  (with the tokens of its arguments) or value a token stands for.\<close>

datatype token = Cls string | Str string
datatype provider = Self string | UseClass token string | UseFactory token string "token list" | UseValue token string

record nestModule =
  nm_name :: string
  nm_imports :: "string list"
  nm_providers :: "provider list"
  nm_exports :: "token list"

definition apiServiceProvider :: provider where
  "apiServiceProvider = UseFactory (Str ''APIService'') ''EthereumApiService.init''
     [Str ''ISubqueryProject'', Cls ''ConnectionPoolService'', Cls ''EventEmitter2'', Cls ''NodeConfig'']"

definition ConfigureModule :: nestModule where
  "ConfigureModule = \<lparr>nm_name = ''ConfigureModule'', nm_imports = [],
     nm_providers = [UseValue (Cls ''NodeConfig'') ''nodeConfig'', UseValue (Str ''ISubqueryProject'') ''project'',
       UseValue (Str ''IProjectUpgradeService'') ''project'', UseValue (Str ''Null'') ''null''],
     nm_exports = [Cls ''NodeConfig'', Str ''ISubqueryProject'', Str ''IProjectUpgradeService'', Str ''Null'']\<rparr>"

definition FetchModule :: nestModule where
  "FetchModule = \<lparr>nm_name = ''FetchModule'', nm_imports = [''CoreModule''],
     nm_providers = [apiServiceProvider, UseClass (Str ''IBlockchainService'') ''BlockchainService'',
       Self ''IndexerManager'', Self ''MultiChainRewindService'',
       UseFactory (Str ''IBlockDispatcher'') ''blockDispatcherFactory''
         [Cls ''NodeConfig'', Cls ''EventEmitter2'', Str ''IProjectService'', Str ''IProjectUpgradeService'',
          Cls ''InMemoryCacheService'', Cls ''StoreService'', Str ''IStoreModelProvider'', Cls ''PoiSyncService'',
          Str ''ISubqueryProject'', Cls ''DynamicDsService'', Str ''IUnfinalizedBlocksService'',
          Cls ''ConnectionPoolStateManager'', Str ''IBlockchainService'', Cls ''IndexerManager'',
          Cls ''MultiChainRewindService'', Cls ''MonitorService''],
       Self ''FetchService'', UseClass (Cls ''DictionaryService'') ''EthDictionaryService'',
       Self ''DsProcessorService'', Self ''DynamicDsService'', UseClass (Str ''IProjectService'') ''ProjectService'',
       UseClass (Str ''IUnfinalizedBlocksService'') ''UnfinalizedBlocksService''],
     nm_exports = []\<rparr>"

definition WorkerFetchModule :: nestModule where
  "WorkerFetchModule = \<lparr>nm_name = ''WorkerFetchModule'', nm_imports = [''WorkerCoreModule''],
     nm_providers = [Self ''DsProcessorService'', Self ''IndexerManager'', apiServiceProvider,
       UseClass (Str ''IProjectService'') ''ProjectService'', UseClass (Str ''IBlockchainService'') ''BlockchainService'',
       Self ''WorkerService''],
     nm_exports = []\<rparr>"

definition TestingFeatureModule :: nestModule where
  "TestingFeatureModule = \<lparr>nm_name = ''TestingFeatureModule'', nm_imports = [''TestingCoreModule''],
     nm_providers = [UseClass (Str ''IProjectService'') ''ProjectService'', apiServiceProvider,
       UseClass (Str ''IUnfinalizedBlocksService'') ''UnfinalizedBlocksService'',
       UseClass (Str ''IBlockchainService'') ''BlockchainService'', Self ''TestRunner'',
       UseClass (Str ''IIndexerManager'') ''IndexerManager'', Self ''DsProcessorService'', Self ''DynamicDsService''],
     nm_exports = [Cls ''TestRunner'']\<rparr>"

definition ReindexFeatureModule :: nestModule where
  "ReindexFeatureModule = \<lparr>nm_name = ''ReindexFeatureModule'', nm_imports = [],
     nm_providers = [UseFactory (Str ''IStoreModelProvider'') ''storeModelFactory''
         [Cls ''NodeConfig'', Cls ''EventEmitter2'', Cls ''Sequelize''],
       Self ''StoreService'', Self ''ReindexService'', Self ''PoiService'', Self ''ForceCleanService'',
       UseClass (Str ''UnfinalizedBlocksService'') ''UnfinalizedBlocksService'',
       UseClass (Str ''DynamicDsService'') ''DynamicDsService'', Self ''DsProcessorService'',
       Self ''ConnectionPoolStateManager'', Self ''ConnectionPoolService'', apiServiceProvider,
       UseClass (Str ''IBlockchainService'') ''BlockchainService'', Self ''SchedulerRegistry'',
       Self ''MultiChainRewindService''],
     nm_exports = []\<rparr>"

definition AppModule :: nestModule where
  "AppModule = \<lparr>nm_name = ''AppModule'', nm_imports = [''DbModule'', ''EventEmitterModule'', ''ConfigureModule'',
     ''ScheduleModule'', ''CoreModule'', ''FetchModule'', ''MetaModule''], nm_providers = [], nm_exports = []\<rparr>"

definition WorkerModule :: nestModule where
  "WorkerModule = \<lparr>nm_name = ''WorkerModule'', nm_imports = [''DbModule'', ''EventEmitterModule'', ''ConfigureModule'',
     ''ScheduleModule'', ''WorkerCoreModule'', ''WorkerFetchModule''], nm_providers = [], nm_exports = []\<rparr>"

definition TestingModule :: nestModule where
  "TestingModule = \<lparr>nm_name = ''TestingModule'', nm_imports = [''DbModule'', ''ConfigureModule'', ''EventEmitterModule'',
     ''ScheduleModule'', ''TestingFeatureModule''], nm_providers = [], nm_exports = []\<rparr>"

definition ReindexModule :: nestModule where
  "ReindexModule = \<lparr>nm_name = ''ReindexModule'', nm_imports = [''DbModule'', ''ConfigureModule'', ''ReindexFeatureModule'',
     ''EventEmitterModule''], nm_providers = [], nm_exports = []\<rparr>"

definition ForceCleanModule :: nestModule where
  "ForceCleanModule = \<lparr>nm_name = ''ForceCleanModule'', nm_imports = [''DbModule'', ''ConfigureModule'',
     ''ForceCleanFeatureModule''], nm_providers = [], nm_exports = []\<rparr>"

text \<open>The tokens the constructors of the repository's classes inject; nothing is known of the others.\<close>

definition constructorTokens :: "string \<Rightarrow> token list" where
  "constructorTokens c =
     (if c = ''IndexerManager'' then
        [Str ''APIService'', Cls ''NodeConfig'', Cls ''SandboxService'', Cls ''DsProcessorService'',
         Cls ''DynamicDsService'', Str ''IUnfinalizedBlocksService'', Str ''IBlockchainService'']
      else if c = ''BlockchainService'' then [Str ''APIService'']
      else if c = ''UnfinalizedBlocksService'' then
        [Cls ''NodeConfig'', Str ''IStoreModelProvider'', Str ''IBlockchainService'']
      else if c = ''EthDictionaryService'' then
        [Str ''ISubqueryProject'', Cls ''NodeConfig'', Cls ''EventEmitter2'', Str ''APIService'']
      else if c = ''WorkerService'' then
        [Str ''APIService'', Cls ''IndexerManager'', Str ''IProjectService'', Str ''IProjectUpgradeService'', Cls ''NodeConfig'']
      else [])"

fun providerToken :: "provider \<Rightarrow> token" where
  "providerToken (Self c) = Cls c"
| "providerToken (UseClass t c) = t"
| "providerToken (UseFactory t f ts) = t"
| "providerToken (UseValue t v) = t"

fun providerNeeds :: "provider \<Rightarrow> token list" where
  "providerNeeds (Self c) = constructorTokens c"
| "providerNeeds (UseClass t c) = constructorTokens c"
| "providerNeeds (UseFactory t f ts) = ts"
| "providerNeeds (UseValue t v) = []"

text \<open>What a module resolves itself: its providers, and the exports of the global \<open>ConfigureModule\<close>. The
  rest has to be exported by the modules of node-core and of Nest.\<close>

definition resolves :: "nestModule \<Rightarrow> token list" where
  "resolves m = map providerToken (nm_providers m) @ nm_exports ConfigureModule"

definition needsFromOutside :: "nestModule \<Rightarrow> token list" where
  "needsFromOutside m =
     filter (\<lambda>t. \<not> List.member (resolves m) t) (remdups (concat (map providerNeeds (nm_providers m))))"

text \<open>The services of this repository are wired without a gap: in each of the feature modules, what they
  and the factories inject is provided there or by the configuration, except for services of
  node-core and Nest; a worker takes its data sources' registry and its detection of forks from
  node-core too, not the ones of this repository.\<close>

theorem modules_need_from_outside:
  "set (needsFromOutside FetchModule) =
     {Cls ''SandboxService'', Cls ''EventEmitter2'', Cls ''ConnectionPoolService'', Cls ''InMemoryCacheService'',
      Cls ''StoreService'', Str ''IStoreModelProvider'', Cls ''PoiSyncService'', Cls ''ConnectionPoolStateManager'',
      Cls ''MonitorService''}"
  "set (needsFromOutside WorkerFetchModule) =
     {Cls ''SandboxService'', Cls ''EventEmitter2'', Cls ''ConnectionPoolService'', Cls ''DynamicDsService'',
      Str ''IUnfinalizedBlocksService''}"
  "set (needsFromOutside TestingFeatureModule) =
     {Cls ''SandboxService'', Cls ''EventEmitter2'', Cls ''ConnectionPoolService'', Str ''IStoreModelProvider''}"
  "set (needsFromOutside ReindexFeatureModule) = {Cls ''EventEmitter2'', Cls ''Sequelize''}"
  by code_simp+

end
