(* ===== verification/Shared_Items.thy ===== *)
theory Shared_Items
  imports Indexer_Manager
begin

text \<open>
  The decoding of \<open>packages/node/src/ethereum/api.ethereum.ts\<close> on shared objects: \<open>parseLog\<close> and
  \<open>parseTransaction\<close> store the arguments in the object they are given, the same one for every data
  source that the indexer offers it to, and a log object belongs to the list of its block and to that
  of its transaction. The store has the logs of a block by position; a transaction refers to its logs.
\<close>

section \<open>The store\<close>

record heapTx =
  ht_tx :: EthereumTransaction
  ht_logs :: "nat list option"

record blockHeap =
  bh_logs :: "EthereumLog list"
  bh_txs :: "heapTx list"

text \<open>The transaction as a value: its own fields, and its logs as they are in the store now.\<close>

definition readTx :: "blockHeap \<Rightarrow> nat \<Rightarrow> EthereumTransaction" where
  "readTx h t =
     (ht_tx (bh_txs h ! t))\<lparr>tx_logs := (case ht_logs (bh_txs h ! t) of
        None \<Rightarrow> Undefined
      | Some refs \<Rightarrow> Val (map (\<lambda>i. bh_logs h ! i) refs))\<rparr>"

definition heapLog ::
    "'i abiLib \<Rightarrow> (string \<rightharpoonup> 'i) \<Rightarrow> blockHeap \<Rightarrow> nat \<Rightarrow> SubqlDatasource \<Rightarrow> blockHeap \<times> (string \<rightharpoonup> 'i)" where
  "heapLog L c h i ds =
     (let (l, c') = parseLog L c (bh_logs h ! i) ds in (h\<lparr>bh_logs := (bh_logs h)[i := l]\<rparr>, c'))"

fun heapLogs ::
    "'i abiLib \<Rightarrow> (string \<rightharpoonup> 'i) \<Rightarrow> blockHeap \<Rightarrow> nat list \<Rightarrow> SubqlDatasource \<Rightarrow> blockHeap \<times> (string \<rightharpoonup> 'i)" where
  "heapLogs L c h [] ds = (h, c)"
| "heapLogs L c h (i # refs) ds = (let (h', c') = heapLog L c h i ds in heapLogs L c' h' refs ds)"

definition setArgs :: "blockHeap \<Rightarrow> nat \<Rightarrow> EthereumResult \<Rightarrow> blockHeap" where
  "setArgs h t args =
     h\<lparr>bh_txs := (bh_txs h)[t := (bh_txs h ! t)\<lparr>ht_tx := (ht_tx (bh_txs h ! t))\<lparr>tx_args := Some args\<rparr>\<rparr>]\<rparr>"

definition heapTransaction ::
    "ethers \<Rightarrow> 'i abiLib \<Rightarrow> (string \<rightharpoonup> 'i) \<Rightarrow> blockHeap \<Rightarrow> nat \<Rightarrow> SubqlDatasource \<Rightarrow> blockHeap \<times> (string \<rightharpoonup> 'i)" where
  "heapTransaction E L c h t ds =
     (case ds_abi ds of
        Val abi \<Rightarrow>
          (if abi = [] then (h, c)
           else case loadAssets L ds of
             Inl _ \<Rightarrow> (h, c)
           | Inr assets \<Rightarrow>
               (case buildInterface L assets c abi of
                  (Inl _, c') \<Rightarrow> (h, c')
                | (Inr iface, c') \<Rightarrow>
                    (case bindE (hexDataSlice E (tx_input (ht_tx (bh_txs h ! t))) 0 4) (\<lambda>sel.
                        bindE (iface_getFunction L iface sel) (\<lambda>func.
                          decodeFunctionData L iface func (tx_input (ht_tx (bh_txs h ! t))))) of
                       Inl _ \<Rightarrow> (h, c')
                     | Inr args \<Rightarrow>
                         (let (h', c'') = (case ht_logs (bh_txs h ! t) of
                              None \<Rightarrow> (h, c')
                            | Some refs \<Rightarrow> heapLogs L c' h refs ds)
                          in (setArgs h' t args, c'')))))
      | _ \<Rightarrow> (h, c))"

text \<open>The decodings of a block, in the order in which the indexer asks for them.\<close>

datatype decodeOp = OnLog nat SubqlDatasource | OnTx nat SubqlDatasource

fun runOp :: "ethers \<Rightarrow> 'i abiLib \<Rightarrow> decodeOp \<Rightarrow> blockHeap \<times> (string \<rightharpoonup> 'i) \<Rightarrow> blockHeap \<times> (string \<rightharpoonup> 'i)" where
  "runOp E L (OnLog i ds) (h, c) = heapLog L c h i ds"
| "runOp E L (OnTx t ds) (h, c) = heapTransaction E L c h t ds"

definition runOps :: "ethers \<Rightarrow> 'i abiLib \<Rightarrow> decodeOp list \<Rightarrow> blockHeap \<times> (string \<rightharpoonup> 'i) \<Rightarrow> blockHeap \<times> (string \<rightharpoonup> 'i)" where
  "runOps E L ops st = foldl (\<lambda>st op. runOp E L op st) st ops"

section \<open>One decoding is the functional one\<close>

text \<open>Each transaction's references are positions of the store, each once.\<close>

definition heap_ok :: "blockHeap \<Rightarrow> bool" where
  "heap_ok h \<longleftrightarrow> (\<forall>x \<in> set (bh_txs h). \<forall>refs. ht_logs x = Some refs \<longrightarrow> distinct refs \<and> set refs \<subseteq> {..<length (bh_logs h)})"

lemma heapLog_parts:
  "bh_txs (fst (heapLog L c h i ds)) = bh_txs h"
  "bh_logs (fst (heapLog L c h i ds)) = (bh_logs h)[i := fst (parseLog L c (bh_logs h ! i) ds)]"
  "snd (heapLog L c h i ds) = snd (parseLog L c (bh_logs h ! i) ds)"
  by (simp_all add: heapLog_def case_prod_unfold Let_def)

lemma heapLogs_parts:
  assumes "distinct refs" and "set refs \<subseteq> {..<length (bh_logs h)}"
  shows "bh_txs (fst (heapLogs L c h refs ds)) = bh_txs h \<and>
    map (\<lambda>i. bh_logs (fst (heapLogs L c h refs ds)) ! i) refs = fst (parseLogs L c (map (\<lambda>i. bh_logs h ! i) refs) ds) \<and>
    snd (heapLogs L c h refs ds) = snd (parseLogs L c (map (\<lambda>i. bh_logs h ! i) refs) ds) \<and>
    length (bh_logs (fst (heapLogs L c h refs ds))) = length (bh_logs h) \<and>
    (\<forall>j. j \<notin> set refs \<longrightarrow> bh_logs (fst (heapLogs L c h refs ds)) ! j = bh_logs h ! j)"
  using assms
proof (induction refs arbitrary: c h)
  case (Cons i refs)
  define h' where "h' = fst (heapLog L c h i ds)"
  define c' where "c' = snd (heapLog L c h i ds)"
  have one: "bh_txs h' = bh_txs h" "bh_logs h' = (bh_logs h)[i := fst (parseLog L c (bh_logs h ! i) ds)]"
      "c' = snd (parseLog L c (bh_logs h ! i) ds)"
    by (simp_all add: h'_def c'_def heapLog_parts)
  have rest: "map (\<lambda>i. bh_logs h' ! i) refs = map (\<lambda>i. bh_logs h ! i) refs"
    using Cons.prems by (auto simp: one(2) nth_list_update)
  have "distinct refs" "set refs \<subseteq> {..<length (bh_logs h')}" using Cons.prems by (simp_all add: one(2))
  note IH = Cons.IH [OF this, of c', unfolded rest]
  have step: "heapLogs L c h (i # refs) ds = heapLogs L c' h' refs ds"
    by (simp add: h'_def c'_def case_prod_unfold Let_def)
  have "parseLogs L c (map (\<lambda>i. bh_logs h ! i) (i # refs)) ds =
      (fst (parseLog L c (bh_logs h ! i) ds) # fst (parseLogs L c' (map (\<lambda>i. bh_logs h ! i) refs) ds),
       snd (parseLogs L c' (map (\<lambda>i. bh_logs h ! i) refs) ds))"
    by (simp add: one(3) case_prod_unfold Let_def)
  moreover have "bh_logs (fst (heapLogs L c' h' refs ds)) ! i = fst (parseLog L c (bh_logs h ! i) ds)"
    using IH Cons.prems by (simp add: one(2))
  ultimately show ?case
    unfolding step using IH Cons.prems by (auto simp: one(1,2))
qed simp

lemma readTx_setArgs:
  assumes "t < length (bh_txs h)"
  shows "readTx (setArgs h t args) t = (readTx h t)\<lparr>tx_args := Some args\<rparr>"
  using assms by (simp add: readTx_def setArgs_def split: option.split)


section \<open>The store of a fetched block\<close>

text \<open>\<open>logs: block.logs.filter((l) => l.transactionHash === tx.hash)\<close>: the list of the transaction is a new
  one, its elements are the objects of the block's list.\<close>

definition sharedLogs :: "EthereumLog list \<Rightarrow> EthereumTransaction \<Rightarrow> heapTx" where
  "sharedLogs logs tx =
     \<lparr>ht_tx = tx, ht_logs = Some (filter (\<lambda>i. log_transactionHash (logs ! i) = tx_hash tx) [0..<length logs])\<rparr>"

definition sharedBlock :: "EthereumLog list \<Rightarrow> EthereumTransaction list \<Rightarrow> blockHeap" where
  "sharedBlock logs txs = \<lparr>bh_logs = logs, bh_txs = map (sharedLogs logs) txs\<rparr>"

lemma sharedBlock_ok: "heap_ok (sharedBlock logs txs)"
  by (auto simp: heap_ok_def sharedBlock_def sharedLogs_def)

lemma sharedBlock_reads:
  assumes "t < length txs" and "tx_logs (txs ! t) = Val (logsOf logs (tx_hash (txs ! t)))"
  shows "readTx (sharedBlock logs txs) t = txs ! t"
proof -
  have "map (\<lambda>i. logs ! i) (filter (\<lambda>i. log_transactionHash (logs ! i) = h) [0..<length logs]) = logsOf logs h" for h
    using filter_map [of "\<lambda>l. log_transactionHash l = h" "\<lambda>i. logs ! i" "[0..<length logs]"]
    by (simp add: map_nth logsOf_def comp_def)
  with assms show ?thesis by (simp add: readTx_def sharedBlock_def sharedLogs_def)
qed

text \<open>The store of a block that \<open>fetchBlock\<close> returns is one on which decoding in place is decoding, and its
  transactions, read from the store, are those of the block.\<close>

theorem fetched_block_in_store:
  assumes "fetchBlock E env a n = Inr ib"
  defines "h \<equiv> sharedBlock (block_logs (iblock ib)) (transactions (iblock ib))"
  shows "heap_ok h \<and> map (readTx h) [0..<length (bh_txs h)] = transactions (iblock ib)"
proof
  have "log_share_ok (iblock ib)" using fetchBlock_shares [OF assms(1)] .
  then have "readTx h t = transactions (iblock ib) ! t" if "t < length (transactions (iblock ib))" for t
    using that by (simp add: h_def sharedBlock_reads log_share_ok_def)
  then show "map (readTx h) [0..<length (bh_txs h)] = transactions (iblock ib)"
    by (intro nth_equalityI) (simp_all add: h_def sharedBlock_def)
qed (simp add: h_def sharedBlock_ok)

text \<open>A log that is decoded as an event shows its arguments in the list of its transaction too.\<close>

lemma decoded_event_seen_in_transaction:
  assumes "t < length txs" and "i < length logs" and "log_transactionHash (logs ! i) = tx_hash (txs ! t)"
  shows "\<exists>ls. tx_logs (readTx (fst (heapLog L c (sharedBlock logs txs) i ds)) t) = Val ls \<and>
    fst (parseLog L c (logs ! i) ds) \<in> set ls"
  using assms
  by (auto simp: readTx_def heapLog_parts sharedBlock_def sharedLogs_def intro!: image_eqI [of _ _ i])

section \<open>Several data sources\<close>

text \<open>A data source that cannot decode a log: it names no ABI, or its ABI does not know the event.\<close>

definition cannot_decode :: "'i abiLib \<Rightarrow> EthereumLog \<Rightarrow> SubqlDatasource \<Rightarrow> bool" where
  "cannot_decode L log ds \<longleftrightarrow> (\<forall>c l. strip_log l = strip_log log \<longrightarrow> fst (parseLog L c l ds) = l)"

lemma no_abi_cannot_decode: "\<forall>a. ds_abi ds = Val a \<longrightarrow> a = [] \<Longrightarrow> cannot_decode L log ds"
  by (auto simp: cannot_decode_def parseLog_def split: js.split)

lemma runOps_Cons: "runOps E L (op # ops) st = runOps E L ops (runOp E L op st)"
  by (simp add: runOps_def)

lemma undecoded_keeps:
  assumes "\<forall>ds \<in> set dss. cannot_decode L log ds" and "strip_log (bh_logs h ! i) = strip_log log"
  shows "bh_logs (fst (runOps E L (map (OnLog i) dss) (h, c))) ! i = bh_logs h ! i"
  using assms
proof (induction dss arbitrary: h c)
  case (Cons ds dss)
  have "fst (parseLog L c (bh_logs h ! i) ds) = bh_logs h ! i"
    using Cons.prems unfolding cannot_decode_def by simp
  then have "bh_logs (fst (heapLog L c h i ds)) = bh_logs h" by (simp add: heapLog_parts)
  then have same: "bh_logs (fst (heapLog L c h i ds)) ! i = bh_logs h ! i" by simp
  obtain h' c' where op: "heapLog L c h i ds = (h', c')" by fastforce
  with Cons.IH [of h' c'] Cons.prems same show ?case by (simp add: runOps_Cons op)
qed (simp add: runOps_def)


lemma length_heapLogs: "length (bh_logs (fst (heapLogs L c h refs ds))) = length (bh_logs h)"
  by (induction refs arbitrary: c h) (simp_all add: heapLog_def case_prod_unfold Let_def)

lemma strip_heapLogs: "map strip_log (bh_logs (fst (heapLogs L c h refs ds))) = map strip_log (bh_logs h)"
proof (induction refs arbitrary: c h)
  case (Cons i refs)
  have "map strip_log ((bh_logs h)[i := fst (parseLog L c (bh_logs h ! i) ds)]) = map strip_log (bh_logs h)"
    by (metis list_update_beyond list_update_id map_update not_le_imp_less nth_map parseLog_strip)
  with Cons.IH show ?case by (simp add: heapLog_def case_prod_unfold Let_def)
qed simp

text \<open>Whatever is decoded, on whatever object and for whatever data source, changes no field of a log of the
  block but its arguments.\<close>

theorem decoding_frames_the_block:
  "map strip_log (bh_logs (fst (runOps E L ops (h, c)))) = map strip_log (bh_logs h)"
proof (induction ops arbitrary: h c)
  case (Cons op ops)
  obtain h' c' where op: "runOp E L op (h, c) = (h', c')" by fastforce
  have "map strip_log (bh_logs h') = map strip_log (bh_logs h)"
  proof (cases op)
    case (OnLog i ds)
    with op strip_heapLogs [of L c h "[i]" ds] show ?thesis by (simp add: case_prod_unfold Let_def)
  next
    case (OnTx t ds)
    have "map strip_log (bh_logs (fst (heapTransaction E L c h t ds))) = map strip_log (bh_logs h)"
      by (simp add: heapTransaction_def setArgs_def case_prod_unfold Let_def strip_heapLogs
          split: js.split sum.split option.split prod.split)
    with op OnTx show ?thesis by simp
  qed
  with Cons.IH [of h' c'] show ?case by (simp add: runOps_Cons op)
qed (simp add: runOps_def)

subsection \<open>Samples\<close>

text \<open>A library whose only interface decodes every log to one value.\<close>

definition sample_abiLib :: "unit abiLib" where
  "sample_abiLib = \<lparr>JSON_parse = (\<lambda>_. Inr (JArr [])), newInterface = (\<lambda>_. Inr ()),
     iface_parseLog = (\<lambda>_ _. Inr (EthereumResult [''7''])), iface_getFunction = (\<lambda>_ s. Inr s),
     decodeFunctionData = (\<lambda>_ _ _. Inr (EthereumResult [''7''])), readFile = (\<lambda>_. Inr ''[]'')\<rparr>"

definition abi_ds :: "string \<Rightarrow> SubqlDatasource" where
  "abi_ds a = (runtime_ds a)\<lparr>ds_options := Val \<lparr>opt_abi = Val ''erc20'', opt_address = Val a\<rparr>,
     ds_assets := Val [(''erc20'', ''./erc20.json'')]\<rparr>"

definition sample_heap :: blockHeap where
  "sample_heap = \<lparr>bh_logs = [sample_log],
     bh_txs = [\<lparr>ht_tx = projr (formatTransaction sample_ethers (sample_rawTx ''0x1'') sample_content), ht_logs = Some [0]\<rparr>]\<rparr>"

lemma sample_heap_ok: "heap_ok sample_heap" "length (bh_logs sample_heap) = 1" "length (bh_txs sample_heap) = 1"
    "bh_logs sample_heap ! 0 = sample_log" "log_args sample_log = None"
  by (simp_all add: heap_ok_def sample_heap_def sample_log_def)

lemma sample_parseLog: "fst (parseLog sample_abiLib Map.empty sample_log (abi_ds ''0xA'')) =
    sample_log\<lparr>log_args := Some (EthereumResult [''7''])\<rparr>"
  by (simp add: parseLog_def ds_abi_def abi_ds_def runtime_ds_def loadAssets_def sample_abiLib_def buildInterface_def
      parseAbi_def unwrapArtifact_def)



end
