(* ===== verification/Shared_Indexing.thy ===== *)
theory Shared_Indexing
  imports Shared_Items
begin

text \<open>
  The loops of \<open>packages/node/src/indexer/indexer.manager.ts\<close> over the objects of a block: the data
  sources are offered references into the store of \<open>Shared_Items\<close>, in which the decoding of one
  data source is seen by the next. \<open>indexData\<close> of node-core is a parameter, as in \<open>Indexer_Manager\<close>;
  \<open>runs_accepted\<close> says what it does for a runtime data source.
\<close>

section \<open>The loops\<close>

datatype itemRef = BlockRef | TxRef nat | LogRef nat

definition logRefs :: "blockHeap \<Rightarrow> nat \<Rightarrow> nat list" where
  "logRefs h t = (case ht_logs (bh_txs h ! t) of Some refs \<Rightarrow> refs | None \<Rightarrow> [])"

definition sharedIndexEvent ::
    "('s, itemRef) offering \<Rightarrow> ('s \<Rightarrow> SubqlDatasource list) \<Rightarrow> nat \<Rightarrow> 's \<Rightarrow> (js_error + 's) option" where
  "sharedIndexEvent indexData live i s = forDs indexData live EthereumHandlerKind_Event (LogRef i) 0 s"

definition sharedIndexTransaction ::
    "('s, itemRef) offering \<Rightarrow> ('s \<Rightarrow> SubqlDatasource list) \<Rightarrow> nat \<Rightarrow> 's \<Rightarrow> (js_error + 's) option" where
  "sharedIndexTransaction indexData live t s = forDs indexData live EthereumHandlerKind_Call (TxRef t) 0 s"

definition sharedIndexBlockData ::
    "('s, itemRef) offering \<Rightarrow> ('s \<Rightarrow> SubqlDatasource list) \<Rightarrow> ('s \<Rightarrow> blockHeap) \<Rightarrow> bool \<Rightarrow> 's \<Rightarrow> (js_error + 's) option" where
  "sharedIndexBlockData indexData live heap full s =
     (if full then
        andThen (forDs indexData live EthereumHandlerKind_Block BlockRef 0 s)
          (forEach (\<lambda>t s. andThen (sharedIndexTransaction indexData live t s)
             (\<lambda>s. forEach (sharedIndexEvent indexData live) (logRefs (heap s) t) s)) [0..<length (bh_txs (heap s))])
      else forEach (sharedIndexEvent indexData live) [0..<length (bh_logs (heap s))] s)"

definition sharedSchedule :: "blockHeap \<Rightarrow> bool \<Rightarrow> SubqlDatasource list \<Rightarrow> (string \<times> itemRef \<times> SubqlDatasource) list" where
  "sharedSchedule h full dss =
     (let offer = (\<lambda>knd ref. map (\<lambda>ds. (knd, ref, ds)) dss);
          events = (\<lambda>is. concat (map (\<lambda>i. offer EthereumHandlerKind_Event (LogRef i)) is))
      in if full
         then offer EthereumHandlerKind_Block BlockRef @
           concat (map (\<lambda>t. offer EthereumHandlerKind_Call (TxRef t) @ events (logRefs h t)) [0..<length (bh_txs h)])
         else events [0..<length (bh_logs h)])"

section \<open>Items\<close>

text \<open>The item a reference stands for. The handlers of a block run before anything is decoded.\<close>

fun itemAt :: "BlockContent \<Rightarrow> blockHeap \<Rightarrow> itemRef \<Rightarrow> IndexItem" where
  "itemAt block h BlockRef = BlockItem block"
| "itemAt block h (TxRef t) = TxItem (readTx h t)"
| "itemAt block h (LogRef i) = LogItem (bh_logs h ! i)"

fun decodeAt :: "ethers \<Rightarrow> 'i abiLib \<Rightarrow> itemRef \<Rightarrow> SubqlDatasource \<Rightarrow> blockHeap \<times> (string \<rightharpoonup> 'i) \<Rightarrow> blockHeap \<times> (string \<rightharpoonup> 'i)" where
  "decodeAt E L BlockRef ds st = st"
| "decodeAt E L (TxRef t) ds st = runOp E L (OnTx t ds) st"
| "decodeAt E L (LogRef i) ds st = runOp E L (OnLog i ds) st"

fun stripItem :: "IndexItem \<Rightarrow> IndexItem" where
  "stripItem (BlockItem b) = BlockItem b"
| "stripItem (TxItem tx) = TxItem (strip_tx tx)"
| "stripItem (LogItem l) = LogItem (strip_log l)"

lemma strip_sel [simp]:
  "log_address (strip_log l) = log_address l" "log_topics (strip_log l) = log_topics l"
  "tx_to (strip_tx tx) = tx_to tx" "tx_from (strip_tx tx) = tx_from tx" "tx_input (strip_tx tx) = tx_input tx"
  "tx_type (strip_tx tx) = tx_type tx" "strip_log (strip_log l) = strip_log l"
  by (simp_all add: strip_log_def strip_tx_def)

text \<open>No filter looks at decoded arguments.\<close>

lemma transactionResult_strip: "transactionResult E (strip_tx tx) flt a = transactionResult E tx flt a"
proof -
  have "to_criterion f a (strip_tx tx) = to_criterion f a tx" "from_criterion f (strip_tx tx) = from_criterion f tx"
      "type_criterion f (strip_tx tx) = type_criterion f tx" "inputResult E (strip_tx tx) x = inputResult E tx x" for f x
    by (simp_all add: to_criterion_def from_criterion_def type_criterion_def inputResult_def split: js.split)
  then show ?thesis by (cases flt) (simp_all add: transactionResult_def)
qed

lemma logResult_strip: "logResult E (strip_log l) flt a = logResult E l flt a"
  by (simp add: logResult_def split: js.split)

lemma handlerAccepts_strip: "handlerAccepts E fbt (stripItem item) h ds = handlerAccepts E fbt item h ds"
  by (cases item; cases h) (simp_all add: logResult_strip transactionResult_strip)

definition accepts :: "ethers \<Rightarrow> (int \<Rightarrow> EthereumBlockFilter js \<Rightarrow> bool) \<Rightarrow> IndexItem \<Rightarrow> SubqlDatasource \<Rightarrow> bool" where
  "accepts E fbt item ds \<longleftrightarrow> (\<exists>h \<in> set (ds_handlers ds). handlerAccepts E fbt item h ds = Inr True)"

definition decides :: "ethers \<Rightarrow> (int \<Rightarrow> EthereumBlockFilter js \<Rightarrow> bool) \<Rightarrow> IndexItem \<Rightarrow> SubqlDatasource \<Rightarrow> bool" where
  "decides E fbt item ds \<longleftrightarrow> (\<forall>h \<in> set (ds_handlers ds). \<not> isl (handlerAccepts E fbt item h ds))"

lemma accepts_strip: "stripItem item = stripItem item' \<Longrightarrow> accepts E fbt item ds = accepts E fbt item' ds"
  unfolding accepts_def by (metis handlerAccepts_strip)

lemma decides_strip: "stripItem item = stripItem item' \<Longrightarrow> decides E fbt item ds = decides E fbt item' ds"
  unfolding decides_def by (metis handlerAccepts_strip)

section \<open>Stores with the same block\<close>

definition same_block :: "blockHeap \<Rightarrow> blockHeap \<Rightarrow> bool" where
  "same_block h h' \<longleftrightarrow> map strip_log (bh_logs h) = map strip_log (bh_logs h') \<and>
     map (\<lambda>x. (ht_logs x, strip_tx (ht_tx x))) (bh_txs h) = map (\<lambda>x. (ht_logs x, strip_tx (ht_tx x))) (bh_txs h')"

lemma heapLogs_txs: "bh_txs (fst (heapLogs L c h refs ds)) = bh_txs h"
  by (induction refs arbitrary: c h) (simp_all add: heapLog_def case_prod_unfold Let_def)

lemma setArgs_same: "map (\<lambda>x. (ht_logs x, strip_tx (ht_tx x))) (bh_txs (setArgs h t args)) =
    map (\<lambda>x. (ht_logs x, strip_tx (ht_tx x))) (bh_txs h)"
  by (cases "t < length (bh_txs h)") (simp_all add: setArgs_def map_update strip_tx_def list_update_same_conv list_update_beyond)

lemma heapTransaction_txs:
  "map (\<lambda>x. (ht_logs x, strip_tx (ht_tx x))) (bh_txs (fst (heapTransaction E L c h t ds))) =
     map (\<lambda>x. (ht_logs x, strip_tx (ht_tx x))) (bh_txs h)"
proof -
  have "bh_txs (fst (case ht_logs (bh_txs h ! t) of None \<Rightarrow> (h, c) | Some refs \<Rightarrow> heapLogs L c h refs ds)) = bh_txs h" for c
    by (simp add: heapLogs_txs split: option.split)
  then have "fst (heapTransaction E L c h t ds) = h \<or>
      (\<exists>h' args. bh_txs h' = bh_txs h \<and> fst (heapTransaction E L c h t ds) = setArgs h' t args)"
    by (simp add: heapTransaction_def case_prod_unfold Let_def split: js.split sum.split) metis
  then show ?thesis by (auto simp: setArgs_same)
qed

lemma decodeAt_same: "same_block (fst (decodeAt E L ref ds (h, c))) h"
proof (cases ref)
  case (LogRef i)
  with decoding_frames_the_block [of E L "[OnLog i ds]" h c] show ?thesis
    by (simp add: same_block_def runOps_def heapLog_parts)
next
  case (TxRef t)
  with TxRef decoding_frames_the_block [of E L "[OnTx t ds]" h c] show ?thesis
    by (simp add: same_block_def runOps_def heapTransaction_txs)
qed (simp add: same_block_def)

lemma same_block_trans: "same_block h h' \<Longrightarrow> same_block h' h'' \<Longrightarrow> same_block h h''"
  by (simp add: same_block_def)

text \<open>A reference into the store.\<close>

fun ref_ok :: "blockHeap \<Rightarrow> itemRef \<Rightarrow> bool" where
  "ref_ok h BlockRef = True"
| "ref_ok h (TxRef t) = (t < length (bh_txs h))"
| "ref_ok h (LogRef i) = (i < length (bh_logs h))"

lemma map_eq_nth: "map f xs = map g ys \<Longrightarrow> i < length ys \<Longrightarrow> f (xs ! i) = g (ys ! i)"
  by (metis length_map nth_map)

lemma same_block_log:
  assumes "same_block h h'" and "i < length (bh_logs h')"
  shows "strip_log (bh_logs h ! i) = strip_log (bh_logs h' ! i)"
  using assms map_eq_nth unfolding same_block_def by blast

lemma same_block_tx:
  assumes "same_block h h'" and "t < length (bh_txs h')"
  shows "ht_logs (bh_txs h ! t) = ht_logs (bh_txs h' ! t)"
    and "strip_tx (ht_tx (bh_txs h ! t)) = strip_tx (ht_tx (bh_txs h' ! t))"
  using map_eq_nth [OF conjunct2 [OF assms(1) [unfolded same_block_def]] assms(2)] by simp_all

lemma strip_tx_logs: "strip_tx (tx\<lparr>tx_logs := ls\<rparr>) = (strip_tx tx)\<lparr>tx_logs := map_js (map strip_log) ls\<rparr>"
  by (simp add: strip_tx_def)

lemma same_block_reads:
  assumes "same_block h h'" and "heap_ok h'" and "ref_ok h' ref"
  shows "stripItem (itemAt block h ref) = stripItem (itemAt block h' ref)"
proof (cases ref)
  case (LogRef i)
  with assms(3) same_block_log [OF assms(1)] show ?thesis by simp
next
  case (TxRef t)
  with assms(3) have t: "t < length (bh_txs h')" by simp
  have logs: "strip_log (bh_logs h ! i) = strip_log (bh_logs h' ! i)"
    if "ht_logs (bh_txs h' ! t) = Some refs" "i \<in> set refs" for refs i
  proof (rule same_block_log [OF assms(1)])
    show "i < length (bh_logs h')"
      using assms(2) nth_mem [OF t] that unfolding heap_ok_def by blast
  qed
  show ?thesis
  proof (cases "ht_logs (bh_txs h' ! t)")
    case None
    then show ?thesis using same_block_tx [OF assms(1) t] TxRef by (simp add: readTx_def strip_tx_logs)
  next
    case (Some refs)
    then have "map (\<lambda>i. strip_log (bh_logs h ! i)) refs = map (\<lambda>i. strip_log (bh_logs h' ! i)) refs"
      using logs by simp
    then show ?thesis
      using same_block_tx [OF assms(1) t] TxRef Some by (simp add: readTx_def strip_tx_logs comp_def)
  qed
qed simp

lemma same_block_logRefs: "same_block h h' \<Longrightarrow> t < length (bh_txs h') \<Longrightarrow> logRefs h t = logRefs h' t"
  by (simp add: logRefs_def same_block_tx(1))

section \<open>Decoding in place does not change who is called\<close>

text \<open>What \<open>indexData\<close> of node-core does with a runtime data source: when the filter of one of its handlers
  accepts the item, the item is prepared once, that is decoded in place, and handed to the handlers; when
  none does, nothing happens. A filter that throws is left open.\<close>

definition runs_accepted ::
    "ethers \<Rightarrow> 'i abiLib \<Rightarrow> (int \<Rightarrow> EthereumBlockFilter js \<Rightarrow> bool) \<Rightarrow> BlockContent \<Rightarrow> ('s, itemRef) offering
      \<Rightarrow> ('s \<Rightarrow> SubqlDatasource list) \<Rightarrow> ('s \<Rightarrow> blockHeap \<times> (string \<rightharpoonup> 'i))
      \<Rightarrow> ('s \<Rightarrow> (itemRef \<times> SubqlDatasource \<times> IndexItem) list) \<Rightarrow> bool" where
  "runs_accepted E L fbt block indexData live objs seen \<longleftrightarrow>
     (\<forall>s k ref ds. decides E fbt (itemAt block (fst (objs s)) ref) ds \<longrightarrow>
        (\<exists>s'. indexData s k ref ds = Inr s' \<and> live s' = live s \<and>
           (if accepts E fbt (itemAt block (fst (objs s)) ref) ds
            then objs s' = decodeAt E L ref ds (objs s) \<and>
              seen s' = seen s @ [(ref, ds, itemAt block (fst (objs s')) ref)]
            else objs s' = objs s \<and> seen s' = seen s)))"

text \<open>The calls of handlers, with the items up to their decoded arguments.\<close>

definition strippedCalls :: "(itemRef \<times> SubqlDatasource \<times> IndexItem) list \<Rightarrow> (itemRef \<times> SubqlDatasource \<times> IndexItem) list" where
  "strippedCalls xs = map (\<lambda>(ref, ds, item). (ref, ds, stripItem item)) xs"

definition acceptedCalls ::
    "ethers \<Rightarrow> (int \<Rightarrow> EthereumBlockFilter js \<Rightarrow> bool) \<Rightarrow> BlockContent \<Rightarrow> blockHeap
      \<Rightarrow> (string \<times> itemRef \<times> SubqlDatasource) list \<Rightarrow> (itemRef \<times> SubqlDatasource \<times> IndexItem) list" where
  "acceptedCalls E fbt block h offers =
     strippedCalls (map (\<lambda>(k, ref, ds). (ref, ds, itemAt block h ref))
       (filter (\<lambda>(k, ref, ds). accepts E fbt (itemAt block h ref) ds) offers))"

lemma acceptedCalls_each:
  "acceptedCalls E fbt block h offers = concat (map (\<lambda>offer. acceptedCalls E fbt block h [offer]) offers)"
  by (induction offers) (auto simp: acceptedCalls_def strippedCalls_def)

lemma offered_once:
  assumes "runs_accepted E L fbt block indexData live objs seen"
    and "same_block (fst (objs t)) h" and "heap_ok h" and "ref_ok h ref"
    and "decides E fbt (itemAt block h ref) ds"
  shows "\<exists>t'. indexData t k ref ds = Inr t' \<and> (same_block (fst (objs t')) h \<and> live t' = live t) \<and>
    strippedCalls (seen t') = strippedCalls (seen t) @ acceptedCalls E fbt block h [(k, ref, ds)]"
proof -
  note reads = same_block_reads [OF _ assms(3,4), of _ block]
  have here: "decides E fbt (itemAt block (fst (objs t)) ref) ds"
      "accepts E fbt (itemAt block (fst (objs t)) ref) ds = accepts E fbt (itemAt block h ref) ds"
    using assms(5) decides_strip [OF reads [OF assms(2)]] accepts_strip [OF reads [OF assms(2)]] by simp_all
  obtain t' where t': "indexData t k ref ds = Inr t'" "live t' = live t"
      "if accepts E fbt (itemAt block h ref) ds
       then objs t' = decodeAt E L ref ds (objs t) \<and> seen t' = seen t @ [(ref, ds, itemAt block (fst (objs t')) ref)]
       else objs t' = objs t \<and> seen t' = seen t"
    using assms(1) here unfolding runs_accepted_def by metis
  have "same_block (fst (decodeAt E L ref ds (objs t))) h"
    using same_block_trans [OF decodeAt_same assms(2)] by (metis prod.collapse)
  with t'(3) assms(2) have same: "same_block (fst (objs t')) h" by (auto split: if_splits)
  from reads [OF this] t'(3) have "strippedCalls (seen t') = strippedCalls (seen t) @ acceptedCalls E fbt block h [(k, ref, ds)]"
    by (auto simp: strippedCalls_def acceptedCalls_def split: if_splits)
  with t'(1,2) same show ?thesis by blast
qed

lemma logRefs_ok: "heap_ok h \<Longrightarrow> t < length (bh_txs h) \<Longrightarrow> i \<in> set (logRefs h t) \<Longrightarrow> ref_ok h (LogRef i)"
  unfolding heap_ok_def logRefs_def by (force split: option.splits)

lemma sharedSchedule_mem:
  "(k, ref, ds) \<in> set (sharedSchedule h full dss) \<longleftrightarrow> ds \<in> set dss \<and>
     (if full then k = EthereumHandlerKind_Block \<and> ref = BlockRef \<or>
        (\<exists>t < length (bh_txs h). k = EthereumHandlerKind_Call \<and> ref = TxRef t \<or>
          k = EthereumHandlerKind_Event \<and> (\<exists>i \<in> set (logRefs h t). ref = LogRef i))
      else k = EthereumHandlerKind_Event \<and> (\<exists>i < length (bh_logs h). ref = LogRef i))"
  by (cases full) (auto simp: sharedSchedule_def Let_def image_iff)

lemma sharedIndexBlockData_runs:
  assumes live: "\<And>t. I t \<Longrightarrow> live t = dss"
    and refs: "\<And>t i. I t \<Longrightarrow> i < length (bh_txs h) \<Longrightarrow> logRefs (heap t) i = logRefs h i"
    and step: "\<And>t k ref ds. I t \<Longrightarrow> (k, ref, ds) \<in> set (sharedSchedule h full dss) \<Longrightarrow>
      \<exists>s'. indexData t k ref ds = Inr s' \<and> I s' \<and> tr s' = tr t @ g (k, ref, ds)"
    and start: "I s" and heap: "heap s = h"
  shows "\<exists>s'. sharedIndexBlockData indexData live heap full s = Some (Inr s') \<and> I s' \<and>
    tr s' = tr s @ concat (map g (sharedSchedule h full dss))"
proof -
  have offer: "\<exists>s'. forDs indexData live k ref 0 t = Some (Inr s') \<and> I s' \<and>
      tr s' = tr t @ concat (map (\<lambda>ds. g (k, ref, ds)) dss)"
    if "I t" "\<forall>ds \<in> set dss. (k, ref, ds) \<in> set (sharedSchedule h full dss)" for k ref t
    using forDs_runs [of I live dss indexData k ref tr "\<lambda>ds. g (k, ref, ds)" t 0, OF live step that(1)] that(2) by simp
  let ?ev = "\<lambda>i. concat (map (\<lambda>ds. g (EthereumHandlerKind_Event, LogRef i, ds)) dss)"
  have events: "\<exists>s'. forEach (sharedIndexEvent indexData live) is t = Some (Inr s') \<and> I s' \<and>
      tr s' = tr t @ concat (map ?ev is)"
    if "I t" "\<forall>i \<in> set is. \<forall>ds \<in> set dss. (EthereumHandlerKind_Event, LogRef i, ds) \<in> set (sharedSchedule h full dss)"
    for "is" t
  proof (rule forEach_runs [where I = I and tr = tr, OF _ that(1)])
    fix i t assume "i \<in> set is" "I t"
    with that(2) offer show "\<exists>s'. sharedIndexEvent indexData live i t = Some (Inr s') \<and> I s' \<and> tr s' = tr t @ ?ev i"
      unfolding sharedIndexEvent_def by blast
  qed
  show ?thesis
  proof (cases full)
    case True
    let ?tx = "\<lambda>t. concat (map (\<lambda>ds. g (EthereumHandlerKind_Call, TxRef t, ds)) dss) @ concat (map ?ev (logRefs h t))"
    have txs: "\<exists>s'. forEach (\<lambda>t s. andThen (sharedIndexTransaction indexData live t s)
        (\<lambda>s. forEach (sharedIndexEvent indexData live) (logRefs (heap s) t) s)) [0..<length (bh_txs h)] u = Some (Inr s') \<and>
        I s' \<and> tr s' = tr u @ concat (map ?tx [0..<length (bh_txs h)])" if "I u" for u
    proof (rule forEach_runs [where I = I and tr = tr, OF _ that])
      fix t u assume t: "t \<in> set [0..<length (bh_txs h)]" and u: "I u"
      have offered: "\<forall>ds \<in> set dss. (EthereumHandlerKind_Call, TxRef t, ds) \<in> set (sharedSchedule h full dss)"
          "\<forall>i \<in> set (logRefs h t). \<forall>ds \<in> set dss. (EthereumHandlerKind_Event, LogRef i, ds) \<in> set (sharedSchedule h full dss)"
        using t True by (auto simp: sharedSchedule_mem)
      have "\<exists>s''. forEach (sharedIndexEvent indexData live) (logRefs (heap v) t) v = Some (Inr s'') \<and> I s'' \<and>
          tr s'' = tr v @ concat (map ?ev (logRefs h t))" if "I v" for v
        using events [OF that offered(2)] refs [OF that] t by simp
      from andThen_runs [where I = I and tr = tr, OF offer [OF u offered(1)] this]
      show "\<exists>s'. andThen (sharedIndexTransaction indexData live t u)
          (\<lambda>s. forEach (sharedIndexEvent indexData live) (logRefs (heap s) t) s) = Some (Inr s') \<and> I s' \<and>
          tr s' = tr u @ ?tx t"
        by (simp add: sharedIndexTransaction_def)
    qed
    have "\<forall>ds \<in> set dss. (EthereumHandlerKind_Block, BlockRef, ds) \<in> set (sharedSchedule h full dss)"
      using True by (simp add: sharedSchedule_mem)
    from andThen_runs [where I = I and tr = tr, OF offer [OF start this] txs] True show ?thesis
      by (simp add: sharedIndexBlockData_def sharedSchedule_def Let_def concat_map_concat comp_def heap)
  next
    case False
    then have "\<forall>i \<in> set [0..<length (bh_logs h)]. \<forall>ds \<in> set dss.
        (EthereumHandlerKind_Event, LogRef i, ds) \<in> set (sharedSchedule h full dss)"
      by (simp add: sharedSchedule_mem)
    from events [OF start this] False show ?thesis
      by (simp add: sharedIndexBlockData_def sharedSchedule_def Let_def concat_map_concat comp_def heap)
  qed
qed

lemma offered_refs:
  assumes "heap_ok h" and "(k, ref, ds) \<in> set (sharedSchedule h full dss)"
  shows "ref_ok h ref"
  using assms(2) logRefs_ok [OF assms(1)] by (auto simp: sharedSchedule_mem split: if_splits)


subsection \<open>A sample\<close>

definition listening_ds :: "string js \<Rightarrow> SubqlDatasource" where
  "listening_ds abi = (abi_ds ''0xA'')\<lparr>ds_options := Val \<lparr>opt_abi = abi, opt_address = Undefined\<rparr>,
     ds_handlers := [EventHandler ''handleLog'' Undefined]\<rparr>"

definition index_in_place ::
    "((blockHeap \<times> (string \<rightharpoonup> unit)) \<times> (itemRef \<times> SubqlDatasource \<times> IndexItem) list, itemRef) offering" where
  "index_in_place s k ref ds = Inr
     (if accepts sample_ethers (\<lambda>_ _. True) (itemAt sample_content (fst (fst s)) ref) ds
      then let st = decodeAt sample_ethers sample_abiLib ref ds (fst s)
           in (st, snd s @ [(ref, ds, itemAt sample_content (fst st) ref)])
      else s)"

lemma index_in_place_runs:
  "runs_accepted sample_ethers sample_abiLib (\<lambda>_ _. True) sample_content index_in_place (\<lambda>_. dss) fst snd"
  by (simp add: runs_accepted_def index_in_place_def Let_def)

lemma listening_accepts: "logResult sample_ethers l Undefined (ds_address (listening_ds abi)) = Inr True"
  by (simp add: logResult_def ds_address_def listening_ds_def abi_ds_def runtime_ds_def)


end
