(* ===== verification/Reorg.thy ===== *)
theory Reorg
  imports Unfinalized Indexer_Manager
begin

text \<open>
  A reorganisation of the chain from end to end: blocks that \<open>packages/node/src/indexer/indexer.manager.ts\<close>
  has indexed, the check and the search of \<open>indexer/unfinalizedBlocks.service.ts\<close> over the headers that
  \<open>blockchain.service.ts\<close> reads, the rewind, and the blocks that are indexed again. The rewind of the
  stored state is node-core's; what is relied on of it is \<open>rewinds_state\<close>.
\<close>

section \<open>Indexing a stretch of a chain\<close>

type_synonym chainBlocks = "int \<Rightarrow> EthereumTransaction EthereumBlock"

definition indexChain ::
    "'s indexData \<Rightarrow> ('s \<Rightarrow> SubqlDatasource list) \<Rightarrow> chainBlocks \<Rightarrow> int list \<Rightarrow> 's \<Rightarrow> (js_error + 's) option" where
  "indexChain indexData live B = forEach (\<lambda>k. indexBlockData indexData live (fullContent (B k)))"

lemma andThen_assoc: "andThen (andThen m f) g = andThen m (\<lambda>s. andThen (f s) g)"
  by (simp add: andThen_def split: option.split sum.split)

lemma forEach_append: "forEach f (xs @ ys) s = andThen (forEach f xs s) (forEach f ys)"
  by (induction xs arbitrary: s) (simp_all add: andThen_def split: option.split sum.split)

lemma forEach_cong: "(\<And>x. x \<in> set xs \<Longrightarrow> f x = g x) \<Longrightarrow> forEach f xs = forEach g xs"
proof (induction xs)
  case (Cons x xs)
  have "f x = g x" by (rule Cons.prems) simp
  moreover have "forEach f xs = forEach g xs" by (rule Cons.IH) (simp add: Cons.prems)
  ultimately show ?case by (intro ext) simp
qed (intro ext, simp)

lemma indexChain_split:
  assumes "a - 1 \<le> h" and "h \<le> m"
  shows "indexChain indexData live B [a..m] s =
    andThen (indexChain indexData live B [a..h] s) (indexChain indexData live B [h + 1..m])"
proof -
  have "[a..m] = [a..h] @ [h + 1..m]"
  proof (cases "a \<le> h")
    case False
    with assms(1) have "h = a - 1" by simp
    then show ?thesis by simp
  qed (use assms(2) upto_split2 in blast)
  then show ?thesis by (simp add: indexChain_def forEach_append)
qed

text \<open>Two chains with the same blocks at the heights from \<open>a\<close> to \<open>h\<close>.\<close>

definition agree :: "chainBlocks \<Rightarrow> chainBlocks \<Rightarrow> int \<Rightarrow> int \<Rightarrow> bool" where
  "agree B B' a h \<longleftrightarrow> (\<forall>k. a \<le> k \<and> k \<le> h \<longrightarrow> B k = B' k)"

lemma indexChain_agree:
  assumes "agree B B' a h"
  shows "indexChain indexData live B [a..h] = indexChain indexData live B' [a..h]"
  unfolding indexChain_def by (rule forEach_cong) (use assms in \<open>simp add: agree_def\<close>)

section \<open>What is relied on\<close>

text \<open>The blocks of a chain: each has its height and names its parent.\<close>

definition linked :: "chainBlocks \<Rightarrow> bool" where
  "linked B \<longleftrightarrow> (\<forall>k. block_number (B k) = k \<and> block_hash (B k) \<noteq> []) \<and>
     (\<forall>k > 0. parentHash (B k) = block_hash (B (k - 1)))"

text \<open>A hash stands for one block.\<close>

definition one_block_per_hash :: "chainBlocks \<Rightarrow> chainBlocks \<Rightarrow> bool" where
  "one_block_per_hash B B' \<longleftrightarrow> (\<forall>j k. block_hash (B j) = block_hash (B' k) \<longrightarrow> B j = B' k)"

text \<open>The endpoint answers \<open>eth_getBlockBy...\<close> from the chain, up to the height \<open>n\<close>.\<close>

definition apiBlockOf :: "'tx EthereumBlock \<Rightarrow> ApiBlock" where
  "apiBlockOf b = \<lparr>ab_number = block_number b, ab_hash = block_hash b, ab_parentHash = parentHash b,
     ab_timestamp = block_timestamp b\<rparr>"

definition serves :: "ethers \<Rightarrow> netEnv \<Rightarrow> EthereumApi \<Rightarrow> chainBlocks \<Rightarrow> int \<Rightarrow> bool" where
  "serves E env api B n \<longleftrightarrow> (\<forall>k. 0 \<le> k \<and> k \<le> n \<longrightarrow>
     (\<exists>h. hexValue E k = Inr h \<and> getBlock env (cur api) (TagName h) = Inr (Some (apiBlockOf (B k)))) \<and>
     getBlock env (cur api) (TagName (block_hash (B k))) = Inr (Some (apiBlockOf (B k))))"

text \<open>The rewind of node-core from the state after \<open>n\<close> to a height gives back the state in which the blocks
  up to that height were indexed.\<close>

definition rewinds_state :: "('s \<Rightarrow> int \<Rightarrow> 's) \<Rightarrow> (int \<Rightarrow> (js_error + 's) option) \<Rightarrow> int \<Rightarrow> int \<Rightarrow> bool" where
  "rewinds_state rewind indexedTo a n \<longleftrightarrow>
     (\<forall>s h. indexedTo n = Some (Inr s) \<and> a - 1 \<le> h \<and> h \<le> n \<longrightarrow> indexedTo h = Some (Inr (rewind s h)))"

text \<open>What happens when no indexed block below the fork is on the chain: the proof of index knows a final
  block, or, where it is not enabled, the configured depth reaches below the blocks that are not final.\<close>

definition deep_enough ::
    "(Header \<Rightarrow> js_error + Header option) \<Rightarrow> string \<Rightarrow> Header \<Rightarrow> int \<Rightarrow> int \<Rightarrow> int \<Rightarrow> int \<Rightarrow> bool" where
  "deep_enough poi poiNotEnabled lowest reindex a b n \<longleftrightarrow>
     (case poi lowest of
        Inr r \<Rightarrow> (\<exists>h. r = Some h \<and> a - 1 \<le> blockHeight h \<and> blockHeight h < b)
      | Inl e \<Rightarrow> message e = poiNotEnabled \<and> a - 1 \<le> max 0 (n - reindex) \<and> max 0 (n - reindex) < b)"

section \<open>The headers of the two chains\<close>

definition headers :: "chainBlocks \<Rightarrow> int \<Rightarrow> Header" where
  "headers B k = ethereumBlockToHeader (B k)"

lemma headers_sel [simp]:
  "blockHeight (headers B k) = block_number (B k)" "blockHash (headers B k) = block_hash (B k)"
  "h_parentHash (headers B k) = Val (parentHash (B k))"
  by (simp_all add: headers_def ethereumBlockToHeader_def)

lemma apiBlockToHeader_apiBlockOf: "apiBlockToHeader (Some (apiBlockOf (B k))) = Inr (headers B k)"
  by (simp add: apiBlockToHeader_def apiBlockOf_def headers_def ethereumBlockToHeader_def)

lemma serves_shows_chain:
  assumes "linked B" and "serves E env api B n"
  shows "shows_chain (chainOf E env api) (headers B) n"
proof -
  have "headerForHeight (chainOf E env api) k = Inr (headers B k) \<and>
      headerForHash (chainOf E env api) (block_hash (B k)) = Inr (headers B k)" if "0 \<le> k" "k \<le> n" for k
  proof -
    from assms(2) that obtain h where "hexValue E k = Inr h"
        "getBlock env (cur api) (TagName h) = Inr (Some (apiBlockOf (B k)))"
        "getBlock env (cur api) (TagName (block_hash (B k))) = Inr (Some (apiBlockOf (B k)))"
      unfolding serves_def by blast
    then show ?thesis
      by (simp add: chainOf_def getHeaderForHeight_def getHeaderForHash_def getBlockByHeightOrHash_def
          apiBlockToHeader_apiBlockOf)
  qed
  with assms(1) show ?thesis by (simp add: shows_chain_def linked_def)
qed

lemma agree_below:
  assumes "linked B" and "linked B'" and "one_block_per_hash B B'" and "B h = B' h" and "0 \<le> k" and "k \<le> h"
  shows "B k = B' k"
  using assms(6,5,4)
proof (induction k rule: int_le_induct)
  case (step i)
  then have "B i = B' i" by simp
  with assms(1,2) step(3) have "block_hash (B (i - 1)) = block_hash (B' (i - 1))"
    unfolding linked_def by (metis less_iff_diff_less_0 add_0 diff_add_cancel int_one_le_iff_zero_less le_add_same_cancel1 le_diff_eq)
  with assms(3) show ?case unfolding one_block_per_hash_def by blast
qed simp

section \<open>The rewind\<close>

text \<open>The header the search gives for a fork that the header of the chain at height \<open>f\<close> has shown: the
  highest indexed block below that is on the chain, or what the fallback gives; in both cases the chains
  agree up to its height.\<close>

lemma on_chain_headers:
  assumes "linked B" and "linked B'" and "one_block_per_hash B B'"
  shows "on_chain (headers B') (headers B k) \<longleftrightarrow> B k = B' k"
  using assms unfolding on_chain_def linked_def one_block_per_hash_def by (auto; metis)

lemma find_SomeI: "find P xs = Some x \<Longrightarrow> x \<in> set xs \<and> P x"
  by (induction xs) (auto split: if_splits)

lemma search_is_expected:
  assumes "linked fetched" and "linked canon" and "one_block_per_hash fetched canon" and "serves E env api canon f"
    and "unfinalizedBlocks u = map (headers fetched) [b..n]" and "0 \<le> forkReindex u"
    and "0 \<le> b" and "b \<le> f" and "f \<le> n + 1"
  shows "getLastCorrectFinalizedBlock poi poiNotEnabled (chainOf E env api) u (headers canon f) =
    expected_rewind poi poiNotEnabled (headers canon) (forkReindex u) f b (map (headers fetched) [b..f - 1])"
proof -
  have numbers: "block_number (fetched k) = k" "block_number (canon k) = k" for k
    using assms(1,2) by (simp_all add: linked_def)
  have "[b..n] = [b..f - 1] @ [f..n]"
  proof (cases "f \<le> n")
    case False
    with assms(9) have "n = f - 1" by simp
    then show ?thesis by simp
  qed (use assms(8) upto_split1 in blast)
  then have below: "verifiable u (headers canon f) = map (headers fetched) [b..f - 1]"
    by (simp add: verifiable_def assms(5) filter_map comp_def numbers filter_empty_conv)
  have "hashes_identify (headers canon) (unfinalizedBlocks u)"
    using assms(3) by (auto simp: hashes_identify_def assms(5) numbers one_block_per_hash_def) (metis numbers)
  moreover have "map blockHeight (verifiable u (headers canon f)) = [b..f - 1]"
    by (simp add: below comp_def numbers)
  ultimately show ?thesis
    using rewinds_to_last_common_block [OF serves_shows_chain [OF assms(2,4)]] below assms(6-9) by simp
qed

lemma rewind_target:
  assumes linked: "linked fetched" "linked canon" "one_block_per_hash fetched canon"
    and served: "serves E env api canon f"
    and unfinal: "unfinalizedBlocks u = map (headers fetched) [b..n]" "0 \<le> forkReindex u"
    and bounds: "0 \<le> a" "a \<le> b" "b \<le> f" "f \<le> n + 1"
    and final: "agree fetched canon a (b - 1)"
    and reach: "(\<exists>k. b \<le> k \<and> k < f \<and> fetched k = canon k) \<or>
      deep_enough poi poiNotEnabled (headers canon b) (forkReindex u) a b f"
  obtains t where "getLastCorrectFinalizedBlock poi poiNotEnabled (chainOf E env api) u (headers canon f) = Inr (Some t)"
    and "a - 1 \<le> blockHeight t" and "blockHeight t < f"
    and "agree fetched canon a (blockHeight t)"
proof -
  have numbers: "block_number (fetched k) = k" "block_number (canon k) = k" for k
    using linked(1,2) by (simp_all add: linked_def)
  note search = search_is_expected [OF linked served unfinal order_trans [OF bounds(1,2)] bounds(3,4)]
  show thesis
  proof (cases "find (on_chain (headers canon)) (rev (map (headers fetched) [b..f - 1]))")
    case (Some t)
    then obtain k where k: "t = headers fetched k" "b \<le> k" "k \<le> f - 1" "fetched k = canon k"
      using find_SomeI [OF Some] on_chain_headers [OF linked] by auto
    have "agree fetched canon a k"
      using agree_below [OF linked k(4)] bounds(1) by (simp add: agree_def)
    with k bounds(2) Some show thesis by (intro that [of t]) (simp_all add: search expected_rewind_def numbers)
  next
    case None
    then have "\<not> (\<exists>k. b \<le> k \<and> k < f \<and> fetched k = canon k)"
      using on_chain_headers [OF linked] by (auto simp: find_None_iff)
    with reach have deep: "deep_enough poi poiNotEnabled (headers canon b) (forkReindex u) a b f" by simp
    then obtain t where t: "expected_rewind poi poiNotEnabled (headers canon) (forkReindex u) f b (map (headers fetched) [b..f - 1])
        = Inr (Some t)" "a - 1 \<le> blockHeight t" "blockHeight t < b"
      unfolding deep_enough_def by (auto simp: expected_rewind_def None numbers split: sum.splits)
    with final bounds(3) show thesis by (intro that [of t]) (simp_all add: search agree_def)
  qed
qed


text \<open>C10. Where the proof of index is not enabled and the fork is deeper than \<open>blockForkReindex\<close>, the search
  gives the chain's header that many blocks below the fork, although the block that was indexed at
  that height is a forked one: the rewind keeps it, and the next block of the chain does not name it as its
  parent.\<close>

theorem shallow_reindex_keeps_the_fork:
  assumes "linked fetched" and "linked canon" and "one_block_per_hash fetched canon" and "serves E env api canon n"
    and "unfinalizedBlocks u = map (headers fetched) [b..n]" and "0 < forkReindex u"
    and "0 \<le> b" and "b \<le> n - forkReindex u" and "\<forall>k. b \<le> k \<and> k < n \<longrightarrow> fetched k \<noteq> canon k"
    and "poi (headers canon b) = Inl e" and "message e = poiNotEnabled"
  shows "\<exists>t. getLastCorrectFinalizedBlock poi poiNotEnabled (chainOf E env api) u (headers canon n) = Inr (Some t) \<and>
    blockHeight t = n - forkReindex u \<and> fetched (blockHeight t) \<noteq> canon (blockHeight t) \<and>
    parentHash (canon (blockHeight t + 1)) \<noteq> block_hash (fetched (blockHeight t))"
proof (intro exI conjI)
  let ?t = "headers canon (n - forkReindex u)"
  have number: "block_number (canon k) = k" for k using assms(2) by (simp add: linked_def)
  have bounds: "b \<le> n" "n \<le> n + 1" "0 \<le> forkReindex u" using assms(6,8) by simp_all
  have "find (on_chain (headers canon)) (rev (map (headers fetched) [b..n - 1])) = None"
    using assms(9) on_chain_headers [OF assms(1-3)] by (auto simp: find_None_iff)
  then show "getLastCorrectFinalizedBlock poi poiNotEnabled (chainOf E env api) u (headers canon n) = Inr (Some ?t)"
    using search_is_expected [OF assms(1-5) bounds(3) assms(7) bounds(1,2)] assms(7,8,10,11)
    by (simp add: expected_rewind_def)
  show "blockHeight ?t = n - forkReindex u" by (simp add: number)
  show forked: "fetched (blockHeight ?t) \<noteq> canon (blockHeight ?t)" using assms(6,8,9) by (simp add: number)
  have "parentHash (canon (blockHeight ?t + 1)) = block_hash (canon (blockHeight ?t))"
    using assms(2,7,8) by (simp add: linked_def)
  with assms(3) forked show "parentHash (canon (blockHeight ?t + 1)) \<noteq> block_hash (fetched (blockHeight ?t))"
    unfolding one_block_per_hash_def by metis
qed

subsection \<open>A sample reorganisation\<close>

definition sample_hash :: "char \<Rightarrow> int \<Rightarrow> string" where
  "sample_hash branch k = branch # (if k < 0 then CHR ''-'' else CHR ''+'') # replicate (nat \<bar>k\<bar>) CHR ''i''"

lemma sample_hash_inject: "sample_hash x j = sample_hash y k \<longleftrightarrow> x = y \<and> j = k"
  by (auto simp: sample_hash_def split: if_splits dest: arg_cong [of "replicate _ _" _ length])

definition sample_chainBlock :: "string \<Rightarrow> string \<Rightarrow> int \<Rightarrow> EthereumTransaction EthereumBlock" where
  "sample_chainBlock hash parent k =
     \<lparr>difficulty = 0, gasLimit = 0, gasUsed = 0, block_hash = hash,
      block_logs = [sample_log\<lparr>log_blockHash := hash\<rparr>], block_number = k, parentHash = parent, block_size = 1,
      stateRoot = ''0x0'', block_timestamp = k, totalDifficulty = 0, transactions = [], baseFeePerGas = Undefined,
      blockGasCost = Undefined, blobGasUsed = Undefined, excessBlobGas = Undefined\<rparr>"

text \<open>The blocks above 4 are replaced.\<close>

definition canonical :: chainBlocks where
  "canonical k = sample_chainBlock (sample_hash CHR ''a'' k) (sample_hash CHR ''a'' (k - 1)) k"

definition orphaned :: chainBlocks where
  "orphaned k = (if k \<le> 4 then canonical k
     else sample_chainBlock (sample_hash CHR ''b'' k) (sample_hash (if k = 5 then CHR ''a'' else CHR ''b'') (k - 1)) k)"

lemma sample_chains: "linked canonical" "linked orphaned" "one_block_per_hash orphaned canonical"
  by (auto simp: linked_def one_block_per_hash_def canonical_def orphaned_def sample_chainBlock_def sample_hash_inject
      split: if_splits) (auto simp: sample_hash_def)

definition sample_reorg_env :: netEnv where
  "sample_reorg_env = sample_env 1 (\<lambda>_ tag. case tag of
     TagName x \<Rightarrow> Inr (map_option apiBlockOf
       (find (\<lambda>b. block_hash b = x \<or> hexValue sample_ethers (block_number b) = Inr x) (map canonical [0..7])))
   | TagNumber k \<Rightarrow> Inr (Some (apiBlockOf (canonical k))))"

lemma sample_hash_no_hex: "sample_hash CHR ''a'' k \<noteq> CHR ''0'' # xs" "CHR ''0'' # xs \<noteq> sample_hash CHR ''a'' k"
  by (simp_all add: sample_hash_def)

lemma sample_serves:
  assumes "n \<le> 7"
  shows "serves sample_ethers sample_reorg_env sample_api canonical n"
proof -
  have "k \<in> set [0..7] \<Longrightarrow> \<exists>h. hexValue sample_ethers k = Inr h \<and>
      getBlock sample_reorg_env c (TagName h) = Inr (Some (apiBlockOf (canonical k))) \<and>
      getBlock sample_reorg_env c (TagName (block_hash (canonical k))) = Inr (Some (apiBlockOf (canonical k)))" for k c
    by (simp add: upto.simps sample_reorg_env_def sample_env_def canonical_def sample_chainBlock_def sample_hash_inject
        sample_hash_no_hex sample_ethers_def hex_digits.simps hex_char_def)
      (elim disjE; simp add: sample_hash_inject sample_hash_no_hex)
  note answers = this [of _ "cur sample_api"]
  show ?thesis
    unfolding serves_def
  proof (intro allI impI)
    fix k assume "0 \<le> k \<and> k \<le> n"
    with assms have "k \<in> set [0..7]" by simp
    from answers [OF this] show "(\<exists>h. hexValue sample_ethers k = Inr h \<and>
        getBlock sample_reorg_env (cur sample_api) (TagName h) = Inr (Some (apiBlockOf (canonical k)))) \<and>
      getBlock sample_reorg_env (cur sample_api) (TagName (block_hash (canonical k))) = Inr (Some (apiBlockOf (canonical k)))"
      by blast
  qed
qed

text \<open>The indexer keeps the hashes of the blocks whose logs it has seen.\<close>

definition keep_hash :: "string list indexData" where
  "keep_hash s k item ds = Inr (case item of LogItem l \<Rightarrow> s @ [log_blockHash l] | _ \<Rightarrow> s)"

lemma keep_hash_chain:
  assumes "\<And>k. k \<in> set ks \<Longrightarrow> \<exists>p. B k = sample_chainBlock (h k) p k"
  shows "indexChain keep_hash (\<lambda>_. [runtime_ds ''0xA'']) B ks s = Some (Inr (s @ map h ks))"
  using assms
proof (induction ks arbitrary: s)
  case (Cons k ks)
  then obtain p where "B k = sample_chainBlock (h k) p k" by auto
  then have "indexBlockData keep_hash (\<lambda>_. [runtime_ds ''0xA'']) (fullContent (B k)) s = Some (Inr (s @ [h k]))"
    by (simp add: indexBlockData_def fullContent_def isFullBlock_def sample_chainBlock_def indexEvent_def forDs.simps
        keep_hash_def andThen_def)
  with Cons.IH [of "s @ [h k]"] Cons.prems show ?case by (simp add: indexChain_def andThen_def)
qed (simp add: indexChain_def)

abbreviation keep_chain :: "chainBlocks \<Rightarrow> int list \<Rightarrow> string list \<Rightarrow> (js_error + string list) option" where
  "keep_chain \<equiv> indexChain keep_hash (\<lambda>_. [runtime_ds ''0xA''])"

lemma keep_canonical: "keep_chain canonical ks s = Some (Inr (s @ map (block_hash \<circ> canonical) ks))"
  by (rule keep_hash_chain) (auto simp: canonical_def sample_chainBlock_def)

lemma keep_orphaned: "keep_chain orphaned ks s = Some (Inr (s @ map (block_hash \<circ> orphaned) ks))"
  by (rule keep_hash_chain) (auto simp: canonical_def orphaned_def sample_chainBlock_def)

text \<open>The blocks 3 to 6 were indexed, 4 to 6 are not final; 5 and 6 are replaced.\<close>

definition sample_forked :: UnfinalizedBlocksService where
  "sample_forked = newUnfinalizedBlocksService (map (headers orphaned) [4..6]) 1"

definition take_heights :: "string list \<Rightarrow> int \<Rightarrow> string list" where
  "take_heights s h = take (nat (h - 2)) s"

lemma take_heights_rewinds: "rewinds_state take_heights (\<lambda>h. keep_chain orphaned [3..h] []) 3 6"
proof -
  have "take (nat (h - 2)) (map (block_hash \<circ> orphaned) [3..6]) = map (block_hash \<circ> orphaned) [3..h]"
    if "2 \<le> h" "h \<le> 6" for h :: int
  proof -
    from that have "h = 2 \<or> h = 3 \<or> h = 4 \<or> h = 5 \<or> h = 6" by arith
    then show ?thesis by (elim disjE; simp add: upto.simps)
  qed
  note taken = this
  show ?thesis
    unfolding rewinds_state_def keep_orphaned take_heights_def
  proof (intro allI impI)
    fix s h assume "Some (Inr ([] @ map (block_hash \<circ> orphaned) [3..6])) = (Some (Inr s) :: (js_error + string list) option) \<and>
      3 - 1 \<le> h \<and> h \<le> (6 :: int)"
    then have "s = map (block_hash \<circ> orphaned) [3..6]" "2 \<le> h" "h \<le> 6" by simp_all
    then show "Some (Inr ([] @ map (block_hash \<circ> orphaned) [3..h])) =
        (Some (Inr (take (nat (h - 2)) s)) :: (js_error + string list) option)"
      using taken [of h] by (simp only: append_Nil)
  qed
qed

lemma sample_fork: "orphaned 4 = canonical 4" "orphaned 5 \<noteq> canonical 5" "orphaned 6 \<noteq> canonical 6"
  by (auto simp: orphaned_def canonical_def sample_chainBlock_def sample_hash_inject)


theorem shallow_reindex_keeps_the_fork_witness:
  "\<exists>t. getLastCorrectFinalizedBlock (\<lambda>_. Inl (Error ''off'')) ''off''
      (chainOf sample_ethers sample_reorg_env sample_api)
      (newUnfinalizedBlocksService (map (headers orphaned) [5..6]) 1) (headers canonical 6) = Inr (Some t) \<and>
    blockHeight t = 5 \<and> orphaned 5 \<noteq> canonical 5"
proof -
  have "\<forall>k. 5 \<le> k \<and> k < 6 \<longrightarrow> orphaned k \<noteq> canonical k"
  proof (intro allI impI)
    fix k :: int assume "5 \<le> k \<and> k < 6"
    then have "k = 5" by simp
    with sample_fork(2) show "orphaned k \<noteq> canonical k" by simp
  qed
  then show ?thesis
    using shallow_reindex_keeps_the_fork [OF sample_chains(2,1,3) sample_serves,
        where u = "newUnfinalizedBlocksService (map (headers orphaned) [5..6]) 1" and b = 5 and n = 6
          and poi = "\<lambda>_. Inl (Error ''off'')" and e = "Error ''off''" and poiNotEnabled = "''off''"]
    by (auto simp: newUnfinalizedBlocksService_def)
qed

end
