(* ===== verification/Release.thy ===== *)
theory Release
  imports Prelude
begin

text \<open>
  \<open>.github/actions/create-release/gh-release-script.js\<close>: what a release on GitHub says. The section of
  the version is cut out of the changelog and posted; files, the request and \<open>core.setFailed\<close>, which
  marks the action as failed and returns, are effects in the order in which they happen.
\<close>

section \<open>Lines and headings\<close>

text \<open>\<open>s.split(c)\<close> for a separator of one character.\<close>

fun splitChar :: "char \<Rightarrow> string \<Rightarrow> string list" where
  "splitChar c [] = [[]]"
| "splitChar c (x # xs) =
     (if x = c then [] # splitChar c xs
      else case splitChar c xs of [] \<Rightarrow> [[x]] | l # ls \<Rightarrow> (x # l) # ls)"

text \<open>The regular expression, one part after the other: each function gives the rest of the text behind the
  part, \<open>None\<close> where it does not match. A part takes all digits there are, and what follows it is no
  digit, so there is never another way to match.\<close>

definition digits1 :: "string \<Rightarrow> string option" where
  "digits1 s = (case s of [] \<Rightarrow> None | x # xs \<Rightarrow> if is_digit x then Some (dropWhile is_digit xs) else None)"

lemma digits1_shorter: "digits1 s = Some r \<Longrightarrow> length r < length s"
  by (auto simp: digits1_def length_dropWhile_le less_Suc_eq_le split: list.splits if_splits)

text \<open>\<open>(\.[0-9]+)*\<close>\<close>

function dotGroups :: "string \<Rightarrow> string" where
  "dotGroups s =
     (case s of
        x # xs \<Rightarrow> (if x = CHR ''.'' then case digits1 xs of Some r \<Rightarrow> dotGroups r | None \<Rightarrow> s else s)
      | [] \<Rightarrow> s)"
  by pat_completeness auto
termination
  by (relation "measure length") (auto dest: digits1_shorter)

declare dotGroups.simps [simp del]

definition digitsN :: "nat \<Rightarrow> string \<Rightarrow> string option" where
  "digitsN n s = (if n \<le> length s \<and> list_all is_digit (take n s) then Some (drop n s) else None)"

definition literal :: "string \<Rightarrow> string \<Rightarrow> string option" where
  "literal p s = (if startsWith s p then Some (drop (length p) s) else None)"

definition headingHere :: "string \<Rightarrow> bool" where
  "headingHere s =
     (Option.bind (literal ''## ['' s) (\<lambda>s.
      Option.bind (digits1 s) (\<lambda>s.
      Option.bind (literal ''.'' s) (\<lambda>s.
      Option.bind (digits1 s) (\<lambda>s.
      Option.bind (literal ''] - '' (dotGroups s)) (\<lambda>s.
      Option.bind (digitsN 4 s) (\<lambda>s.
      Option.bind (literal ''-'' s) (\<lambda>s.
      Option.bind (digitsN 2 s) (\<lambda>s.
      Option.bind (literal ''-'' s) (\<lambda>s.
      digitsN 2 s))))))))) \<noteq> None)"

text \<open>\<open>regex.test(line)\<close>: at some position.\<close>

fun isHeading :: "string \<Rightarrow> bool" where
  "isHeading [] = headingHere []"
| "isHeading (x # xs) = (headingHere (x # xs) \<or> isHeading xs)"

section \<open>The section of a version\<close>

text \<open>The loop that looks for the version, and the one that copies lines up to the next heading.\<close>

definition mentions :: "string \<Rightarrow> string \<Rightarrow> bool" where
  "mentions version line = includes_str line ([CHR ''[''] @ version @ [CHR '']''])"

fun copySection :: "string list \<Rightarrow> string" where
  "copySection [] = []"
| "copySection (l # ls) = (if isHeading l then [] else l @ [CHR 0x0A] @ copySection ls)"

definition gatherText :: "string \<Rightarrow> string \<Rightarrow> string" where
  "gatherText version changeLogs =
     (case dropWhile (\<lambda>l. \<not> mentions version l) (splitChar (CHR 0x0A) changeLogs) of
        [] \<Rightarrow> []
      | l # ls \<Rightarrow> l @ [CHR 0x0A] @ copySection ls)"

section \<open>The script\<close>

record releaseRequest =
  rel_name :: string
  rel_tag :: string
  rel_target :: string
  rel_body :: string

datatype releaseEffect = SetFailed string | Post releaseRequest | Log string

definition gatherReleaseInfo :: "string \<Rightarrow> js_error + string \<Rightarrow> js_error + string \<times> releaseEffect list" where
  "gatherReleaseInfo version file =
     bindE file (\<lambda>changeLogs.
       let releaseInfo = gatherText version changeLogs
       in Inr (releaseInfo,
         (if releaseInfo = []
          then [SetFailed ''No release info found, either missing in changelog or changelog is formatted incorrectly''] else [])
         @ [Log ''Gathered release info...'']))"

text \<open>\<open>packageName[1]\<close> in a template is \<open>undefined\<close> for a name without a slash.\<close>

definition packagePart :: "string \<Rightarrow> string" where
  "packagePart repoName = (case splitChar (CHR ''/'') repoName of _ # p # _ \<Rightarrow> p | _ \<Rightarrow> ''undefined'')"

definition publishRelease ::
    "string \<Rightarrow> string \<Rightarrow> string \<Rightarrow> (releaseRequest \<Rightarrow> js_error + unit) \<Rightarrow> string \<Rightarrow> releaseEffect list" where
  "publishRelease version repoName target request releaseInfo =
     (let r = \<lparr>rel_name = [CHR ''[''] @ version @ ''] '' @ repoName, rel_tag = packagePart repoName @ ''/'' @ version,
            rel_target = target, rel_body = releaseInfo\<rparr>
      in Post r # (case request r of Inl e \<Rightarrow> [SetFailed (message e)] | Inr _ \<Rightarrow> []) @ [Log ''Release Created...''])"

definition releaseScript ::
    "string \<Rightarrow> string \<Rightarrow> string \<Rightarrow> js_error + string \<Rightarrow> (releaseRequest \<Rightarrow> js_error + unit) \<Rightarrow> js_error + releaseEffect list" where
  "releaseScript version repoName target file request =
     (if includes_str version ''-'' then Inr []
      else bindE (gatherReleaseInfo version file) (\<lambda>(releaseInfo, effects).
        Inr (effects @ publishRelease version repoName target request releaseInfo)))"

section \<open>Properties\<close>

fun posted :: "releaseEffect list \<Rightarrow> releaseRequest list" where
  "posted [] = []"
| "posted (Post r # es) = r # posted es"
| "posted (_ # es) = posted es"

lemma posted_append [simp]: "posted (es @ es') = posted es @ posted es'"
  by (induction es rule: posted.induct) simp_all

lemma splitChar_nonempty [simp]: "splitChar c s \<noteq> []"
  by (induction s) (auto split: list.splits)

lemma splitChar_append: "c \<notin> set l \<Longrightarrow> splitChar c (l @ c # s) = l # splitChar c s"
  by (induction l) auto

lemma splitChar_last: "c \<notin> set l \<Longrightarrow> splitChar c l = [l]"
  by (induction l) auto

definition unlines :: "string list \<Rightarrow> string" where
  "unlines ls = concat (map (\<lambda>l. l @ [CHR 0x0A]) ls)"

lemma splitChar_unlines:
  assumes "\<forall>l \<in> set ls. CHR 0x0A \<notin> set l"
  shows "splitChar (CHR 0x0A) (unlines ls @ s) = ls @ splitChar (CHR 0x0A) s"
  using assms by (induction ls) (simp_all add: unlines_def splitChar_append)

lemma copySection_body:
  assumes "\<forall>l \<in> set body. \<not> isHeading l"
  shows "copySection (body @ ls) = unlines body @ copySection ls"
  using assms by (induction body) (simp_all add: unlines_def)

text \<open>C36. A release says what the changelog says of its version: of a changelog in which the first line that
  names the version in brackets is followed by lines that are no headings and then by a heading,
  the release gets that line and those lines, each with its line break, and nothing of the versions before
  and after; it is posted once, under the tag of the package and the version.\<close>

theorem release_says_its_section:
  assumes "\<forall>l \<in> set (older @ [heading] @ body @ [next_heading]). CHR 0x0A \<notin> set l"
    and "\<forall>l \<in> set older. \<not> mentions version l" and "mentions version heading"
    and "\<forall>l \<in> set body. \<not> isHeading l" and "isHeading next_heading" and "\<not> includes_str version ''-''"
  shows "\<exists>effects. releaseScript version repoName target
      (Inr (unlines (older @ [heading] @ body @ [next_heading]) @ rest)) request = Inr effects \<and>
    posted effects = [\<lparr>rel_name = [CHR ''[''] @ version @ ''] '' @ repoName,
      rel_tag = packagePart repoName @ ''/'' @ version, rel_target = target, rel_body = unlines (heading # body)\<rparr>]"
proof -
  have "splitChar (CHR 0x0A) (unlines (older @ [heading] @ body @ [next_heading]) @ rest) =
      older @ heading # body @ next_heading # splitChar (CHR 0x0A) rest"
    using splitChar_unlines [OF assms(1)] by simp
  moreover have "dropWhile (\<lambda>l. \<not> mentions version l) (older @ heading # ls) = heading # ls" for ls
    using assms(2,3) by (simp add: dropWhile_append2)
  moreover have "copySection (body @ next_heading # ls) = unlines body" for ls
    using copySection_body [OF assms(4)] assms(5) by simp
  ultimately have gathered: "gatherText version (unlines (older @ [heading] @ body @ [next_heading]) @ rest) =
      unlines (heading # body)"
    by (simp add: gatherText_def unlines_def)
  moreover have "unlines (heading # body) \<noteq> []" by (simp add: unlines_def)
  ultimately show ?thesis
    using assms(6) by (simp add: releaseScript_def gatherReleaseInfo_def publishRelease_def Let_def split: sum.split)
qed

text \<open>A version that the changelog does not name is released all the same: the action is marked as failed,
  but the script goes on and posts a release with an empty text.\<close>

theorem missing_section_is_released:
  assumes "\<forall>l \<in> set (splitChar (CHR 0x0A) changeLogs). \<not> mentions version l" and "\<not> includes_str version ''-''"
  shows "\<exists>msg effects. releaseScript version repoName target (Inr changeLogs) request = Inr (SetFailed msg # effects) \<and>
    map rel_body (posted effects) = [[]]"
proof -
  have "gatherText version changeLogs = []" using assms(1) by (simp add: gatherText_def dropWhile_eq_Nil_conv [THEN iffD2])
  with assms(2) show ?thesis
    by (simp add: releaseScript_def gatherReleaseInfo_def publishRelease_def Let_def split: sum.split)
qed

subsection \<open>Samples\<close>

abbreviation release_line :: string where
  "release_line \<equiv> ''## [6.4.0] - 2026-03-20''"

lemma sample_headings: "isHeading release_line" "isHeading ''## [6.3.3] - 2026-02-23''" "\<not> isHeading ''### Fixed''"
    "\<not> isHeading ''## [Unreleased]''"
  by code_simp+

lemma sample_mentions: "mentions ''6.4.0'' release_line" "\<not> mentions ''6.4.0'' ''## [Unreleased]''"
  by code_simp+

theorem release_says_its_section_witness:
  "\<exists>effects. releaseScript ''6.4.0'' ''@subql/node-ethereum'' ''sha'' (Inr (unlines
      ([''## [Unreleased]''] @ [release_line] @ [''### Fixed''] @ [''## [6.3.3] - 2026-02-23'']) @ ''...'')) (\<lambda>_. Inr ()) = Inr effects \<and>
    map rel_tag (posted effects) = [''node-ethereum/6.4.0'']"
proof -
  have part: "packagePart ''@subql/node-ethereum'' = ''node-ethereum''" "\<not> includes_str ''6.4.0'' ''-''" by code_simp+
  have newlines: "\<forall>l \<in> set ([''## [Unreleased]''] @ [release_line] @ [''### Fixed''] @ [''## [6.3.3] - 2026-02-23'']).
      CHR 0x0A \<notin> set l"
    by code_simp
  have older: "\<forall>l \<in> set [''## [Unreleased]'']. \<not> mentions ''6.4.0'' l" using sample_mentions(2) by (simp only: list.set) blast
  have body: "\<forall>l \<in> set [''### Fixed'']. \<not> isHeading l" using sample_headings(3) by (simp only: list.set) blast
  from release_says_its_section [OF newlines older sample_mentions(1) body sample_headings(2) part(2),
      of "''@subql/node-ethereum''" "''sha''" "''...''" "\<lambda>_. Inr ()"]
  obtain effects where "releaseScript ''6.4.0'' ''@subql/node-ethereum'' ''sha'' (Inr (unlines
      ([''## [Unreleased]''] @ [release_line] @ [''### Fixed''] @ [''## [6.3.3] - 2026-02-23'']) @ ''...'')) (\<lambda>_. Inr ()) = Inr effects"
      and "map rel_tag (posted effects) = [''node-ethereum'' @ ''/'' @ ''6.4.0'']"
    by (elim exE conjE) (simp only: list.map releaseRequest.simps part(1) that)
  then show ?thesis by (intro exI conjI) simp_all
qed

theorem missing_section_is_released_witness:
  "\<exists>msg effects. releaseScript ''6.5.0'' ''@subql/node-ethereum'' ''sha'' (Inr release_line) (\<lambda>_. Inr ()) =
      Inr (SetFailed msg # effects) \<and> map rel_body (posted effects) = [[]]"
proof -
  have "\<forall>l \<in> set (splitChar (CHR 0x0A) release_line). \<not> mentions ''6.5.0'' l" "\<not> includes_str ''6.5.0'' ''-''"
    by code_simp+
  then show ?thesis by (rule missing_section_is_released)
qed

end
