(* ===== verification/Spec2Isabelle.thy ===== *)
theory Spec2Isabelle
  imports Block_Filters Eth_Fetch Eth_Decode Batch_Provider Project_Utils Safe_Api Api_Service
    Blockchain_Service Unfinalized Indexer_Manager Dictionary_V2 Web_Data Web_Poll Json_Rpc_Provider
    Chain_Formats Codegen Manifest Eth_Dictionary Worker_Service Api_Start Project_Load Application
    Shared_Indexing Reorg Release
begin

text \<open>
  A verification library for the EVM indexer of SubQuery (the packages \<open>node\<close>, \<open>common-ethereum\<close>
  and \<open>types\<close> under \<open>src/packages\<close>).

  The node follows a chain over JSON-RPC. For every height it fetches a block with its
  transactions, receipts and logs (\<open>EthereumApi\<close>, behind a pool of connections, over a batching
  provider and an HTTP client of its own), gives its items to the handlers of the project's
  data sources whose filters accept them (\<open>IndexerManager\<close>), asks a dictionary service for the
  heights that can matter (\<open>EthDictionaryV1\<close> and \<open>EthDictionaryV2\<close>), and rewinds when the chain
  forks (\<open>UnfinalizedBlocksService\<close>). Code generation checks a project's handlers against its
  ABIs and writes the interfaces its author uses.
\<close>

section \<open>The theories and the code they model\<close>

text \<open>
  \<^item> \<open>Prelude\<close>: values that may be \<open>undefined\<close> or \<open>null\<close>, errors as sums, JSON, strings,
    objects with string keys; the lemmas all theories share. \<open>Memo\<close>: the contract of a table
    of computed results (locale \<open>memoised\<close>), interpreted on the interface table of the API
    and on the hash tables. \<open>Transition\<close>: invariants and monotone quantities of step
    relations (locales \<open>step_invariant\<close>, \<open>step_monotone\<close> and their extensions), interpreted on
    the two JSON-RPC providers. \<open>Bounded_Retry\<close>: loops with a limit of attempts (locale
    \<open>bounded_retry\<close>), interpreted on the loops of the HTTP client and of the safe API's proxy.
  \<^item> \<open>Eth_Types\<close>: \<open>types/src/ethereum/interfaces.ts\<close>, \<open>types/src/project.ts\<close>; the parameter
    \<open>ethers\<close>.
  \<^item> \<open>Utils_String\<close>: \<open>node/src/utils/string.ts\<close>: custom types in signatures, topics, sighashes.
  \<^item> \<open>Block_Filters\<close>: \<open>node/src/ethereum/block.ethereum.ts\<close>: the three filters.
  \<^item> \<open>Block_Format\<close>: \<open>node/src/ethereum/utils.ethereum.ts\<close>: raw RPC objects to the types above.
  \<^item> \<open>Eth_Api\<close>, \<open>Eth_Fetch\<close>, \<open>Eth_Decode\<close>: \<open>node/src/ethereum/api.ethereum.ts\<close>: the state of the
    API and \<open>init\<close> with its restart; fetching of full and light blocks with the consistency
    checks and the retries; decoding with the table of contract interfaces, on values.
    \<open>Shared_Items\<close>: the same decoding on the log and transaction objects that the data sources share.
  \<^item> \<open>Safe_Api\<close>: \<open>safe-api.ts\<close> and the retrying proxy of \<open>api.service.ethereum.ts\<close>.
  \<^item> \<open>Api_Service\<close>: \<open>api.service.ethereum.ts\<close>, \<open>api.connection.ts\<close>, \<open>configure/NodeConfig.ts\<close>;
    \<open>Api_Start\<close>: \<open>init\<close> of the service with the connections it makes.
  \<^item> \<open>Batch_Provider\<close>: \<open>ethers/json-rpc-batch-provider.ts\<close> as a step relation whose steps are
    \<open>send\<close>, the timer, the answer of a batch and its failure.
  \<^item> \<open>Web_Geturl\<close>, \<open>Web_Fetch\<close>, \<open>Web_Data\<close>, \<open>Web_Poll\<close>: \<open>ethers/web/geturl.ts\<close>, \<open>types.ts\<close> and
    \<open>index.ts\<close>: one HTTP exchange as a sequence of socket events; the plan of a request, its
    attempts with redirects and throttling, the timeout; data URLs; polling.
  \<^item> \<open>Json_Rpc_Provider\<close>: \<open>ethers/json-rpc-provider.ts\<close> on top of the HTTP client, and the
    connection the constructor of \<open>EthereumApi\<close> makes.
  \<^item> \<open>Chain_Formats\<close>: \<open>ethers/celo/celo-provider.ts\<close>, \<open>ethers/op/op-provider.ts\<close>.
  \<^item> \<open>Project_Utils\<close>: \<open>node/src/utils/project.ts\<close>, \<open>configure/SubqueryProject.ts\<close>,
    \<open>common-ethereum/src/project/utils.ts\<close>.
  \<^item> \<open>Codegen\<close>: \<open>common-ethereum/src/codegen\<close>: the check of handlers, the choice and the names
    of the interfaces, and \<open>generateAbis\<close> with the list of its effects.
  \<^item> \<open>Manifest\<close>: \<open>common-ethereum/src/project/models.ts\<close>, \<open>versioned\<close>: the classes of a project
    manifest as lists of decorated properties, and the code the decorators run. \<open>Project_Load\<close>:
    \<open>ProjectManifestVersioned.ts\<close>, \<open>load.ts\<close>, \<open>createSubQueryProject\<close>.
  \<^item> \<open>Blockchain_Service\<close>: \<open>node/src/blockchain.service.ts\<close>. \<open>Unfinalized\<close>:
    \<open>indexer/unfinalizedBlocks.service.ts\<close>. \<open>Indexer_Manager\<close>: \<open>indexer/indexer.manager.ts\<close>.
    \<open>Shared_Indexing\<close>: its loops over the objects of \<open>Shared_Items\<close>. \<open>Reorg\<close>: indexing, fork detection
    and rewind together.
  \<^item> \<open>Worker_Service\<close>: \<open>indexer/worker/worker.service.ts\<close> and the operations of the two services above
    that pass a block on; the code of handlers as a program that asks the chain.
  \<^item> \<open>Dictionary_Utils\<close>, \<open>Dictionary_V1\<close>, \<open>Dictionary_V2\<close>: the query builders and the conversion of
    answers in \<open>indexer/dictionary\<close>; \<open>Eth_Dictionary\<close>: the classes around them, and what of an answer
    is indexed.
  \<^item> \<open>Application\<close>: the entry points as steps that may fail, the modules as tables of providers.
    \<open>Release\<close>: the script in \<open>.github/actions/create-release\<close> that writes the releases.

  A class is a record of its fields and its methods are functions on it, named as in the code; a
  method that changes the object returns it. A promise that rejects and a \<open>throw\<close> are \<open>Inl\<close>.
  Where the network can answer differently each time, the answer is a parameter indexed by the
  number of the call.
\<close>

section \<open>What the lemmas show\<close>

text \<open>
  \<^item> Filters and indexing: which logs and transactions each filter accepts, stated without the
    code's order of tests; the order and the completeness of the calls of handlers in a block.
  \<^item> Across components (in this theory): a block that a dictionary leaves out would have been indexed
    without running a handler; every log the endpoint delivers reaches every data source; a request
    that fails over HTTP is answered by another endpoint of the pool.
  \<^item> Dictionaries: every item a handler would accept is asked for (both versions), under the
    conditions that the code needs for it, and the cases where it is not; a log that is asked for
    reaches the handlers, except with \<open>skipTransactions\<close> in a project that has other handlers too.
  \<^item> Workers: a worker fetches and indexes the block the node itself would; the result of indexing
    depends on the chain only at the height of the block.
  \<^item> Providers: every request is in one place, is settled once, with the answer of its id, and
    every reachable state can be brought to one where all are settled; a cached promise is one
    of its method; one request for the chain id in a turn.
  \<^item> The HTTP client: bounds on the requests, the errors a caller can see, throttled requests as
    a plain request later, round trip of data URLs, reassembly of a body.
  \<^item> Fetching: a block that is returned is the one asked for, its receipts and logs belong to it;
    safe calls read the block they are pinned to; errors that are retried and those that are not.
  \<^item> Decoding: what an object holds after it is the value that decoding the object gives; it changes
    nothing else of the block, and the arguments one data source decodes stay for the next. Indexing
    the shared objects runs the same handlers, in the same order, as indexing values.
  \<^item> Start: after \<open>init\<close> the safe API always finds a client that does not batch, so its retries are those
    of its contract; a node that listens has done every step before.
  \<^item> Forks: the rewind goes to the last block both chains share, when the search reaches it; a node that
    rewinds and indexes on is in the state of one that has only seen the chain, and when the
    configured depth is less than that of the fork it keeps blocks of the fork.
  \<^item> Custom types: the rewriting of a signature is the replacement of whole tokens, the table
    it uses is well formed.
  \<^item> Code generation: exactly the projects whose filters their ABIs know pass the check; the
    names of overloaded entries can be read back.
  \<^item> Manifests: the handlers of a validated data source can be read as the indexer reads them; a project
    that loads has a validated manifest of the one version.
  \<^item> Releases: the text is the section of the version, and a missing section is released empty.
  \<^item> Behaviour that is not what the code's comments and names promise is stated as a theorem too;
    each says what the code does.
\<close>

section \<open>Bounds and termination\<close>

text \<open>
  No definition runs on fuel that a caller chooses. \<open>fetchLoop\<close> and \<open>retryLoop\<close> decrease the number
  of attempts left, which the code fixes (5, or 12 by default, and the retries of the node);
  \<open>searchBack\<close> decreases the height; \<open>replaceWord\<close>, \<open>readDims\<close> and the other scans decrease the
  text. \<open>init\<close> and \<open>pollCheck\<close> may run for ever and are partial functions into \<open>option\<close>: theorems
  say when they return and when \<open>init\<close> does not. Block heights and gas are unbounded integers,
  as the \<open>BigNumber\<close>s of the code are; \<open>toNumber\<close> of ethers throws outside the safe range and is a
  parameter. Bytes are 8-bit words.
\<close>

section \<open>What is not modelled\<close>

text \<open>
  \<^item> Parameters: ethers (ABI coder, hashes, \<open>BigNumber.from\<close>, error factory), lodash, node-core
    (connection pool, sandbox, base classes, dictionaries' requests, \<open>filterBlockTimestamp\<close>),
    typechain, class-validator, \<open>JSON.parse\<close>, \<open>url.parse\<close>, \<open>path.join\<close>, zlib, sockets and files.
  \<^item> The \<open>toJSON\<close> closures that the formatters attach, the debug events of the providers, logging.
  \<^item> Object keys that look like integers, which JavaScript orders first, and the keys an object
    inherits from its prototype; strings outside the first 256 code units; of several promises
    that fail in \<open>Promise.all\<close> the one that does so first in time.
  \<^item> How class-transformer and class-validator interpret decorators, and the base classes of
    \<open>@subql/common\<close>: what is documented of the first two is a named hypothesis in \<open>Manifest\<close>.
  \<^item> How Nest resolves tokens, the parser of the command line, messages between worker threads.
\<close>

section \<open>From the endpoint to the handlers\<close>


section \<open>Indexing without the blocks the dictionary leaves out\<close>

text \<open>What node-core's \<open>indexData\<close> is relied on for: on an item that every filter of a data source rejects
  it runs no handler, so nothing that \<open>obs\<close> sees of the state changes.\<close>

definition filters_guard ::
    "ethers \<Rightarrow> (int \<Rightarrow> EthereumBlockFilter js \<Rightarrow> bool) \<Rightarrow> 's indexData \<Rightarrow> ('s \<Rightarrow> SubqlDatasource list) \<Rightarrow> ('s \<Rightarrow> 'o) \<Rightarrow> bool" where
  "filters_guard E fbt indexData live obs \<longleftrightarrow>
     (\<forall>s k item ds. (\<forall>h \<in> set (ds_handlers ds). handlerAccepts E fbt item h ds = Inr False) \<longrightarrow>
        (\<exists>s'. indexData s k item ds = Inr s' \<and> live s' = live s \<and> obs s' = obs s))"

definition allReject :: "ethers \<Rightarrow> (int \<Rightarrow> EthereumBlockFilter js \<Rightarrow> bool) \<Rightarrow> SubqlDatasource list \<Rightarrow> IndexItem \<Rightarrow> bool" where
  "allReject E fbt dss item \<longleftrightarrow>
     (\<forall>ds \<in> set dss. \<forall>h \<in> set (ds_handlers ds). handlerAccepts E fbt item h ds = Inr False)"

text \<open>The filters of the project decide without an error, and where they accept, the dictionary's exact
  comparison does not differ from theirs.\<close>

definition plainly_filtered ::
    "ethers \<Rightarrow> (int \<Rightarrow> EthereumBlockFilter js \<Rightarrow> bool) \<Rightarrow> SubqlDatasource list \<Rightarrow> IndexItem list \<Rightarrow> bool" where
  "plainly_filtered E fbt dss items \<longleftrightarrow> proper_kinds dss \<and>
     (\<forall>item \<in> set items. \<forall>ds \<in> set dss. \<forall>h \<in> set (ds_handlers ds).
        handlerAccepts E fbt item h ds = Inr False \<or>
        handlerAccepts E fbt item h ds = Inr True \<and> plain_request E ds h item)"

definition all_restrict :: "SubqlDatasource list \<Rightarrow> bool" where
  "all_restrict dss \<longleftrightarrow> (\<forall>ds \<in> set dss. \<forall>h \<in> set (ds_handlers ds). restricts ds h)"

lemma unwanted_rejected:
  assumes "plainly_filtered E fbt dss items" and "item \<in> set items" and "\<not> wants E fbt dss item"
  shows "allReject E fbt dss item"
  using assms unfolding plainly_filtered_def allReject_def wants_def by blast

lemma unwantedV2_rejected:
  assumes "plainly_filtered E fbt dss items" and "all_restrict dss" and "item \<in> set items" and "\<not> wantsV2 E fbt dss item"
  shows "allReject E fbt dss item"
  using assms unfolding plainly_filtered_def allReject_def wantsV2_def all_restrict_def by blast

lemma indexBlockData_quiet:
  assumes guard: "filters_guard E fbt indexData live obs"
    and reject: "\<And>item. item \<in> set (blockItems block) \<Longrightarrow> allReject E fbt (live s) item"
  shows "\<exists>s'. indexBlockData indexData live block s = Some (Inr s') \<and> live s' = live s \<and> obs s' = obs s"
proof -
  have "\<exists>s'. indexData t k item ds = Inr s' \<and> live s' = live s \<and> obs s' = obs s"
    if "live t = live s \<and> obs t = obs s" "item \<in> set (blockItems block)" "ds \<in> set (live s)" for t k item ds
    using guard reject [OF that(2)] that(1,3) unfolding filters_guard_def allReject_def by metis
  then show ?thesis
    using indexBlockData_runs [of "\<lambda>t. live t = live s \<and> obs t = obs s" live "live s" block indexData "\<lambda>_. []" "\<lambda>_. []" s]
    by simp
qed



section \<open>From the network to the safe API\<close>

text \<open>C14. A failing endpoint is invisible to a handler while another answers: when the request of a safe
  \<open>getBalance\<close> goes over HTTP and fails in any way (no connection, a timeout, a bad status, 429 to every
  attempt, a response that is no JSON, an error the endpoint reports), the proxy repeats it on the API the pool
  gives next, at the same height, and the caller gets that API's answer.\<close>

theorem request_failures_fail_over:
  assumes "makeError_doc L" and "startsWith endpoint ''http''"
    and "exchange L decodeJson serialize ans roll elapsed (Connection (apiConnection v endpoint ch sp ag)) request = Inl e"
    and "p_getBalance (env 0 c) a (TagNumber height) =
      bindE (exchange L decodeJson serialize ans roll elapsed (Connection (apiConnection v endpoint ch sp ag)) request) balanceOf"
    and "getSafeApi (api 0) height = Inr (c', height)" and "p_getBalance (env 1 c') a (TagNumber height) = Inr b"
  shows "fst (proxyCall api env height (newSafeEthProvider c height) (GetBalance a t)) = Inr (Num b)"
proof -
  have "retryCode e"
    using api_request_fails [OF assms(1,2) assms(3) [unfolded exchange_def]]
    by (auto simp: ordinary_def retryCode_def retryErrorCodes_def)
  moreover have "fst (safeCall (env 0 c) (newSafeEthProvider c height) (GetBalance a t)) = Inl e"
    using assms(3,4) by (simp add: safeCall_def newSafeEthProvider_def)
  moreover have "fst (safeCall (env 1 c') (newSafeEthProvider c' height) (GetBalance a t)) = Inr (Num b)"
    using assms(6) by (simp add: safeCall_def newSafeEthProvider_def)
  ultimately show ?thesis
    using assms(5)
    by (simp add: proxyCall_def retryLoop.simps [of _ _ _ _ 0] retryLoop.simps [of _ _ _ _ "Suc 0"]
        maxRetries_def newSafeEthProvider_def)
qed

section \<open>Witnesses\<close>

definition run_accepted :: "(SubqlDatasource \<times> SubqlHandler \<times> IndexItem) list indexData" where
  "run_accepted s k item ds = Inr (s @ map (\<lambda>h. (ds, h, item))
     (filter (\<lambda>h. handlerAccepts sample_ethers (\<lambda>_ _. True) item h ds = Inr True) (ds_handlers ds)))"

lemma run_accepted_guard: "filters_guard sample_ethers (\<lambda>_ _. True) run_accepted (\<lambda>_. dss) id"
  by (simp add: filters_guard_def run_accepted_def)

abbreviation sample_call_ds :: SubqlDatasource where
  "sample_call_ds \<equiv> call_ds (Val ''0xa'') (Val (to_filter Undefined))"

abbreviation tx_block :: BlockContent where
  "tx_block \<equiv> sample_content\<lparr>transactions := [FullTx (sample_tx ''0xb'')], block_logs := []\<rparr>"

lemma tx_block_items: "blockItems tx_block = [BlockItem tx_block, TxItem (sample_tx ''0xb'')]"
  by (simp add: blockItems_def isFullBlock_def fullTransactions_def sample_content_def sample_tx_def logsOrEmpty_def
      map_filter_def)

lemma tx_block_rejected:
  "handlerAccepts sample_ethers (\<lambda>_ _. True) (TxItem (sample_tx ''0xb'')) (hd (ds_handlers sample_call_ds)) sample_call_ds = Inr False"
  by code_simp


abbreviation sample_event_ds :: SubqlDatasource where
  "sample_event_ds \<equiv> event_ds Undefined (Val \<lparr>topics = Val [Val ''0xa1'']\<rparr>)"

abbreviation log_block :: BlockContent where
  "log_block \<equiv> sample_content\<lparr>block_logs := [topic_log ''0xb2'']\<rparr>"

lemma log_block_items: "blockItems log_block = [LogItem (topic_log ''0xb2'')]"
  by (simp add: blockItems_def isFullBlock_def sample_content_def)

lemma log_block_rejected:
  "handlerAccepts sample_ethers (\<lambda>_ _. True) (LogItem (topic_log ''0xb2'')) (hd (ds_handlers sample_event_ds)) sample_event_ds
     = Inr False"
  by code_simp



abbreviation reverting_exchange :: "js_error + json option fetchResult" where
  "reverting_exchange \<equiv> exchange sample_webLib
     (\<lambda>_. Inr (JObj [(''error'', JObj [(''code'', JNum 3), (''message'', JStr ''execution reverted'')])]))
     (\<lambda>_. ''{}'') (\<lambda>_ _ _. Inr (sample_answer 200)) (\<lambda>_. 0) (Some 7)
     (Connection (apiConnection ''5.0'' ''https://rpc'' [] [] \<lparr>agent_http = None, agent_https = None\<rparr>))
     (sample_request 42)"

definition failing_first :: "nat \<Rightarrow> nat \<Rightarrow> Provider" where
  "failing_first n c = (if n = 0
     then (sample_provider False 100)\<lparr>p_getBalance := \<lambda>a t. bindE reverting_exchange (\<lambda>_. Inr 0)\<rparr>
     else sample_provider False 100)"

theorem request_failures_fail_over_witness:
  "\<exists>b. fst (proxyCall (\<lambda>_. sample_api) failing_first 7 (newSafeEthProvider 1 7) (GetBalance ''0x1'' None)) = Inr (Num b)"
proof -
  obtain e where e: "reverting_exchange = Inl e"
    using rpc_error_is_retried_witness unfolding sample_api_connection_def by blast
  have "startsWith ''https://rpc'' ''http''" by (simp add: startsWith_def)
  moreover have "p_getBalance (failing_first 0 1) ''0x1'' (TagNumber 7) = bindE reverting_exchange (\<lambda>_. Inr 0)"
    by (simp add: failing_first_def)
  moreover obtain b where "p_getBalance (failing_first 1 1) ''0x1'' (TagNumber 7) = Inr b"
    by (simp add: failing_first_def sample_provider_def)
  ultimately show ?thesis
    using request_failures_fail_over [OF sample_makeError_doc _ e _ getSafeApi_sample,
        where env = failing_first and a = "''0x1''" and c = 1 and t = None]
    by blast
qed

end
